(* ===== verification/Prelude.thy ===== *)
theory Prelude
  imports Complex_Main "HOL-Library.Word" "HOL-Library.Char_ord" "HOL-Library.List_Lexorder"
begin

text \<open>
  Shared vocabulary of the development: the machine integers of the Rust source, byte strings
  and the string routines of the standard library that the source calls, decimal formatting,
  the ordered map behind every \<open>BTreeMap<String, T>\<close> field, and the result type of fallible
  code. A Rust \<open>String\<close> is the list of its UTF-8 bytes, so its order is the byte order that
  \<open>BTreeMap\<close> uses and \<open>len()\<close> is the list length.
\<close>

named_theorems string_facts \<open>characterisations of the string routines\<close>
named_theorems btree_facts \<open>lookup and iteration facts of the ordered map\<close>

subsection \<open>Machine integers, identifiers and results\<close>

type_synonym u8 = "8 word"
type_synonym i32 = "32 word"
type_synonym u32 = "32 word"
type_synonym u64 = "64 word"
type_synonym uuid = "128 word"
type_synonym instant = int
type_synonym ('e, 'a) result = "'e + 'a"

text \<open>
  Sequencing of fallible steps, the \<open>?\<close> operator: the first error is the answer.
\<close>

fun and_then :: "('e, 'a) result \<Rightarrow> ('a \<Rightarrow> ('e, 'b) result) \<Rightarrow> ('e, 'b) result" where
  "and_then (Inl e) f = Inl e"
| "and_then (Inr a) f = f a"

lemma and_then_Inr_iff [simp]: "and_then r f = Inr b \<longleftrightarrow> (\<exists>a. r = Inr a \<and> f a = Inr b)"
  by (cases r) auto

text \<open>A loop whose body is fallible and returns at the first error.\<close>

fun try_each :: "('a \<Rightarrow> ('e, unit) result) \<Rightarrow> 'a list \<Rightarrow> ('e, unit) result" where
  "try_each f [] = Inr ()"
| "try_each f (x # xs) = (case f x of Inl e \<Rightarrow> Inl e | Inr _ \<Rightarrow> try_each f xs)"

lemma try_each_Inr_iff [simp]: "try_each f xs = Inr () \<longleftrightarrow> (\<forall>x \<in> set xs. f x = Inr ())"
  by (induction xs) (auto split: sum.splits)

lemma try_each_Inl: "try_each f xs = Inl e \<Longrightarrow> \<exists>x \<in> set xs. f x = Inl e"
  by (induction xs) (auto split: sum.splits)

subsection \<open>Strings\<close>

fun strip_prefix :: "string \<Rightarrow> string \<Rightarrow> string option" where
  "strip_prefix [] s = Some s"
| "strip_prefix (p # ps) [] = None"
| "strip_prefix (p # ps) (c # cs) = (if p = c then strip_prefix ps cs else None)"

lemma strip_prefix_Some_iff [string_facts]: "strip_prefix p s = Some r \<longleftrightarrow> s = p @ r"
  by (induction p s rule: strip_prefix.induct) auto

definition starts_with :: "string \<Rightarrow> string \<Rightarrow> bool" where
  "starts_with p s \<longleftrightarrow> strip_prefix p s \<noteq> None"

lemma starts_with_iff [string_facts]: "starts_with p s \<longleftrightarrow> (\<exists>r. s = p @ r)"
  by (auto simp: starts_with_def strip_prefix_Some_iff)

definition ends_with :: "string \<Rightarrow> string \<Rightarrow> bool" where
  "ends_with p s \<longleftrightarrow> starts_with (rev p) (rev s)"

lemma ends_with_iff [string_facts]: "ends_with p s \<longleftrightarrow> (\<exists>r. s = r @ p)"
  unfolding ends_with_def starts_with_iff
  by (metis rev_append rev_rev_ident)

fun contains :: "string \<Rightarrow> string \<Rightarrow> bool" where
  "contains p [] = (p = [])"
| "contains p (c # cs) = (starts_with p (c # cs) \<or> contains p cs)"

lemma contains_iff [string_facts]: "contains p s \<longleftrightarrow> (\<exists>a b. s = a @ p @ b)"
proof (induction s)
  case Nil
  then show ?case by auto
next
  case (Cons c cs)
  have "(\<exists>a b. c # cs = a @ p @ b) \<longleftrightarrow> (\<exists>r. c # cs = p @ r) \<or> (\<exists>a b. cs = a @ p @ b)"
    by (metis append_Cons append_Nil list.exhaust list.sel(3))
  then show ?case using Cons.IH by (simp add: starts_with_iff)
qed

text \<open>\<open>str::split\<close> on one character: never empty, one piece more than there are separators.\<close>

fun split_on :: "char \<Rightarrow> string \<Rightarrow> string list" where
  "split_on d [] = [[]]"
| "split_on d (c # cs) =
     (if c = d then [] # split_on d cs
      else case split_on d cs of [] \<Rightarrow> [[c]] | w # ws \<Rightarrow> (c # w) # ws)"

fun join_with :: "string \<Rightarrow> string list \<Rightarrow> string" where
  "join_with d [] = []"
| "join_with d [w] = w"
| "join_with d (w # ws) = w @ d @ join_with d ws"

lemma split_on_not_Nil [simp]: "split_on d s \<noteq> []"
  by (cases s) (auto split: list.splits)

lemma join_with_Cons: "ws \<noteq> [] \<Longrightarrow> join_with d (w # ws) = w @ d @ join_with d ws"
  by (cases ws) auto

lemma join_split_on: "join_with [d] (split_on d s) = s"
proof (induction s)
  case Nil
  then show ?case by simp
next
  case (Cons c cs)
  obtain w ws where w: "split_on d cs = w # ws" by (cases "split_on d cs") auto
  with Cons.IH show ?case by (cases ws) auto
qed

lemma set_split_on: "w \<in> set (split_on d s) \<Longrightarrow> set w \<subseteq> set s - {d}"
proof (induction s arbitrary: w)
  case Nil
  then show ?case by simp
next
  case (Cons c cs)
  then show ?case by (fastforce split: if_splits list.splits)
qed

lemma set_join_with: "set (join_with d ws) \<subseteq> set d \<union> (\<Union>w \<in> set ws. set w)"
  by (induction d ws rule: join_with.induct) auto

text \<open>Byte classes of \<open>u8\<close> in the standard library.\<close>

abbreviation byte :: "char \<Rightarrow> nat" where
  "byte c \<equiv> of_char c"

definition is_ascii_digit :: "char \<Rightarrow> bool" where
  "is_ascii_digit c \<longleftrightarrow> 48 \<le> byte c \<and> byte c \<le> 57"

definition is_ascii_alphanumeric :: "char \<Rightarrow> bool" where
  "is_ascii_alphanumeric c \<longleftrightarrow>
     is_ascii_digit c \<or> 65 \<le> byte c \<and> byte c \<le> 90 \<or> 97 \<le> byte c \<and> byte c \<le> 122"

definition is_ascii_whitespace :: "char \<Rightarrow> bool" where
  "is_ascii_whitespace c \<longleftrightarrow> byte c \<in> {9, 10, 12, 13, 32}"

definition is_ascii_control :: "char \<Rightarrow> bool" where
  "is_ascii_control c \<longleftrightarrow> byte c < 32 \<or> byte c = 127"

definition is_ascii :: "string \<Rightarrow> bool" where
  "is_ascii s \<longleftrightarrow> list_all (\<lambda>c. byte c < 128) s"

text \<open>
  \<open>char::is_whitespace\<close> is the Unicode property \<open>White_Space\<close>. On UTF-8 bytes its members are
  the ASCII bytes 9--13 and 32, and the encodings of U+0085, U+00A0, U+1680, U+2000--U+200A,
  U+2028, U+2029, U+202F, U+205F and U+3000.
\<close>

definition is_space1 :: "char \<Rightarrow> bool" where
  "is_space1 a \<longleftrightarrow> 9 \<le> byte a \<and> byte a \<le> 13 \<or> byte a = 32"

definition is_space2 :: "char \<Rightarrow> char \<Rightarrow> bool" where
  "is_space2 a b \<longleftrightarrow> byte a = 0xC2 \<and> (byte b = 0x85 \<or> byte b = 0xA0)"

definition is_space3 :: "char \<Rightarrow> char \<Rightarrow> char \<Rightarrow> bool" where
  "is_space3 a b c \<longleftrightarrow>
     byte a = 0xE1 \<and> byte b = 0x9A \<and> byte c = 0x80
   \<or> byte a = 0xE2 \<and> byte b = 0x80 \<and>
       (0x80 \<le> byte c \<and> byte c \<le> 0x8A \<or> byte c = 0xA8 \<or> byte c = 0xA9 \<or> byte c = 0xAF)
   \<or> byte a = 0xE2 \<and> byte b = 0x81 \<and> byte c = 0x9F
   \<or> byte a = 0xE3 \<and> byte b = 0x80 \<and> byte c = 0x80"

text \<open>\<open>value.trim().is_empty()\<close>: the whole string is white space.\<close>

fun is_blank :: "string \<Rightarrow> bool" where
  "is_blank [] = True"
| "is_blank [a] = is_space1 a"
| "is_blank [a, b] = (if is_space1 a then is_blank [b] else is_space2 a b)"
| "is_blank (a # b # c # s) =
     (if is_space1 a then is_blank (b # c # s)
      else if is_space2 a b then is_blank (c # s)
      else is_space3 a b c \<and> is_blank s)"

lemma is_blank_alphanumeric:
  assumes "is_ascii_alphanumeric c" shows "\<not> is_blank (c # s)"
proof -
  have "\<not> is_space1 c" and "\<not> is_space2 c b" and "\<not> is_space3 c b d" for b d
    using assms
    by (auto simp: is_ascii_alphanumeric_def is_ascii_digit_def is_space1_def is_space2_def is_space3_def)
  then show ?thesis by (cases "c # s" rule: is_blank.cases) auto
qed

subsection \<open>Decimal formatting\<close>

definition digit_char :: "nat \<Rightarrow> char" where
  "digit_char d = char_of (48 + d)"

fun show_nat :: "nat \<Rightarrow> string" where
  "show_nat n = (if n < 10 then [digit_char n] else show_nat (n div 10) @ [digit_char (n mod 10)])"

declare show_nat.simps [simp del]

definition show_u32 :: "u32 \<Rightarrow> string" where
  "show_u32 w = show_nat (unat w)"

definition read_nat :: "string \<Rightarrow> nat" where
  "read_nat s = foldl (\<lambda>n c. 10 * n + (byte c - 48)) 0 s"

lemma byte_digit_char: "d < 10 \<Longrightarrow> byte (digit_char d) = 48 + d"
  by (simp add: digit_char_def)

lemma read_show_nat: "read_nat (show_nat n) = n"
proof (induction n rule: show_nat.induct)
  case (1 n)
  then show ?case
    by (cases "n < 10") (auto simp: show_nat.simps [of n] read_nat_def byte_digit_char)
qed

lemma show_nat_inject [simp]: "show_nat m = show_nat n \<longleftrightarrow> m = n"
  by (metis read_show_nat)

lemma show_nat_digits: "c \<in> set (show_nat n) \<Longrightarrow> is_ascii_digit c"
proof (induction n rule: show_nat.induct)
  case (1 n)
  show ?case
  proof (cases "n < 10")
    case True
    with 1 show ?thesis by (simp add: show_nat.simps [of n] is_ascii_digit_def byte_digit_char)
  next
    case False
    have "n mod 10 < 10" by simp
    with False 1 show ?thesis
      by (auto simp: show_nat.simps [of n] is_ascii_digit_def byte_digit_char)
  qed
qed

lemma show_u32_inject [simp]: "show_u32 v = show_u32 w \<longleftrightarrow> v = w"
  by (simp add: show_u32_def word_unat_eq_iff)

text \<open>
  A number printed before a separator that is not a digit is recovered from the text: the fact
  behind every length-prefixed key.
\<close>

lemma show_nat_split:
  assumes eq: "show_nat m @ d # s = show_nat n @ d # t" and d: "\<not> is_ascii_digit d"
  shows "m = n \<and> s = t"
proof -
  have nd: "d \<notin> set (show_nat k)" for k using show_nat_digits d by blast
  have "takeWhile (\<lambda>c. c \<noteq> d) (show_nat k @ d # u) = show_nat k" for k u
  proof -
    have "\<forall>c \<in> set (show_nat k). c \<noteq> d" using nd by blast
    then show ?thesis by (simp add: takeWhile_append2)
  qed
  with eq have "show_nat m = show_nat n" by metis
  with eq show ?thesis by simp
qed

text \<open>One length-prefixed field: \<open>{len}:{value}\<close>.\<close>

definition len_field :: "string \<Rightarrow> string" where
  "len_field s = show_nat (length s) @ '':'' @ s"

lemma len_field_split: "len_field a @ s = len_field b @ t \<Longrightarrow> a = b \<and> s = t"
proof -
  assume eq: "len_field a @ s = len_field b @ t"
  have c: "\<not> is_ascii_digit (CHR '':'')" by (simp add: is_ascii_digit_def)
  from eq have "show_nat (length a) @ CHR '':'' # (a @ s) = show_nat (length b) @ CHR '':'' # (b @ t)"
    by (simp add: len_field_def)
  from show_nat_split [OF this c] show "a = b \<and> s = t" by auto
qed

subsection \<open>The ordered map\<close>

text \<open>
  \<open>BTreeMap<String, T>\<close> as a list of entries in strictly increasing key order. Iteration
  (\<open>values()\<close>, \<open>iter()\<close>) is the list order.
\<close>

type_synonym 'v btree = "(string \<times> 'v) list"

definition bt_invar :: "('k::linorder \<times> 'v) list \<Rightarrow> bool" where
  "bt_invar m \<longleftrightarrow> sorted_wrt (<) (map fst m)"

definition bt_get :: "('k \<times> 'v) list \<Rightarrow> 'k \<Rightarrow> 'v option" where
  "bt_get m k = map_of m k"

fun bt_insert :: "'k::linorder \<Rightarrow> 'v \<Rightarrow> ('k \<times> 'v) list \<Rightarrow> ('k \<times> 'v) list" where
  "bt_insert k v [] = [(k, v)]"
| "bt_insert k v ((j, w) # m) =
     (if k < j then (k, v) # (j, w) # m
      else if k = j then (k, v) # m
      else (j, w) # bt_insert k v m)"

definition bt_values :: "('k \<times> 'v) list \<Rightarrow> 'v list" where
  "bt_values m = map snd m"

definition bt_entries :: "('k \<times> 'v) list \<Rightarrow> ('k \<times> 'v) list" where
  "bt_entries m = m"

lemma keys_bt_insert: "fst ` set (bt_insert k v m) = insert k (fst ` set m)"
  by (induction k v m rule: bt_insert.induct) auto

lemma bt_invar_insert: "bt_invar m \<Longrightarrow> bt_invar (bt_insert k v m)"
proof (induction k v m rule: bt_insert.induct)
  case (1 k v)
  then show ?case by (simp add: bt_invar_def)
next
  case (2 k v j w m)
  have "\<forall>x \<in> fst ` set (bt_insert k v m). j < x" if "j < k"
    using that 2(2) by (auto simp: keys_bt_insert bt_invar_def)
  with 2 show ?case by (fastforce simp: bt_invar_def)
qed

lemma bt_get_insert: "bt_get (bt_insert k v m) j = (if j = k then Some v else bt_get m j)"
  by (induction k v m rule: bt_insert.induct) (auto simp: bt_get_def)

lemma bt_invar_distinct: "bt_invar m \<Longrightarrow> distinct (map fst m)"
  by (simp add: bt_invar_def strict_sorted_iff)

text \<open>
  The interface its clients use: what \<open>get\<close> returns after \<open>insert\<close>, and that iteration visits
  exactly the stored entries, in key order.
\<close>

locale ordered_map =
  fixes empty :: "'m" and update :: "'k::linorder \<Rightarrow> 'v \<Rightarrow> 'm \<Rightarrow> 'm"
    and lookup :: "'m \<Rightarrow> 'k \<Rightarrow> 'v option" and entries :: "'m \<Rightarrow> ('k \<times> 'v) list"
    and invar :: "'m \<Rightarrow> bool"
  assumes invar_empty: "invar empty"
    and invar_update: "invar m \<Longrightarrow> invar (update k v m)"
    and lookup_empty: "lookup empty k = None"
    and lookup_update: "lookup (update k v m) j = (if j = k then Some v else lookup m j)"
    and entries_lookup: "invar m \<Longrightarrow> (k, v) \<in> set (entries m) \<longleftrightarrow> lookup m k = Some v"
    and entries_sorted: "invar m \<Longrightarrow> sorted_wrt (<) (map fst (entries m))"
begin

definition all_entries :: "('k \<Rightarrow> 'v \<Rightarrow> bool) \<Rightarrow> 'm \<Rightarrow> bool" where
  "all_entries P m \<longleftrightarrow> (\<forall>k v. lookup m k = Some v \<longrightarrow> P k v)"

lemma all_entries_empty: "all_entries P empty"
  by (simp add: all_entries_def lookup_empty)

lemma all_entries_update:
  "all_entries P m \<Longrightarrow> P k v \<Longrightarrow> all_entries P (update k v m)"
  by (auto simp: all_entries_def lookup_update)

lemma value_lookup:
  "invar m \<Longrightarrow> v \<in> set (map snd (entries m)) \<longleftrightarrow> (\<exists>k. lookup m k = Some v)"
  using entries_lookup by (force simp: image_iff)

lemma values_update:
  assumes "invar m" and "u \<in> set (map snd (entries (update k v m)))"
  shows "u = v \<or> u \<in> set (map snd (entries m))"
  using assms value_lookup [OF invar_update [OF assms(1)], of u k v] value_lookup [OF assms(1), of u]
  by (auto simp: lookup_update split: if_splits)

lemma keys_distinct: "invar m \<Longrightarrow> distinct (map fst (entries m))"
  using entries_sorted by (simp add: strict_sorted_iff)

lemma first_key_least:
  assumes "invar m" and "entries m = (k, v) # es" and "lookup m j = Some w"
  shows "k \<le> j"
proof -
  have "(j, w) \<in> set (entries m)" using assms entries_lookup by blast
  then show ?thesis using assms(2) entries_sorted [OF assms(1)] by (auto intro: less_imp_le)
qed

end

interpretation bt: ordered_map "[]" bt_insert bt_get bt_entries bt_invar
proof (unfold_locales, goal_cases)
  case 1
  show ?case by (simp add: bt_invar_def)
next
  case (2 m k v)
  then show ?case by (rule bt_invar_insert)
next
  case (3 k)
  show ?case by (simp add: bt_get_def)
next
  case (4 k v m j)
  show ?case by (rule bt_get_insert)
next
  case (5 m k v)
  then show ?case by (simp add: bt_get_def bt_entries_def bt_invar_distinct)
next
  case (6 m)
  then show ?case by (simp add: bt_entries_def bt_invar_def)
qed

lemma bt_value_iff [btree_facts]:
  "bt_invar m \<Longrightarrow> v \<in> set (bt_values m) \<longleftrightarrow> (\<exists>k. bt_get m k = Some v)"
  using bt.value_lookup [of m v] by (simp add: bt_values_def bt_entries_def)

lemma bt_values_insert [btree_facts]:
  "bt_invar m \<Longrightarrow> u \<in> set (bt_values (bt_insert k v m)) \<Longrightarrow> u = v \<or> u \<in> set (bt_values m)"
  using bt.values_update [of m u k v] by (simp add: bt_values_def bt_entries_def)

lemmas [simp] = bt_get_insert bt_invar_insert bt.invar_empty bt.lookup_empty

lemma bt_values_Nil [simp]: "bt_values [] = []"
  by (simp add: bt_values_def)

end
