(* ===== verification/Ledger_Base.thy ===== *)
theory Ledger_Base
  imports Prelude
begin

text \<open>
  The vocabulary every part of the ledger shares, \<open>bp-ledger/src\<close>: identifiers, numbers, JSON
  documents and detached signatures. Throughout the development a Rust struct is a record whose
  fields carry a short prefix naming the struct (\<open>de3_\<close> is \<open>DispatchEnvelopeV3\<close>), and a Rust
  enum is a datatype whose constructors carry the enum's theme (\<open>Role_Reviewer\<close> is
  \<open>ExecutionRoleV1::Reviewer\<close>).
\<close>

subsection \<open>Identifiers, numbers and documents\<close>

text \<open>
  \<open>EventId\<close> and \<open>RunId\<close> wrap a UUID; the tape order is the numeric order of the 128 bits. A
  floating point number is its IEEE 754 bit pattern, as \<open>f64::to_bits\<close> gives it. A JSON document
  is only carried and compared.
\<close>

type_synonym EventId = uuid
type_synonym RunId = uuid
type_synonym f32 = "32 word"
type_synonym f64 = "64 word"

text \<open>A number is finite when its exponent is not all ones.\<close>

definition f64_is_finite :: "f64 \<Rightarrow> bool" where
  "f64_is_finite x \<longleftrightarrow> take_bit 11 (drop_bit 52 x) \<noteq> 0x7FF"

text \<open>
  \<open>(0.0..=1.0).contains(&x)\<close>: the patterns of the non-negative numbers are ordered like the
  numbers, \<open>0x3FF0000000000000\<close> is one and \<open>0x8000000000000000\<close> is minus zero.
\<close>

definition f64_in_unit_interval :: "f64 \<Rightarrow> bool" where
  "f64_in_unit_interval x \<longleftrightarrow> x \<le> 0x3FF0000000000000 \<or> x = 0x8000000000000000"

datatype json =
    JNull
  | JBool bool
  | JInt int
  | JFloat f64
  | JString string
  | JArray "json list"
  | JObject "(string \<times> json) list"

subsection \<open>Signatures\<close>

datatype SignatureAlgorithm =
    Algorithm_Ed25519

datatype VerificationStatus =
    Signature_Verified
  | Signature_Unsigned
  | Signature_MissingKey
  | Signature_HashMismatch
  | Signature_BadSignature
  | Signature_UnsupportedAlgorithm

record ActorKeyRef =
  akr_actor_id :: string
  akr_key_id :: string
  akr_public_key_hash :: "string option"

record EventSignatureV1 =
  es_event_id :: EventId
  es_canonical_event_hash :: string
  es_signer :: ActorKeyRef
  es_algorithm :: SignatureAlgorithm
  es_signature :: string
  es_signed_at :: instant

end
