(* ===== verification/Lifecycle_Payloads.thy ===== *)
theory Lifecycle_Payloads
  imports Ledger_Base
begin

text \<open>
  Payloads of the run, plan, activity and unit lifecycle, and of checkpoints, tools and the
  workspace: \<open>bp-ledger/src/payload\<close>, the files \<open>run_lifecycle\<close>, \<open>plan_lifecycle\<close>, \<open>activity\<close>,
  \<open>unit_lifecycle\<close>, \<open>git_checkpoint\<close>, \<open>model_io\<close>, \<open>tool_io\<close>, \<open>workspace\<close>, \<open>checkpoint\<close>,
  \<open>capability_broker\<close>, \<open>acceptance\<close> and \<open>operator_decision\<close>.
\<close>

record RunStartedV1 =
  rs_packet_hash :: string
  rs_git_head :: string
  rs_workspace_path :: string
  rs_config :: "json btree"
  rs_parent_run_id :: "RunId option"
  rs_parent_event_id :: "EventId option"

datatype RunOutcome =
    RunOutcome_Passed
  | RunOutcome_Failed
  | RunOutcome_Cancelled

record RunCompletedV1 =
  rc_outcome :: RunOutcome
  rc_duration_ms :: string
  rc_event_count :: string
  rc_unit_count :: string

record ResultReadyV1 =
  rr_run_id :: string
  rr_admission_event_id :: string
  rr_acceptance_event_id :: string

record RunFailedV1 =
  rfl_reason :: string
  rfl_terminating_event_id :: "EventId option"

datatype RunAdmissionDecision =
    Admission_Pass
  | Admission_Blocked
  | Admission_Failed
  | Admission_InsufficientEvidence
  | Admission_UnsafeToRun

record RunAdmissionDeniedSideEffectV1 =
  rds_effect :: string
  rds_reason :: string

record RunAdmissionEvidenceInputV1 =
  rei_kind :: string
  rei_reference :: string
  rei_digest :: "string option"
  rei_required :: bool
  rei_status :: string
  rei_reason :: "string option"

record RunAdmissionRecordedV1 =
  rad_receipt_id :: string
  rad_receipt_digest :: string
  rad_receipt_ref :: "string option"
  rad_idempotency_key :: string
  rad_decision :: RunAdmissionDecision
  rad_policy_profile_id :: string
  rad_requested_side_effects :: "string list"
  rad_allowed_side_effects :: "string list"
  rad_denied_side_effects :: "RunAdmissionDeniedSideEffectV1 list"
  rad_missing_evidence :: "string list"
  rad_unsafe_requests :: "string list"
  rad_evidence_inputs :: "RunAdmissionEvidenceInputV1 list"
  rad_quarantine :: bool
  rad_will_execute_worker :: bool
  rad_authorized_next_step :: string
  rad_decided_by :: string
  rad_decided_at :: string

record PlanAdmittedV1 =
  pad_plan_id :: string
  pad_plan_digest :: string
  pad_input_digest :: string
  pad_trusted_base :: string
  pad_decided_by :: string
  pad_decided_at :: string
  pad_idempotency_key :: string
  pad_authorized_next_step :: string

datatype PlanReceiptOutcome =
    PlanOutcome_Completed
  | PlanOutcome_Failed
  | PlanOutcome_Aborted

record PlanReceiptRecordedV1 =
  prcp_plan_id :: string
  prcp_admission_event_id :: EventId
  prcp_outcome :: PlanReceiptOutcome
  prcp_side_effects :: "string list"
  prcp_result_digest :: string
  prcp_decided_at :: string

datatype ActivityType =
    Activity_Model
  | Activity_Tool
  | Activity_Command

record ActivityStartedV1 =
  as_run_id :: RunId
  as_activity_id :: string
  as_activity_type :: ActivityType
  as_input_digest :: string

record ActivityCompletedV1 =
  ac_run_id :: RunId
  ac_activity_id :: string
  ac_result_digest :: string
  ac_result :: json

record UnitStartedV1 =
  us_unit_id :: string
  us_parent_unit_id :: "string option"
  us_unit_kind :: string
  us_policy :: json

datatype UnitOutcome =
    UnitOutcome_Passed
  | UnitOutcome_Failed

record ArtifactRef =
  art_path :: string
  art_hash :: string
  art_size_bytes :: u64

record UnitCompletedV1 =
  uc_unit_id :: string
  uc_outcome :: UnitOutcome
  uc_artifacts :: "ArtifactRef list"

record UnitFailedV1 =
  uf_unit_id :: string
  uf_reason :: string
  uf_terminating_event_id :: "EventId option"

datatype CancelCause =
    Cause_Timeout
  | Cause_ParentFailed
  | Cause_OperatorInterrupt

record UnitCancelledV1 =
  ux_unit_id :: string
  ux_cause :: CancelCause

datatype CheckpointBoundary =
    Boundary_PreUnit
  | Boundary_PostUnit

datatype GitStatus =
    GitStatus_Ok
  | GitStatus_Failed string

record GitCheckpointV1 =
  gc_boundary :: CheckpointBoundary
  gc_reference :: string
  gc_commit_sha :: string
  gc_unit_id :: string
  gc_git_status :: GitStatus

record Message =
  msg_role :: string
  msg_content :: string

record SamplingParams =
  smp_temperature :: "f32 option"
  smp_top_p :: "f32 option"
  smp_max_tokens :: "u32 option"

datatype HeaderValue =
    Header_Raw string
  | Header_Redacted string string

record ModelRequestV1 =
  mrq_provider :: string
  mrq_model :: string
  mrq_system :: "string option"
  mrq_messages :: "Message list"
  mrq_tools :: "json list"
  mrq_sampling :: SamplingParams
  mrq_headers :: "HeaderValue btree"

record ToolCall =
  tcl_id :: string
  tcl_name :: string
  tcl_arguments :: json

record Usage =
  usg_input_tokens :: u32
  usg_output_tokens :: u32

record ModelResponseV1 =
  mrs_content :: "string option"
  mrs_tool_calls :: "ToolCall list"
  mrs_usage :: Usage
  mrs_stop_reason :: string
  mrs_latency_ms :: u64

record EnvRedaction =
  er_redacted :: bool
  er_hash :: string
  er_hint :: string

record ToolRequestStoredV1 =
  trq_tool_name :: string
  trq_arguments :: json
  trq_env :: EnvRedaction
  trq_working_directory :: string
  trq_unit_id :: string

record ToolResultV1 =
  trs_tool_request_id :: EventId
  trs_stdout :: string
  trs_stderr :: string
  trs_exit_code :: "i32 option"
  trs_output :: "json option"
  trs_duration_ms :: u64

record WorkspaceReadV1 =
  wr_tool_request_id :: EventId
  wr_path :: string
  wr_content_hash :: string
  wr_size_bytes :: u64

datatype PostWriteState =
    PostWrite_Captured string u64
  | PostWrite_Unreadable string

record WorkspaceWriteV1 =
  ww_tool_request_id :: EventId
  ww_path :: string
  ww_hash_before :: "string option"
  ww_after :: PostWriteState

datatype TapeRootAlgorithm =
    Root_Sha256Linear

record TapeCheckpointV1 =
  tc_run_id :: RunId
  tc_checkpoint_index :: u64
  tc_through_event_id :: EventId
  tc_through_event_count :: u64
  tc_previous_checkpoint_event_id :: "EventId option"
  tc_tape_root_hash :: string
  tc_algorithm :: TapeRootAlgorithm

record CapabilityDeniedV1 =
  cd_run_id :: string
  cd_bundle_digest :: string
  cd_tool :: string
  cd_reason :: string
  cd_target :: string

record AcceptanceCheckResultV1 =
  acx_command :: string
  acx_exit_code :: string
  acx_status :: string

record AcceptanceRecordedV1 =
  arec_plan_id :: string
  arec_admission_event_id :: string
  arec_contract_digest :: string
  arec_outcome :: string
  arec_diff_scope_status :: string
  arec_out_of_scope_files :: "string list"
  arec_checks :: "AcceptanceCheckResultV1 list"
  arec_evaluated_at :: string

record OperatorDecisionRecordedV1 =
  odr_run_id :: string
  odr_decision :: string
  odr_subject :: string
  odr_acceptance_event_id :: "string option"
  odr_admission_event_id :: "string option"
  odr_merge_commit :: "string option"
  odr_envelope :: "string option"
  odr_decided_by :: string
  odr_decided_at :: string

end
