(* ===== verification/Dispatch_Payloads.thy ===== *)
theory Dispatch_Payloads
  imports Ledger_Base
begin

text \<open>
  Dispatch envelopes, workflow graphs, manifest contents and retry lineage of
  \<open>bp-ledger/src/payload/trust_spine.rs\<close>.
\<close>

datatype ExecutionRoleV1 =
    Role_Implementer
  | Role_Reviewer
  | Role_Adversary
  | Role_Judge
  | Role_Candidate

datatype CommitModeV1 =
    Commit_Atomic
  | Commit_Incremental
  | Commit_Saga

datatype TrustTierV1 =
    Tier_Raw
  | Tier_Governed

record SignatureRefV1 =
  sig_algorithm :: string
  sig_key_id :: string
  sig_signature :: string

record DispatchBudgetV1 =
  bud_max_tokens :: "u32 option"
  bud_max_compute_time_ms :: "u32 option"

record DispatchEnvelopeV1 =
  de1_workflow_id :: string
  de1_workflow_revision :: string
  de1_unit_id :: string
  de1_attempt :: u32
  de1_execution_role :: ExecutionRoleV1
  de1_commit_mode :: CommitModeV1
  de1_provenance_ref :: string
  de1_base_commit_sha :: string
  de1_capability_bundle_digest :: string
  de1_acceptance_contract_digest :: string
  de1_context_manifest_digest :: string
  de1_worker_manifest_digest :: string
  de1_sandbox_profile_digest :: string
  de1_budget :: DispatchBudgetV1
  de1_trust_tier :: TrustTierV1
  de1_idempotency_key :: string
  de1_issued_at :: string
  de1_expires_at :: string
  de1_envelope_digest :: string
  de1_signature_ref :: SignatureRefV1

record DispatchEnvelopeBodyV2 =
  deb_workflow_id :: string
  deb_workflow_revision :: string
  deb_unit_id :: string
  deb_attempt :: u32
  deb_execution_role :: ExecutionRoleV1
  deb_commit_mode :: CommitModeV1
  deb_provenance_ref :: string
  deb_base_commit_sha :: string
  deb_capability_bundle_digest :: string
  deb_acceptance_contract_digest :: string
  deb_context_manifest_digest :: string
  deb_worker_manifest_digest :: string
  deb_sandbox_profile_digest :: string
  deb_budget :: DispatchBudgetV1
  deb_trust_tier :: TrustTierV1
  deb_idempotency_key :: string
  deb_issued_at :: string
  deb_expires_at :: string

record DispatchEnvelopeV2 =
  de2_body :: DispatchEnvelopeBodyV2
  de2_envelope_digest :: string

datatype ActionEvidenceVersionV1 =
    Evidence_SealedV2
  | Evidence_SealedV3

record DispatchEnvelopeV3 =
  de3_body :: DispatchEnvelopeBodyV2
  de3_action_evidence_version :: ActionEvidenceVersionV1
  de3_repository_binding_digest :: string
  de3_ledger_authority_realm_digest :: string
  de3_governed_packet_digest :: "string option"
  de3_envelope_digest :: string

record WorkflowGraphNodeV1 =
  gn1_unit_id :: string
  gn1_depends_on :: "string list"

record WorkflowGraphDeclaredV1 =
  gd1_run_id :: string
  gd1_workflow_id :: string
  gd1_workflow_revision :: string
  gd1_nodes :: "WorkflowGraphNodeV1 list"
  gd1_max_concurrent :: u32
  gd1_graph_digest :: string
  gd1_idempotency_key :: string
  gd1_declared_at :: string

record WorkflowGraphNodeV2 =
  gn2_unit_id :: string
  gn2_depends_on :: "string list"
  gn2_execution_role :: ExecutionRoleV1
  gn2_governed_packet_digest :: string

record WorkflowGraphDeclaredV2 =
  gd2_run_id :: string
  gd2_workflow_id :: string
  gd2_workflow_revision :: string
  gd2_nodes :: "WorkflowGraphNodeV2 list"
  gd2_max_concurrent :: u32
  gd2_graph_digest :: string
  gd2_idempotency_key :: string
  gd2_declared_at :: string

record AttemptContextRecordedV1 =
  acr_run_id :: string
  acr_workflow_id :: string
  acr_workflow_revision :: string
  acr_unit_id :: string
  acr_prior_attempt :: u32
  acr_next_attempt :: u32
  acr_prior_dispatch_envelope_digest :: string
  acr_prior_terminal_event_ref :: string
  acr_prior_terminal_event_digest :: string
  acr_prior_action_receipt_ref :: string
  acr_prior_action_receipt_digest :: string
  acr_feedback_ref :: string
  acr_feedback_digest :: string
  acr_next_dispatch_envelope_digest :: string
  acr_next_dispatch_idempotency_key :: string
  acr_retry_action_namespace :: string
  acr_idempotency_key :: string
  acr_recorded_at :: string
  acr_attempt_context_digest :: string

datatype ContextManifestEntryKindV1 =
    EntryKind_RepositoryFile
  | EntryKind_Memory
  | EntryKind_Plan
  | EntryKind_Policy
  | EntryKind_Skill
  | EntryKind_Document
  | EntryKind_Artifact
  | EntryKind_External

datatype ContextTrustLevelV1 =
    ContextTrust_Trusted
  | ContextTrust_Verified
  | ContextTrust_Untrusted
  | ContextTrust_Quarantined

datatype ContextTaintV1 =
    Taint_Clean
  | Taint_External
  | Taint_Retrieved
  | Taint_Remote
  | Taint_Skill

record ContextManifestEntryV1 =
  cme_kind :: ContextManifestEntryKindV1
  cme_reference :: string
  cme_digest :: string
  cme_provenance_ref :: string
  cme_trust :: ContextTrustLevelV1
  cme_taint :: ContextTaintV1

record ContextManifestContentV1 =
  cmc_entries :: "ContextManifestEntryV1 list"

datatype WorkerProviderV1 =
    Provider_Anthropic
  | Provider_OpenAi

datatype WorkerHarnessV1 =
    Harness_AnthropicApiSdk
  | Harness_OpenAiApiSdk

record WorkerManifestContentV1 =
  wmc_provider :: WorkerProviderV1
  wmc_model :: string
  wmc_harness :: WorkerHarnessV1
  wmc_image_digest :: string
  wmc_tool_manifest_digest :: string
  wmc_skill_manifest_digest :: string
  wmc_capability_bundle_digest :: string
  wmc_execution_role :: ExecutionRoleV1

datatype SandboxRuntimeV1 =
    Runtime_RootlessOci

record SandboxProfileContentV1 =
  spc_runtime :: SandboxRuntimeV1
  spc_rootless :: bool
  spc_image_digest :: string
  spc_read_only_rootfs :: bool
  spc_writable_overlay_digest :: string
  spc_mount_manifest_digest :: string
  spc_environment_manifest_digest :: string
  spc_network_policy_digest :: string
  spc_resource_policy_digest :: string
  spc_secret_handle_manifest_digest :: string

record AttemptFeedbackV1 =
  afb_feedback_ref :: string
  afb_feedback_digest :: string

record PriorCandidateRefV1 =
  pcr_candidate_ref :: string
  pcr_candidate_digest :: string

record AttemptContextContentV1 =
  acc_attempt :: u32
  acc_retry_feedback :: "AttemptFeedbackV1 list"
  acc_prior_candidates :: "PriorCandidateRefV1 list"

end
