(* ===== verification/Candidate_Payloads.thy ===== *)
theory Candidate_Payloads
  imports Dispatch_Payloads
begin

text \<open>
  Candidate, acceptance and review payloads of \<open>bp-ledger/src/payload/trust_spine.rs\<close>.
\<close>

record CandidateCreatedV1 =
  cc1_candidate_id :: string
  cc1_candidate_ref :: string
  cc1_workflow_id :: string
  cc1_unit_id :: string
  cc1_attempt :: u32
  cc1_provenance_ref :: string
  cc1_candidate_digest :: string
  cc1_base_commit_sha :: string
  cc1_candidate_commit_sha :: string
  cc1_commit_digest :: string
  cc1_tree_digest :: string
  cc1_patch_digest :: string
  cc1_changed_files_digest :: string
  cc1_envelope_digest :: string
  cc1_action_receipt_digest :: string

record CandidateCompletionRecordedV1 =
  ccr_run_id :: string
  ccr_workflow_id :: string
  ccr_unit_id :: string
  ccr_attempt :: u32
  ccr_provenance_ref :: string
  ccr_candidate_created_event_ref :: EventId
  ccr_candidate_digest :: string
  ccr_candidate_create_action_id :: string
  ccr_action_request_ref :: EventId
  ccr_action_request_digest :: string
  ccr_activity_claim_event_ref :: EventId
  ccr_activity_claim_event_digest :: string
  ccr_activity_result_event_ref :: EventId
  ccr_activity_result_event_digest :: string
  ccr_action_receipt_ref :: string
  ccr_action_receipt_digest :: string
  ccr_completion_digest :: string
  ccr_completed_at :: string

datatype CandidateAcceptanceOutcomeV1 =
    Acceptance_Passed
  | Acceptance_Rejected

record CandidateAcceptanceRecordedV1 =
  car_candidate_digest :: string
  car_candidate_commit_sha :: string
  car_acceptance_ref :: string
  car_acceptance_contract_digest :: string
  car_acceptance_digest :: string
  car_outcome :: CandidateAcceptanceOutcomeV1
  car_evaluated_at :: string

datatype ReviewDecisionV1 =
    Review_Approve
  | Review_RequestChanges
  | Review_Reject
  | Review_Abstain

datatype ReviewFindingSeverityV1 =
    Severity_Info
  | Severity_Low
  | Severity_Medium
  | Severity_High
  | Severity_Critical

record ReviewFindingV1 =
  rf_severity :: ReviewFindingSeverityV1
  rf_check_id :: string
  rf_file :: string
  rf_line :: u32
  rf_explanation :: string
  rf_evidence_refs :: "string list"

record CandidateViewV1 =
  cv_candidate_ref :: string
  cv_candidate_digest :: string
  cv_candidate_commit_sha :: string
  cv_tree_digest :: string
  cv_reviewer_context_manifest_digest :: string
  cv_reviewer_sandbox_profile_digest :: string
  cv_mount_path_digest :: string
  cv_read_only :: bool
  cv_network_disabled :: bool

record ReviewVerdictRecordedV1 =
  rv1_candidate_digest :: string
  rv1_candidate_commit_sha :: string
  rv1_review_ref :: string
  rv1_review_verdict_action_id :: "string option"
  rv1_review_action_request_digest :: "string option"
  rv1_review_action_receipt_ref :: "string option"
  rv1_review_action_receipt_digest :: "string option"
  rv1_review_output_ref :: "string option"
  rv1_review_output_digest :: "string option"
  rv1_decision :: ReviewDecisionV1
  rv1_findings :: "ReviewFindingV1 list"
  rv1_confidence :: f64
  rv1_reviewer_manifest_digest :: string
  rv1_reviewed_at :: string

end
