(* ===== verification/Action_State.thy ===== *)
theory Action_State
  imports Candidate_Payloads
begin

text \<open>
  The action-evidence projection of a workflow, \<open>ActionEvidenceReplayState\<close> and the structs it
  holds (\<open>bp-replay/src/state.rs\<close>), with the closed vocabularies of
  \<open>bp-ledger/src/payload/trust_spine.rs\<close> and \<open>activity_claim.rs\<close> those structs store.
\<close>

datatype ActionKindV1 =
    Action_Filesystem
  | Action_Process
  | Action_Git
  | Action_Model
  | Action_Network
  | Action_Secret
  | Action_Mcp
  | Action_A2a
  | Action_ExternalService

datatype ActionReceiptOutcomeV2 =
    Receipt_Succeeded
  | Receipt_Failed
  | Receipt_Denied
  | Receipt_Unknown

record ActionResourceUsageV1 =
  aru_wall_time_ms :: u64
  aru_cpu_time_ms :: "u64 option"
  aru_peak_memory_bytes :: "u64 option"
  aru_input_bytes :: "u64 option"
  aru_output_bytes :: "u64 option"
  aru_input_tokens :: "u64 option"
  aru_output_tokens :: "u64 option"

record ActionRedactionV1 =
  ard_field :: string
  ard_reason :: string
  ard_redacted_digest :: "string option"

record ActionFailureV1 =
  afl_code :: string
  afl_message_digest :: string
  afl_retryable :: bool

record ModelRequestEvidenceV1 =
  mre_schema_version :: u32
  mre_cas_ref :: string
  mre_digest :: string

record TrustScopeEvidenceV1 =
  tse_schema_version :: u32
  tse_cas_ref :: string
  tse_digest :: string

record ModelActionCandidateBindingV1 =
  mcb_candidate_created_event_ref :: EventId
  mcb_candidate_digest :: string
  mcb_candidate_commit_sha :: string
  mcb_candidate_view_ref :: string
  mcb_candidate_view_digest :: string
  mcb_candidate_view :: CandidateViewV1

record ActionReceiptSetEntryV1 =
  ase_action_id :: string
  ase_action_receipt_ref :: string
  ase_action_receipt_digest :: string

datatype ActivityResultOutcomeV1 =
    Result_Succeeded
  | Result_Failed
  | Result_Unknown

datatype ActivityClaimPurposeV1 =
    Purpose_Generic
  | Purpose_GovernedVerifierV1
  | Purpose_GovernedCommandActionV1
  | Purpose_GovernedModelActionV1
  | Purpose_GovernedAcceptanceCheckV1
  | Purpose_GovernedCandidateFinalizeV1

record ActionRequestReplayState =
  req_event_id :: EventId
  req_action_id :: string
  req_idempotency_key :: string
  req_action_kind :: ActionKindV1
  req_canonical_input_digest :: string
  req_canonical_input_ref :: string
  req_repository_binding_digest :: string
  req_ledger_authority_realm_digest :: string
  req_governed_packet_digest :: "string option"
  req_policy_digest :: string
  req_authority_actor :: string
  req_execution_role :: ExecutionRoleV1
  req_requested_at :: string
  req_action_request_digest :: string

record ActivityHeartbeatReplayState =
  hb_event_id :: EventId
  hb_event_digest :: string
  hb_run_id :: string
  hb_activity_id :: string
  hb_idempotency_key :: string
  hb_heartbeat_id :: "string option"
  hb_heartbeat_request_digest :: "string option"
  hb_claim_event_id :: EventId
  hb_claim_event_digest :: string
  hb_lease_id :: string
  hb_dispatch_event_id :: EventId
  hb_dispatch_envelope_digest :: string
  hb_prior_lease_expires_at :: string
  hb_lease_expires_at :: string
  hb_heartbeat_at :: string

record ActivityResultReplayState =
  ars_event_id :: EventId
  ars_event_digest :: string
  ars_run_id :: string
  ars_activity_id :: string
  ars_idempotency_key :: string
  ars_claim_event_id :: EventId
  ars_claim_event_digest :: string
  ars_lease_id :: string
  ars_outcome :: ActivityResultOutcomeV1
  ars_result_digest :: "string option"
  ars_result_ref :: "string option"
  ars_evidence_digest :: string
  ars_evidence_ref :: string
  ars_recorded_at :: string

record ActivityClaimReplayState =
  clm_event_id :: EventId
  clm_claim_event_digest :: string
  clm_run_id :: string
  clm_activity_id :: string
  clm_idempotency_key :: string
  clm_action_kind :: ActionKindV1
  clm_action_request_event_id :: EventId
  clm_action_request_digest :: string
  clm_dispatch_event_id :: EventId
  clm_dispatch_envelope_digest :: string
  clm_authority_actor :: string
  clm_purpose :: ActivityClaimPurposeV1
  clm_lease_id :: string
  clm_lease_expires_at :: string
  clm_claimed_at :: string
  clm_signer :: "ActorKeyRef option"
  clm_heartbeats :: "ActivityHeartbeatReplayState list"
  clm_result :: "ActivityResultReplayState option"

record ModelActionAuthorizationReplayState =
  mas_event_id :: EventId
  mas_authorized_at :: "string option"
  mas_authorization_version :: u8
  mas_intent_event_ref :: "EventId option"
  mas_intent_digest :: "string option"
  mas_dispatch_event_ref :: string
  mas_dispatch_envelope_digest :: string
  mas_action_request_ref :: string
  mas_action_request_digest :: string
  mas_packet_digest :: string
  mas_canonical_input_digest :: string
  mas_model_request_digest :: string
  mas_model_request_evidence_ref :: "string option"
  mas_model_request_evidence_schema_version :: "u32 option"
  mas_trust_scope_digest :: string
  mas_trust_scope_evidence_ref :: "string option"
  mas_trust_scope_evidence_schema_version :: "u32 option"
  mas_context_manifest_digest :: string
  mas_policy_digest :: string
  mas_sandbox_profile_digest :: string
  mas_execution_role :: ExecutionRoleV1
  mas_candidate_digest :: "string option"
  mas_candidate_view_digest :: "string option"
  mas_candidate_binding :: "ModelActionCandidateBindingV1 option"
  mas_authorization_actor :: string
  mas_expires_at :: string
  mas_authorization_ref :: string
  mas_authorization_digest :: string

record ModelActionIntentReplayState =
  mis_event_id :: EventId
  mis_dispatch_event_ref :: EventId
  mis_dispatch_envelope_digest :: string
  mis_action_request_event_ref :: EventId
  mis_action_request_digest :: string
  mis_canonical_input_ref :: string
  mis_canonical_input_digest :: string
  mis_model_request_evidence :: ModelRequestEvidenceV1
  mis_trust_scope_evidence :: TrustScopeEvidenceV1
  mis_candidate_binding :: "ModelActionCandidateBindingV1 option"
  mis_intent_actor :: string
  mis_intended_at :: string
  mis_intent_digest :: string

record ActionReceiptReplayState =
  rcp_event_id :: EventId
  rcp_action_id :: string
  rcp_idempotency_key :: string
  rcp_action_request_digest :: string
  rcp_outcome :: ActionReceiptOutcomeV2
  rcp_result_digest :: "string option"
  rcp_result_ref :: "string option"
  rcp_evidence_digest :: string
  rcp_evidence_ref :: string
  rcp_resource_usage :: ActionResourceUsageV1
  rcp_redactions :: "ActionRedactionV1 list"
  rcp_failure :: "ActionFailureV1 option"
  rcp_authorization_ref :: "string option"
  rcp_action_receipt_ref :: string
  rcp_action_receipt_digest :: string
  rcp_completed_at :: string

record ActionReceiptSetReplayState =
  rset_event_id :: EventId
  rset_action_receipt_set_ref :: string
  rset_action_receipt_set_digest :: string
  rset_receipts :: "ActionReceiptSetEntryV1 list"
  rset_sealed_at :: string

record ActionReplayState =
  act_request :: ActionRequestReplayState
  act_model_intent :: "ModelActionIntentReplayState option"
  act_model_authorization :: "ModelActionAuthorizationReplayState option"
  act_activity_claim :: "ActivityClaimReplayState option"
  act_receipt :: "ActionReceiptReplayState option"

record ActionEvidenceReplayState =
  ae_action_evidence_version :: ActionEvidenceVersionV1
  ae_actions :: "ActionReplayState btree"
  ae_sealed_receipt_set :: "ActionReceiptSetReplayState option"
  ae_pending_action_ids :: "string list"
  ae_unknown_action_ids :: "string list"
  ae_failed_action_ids :: "string list"

end
