(* ===== verification/Dispatch_State.thy ===== *)
theory Dispatch_State
  imports Dispatch_Payloads
begin

text \<open>
  The dispatch half of a projected workflow, \<open>bp-replay/src/state.rs\<close>: declared graphs and
  manifests, the admitted dispatch, its admission receipt and its retry lineage.
\<close>

record WorkflowGraphReplayState =
  wg_event_id :: EventId
  wg_run_id :: string
  wg_workflow_id :: string
  wg_workflow_revision :: string
  wg_nodes :: "WorkflowGraphNodeV1 list"
  wg_max_concurrent :: u32
  wg_graph_digest :: string
  wg_idempotency_key :: string
  wg_declared_at :: string

record WorkflowGraphV2ReplayState =
  wg2_event_id :: EventId
  wg2_run_id :: string
  wg2_workflow_id :: string
  wg2_workflow_revision :: string
  wg2_nodes :: "WorkflowGraphNodeV2 list"
  wg2_max_concurrent :: u32
  wg2_graph_digest :: string
  wg2_idempotency_key :: string
  wg2_declared_at :: string

record ContextManifestDeclarationReplayState =
  cmds_event_id :: EventId
  cmds_run_id :: string
  cmds_workflow_id :: string
  cmds_workflow_revision :: string
  cmds_unit_id :: string
  cmds_attempt :: u32
  cmds_provenance_ref :: string
  cmds_context_manifest :: ContextManifestContentV1
  cmds_context_manifest_digest :: string
  cmds_idempotency_key :: string
  cmds_declared_at :: string
  cmds_verified_signer :: "ActorKeyRef option"

record WorkerManifestDeclarationReplayState =
  wmds_event_id :: EventId
  wmds_run_id :: string
  wmds_workflow_id :: string
  wmds_workflow_revision :: string
  wmds_unit_id :: string
  wmds_attempt :: u32
  wmds_provenance_ref :: string
  wmds_worker_manifest :: WorkerManifestContentV1
  wmds_worker_manifest_digest :: string
  wmds_idempotency_key :: string
  wmds_declared_at :: string
  wmds_verified_signer :: "ActorKeyRef option"

record SandboxProfileDeclarationReplayState =
  spds_event_id :: EventId
  spds_run_id :: string
  spds_workflow_id :: string
  spds_workflow_revision :: string
  spds_unit_id :: string
  spds_attempt :: u32
  spds_provenance_ref :: string
  spds_sandbox_profile :: SandboxProfileContentV1
  spds_sandbox_profile_digest :: string
  spds_idempotency_key :: string
  spds_declared_at :: string
  spds_verified_signer :: "ActorKeyRef option"

record AttemptContextDeclarationReplayState =
  acds_event_id :: EventId
  acds_run_id :: string
  acds_workflow_id :: string
  acds_workflow_revision :: string
  acds_unit_id :: string
  acds_attempt :: u32
  acds_provenance_ref :: string
  acds_attempt_context :: AttemptContextContentV1
  acds_attempt_context_digest :: string
  acds_idempotency_key :: string
  acds_declared_at :: string
  acds_verified_signer :: "ActorKeyRef option"

record ManifestDispatchWitnessesReplayState =
  mdw_dispatch_verified_signer :: "ActorKeyRef option"
  mdw_context_manifest :: ContextManifestDeclarationReplayState
  mdw_worker_manifest :: WorkerManifestDeclarationReplayState
  mdw_sandbox_profile :: SandboxProfileDeclarationReplayState
  mdw_attempt_context :: "AttemptContextDeclarationReplayState option"

record V5AdmissionReceiptReplayState =
  var_event_id :: EventId
  var_event_digest :: string
  var_run_id :: string
  var_parent_event_id :: "EventId option"
  var_source_dispatch_event_ref :: EventId
  var_source_dispatch_event_digest :: string
  var_dispatch_envelope_digest :: string
  var_witness_evidence_digest :: string
  var_semantic_identity_digest :: string
  var_idempotency_key :: string
  var_ledger_authority_realm_digest :: string
  var_occurred_at :: string
  var_admitted_at :: string
  var_verified_signer :: "ActorKeyRef option"

record WorkflowDispatchReplayState =
  wd_dispatch_version :: u8
  wd_event_id :: EventId
  wd_dispatch_event_digest :: "string option"
  wd_envelope_digest :: string
  wd_provenance_ref :: string
  wd_base_commit_sha :: string
  wd_repository_binding_digest :: "string option"
  wd_ledger_authority_realm_digest :: "string option"
  wd_governed_packet_digest :: "string option"
  wd_workflow_graph_digest :: "string option"
  wd_workflow_graph_declaration_event_ref :: "EventId option"
  wd_capability_bundle_digest :: string
  wd_acceptance_contract_digest :: string
  wd_context_manifest_digest :: string
  wd_worker_manifest_digest :: string
  wd_sandbox_profile_digest :: string
  wd_execution_role :: ExecutionRoleV1
  wd_commit_mode :: CommitModeV1
  wd_budget :: DispatchBudgetV1
  wd_trust_tier :: TrustTierV1
  wd_idempotency_key :: string
  wd_issued_at :: string
  wd_expires_at :: string
  wd_signature_ref :: "SignatureRefV1 option"
  wd_action_evidence_version :: "ActionEvidenceVersionV1 option"

record AttemptContextReplayState =
  acs_event_id :: EventId
  acs_context :: AttemptContextRecordedV1

end
