(* ===== verification/Promotion_Payloads.thy ===== *)
theory Promotion_Payloads
  imports Ledger_Base
begin

text \<open>
  Promotion, timer, cancellation and terminal payloads of
  \<open>bp-ledger/src/payload/trust_spine.rs\<close>.
\<close>

datatype PromotionDecisionKindV1 =
    Decision_Promote
  | Decision_Reject

record PromotionApprovalRequestedV1 =
  par_candidate_digest :: string
  par_base_commit_sha :: string
  par_target_ref :: string
  par_envelope_digest :: string
  par_acceptance_ref :: string
  par_review_refs :: "string list"
  par_requested_by :: string
  par_requested_at :: string
  par_idempotency_key :: string

record PromotionDecisionRecordedV1 =
  pdr_candidate_digest :: string
  pdr_base_commit_sha :: string
  pdr_target_ref :: "string option"
  pdr_envelope_digest :: string
  pdr_acceptance_ref :: string
  pdr_review_refs :: "string list"
  pdr_promotion_approval_request_ref :: "string option"
  pdr_decision :: PromotionDecisionKindV1
  pdr_authority :: string
  pdr_decided_by :: string
  pdr_decided_at :: string
  pdr_idempotency_key :: string

datatype PromotionResultOutcomeV1 =
    PromotionResult_Promoted
  | PromotionResult_ReconciliationRequired
  | PromotionResult_Rejected

datatype PromotionWorktreeSyncStateV1 =
    Sync_PendingReconciliation
  | Sync_RootCheckoutStale
  | Sync_TargetAdvanced

record PromotionGitBindingV1 =
  pgb_target_ref :: string
  pgb_target_head_before_sha :: string
  pgb_target_head_after_sha :: "string option"
  pgb_merged_head_sha :: "string option"
  pgb_candidate_commit_sha :: string
  pgb_merge_parent_shas :: "string list option"
  pgb_merged_tree_sha :: "string option"
  pgb_merged_tree_digest :: string
  pgb_promotion_receipt_ref :: "string option"
  pgb_worktree_sync_state :: "PromotionWorktreeSyncStateV1 option"

record PromotionExecutionClaimedV1 =
  pec_run_id :: string
  pec_promotion_decision_event_ref :: EventId
  pec_promotion_decision_event_digest :: string
  pec_dispatch_event_ref :: EventId
  pec_dispatch_envelope_digest :: string
  pec_candidate_digest :: string
  pec_candidate_ref :: string
  pec_candidate_commit_sha :: string
  pec_candidate_tree_digest :: string
  pec_base_commit_sha :: string
  pec_target_ref :: string
  pec_idempotency_key :: string
  pec_authority_actor :: string
  pec_lease_id :: string
  pec_claimed_at :: string
  pec_lease_expires_at :: string
  pec_promotion_execution_claim_digest :: string

record PromotionExecutionLeaseBindingV1 =
  plb_promotion_execution_claim_event_ref :: EventId
  plb_promotion_execution_claim_event_digest :: string
  plb_lease_id :: string

record PromotionResultRecordedV1 =
  prr_candidate_digest :: string
  prr_idempotency_key :: string
  prr_promotion_decision_ref :: string
  prr_outcome :: PromotionResultOutcomeV1
  prr_merged_head_sha :: "string option"
  prr_promotion_git_binding :: "PromotionGitBindingV1 option"
  prr_promotion_execution_lease_binding :: "PromotionExecutionLeaseBindingV1 option"
  prr_completed_at :: string

datatype ReconciliationResolutionOutcomeV1 =
    Resolution_Abandon
  | Resolution_Reject

record PromotionReconciliationResolvedV1 =
  prc_candidate_digest :: string
  prc_promotion_decision_ref :: string
  prc_promotion_result_ref :: string
  prc_promotion_receipt_ref :: string
  prc_outcome :: ReconciliationResolutionOutcomeV1
  prc_authority :: string
  prc_resolved_by :: string
  prc_idempotency_key :: string
  prc_resolved_at :: string

datatype WorkflowTerminalOutcomeV1 =
    Terminal_Completed
  | Terminal_Failed
  | Terminal_Cancelled

datatype WorkflowTimerKindV1 =
    Timer_WorkflowDeadline

record WorkflowTimerScheduledV1 =
  wts_run_id :: string
  wts_workflow_id :: string
  wts_workflow_revision :: string
  wts_unit_id :: string
  wts_attempt :: u32
  wts_dispatch_event_ref :: EventId
  wts_dispatch_envelope_digest :: string
  wts_timer_id :: string
  wts_timer_kind :: WorkflowTimerKindV1
  wts_due_at :: string
  wts_idempotency_key :: string
  wts_scheduled_by :: string
  wts_scheduled_at :: string

record WorkflowTimerFiredV1 =
  wtf_run_id :: string
  wtf_workflow_id :: string
  wtf_workflow_revision :: string
  wtf_unit_id :: string
  wtf_attempt :: u32
  wtf_timer_id :: string
  wtf_timer_schedule_event_ref :: EventId
  wtf_timer_schedule_event_digest :: string
  wtf_dispatch_event_ref :: EventId
  wtf_dispatch_envelope_digest :: string
  wtf_idempotency_key :: string
  wtf_fired_by :: string
  wtf_fired_at :: string

datatype WorkflowCancellationCauseV1 =
    Cancel_OperatorRequested
  | Cancel_TimerElapsed

record WorkflowCancellationRequestedV1 =
  wcr_run_id :: string
  wcr_workflow_id :: string
  wcr_workflow_revision :: string
  wcr_unit_id :: string
  wcr_attempt :: u32
  wcr_dispatch_event_ref :: EventId
  wcr_dispatch_envelope_digest :: string
  wcr_cancellation_id :: string
  wcr_cause :: WorkflowCancellationCauseV1
  wcr_timer_fired_event_ref :: "EventId option"
  wcr_timer_fired_event_digest :: "string option"
  wcr_requested_by :: string
  wcr_idempotency_key :: string
  wcr_requested_at :: string

record WorkflowTerminalV1 =
  wt1_workflow_id :: string
  wt1_workflow_revision :: string
  wt1_unit_id :: string
  wt1_attempt :: u32
  wt1_outcome :: WorkflowTerminalOutcomeV1
  wt1_candidate_digest :: "string option"
  wt1_promotion_result_ref :: "string option"
  wt1_reconciliation_resolution_ref :: "string option"
  wt1_reason :: "string option"
  wt1_idempotency_key :: string
  wt1_completed_at :: string

record WorkflowTerminalV2 =
  wt2_workflow_id :: string
  wt2_workflow_revision :: string
  wt2_unit_id :: string
  wt2_attempt :: u32
  wt2_outcome :: WorkflowTerminalOutcomeV1
  wt2_candidate_digest :: "string option"
  wt2_promotion_result_ref :: "string option"
  wt2_reconciliation_resolution_ref :: "string option"
  wt2_cancellation_request_event_ref :: "EventId option"
  wt2_cancellation_request_event_digest :: "string option"
  wt2_reason :: "string option"
  wt2_idempotency_key :: string
  wt2_completed_at :: string

end
