(* ===== verification/Evidence_State.thy ===== *)
theory Evidence_State
  imports Candidate_Payloads Promotion_Payloads
begin

text \<open>
  The evidence half of a projected workflow, \<open>bp-replay/src/state.rs\<close>: timers, cancellation,
  candidate, acceptance, reviews, promotion and terminal record.
\<close>

record WorkflowTimerFiredReplayState =
  tf_event_id :: EventId
  tf_event_digest :: string
  tf_timer_schedule_event_ref :: EventId
  tf_timer_schedule_event_digest :: string
  tf_fired_by :: string
  tf_fired_at :: string

record WorkflowTimerReplayState =
  tm_event_id :: EventId
  tm_event_digest :: string
  tm_run_id :: string
  tm_workflow_id :: string
  tm_workflow_revision :: string
  tm_unit_id :: string
  tm_attempt :: u32
  tm_dispatch_event_ref :: EventId
  tm_dispatch_envelope_digest :: string
  tm_timer_id :: string
  tm_timer_kind :: WorkflowTimerKindV1
  tm_due_at :: string
  tm_idempotency_key :: string
  tm_scheduled_by :: string
  tm_scheduled_at :: string
  tm_fired :: "WorkflowTimerFiredReplayState option"

record WorkflowCancellationReplayState =
  can_event_id :: EventId
  can_event_digest :: string
  can_cancellation_id :: string
  can_cause :: WorkflowCancellationCauseV1
  can_timer_fired_event_ref :: "EventId option"
  can_timer_fired_event_digest :: "string option"
  can_requested_by :: string
  can_idempotency_key :: string
  can_requested_at :: string

record CandidateArtifactReplayState =
  cand_event_id :: EventId
  cand_candidate_id :: string
  cand_candidate_ref :: string
  cand_candidate_digest :: string
  cand_base_commit_sha :: string
  cand_candidate_commit_sha :: string
  cand_commit_digest :: string
  cand_tree_digest :: string
  cand_patch_digest :: string
  cand_changed_files_digest :: string
  cand_envelope_digest :: string
  cand_action_receipt_digest :: "string option"
  cand_action_receipt_set_ref :: "string option"
  cand_action_receipt_set_digest :: "string option"

record CandidateCompletionReplayState =
  ccs_event_id :: EventId
  ccs_completion :: CandidateCompletionRecordedV1

record CandidateAcceptanceReplayState =
  ca_event_id :: EventId
  ca_candidate_digest :: string
  ca_candidate_commit_sha :: string
  ca_acceptance_ref :: string
  ca_acceptance_contract_digest :: string
  ca_acceptance_digest :: string
  ca_outcome :: CandidateAcceptanceOutcomeV1
  ca_evaluated_at :: string

record ReviewVerdictReplayState =
  rv_review_version :: u8
  rv_event_id :: EventId
  rv_candidate_digest :: string
  rv_candidate_commit_sha :: string
  rv_review_ref :: string
  rv_decision :: ReviewDecisionV1
  rv_findings :: "ReviewFindingV1 list"
  rv_confidence :: f64
  rv_reviewer_manifest_digest :: string
  rv_review_verdict_action_id :: "string option"
  rv_review_action_request_digest :: "string option"
  rv_review_action_receipt_ref :: "string option"
  rv_review_action_receipt_digest :: "string option"
  rv_review_output_ref :: "string option"
  rv_review_output_digest :: "string option"
  rv_review_output_semantic_digest :: "string option"
  rv_acceptance_ref :: "string option"
  rv_acceptance_digest :: "string option"
  rv_acceptance_contract_digest :: "string option"
  rv_candidate_envelope_digest :: "string option"
  rv_reviewer_workflow_id :: "string option"
  rv_reviewer_dispatch_envelope_digest :: "string option"
  rv_reviewer_unit_id :: "string option"
  rv_reviewer_attempt :: "u32 option"
  rv_reviewer_execution_role :: "ExecutionRoleV1 option"
  rv_review_action_receipt_set_ref :: "string option"
  rv_review_action_receipt_set_digest :: "string option"
  rv_candidate_view :: "CandidateViewV1 option"
  rv_candidate_view_ref :: "string option"
  rv_candidate_view_digest :: "string option"
  rv_reviewer_authority :: "string option"
  rv_reviewed_at :: string

record PromotionExecutionClaimReplayState =
  pcs_event_id :: EventId
  pcs_event_digest :: string
  pcs_claim :: PromotionExecutionClaimedV1

record PromotionApprovalRequestReplayState =
  pa_event_id :: EventId
  pa_event_digest :: string
  pa_candidate_digest :: string
  pa_base_commit_sha :: string
  pa_target_ref :: string
  pa_envelope_digest :: string
  pa_acceptance_ref :: string
  pa_review_refs :: "string list"
  pa_requested_by :: string
  pa_requested_at :: string
  pa_idempotency_key :: string

record PromotionDecisionReplayState =
  pd_event_id :: EventId
  pd_event_digest :: string
  pd_candidate_digest :: string
  pd_base_commit_sha :: string
  pd_target_ref :: "string option"
  pd_envelope_digest :: string
  pd_acceptance_ref :: string
  pd_review_refs :: "string list"
  pd_promotion_approval_request_ref :: "string option"
  pd_decision :: PromotionDecisionKindV1
  pd_authority :: string
  pd_decided_by :: string
  pd_decided_at :: string
  pd_idempotency_key :: string

record PromotionResultReplayState =
  pres_event_id :: EventId
  pres_event_digest :: string
  pres_candidate_digest :: string
  pres_idempotency_key :: string
  pres_promotion_decision_ref :: string
  pres_outcome :: PromotionResultOutcomeV1
  pres_merged_head_sha :: "string option"
  pres_promotion_git_binding :: "PromotionGitBindingV1 option"
  pres_promotion_execution_lease_binding :: "PromotionExecutionLeaseBindingV1 option"
  pres_completed_at :: string

record PromotionReconciliationReplayState =
  prec_event_id :: EventId
  prec_event_digest :: string
  prec_candidate_digest :: string
  prec_promotion_decision_ref :: string
  prec_promotion_result_ref :: string
  prec_promotion_receipt_ref :: string
  prec_outcome :: ReconciliationResolutionOutcomeV1
  prec_authority :: string
  prec_resolved_by :: string
  prec_idempotency_key :: string
  prec_resolved_at :: string

record PromotionReplayState =
  pr_decision :: PromotionDecisionReplayState
  pr_execution_claim :: "PromotionExecutionClaimReplayState option"
  pr_result :: "PromotionResultReplayState option"
  pr_reconciliation :: "PromotionReconciliationReplayState option"

record WorkflowTerminalReplayState =
  trm_event_id :: EventId
  trm_terminal_version :: u8
  trm_event_digest :: string
  trm_unit_id :: string
  trm_attempt :: u32
  trm_outcome :: WorkflowTerminalOutcomeV1
  trm_candidate_digest :: "string option"
  trm_promotion_result_ref :: "string option"
  trm_reconciliation_resolution_ref :: "string option"
  trm_cancellation_request_event_ref :: "EventId option"
  trm_cancellation_request_event_digest :: "string option"
  trm_reason :: "string option"
  trm_idempotency_key :: string
  trm_completed_at :: string

end
