(* ===== verification/Replay_State.thy ===== *)
theory Replay_State
  imports Lifecycle_Payloads Action_State Dispatch_State Evidence_State
begin

text \<open>
  The replay projection, \<open>bp-replay/src/state.rs\<close>: the workflow phases, one workflow instance,
  the issues replay reports, and \<open>ReplayState\<close> itself.
\<close>

subsection \<open>Plan, activity and file projections\<close>

record PlanAdmissionReplayState =
  pla_event_id :: EventId
  pla_plan_id :: string
  pla_plan_digest :: string
  pla_input_digest :: string
  pla_trusted_base :: string
  pla_decided_by :: string
  pla_decided_at :: string
  pla_idempotency_key :: string
  pla_authorized_next_step :: string

record RecordedActivityState =
  ras_run_id :: "string option"
  ras_activity_id :: string
  ras_activity_type :: "string option"
  ras_input_digest :: "string option"
  ras_started_event_id :: "EventId option"
  ras_completed_event_id :: "EventId option"
  ras_result_digest :: "string option"
  ras_result :: "json option"

record PlanAcceptanceReplayState =
  plc_event_id :: EventId
  plc_plan_id :: string
  plc_admission_event_id :: string
  plc_contract_digest :: string
  plc_outcome :: string
  plc_diff_scope_status :: string
  plc_out_of_scope_files :: "string list"
  plc_evaluated_at :: string

record PlanReceiptReplayState =
  plr_event_id :: EventId
  plr_plan_id :: string
  plr_admission_event_id :: EventId
  plr_outcome :: string
  plr_side_effects :: "string list"
  plr_result_digest :: string
  plr_decided_at :: string

record FileObservation =
  fo_last_known_hash :: string
  fo_from_event_id :: EventId

record CheckpointRef =
  ck_boundary :: string
  ck_reference :: string
  ck_commit_sha :: string
  ck_unit_id :: string
  ck_from_event_id :: EventId

subsection \<open>Workflow instances\<close>

datatype WorkflowPhaseV1 =
    Phase_Dispatched
  | Phase_CandidateCreated
  | Phase_AcceptancePassed
  | Phase_ReviewApproved
  | Phase_PromotionApprovalPending
  | Phase_PromotionPending
  | Phase_PromotionReconciliationRequired
  | Phase_PromotionReconciliationResolved
  | Phase_Promoted
  | Phase_CancellationRequested
  | Phase_Rejected
  | Phase_Completed
  | Phase_Failed
  | Phase_Cancelled

fun is_terminal :: "WorkflowPhaseV1 \<Rightarrow> bool" where
  "is_terminal Phase_Rejected = True"
| "is_terminal Phase_Completed = True"
| "is_terminal Phase_Failed = True"
| "is_terminal Phase_Cancelled = True"
| "is_terminal _ = False"

record WorkflowInstanceV1 =
  wi_run_id :: string
  wi_workflow_id :: string
  wi_workflow_revision :: string
  wi_unit_id :: string
  wi_attempt :: u32
  wi_phase :: WorkflowPhaseV1
  wi_dispatch :: WorkflowDispatchReplayState
  wi_workflow_graph :: "WorkflowGraphV2ReplayState option"
  wi_manifest_declarations :: "ManifestDispatchWitnessesReplayState option"
  wi_v5_admission_receipt :: "V5AdmissionReceiptReplayState option"
  wi_action_evidence :: "ActionEvidenceReplayState option"
  wi_retry_context :: "AttemptContextReplayState option"
  wi_timers :: "WorkflowTimerReplayState btree"
  wi_cancellation :: "WorkflowCancellationReplayState option"
  wi_candidate :: "CandidateArtifactReplayState option"
  wi_candidate_completion :: "CandidateCompletionReplayState option"
  wi_acceptance :: "CandidateAcceptanceReplayState option"
  wi_reviews :: "ReviewVerdictReplayState btree"
  wi_promotion_approval :: "PromotionApprovalRequestReplayState option"
  wi_promotion :: "PromotionReplayState option"
  wi_terminal :: "WorkflowTerminalReplayState option"

subsection \<open>Issues and the replay state\<close>

datatype ReplayIssue =
    CheckpointFailed string string string
  | UnreadablePostWrite string string
  | ActivityTransitionRejected EventId string string
  | DanglingParent EventId EventId
  | TargetNotFound string
  | UnverifiedTrustSpineEvent EventId string VerificationStatus
  | UnauthorizedTrustSpineSigner EventId string string "string option" "string option" string
  | WorkflowTransitionRejected EventId string "WorkflowPhaseV1 option" string

record ReplayState =
  st_run_id :: "string option"
  st_parent_run_id :: "string option"
  st_parent_event_id :: "string option"
  st_current_unit :: "string option"
  st_parent_chain :: "EventId list"
  st_plan_cycle_phase :: string
  st_plan_admission :: "PlanAdmissionReplayState option"
  st_activities :: "RecordedActivityState btree"
  st_plan_receipt :: "PlanReceiptReplayState option"
  st_plan_acceptance :: "PlanAcceptanceReplayState option"
  st_workflow_instance :: "WorkflowInstanceV1 option"
  st_workflow_instances :: "WorkflowInstanceV1 btree"
  st_workflow_graphs :: "WorkflowGraphReplayState btree"
  st_workflow_graphs_v2 :: "WorkflowGraphV2ReplayState btree"
  st_context_manifest_declarations :: "ContextManifestDeclarationReplayState btree"
  st_worker_manifest_declarations :: "WorkerManifestDeclarationReplayState btree"
  st_sandbox_profile_declarations :: "SandboxProfileDeclarationReplayState btree"
  st_attempt_context_declarations :: "AttemptContextDeclarationReplayState btree"
  st_attempt_contexts :: "AttemptContextReplayState btree"
  st_observed_files :: "FileObservation btree"
  st_checkpoints :: "CheckpointRef list"
  st_issues :: "ReplayIssue list"

text \<open>\<open>ReplayState::default()\<close>.\<close>

definition default_state :: ReplayState where
  "default_state =
     \<lparr>st_run_id = None, st_parent_run_id = None, st_parent_event_id = None,
      st_current_unit = None, st_parent_chain = [], st_plan_cycle_phase = [],
      st_plan_admission = None, st_activities = [], st_plan_receipt = None,
      st_plan_acceptance = None, st_workflow_instance = None, st_workflow_instances = [],
      st_workflow_graphs = [], st_workflow_graphs_v2 = [],
      st_context_manifest_declarations = [], st_worker_manifest_declarations = [],
      st_sandbox_profile_declarations = [], st_attempt_context_declarations = [],
      st_attempt_contexts = [], st_observed_files = [], st_checkpoints = [], st_issues = []\<rparr>"

end
