(* ===== verification/Ledger_Event.thy ===== *)
theory Ledger_Event
  imports Lifecycle_Payloads Candidate_Payloads Promotion_Payloads
begin

text \<open>
  The event envelope, \<open>bp-ledger/src/event.rs\<close>, \<open>kind.rs\<close> and \<open>payload/mod.rs\<close>, and the
  third-party code the ledger calls. \<open>Payload\<close> has the constructors whose transitions are
  modelled; the kinds are complete.
\<close>

subsection \<open>Event kinds\<close>

datatype (plugins only: code) EventKind =
    Kind_RunStarted
  | Kind_RunCompleted
  | Kind_RunFailed
  | Kind_RunAdmissionRecorded
  | Kind_PlanAdmitted
  | Kind_PlanReceiptRecorded
  | Kind_ActivityStarted
  | Kind_ActivityCompleted
  | Kind_UnitStarted
  | Kind_UnitCompleted
  | Kind_UnitFailed
  | Kind_UnitCancelled
  | Kind_GitCheckpoint
  | Kind_ModelRequest
  | Kind_ModelResponse
  | Kind_ToolRequest
  | Kind_ToolResult
  | Kind_WorkspaceRead
  | Kind_WorkspaceWrite
  | Kind_CapabilityDenied
  | Kind_AcceptanceRecorded
  | Kind_OperatorDecisionRecorded
  | Kind_ResultReady
  | Kind_DispatchEnvelope
  | Kind_DispatchEnvelopeV2
  | Kind_DispatchEnvelopeV3
  | Kind_DispatchEnvelopeV4
  | Kind_DispatchEnvelopeV5
  | Kind_GovernedDispatchV5AdmissionRecordedV1
  | Kind_ContextManifestDeclaredV1
  | Kind_WorkerManifestDeclaredV1
  | Kind_SandboxProfileDeclaredV1
  | Kind_AttemptContextDeclaredV1
  | Kind_WorkflowGraphDeclaredV1
  | Kind_WorkflowGraphDeclaredV2
  | Kind_ActionRequestedV2
  | Kind_ModelActionIntentV1
  | Kind_ModelActionAuthorizedV1
  | Kind_ModelActionAuthorizedV2
  | Kind_ActivityClaimedV1
  | Kind_ActivityHeartbeatRecordedV1
  | Kind_ActivityResultRecordedV1
  | Kind_ActionReceiptRecordedV2
  | Kind_ActionReceiptSetRecordedV1
  | Kind_AttemptContextRecordedV1
  | Kind_CandidateCreated
  | Kind_CandidateCreatedV2
  | Kind_CandidateCompletionRecordedV1
  | Kind_CandidateAcceptanceRecorded
  | Kind_ReviewVerdictRecorded
  | Kind_ReviewVerdictRecordedV2
  | Kind_PromotionApprovalRequested
  | Kind_PromotionDecisionRecorded
  | Kind_PromotionExecutionClaimedV1
  | Kind_PromotionResultRecorded
  | Kind_PromotionReconciliationResolved
  | Kind_ReleaseEvaluationEvidenceV1
  | Kind_WorkflowTimerScheduledV1
  | Kind_WorkflowTimerFiredV1
  | Kind_WorkflowCancellationRequestedV1
  | Kind_WorkflowTerminal
  | Kind_WorkflowTerminalV2
  | Kind_TapeCheckpoint

primrec as_wire :: "EventKind \<Rightarrow> string" where
  "as_wire Kind_RunStarted = ''run_started''"
| "as_wire Kind_RunCompleted = ''run_completed''"
| "as_wire Kind_RunFailed = ''run_failed''"
| "as_wire Kind_RunAdmissionRecorded = ''run_admission_recorded''"
| "as_wire Kind_PlanAdmitted = ''plan_admitted''"
| "as_wire Kind_PlanReceiptRecorded = ''plan_receipt''"
| "as_wire Kind_ActivityStarted = ''activity_started''"
| "as_wire Kind_ActivityCompleted = ''activity_completed''"
| "as_wire Kind_UnitStarted = ''unit_started''"
| "as_wire Kind_UnitCompleted = ''unit_completed''"
| "as_wire Kind_UnitFailed = ''unit_failed''"
| "as_wire Kind_UnitCancelled = ''unit_cancelled''"
| "as_wire Kind_GitCheckpoint = ''git_checkpoint''"
| "as_wire Kind_ModelRequest = ''model_request''"
| "as_wire Kind_ModelResponse = ''model_response''"
| "as_wire Kind_ToolRequest = ''tool_request''"
| "as_wire Kind_ToolResult = ''tool_result''"
| "as_wire Kind_WorkspaceRead = ''workspace_read''"
| "as_wire Kind_WorkspaceWrite = ''workspace_write''"
| "as_wire Kind_CapabilityDenied = ''capability_denied''"
| "as_wire Kind_AcceptanceRecorded = ''acceptance_recorded''"
| "as_wire Kind_OperatorDecisionRecorded = ''operator_decision_recorded''"
| "as_wire Kind_ResultReady = ''result_ready''"
| "as_wire Kind_DispatchEnvelope = ''dispatch_envelope''"
| "as_wire Kind_DispatchEnvelopeV2 = ''dispatch_envelope_v2''"
| "as_wire Kind_DispatchEnvelopeV3 = ''dispatch_envelope_v3''"
| "as_wire Kind_DispatchEnvelopeV4 = ''dispatch_envelope_v4''"
| "as_wire Kind_DispatchEnvelopeV5 = ''dispatch_envelope_v5''"
| "as_wire Kind_GovernedDispatchV5AdmissionRecordedV1 = ''governed_dispatch_v5_admission_recorded_v1''"
| "as_wire Kind_ContextManifestDeclaredV1 = ''context_manifest_declared_v1''"
| "as_wire Kind_WorkerManifestDeclaredV1 = ''worker_manifest_declared_v1''"
| "as_wire Kind_SandboxProfileDeclaredV1 = ''sandbox_profile_declared_v1''"
| "as_wire Kind_AttemptContextDeclaredV1 = ''attempt_context_declared_v1''"
| "as_wire Kind_WorkflowGraphDeclaredV1 = ''workflow_graph_declared_v1''"
| "as_wire Kind_WorkflowGraphDeclaredV2 = ''workflow_graph_declared_v2''"
| "as_wire Kind_ActionRequestedV2 = ''action_requested_v2''"
| "as_wire Kind_ModelActionIntentV1 = ''model_action_intent_v1''"
| "as_wire Kind_ModelActionAuthorizedV1 = ''model_action_authorized_v1''"
| "as_wire Kind_ModelActionAuthorizedV2 = ''model_action_authorized_v2''"
| "as_wire Kind_ActivityClaimedV1 = ''activity_claimed_v1''"
| "as_wire Kind_ActivityHeartbeatRecordedV1 = ''activity_heartbeat_recorded_v1''"
| "as_wire Kind_ActivityResultRecordedV1 = ''activity_result_recorded_v1''"
| "as_wire Kind_ActionReceiptRecordedV2 = ''action_receipt_recorded_v2''"
| "as_wire Kind_ActionReceiptSetRecordedV1 = ''action_receipt_set_recorded_v1''"
| "as_wire Kind_AttemptContextRecordedV1 = ''attempt_context_recorded_v1''"
| "as_wire Kind_CandidateCreated = ''candidate_created''"
| "as_wire Kind_CandidateCreatedV2 = ''candidate_created_v2''"
| "as_wire Kind_CandidateCompletionRecordedV1 = ''candidate_completion_recorded_v1''"
| "as_wire Kind_CandidateAcceptanceRecorded = ''candidate_acceptance_recorded''"
| "as_wire Kind_ReviewVerdictRecorded = ''review_verdict_recorded''"
| "as_wire Kind_ReviewVerdictRecordedV2 = ''review_verdict_recorded_v2''"
| "as_wire Kind_PromotionApprovalRequested = ''promotion_approval_requested''"
| "as_wire Kind_PromotionDecisionRecorded = ''promotion_decision_recorded''"
| "as_wire Kind_PromotionExecutionClaimedV1 = ''promotion_execution_claimed_v1''"
| "as_wire Kind_PromotionResultRecorded = ''promotion_result_recorded''"
| "as_wire Kind_PromotionReconciliationResolved = ''promotion_reconciliation_resolved''"
| "as_wire Kind_ReleaseEvaluationEvidenceV1 = ''release_evaluation_evidence_v1''"
| "as_wire Kind_WorkflowTimerScheduledV1 = ''workflow_timer_scheduled_v1''"
| "as_wire Kind_WorkflowTimerFiredV1 = ''workflow_timer_fired_v1''"
| "as_wire Kind_WorkflowCancellationRequestedV1 = ''workflow_cancellation_requested_v1''"
| "as_wire Kind_WorkflowTerminal = ''workflow_terminal''"
| "as_wire Kind_WorkflowTerminalV2 = ''workflow_terminal_v2''"
| "as_wire Kind_TapeCheckpoint = ''tape_checkpoint''"

subsection \<open>Payloads and events\<close>

datatype (plugins only: code) Payload =
    Payload_RunStartedV1 RunStartedV1
  | Payload_RunCompletedV1 RunCompletedV1
  | Payload_RunFailedV1 RunFailedV1
  | Payload_ResultReadyV1 ResultReadyV1
  | Payload_RunAdmissionRecordedV1 RunAdmissionRecordedV1
  | Payload_PlanAdmittedV1 PlanAdmittedV1
  | Payload_PlanReceiptRecordedV1 PlanReceiptRecordedV1
  | Payload_ActivityStartedV1 ActivityStartedV1
  | Payload_ActivityCompletedV1 ActivityCompletedV1
  | Payload_UnitStartedV1 UnitStartedV1
  | Payload_UnitCompletedV1 UnitCompletedV1
  | Payload_UnitFailedV1 UnitFailedV1
  | Payload_UnitCancelledV1 UnitCancelledV1
  | Payload_GitCheckpointV1 GitCheckpointV1
  | Payload_ModelRequestV1 ModelRequestV1
  | Payload_ModelResponseV1 ModelResponseV1
  | Payload_ToolRequestStoredV1 ToolRequestStoredV1
  | Payload_ToolResultV1 ToolResultV1
  | Payload_WorkspaceReadV1 WorkspaceReadV1
  | Payload_WorkspaceWriteV1 WorkspaceWriteV1
  | Payload_TapeCheckpointV1 TapeCheckpointV1
  | Payload_CapabilityDeniedV1 CapabilityDeniedV1
  | Payload_AcceptanceRecordedV1 AcceptanceRecordedV1
  | Payload_OperatorDecisionRecordedV1 OperatorDecisionRecordedV1
  | Payload_DispatchEnvelopeV1 DispatchEnvelopeV1
  | Payload_DispatchEnvelopeV2 DispatchEnvelopeV2
  | Payload_DispatchEnvelopeV3 DispatchEnvelopeV3
  | Payload_WorkflowGraphDeclaredV1 WorkflowGraphDeclaredV1
  | Payload_WorkflowGraphDeclaredV2 WorkflowGraphDeclaredV2
  | Payload_CandidateCreatedV1 CandidateCreatedV1
  | Payload_CandidateAcceptanceRecordedV1 CandidateAcceptanceRecordedV1
  | Payload_ReviewVerdictRecordedV1 ReviewVerdictRecordedV1
  | Payload_PromotionApprovalRequestedV1 PromotionApprovalRequestedV1
  | Payload_PromotionDecisionRecordedV1 PromotionDecisionRecordedV1
  | Payload_PromotionExecutionClaimedV1 PromotionExecutionClaimedV1
  | Payload_PromotionResultRecordedV1 PromotionResultRecordedV1
  | Payload_PromotionReconciliationResolvedV1 PromotionReconciliationResolvedV1
  | Payload_WorkflowTimerScheduledV1 WorkflowTimerScheduledV1
  | Payload_WorkflowTimerFiredV1 WorkflowTimerFiredV1
  | Payload_WorkflowCancellationRequestedV1 WorkflowCancellationRequestedV1
  | Payload_WorkflowTerminalV1 WorkflowTerminalV1
  | Payload_WorkflowTerminalV2 WorkflowTerminalV2

record Event =
  ev_id :: EventId
  ev_run_id :: RunId
  ev_parent_event_id :: "EventId option"
  ev_schema_version :: u32
  ev_kind :: EventKind
  ev_occurred_at :: instant
  ev_payload :: Payload

definition current_schema_version :: u32 where
  "current_schema_version = 1"

definition kind_str :: "Event \<Rightarrow> string" where
  "kind_str e = as_wire (ev_kind e)"

subsection \<open>Third-party code\<close>

text \<open>
  The crates the source calls, as one record of functions that every definition using them takes
  as its first argument: \<open>uuid\<close> (the textual form of an identifier), \<open>chrono\<close> (RFC3339 parsing,
  an instant in nanoseconds), \<open>sha2\<close> (SHA-256 as lower-case hex) and \<open>serde_json::to_vec\<close> on each
  type the source serializes, whose error is rendered as text. The serializers of the digest
  materials take the fields of the material struct in order.
\<close>

record env =
  uuid_to_string :: "uuid \<Rightarrow> string"
  parse_from_rfc3339 :: "string \<Rightarrow> instant option"
  sha256_hex :: "string \<Rightarrow> string"
  to_vec_event :: "Event \<Rightarrow> (string, string) result"
  to_vec_dispatch_body_v2 :: "DispatchEnvelopeBodyV2 \<Rightarrow> (string, string) result"
  to_vec_dispatch_v3_material :: "DispatchEnvelopeBodyV2 \<times> ActionEvidenceVersionV1 \<times> string \<times> string \<times> string option \<Rightarrow> (string, string) result"
  to_vec_graph_v1_material :: "string \<times> string \<times> string \<times> WorkflowGraphNodeV1 list \<times> u32 \<Rightarrow> (string, string) result"
  to_vec_graph_v2_material :: "string \<times> string \<times> string \<times> WorkflowGraphNodeV2 list \<times> u32 \<Rightarrow> (string, string) result"
  to_vec_promotion_claim_material :: "PromotionExecutionClaimedV1 \<Rightarrow> (string, string) result"

end
