(* ===== verification/Canonical_Refs.thy ===== *)
theory Canonical_Refs
  imports Prelude
begin

text \<open>
  The textual grammars that authority records must meet, \<open>bp-ledger/src/canonicalize.rs\<close> (the
  reducer in \<open>bp-replay/src/transitions.rs\<close> carries the same predicates): Git refs of the
  Buildplane namespaces, branch refs, Git object ids, SHA-256 digests, actors, and UTC
  timestamps. The lemmas show that a ref accepted by a predicate is a sequence of plain path
  segments, so it cannot escape its namespace.
\<close>

definition is_lower_hex :: "char \<Rightarrow> bool" where
  "is_lower_hex c \<longleftrightarrow> is_ascii_digit c \<or> 97 \<le> byte c \<and> byte c \<le> 102"

definition is_canonical_sha256_digest :: "string \<Rightarrow> bool" where
  "is_canonical_sha256_digest value \<longleftrightarrow>
     length value = 71 \<and> starts_with ''sha256:'' value \<and> list_all is_lower_hex (drop 7 value)"

definition is_canonical_git_object_id :: "string \<Rightarrow> bool" where
  "is_canonical_git_object_id value \<longleftrightarrow>
     (length value = 40 \<or> length value = 64) \<and> list_all is_lower_hex value"

text \<open>\<open>value.trim() == value\<close>: no white space at either end.\<close>

definition is_trimmed :: "string \<Rightarrow> bool" where
  "is_trimmed s \<longleftrightarrow>
     (case s of a # _ \<Rightarrow> \<not> is_space1 a | [] \<Rightarrow> True) \<and>
     (case s of a # b # _ \<Rightarrow> \<not> is_space2 a b | _ \<Rightarrow> True) \<and>
     (case s of a # b # c # _ \<Rightarrow> \<not> is_space3 a b c | _ \<Rightarrow> True) \<and>
     (case rev s of a # _ \<Rightarrow> \<not> is_space1 a | [] \<Rightarrow> True) \<and>
     (case rev s of b # a # _ \<Rightarrow> \<not> is_space2 a b | _ \<Rightarrow> True) \<and>
     (case rev s of c # b # a # _ \<Rightarrow> \<not> is_space3 a b c | _ \<Rightarrow> True)"

definition is_canonical_authority_actor :: "string \<Rightarrow> bool" where
  "is_canonical_authority_actor value \<longleftrightarrow>
     value \<noteq> [] \<and> is_trimmed value \<and>
     list_all (\<lambda>c. is_ascii_alphanumeric c \<or> c \<in> set '':._-/'') value"

fun segment_bytes_ok :: "string \<Rightarrow> bool" where
  "segment_bytes_ok [] = True"
| "segment_bytes_ok (c # cs) =
     (is_ascii_alphanumeric c \<and> list_all (\<lambda>b. is_ascii_alphanumeric b \<or> b \<in> set ''._-'') cs)"

definition ref_segment_ok :: "string \<Rightarrow> bool" where
  "ref_segment_ok segment \<longleftrightarrow>
     segment \<noteq> [] \<and> \<not> starts_with ''.'' segment \<and> \<not> ends_with ''.'' segment \<and>
     \<not> ends_with ''.lock'' segment \<and> segment_bytes_ok segment"

definition is_canonical_buildplane_ref_suffix :: "string \<Rightarrow> string \<Rightarrow> bool" where
  "is_canonical_buildplane_ref_suffix reference suffix \<longleftrightarrow>
     (if suffix = [] \<or> \<not> is_ascii reference
         \<or> list_ex (\<lambda>b. is_ascii_whitespace b \<or> is_ascii_control b) reference
         \<or> contains ''..'' reference \<or> contains ''//'' reference \<or> contains [CHR ''@'', CHR 0x7B] reference
      then False
      else list_all ref_segment_ok (split_on CHR ''/'' suffix))"

definition candidate_ref_prefix :: string where
  "candidate_ref_prefix = ''refs/buildplane/candidates/''"

definition promotion_ref_prefix :: string where
  "promotion_ref_prefix = ''refs/buildplane/promotions/''"

definition is_canonical_buildplane_candidate_ref :: "string \<Rightarrow> bool" where
  "is_canonical_buildplane_candidate_ref candidate_ref =
     (case strip_prefix candidate_ref_prefix candidate_ref of
        None \<Rightarrow> False
      | Some suffix \<Rightarrow> is_canonical_buildplane_ref_suffix candidate_ref suffix)"

definition is_canonical_buildplane_promotion_receipt_ref :: "string \<Rightarrow> bool" where
  "is_canonical_buildplane_promotion_receipt_ref receipt_ref =
     (case strip_prefix promotion_ref_prefix receipt_ref of
        None \<Rightarrow> False
      | Some suffix \<Rightarrow> is_canonical_buildplane_ref_suffix receipt_ref suffix)"

definition branch_component_ok :: "string \<Rightarrow> bool" where
  "branch_component_ok component \<longleftrightarrow>
     component \<noteq> [] \<and> \<not> starts_with ''.'' component \<and> \<not> ends_with ''.'' component \<and>
     component \<noteq> ''@'' \<and>
     list_all (\<lambda>c. is_ascii_alphanumeric c \<or> c \<in> set ''-_.@'') component"

definition is_canonical_target_ref :: "string \<Rightarrow> bool" where
  "is_canonical_target_ref value =
     (case strip_prefix ''refs/heads/'' value of
        None \<Rightarrow> False
      | Some branch \<Rightarrow>
          if branch = [] \<or> ends_with ''/'' branch \<or> ends_with ''.'' branch
             \<or> ends_with ''.lock'' branch \<or> contains ''..'' branch \<or> contains ''//'' branch
             \<or> contains [CHR ''@'', CHR 0x7B] branch
          then False
          else list_all branch_component_ok (split_on CHR ''/'' branch))"

subsection \<open>What an accepted ref looks like\<close>

text \<open>
  A plain segment is a path component that names a child of its directory: it is not empty, does
  not begin with a dot (so it is neither the current nor the parent directory) and has no
  separator.
\<close>

definition plain_segment :: "string \<Rightarrow> bool" where
  "plain_segment s \<longleftrightarrow>
     s \<noteq> [] \<and> hd s \<noteq> CHR ''.'' \<and> last s \<noteq> CHR ''.'' \<and> CHR ''/'' \<notin> set s \<and>
     (\<forall>c \<in> set s. 33 \<le> byte c \<and> byte c \<le> 126)"

lemma alphanumeric_printable: "is_ascii_alphanumeric c \<Longrightarrow> 33 \<le> byte c \<and> byte c \<le> 126"
  by (auto simp: is_ascii_alphanumeric_def is_ascii_digit_def)

lemma hd_not_dot: "s \<noteq> [] \<Longrightarrow> \<not> starts_with ''.'' s \<Longrightarrow> hd s \<noteq> CHR ''.''"
  by (cases s) (auto simp: starts_with_iff)

lemma last_not_dot: "s \<noteq> [] \<Longrightarrow> \<not> ends_with ''.'' s \<Longrightarrow> last s \<noteq> CHR ''.''"
  by (metis append_butlast_last_id ends_with_iff)

lemma segment_bytes_ok_printable:
  "segment_bytes_ok s \<Longrightarrow> c \<in> set s \<Longrightarrow> 33 \<le> byte c \<and> byte c \<le> 126"
  by (cases s) (auto simp: list_all_iff dest: alphanumeric_printable)

lemma ref_segment_plain:
  assumes "ref_segment_ok s" and "s \<in> set (split_on CHR ''/'' t)"
  shows "plain_segment s"
  using assms set_split_on [OF assms(2)]
  by (auto simp: ref_segment_ok_def plain_segment_def hd_not_dot last_not_dot
      dest: segment_bytes_ok_printable)

lemma branch_component_plain:
  assumes "branch_component_ok s" and "s \<in> set (split_on CHR ''/'' t)"
  shows "plain_segment s"
  using assms set_split_on [OF assms(2)]
  by (auto simp: branch_component_ok_def plain_segment_def hd_not_dot last_not_dot list_all_iff
      dest: alphanumeric_printable)

text \<open>The shape of every accepted ref: a fixed namespace followed by plain segments.\<close>

definition plain_path :: "string \<Rightarrow> string \<Rightarrow> bool" where
  "plain_path prefix s \<longleftrightarrow>
     (\<exists>segs. segs \<noteq> [] \<and> s = prefix @ join_with ''/'' segs \<and> list_all plain_segment segs)"

lemma plain_path_split:
  assumes "list_all P (split_on CHR ''/'' t)"
    and "\<And>s. P s \<Longrightarrow> s \<in> set (split_on CHR ''/'' t) \<Longrightarrow> plain_segment s"
  shows "plain_path p (p @ t)"
  unfolding plain_path_def
  using assms by (intro exI [of _ "split_on CHR ''/'' t"]) (simp add: join_split_on list_all_iff)

lemma candidate_ref_plain:
  assumes "is_canonical_buildplane_candidate_ref s"
  shows "plain_path candidate_ref_prefix s"
proof -
  obtain t where "s = candidate_ref_prefix @ t" and "list_all ref_segment_ok (split_on CHR ''/'' t)"
    using assms
    by (auto simp: is_canonical_buildplane_candidate_ref_def is_canonical_buildplane_ref_suffix_def
        strip_prefix_Some_iff split: option.splits if_splits)
  then show ?thesis using plain_path_split ref_segment_plain by metis
qed

lemma promotion_ref_plain:
  assumes "is_canonical_buildplane_promotion_receipt_ref s"
  shows "plain_path promotion_ref_prefix s"
proof -
  obtain t where "s = promotion_ref_prefix @ t" and "list_all ref_segment_ok (split_on CHR ''/'' t)"
    using assms
    by (auto simp: is_canonical_buildplane_promotion_receipt_ref_def
        is_canonical_buildplane_ref_suffix_def strip_prefix_Some_iff split: option.splits if_splits)
  then show ?thesis using plain_path_split ref_segment_plain by metis
qed

lemma target_ref_plain:
  assumes "is_canonical_target_ref s"
  shows "plain_path ''refs/heads/'' s"
proof -
  obtain t where "s = ''refs/heads/'' @ t" and "list_all branch_component_ok (split_on CHR ''/'' t)"
    using assms
    by (auto simp: is_canonical_target_ref_def strip_prefix_Some_iff
        split: option.splits if_splits)
  then show ?thesis using plain_path_split branch_component_plain by metis
qed

lemma namespaces_disjoint:
  "plain_path candidate_ref_prefix s \<Longrightarrow> \<not> plain_path ''refs/heads/'' s"
  "plain_path promotion_ref_prefix s \<Longrightarrow> \<not> plain_path ''refs/heads/'' s"
  "plain_path candidate_ref_prefix s \<Longrightarrow> \<not> plain_path promotion_ref_prefix s"
  by (auto simp: plain_path_def candidate_ref_prefix_def promotion_ref_prefix_def)

lemma sha256_digest_not_blank: "is_canonical_sha256_digest s \<Longrightarrow> s \<noteq> []"
  by (auto simp: is_canonical_sha256_digest_def)

end
