(* ===== verification/Workflow_Graph.thy ===== *)
theory Workflow_Graph
  imports Prelude
begin

text \<open>
  Cycle detection over a declared workflow graph, \<open>workflow_graph_has_cycle\<close> and
  \<open>workflow_graph_v2_has_cycle\<close> of \<open>bp-ledger/src/canonicalize.rs\<close>: Kahn's algorithm with a work
  queue. Both functions read only the unit id and the dependencies of a node, so the model works
  on pairs of the two. The result is \<open>None\<close> where the Rust code panics (a dependent without an
  in-degree, or an in-degree that would drop below zero).
\<close>

type_synonym topology = "(string \<times> string list) list"

fun graph_in_degree :: "topology \<Rightarrow> nat btree \<Rightarrow> nat btree" where
  "graph_in_degree [] deg = deg"
| "graph_in_degree ((u, ds) # nodes) deg = graph_in_degree nodes (bt_insert u (length ds) deg)"

definition push_dependent :: "string \<Rightarrow> string \<Rightarrow> string list btree \<Rightarrow> string list btree" where
  "push_dependent u d m = bt_insert d ((case bt_get m d of None \<Rightarrow> [] | Some us \<Rightarrow> us) @ [u]) m"

fun graph_dependents :: "topology \<Rightarrow> string list btree \<Rightarrow> string list btree" where
  "graph_dependents [] m = m"
| "graph_dependents ((u, ds) # nodes) m = graph_dependents nodes (fold (push_dependent u) ds m)"

fun relax :: "string list \<Rightarrow> nat btree \<Rightarrow> string list \<Rightarrow> (nat btree \<times> string list) option" where
  "relax [] deg ready = Some (deg, ready)"
| "relax (k # ks) deg ready =
     (case bt_get deg k of
        Some (Suc n) \<Rightarrow> relax ks (bt_insert k n deg) (if n = 0 then ready @ [k] else ready)
      | _ \<Rightarrow> None)"

text \<open>
  The loop ends because every round takes one node off the queue, and a node only enters the
  queue when its in-degree is spent.
\<close>

definition degree_sum :: "nat btree \<Rightarrow> nat" where
  "degree_sum deg = (\<Sum>k \<in> fst ` set deg. case bt_get deg k of None \<Rightarrow> 0 | Some n \<Rightarrow> n)"

lemma bt_get_key: "bt_get m k = Some v \<Longrightarrow> k \<in> fst ` set m"
  by (auto simp: bt_get_def dest: map_of_SomeD intro: rev_image_eqI)

lemma degree_sum_insert:
  assumes "bt_get deg k = Some (Suc n)"
  shows "degree_sum deg = Suc (degree_sum (bt_insert k n deg))"
proof -
  let ?K = "fst ` set deg" and ?val = "\<lambda>m j. case bt_get m j of None \<Rightarrow> 0 | Some n \<Rightarrow> (n::nat)"
  have k: "k \<in> ?K" using assms by (rule bt_get_key)
  then have keys: "fst ` set (bt_insert k n deg) = ?K" by (simp add: keys_bt_insert insert_absorb)
  have "(\<Sum>j \<in> ?K - {k}. ?val deg j) = (\<Sum>j \<in> ?K - {k}. ?val (bt_insert k n deg) j)"
    by (rule sum.cong) auto
  then show ?thesis
    unfolding degree_sum_def keys using assms k by (simp add: sum.remove [OF _ k])
qed

lemma relax_measure:
  "relax ks deg ready = Some (deg', ready') \<Longrightarrow>
     degree_sum deg' + length ready' \<le> degree_sum deg + length ready"
proof (induction ks deg ready rule: relax.induct)
  case (1 deg ready)
  then show ?case by simp
next
  case (2 k ks deg ready)
  then obtain n where n: "bt_get deg k = Some (Suc n)"
    and r: "relax ks (bt_insert k n deg) (if n = 0 then ready @ [k] else ready) = Some (deg', ready')"
    by (auto split: option.splits nat.splits)
  from 2(1) [OF n _ r] degree_sum_insert [OF n] show ?case by (auto split: if_splits)
qed

function kahn_loop :: "string list btree \<Rightarrow> nat \<Rightarrow> nat btree \<Rightarrow> string list \<Rightarrow> nat option" where
  "kahn_loop dependents visited deg [] = Some visited"
| "kahn_loop dependents visited deg (u # ready) =
     (case relax (case bt_get dependents u of None \<Rightarrow> [] | Some ks \<Rightarrow> ks) deg ready of
        None \<Rightarrow> None
      | Some (deg', ready') \<Rightarrow> kahn_loop dependents (Suc visited) deg' ready')"
  by pat_completeness auto
termination
proof (relation "measure (\<lambda>(_, _, deg, ready). degree_sum deg + length ready)", goal_cases)
  case 1
  show ?case by simp
next
  case (2 dependents visited deg u ready p deg' ready')
  then have "relax (case bt_get dependents u of None \<Rightarrow> [] | Some ks \<Rightarrow> ks) deg ready = Some (deg', ready')"
    by simp
  from relax_measure [OF this] show ?case by simp
qed

definition graph_has_cycle :: "topology \<Rightarrow> bool option" where
  "graph_has_cycle nodes =
     (let deg = graph_in_degree nodes [];
          dependents = graph_dependents nodes [];
          ready = map fst (filter (\<lambda>(_, d). d = 0) (bt_entries deg))
      in map_option (\<lambda>visited. visited \<noteq> length nodes) (kahn_loop dependents 0 deg ready))"

subsection \<open>The graph the checks admit\<close>

text \<open>
  The declaration validators call cycle detection only on graphs with distinct unit ids whose
  dependencies are distinct and name declared units.
\<close>

definition node_ids :: "topology \<Rightarrow> string set" where
  "node_ids nodes = fst ` set nodes"

definition deps :: "topology \<Rightarrow> string \<Rightarrow> string set" where
  "deps nodes k = (case map_of nodes k of None \<Rightarrow> {} | Some ds \<Rightarrow> set ds)"

definition closed_graph :: "topology \<Rightarrow> bool" where
  "closed_graph nodes \<longleftrightarrow>
     distinct (map fst nodes) \<and> (\<forall>(u, ds) \<in> set nodes. distinct ds \<and> set ds \<subseteq> node_ids nodes)"

definition dependency_rel :: "topology \<Rightarrow> (string \<times> string) set" where
  "dependency_rel nodes = {(d, k). k \<in> node_ids nodes \<and> d \<in> deps nodes k}"

lemma deps_subset: "closed_graph nodes \<Longrightarrow> deps nodes k \<subseteq> node_ids nodes"
proof (cases "map_of nodes k")
  case None
  then show ?thesis by (simp add: deps_def)
next
  case (Some ds)
  assume "closed_graph nodes"
  moreover have "(k, ds) \<in> set nodes" using Some by (rule map_of_SomeD)
  ultimately have "set ds \<subseteq> node_ids nodes" by (auto simp: closed_graph_def)
  with Some show ?thesis by (simp add: deps_def)
qed

lemma finite_deps [simp]: "finite (deps nodes k)"
  by (simp add: deps_def split: option.splits)

lemma graph_in_degree_get:
  "distinct (map fst nodes) \<Longrightarrow>
     bt_get (graph_in_degree nodes deg) k =
       (case map_of nodes k of None \<Rightarrow> bt_get deg k | Some ds \<Rightarrow> Some (length ds))"
proof (induction nodes deg rule: graph_in_degree.induct)
  case (1 deg)
  then show ?case by simp
next
  case (2 u ds nodes deg)
  then have "map_of nodes u = None" by (simp add: map_of_eq_None_iff)
  with 2 show ?case by (auto split: option.splits)
qed

lemma graph_in_degree_invar: "bt_invar deg \<Longrightarrow> bt_invar (graph_in_degree nodes deg)"
  by (induction nodes deg rule: graph_in_degree.induct) simp_all

definition dependents_of :: "string list btree \<Rightarrow> string \<Rightarrow> string list" where
  "dependents_of m d = (case bt_get m d of None \<Rightarrow> [] | Some us \<Rightarrow> us)"

lemma push_dependents:
  "distinct ds \<Longrightarrow>
     dependents_of (fold (push_dependent u) ds m) d = dependents_of m d @ (if d \<in> set ds then [u] else [])"
  by (induction ds arbitrary: m) (auto simp: dependents_of_def push_dependent_def)

lemma graph_dependents_of:
  "\<forall>(u, ds) \<in> set nodes. distinct ds \<Longrightarrow>
     dependents_of (graph_dependents nodes m) d =
       dependents_of m d @ map fst (filter (\<lambda>(u, ds). d \<in> set ds) nodes)"
  by (induction nodes m rule: graph_dependents.induct) (auto simp: push_dependents)

lemma dependents_list:
  assumes "closed_graph nodes"
  shows "dependents_of (graph_dependents nodes []) d = map fst (filter (\<lambda>(u, ds). d \<in> set ds) nodes)"
proof -
  have ds: "\<forall>(u, ds) \<in> set nodes. distinct ds" using assms by (auto simp: closed_graph_def)
  have "dependents_of [] d = []" by (simp add: dependents_of_def)
  with graph_dependents_of [OF ds, of "[]"] show ?thesis by simp
qed

lemma dependents_distinct:
  assumes "closed_graph nodes"
  shows "distinct (dependents_of (graph_dependents nodes []) d)"
proof -
  have "distinct (map fst nodes)" using assms by (simp add: closed_graph_def)
  then have "distinct (map fst (filter P nodes))" for P by (simp add: distinct_map_filter)
  then show ?thesis by (simp add: dependents_list [OF assms])
qed

lemma dependents_set:
  assumes "closed_graph nodes"
  shows "k \<in> set (dependents_of (graph_dependents nodes []) d) \<longleftrightarrow> d \<in> deps nodes k"
proof -
  have dist: "distinct (map fst nodes)" using assms by (simp add: closed_graph_def)
  have "k \<in> set (dependents_of (graph_dependents nodes []) d) \<longleftrightarrow> (\<exists>es. (k, es) \<in> set nodes \<and> d \<in> set es)"
    by (auto simp: dependents_list [OF assms] image_iff)
  also have "\<dots> \<longleftrightarrow> (\<exists>es. map_of nodes k = Some es \<and> d \<in> set es)"
    using dist by simp
  also have "\<dots> \<longleftrightarrow> d \<in> deps nodes k"
    by (simp add: deps_def split: option.splits)
  finally show ?thesis .
qed

lemma deps_node: "d \<in> deps nodes k \<Longrightarrow> k \<in> node_ids nodes"
  by (auto simp: deps_def node_ids_def split: option.splits dest: map_of_SomeD intro: rev_image_eqI)

subsection \<open>The loop visits exactly the nodes above no cycle\<close>

lemma relax_spec:
  assumes "distinct ks" and "\<forall>k \<in> set ks. \<exists>n. bt_get deg k = Some (Suc n)"
  shows "\<exists>deg'. relax ks deg ready = Some (deg', ready @ filter (\<lambda>k. bt_get deg k = Some 1) ks) \<and>
      (\<forall>j. bt_get deg' j = (if j \<in> set ks then map_option (\<lambda>n. n - 1) (bt_get deg j) else bt_get deg j))"
  using assms
proof (induction ks arbitrary: deg ready)
  case Nil
  then show ?case by simp
next
  case (Cons k ks)
  obtain n where n: "bt_get deg k = Some (Suc n)" using Cons.prems by auto
  let ?deg = "bt_insert k n deg" and ?ready = "if n = 0 then ready @ [k] else ready"
  have other: "bt_get ?deg j = bt_get deg j" if "j \<in> set ks" for j
    using that Cons.prems(1) by auto
  have "\<forall>j \<in> set ks. \<exists>n. bt_get ?deg j = Some (Suc n)"
    using Cons.prems other by auto
  with Cons.prems(1) obtain deg' where r: "relax ks ?deg ?ready = Some (deg', ?ready @ filter (\<lambda>j. bt_get ?deg j = Some 1) ks)"
    and d: "\<forall>j. bt_get deg' j = (if j \<in> set ks then map_option (\<lambda>n. n - 1) (bt_get ?deg j) else bt_get ?deg j)"
    using Cons.IH [of ?deg ?ready] by auto
  have "filter (\<lambda>j. bt_get ?deg j = Some 1) ks = filter (\<lambda>j. bt_get deg j = Some 1) ks"
    using other by (intro filter_cong) auto
  with r n have "relax (k # ks) deg ready = Some (deg', ready @ filter (\<lambda>j. bt_get deg j = Some 1) (k # ks))"
    by auto
  moreover have "bt_get deg' j = (if j \<in> set (k # ks) then map_option (\<lambda>n. n - 1) (bt_get deg j) else bt_get deg j)" for j
    using d n Cons.prems(1) by auto
  ultimately show ?case by blast
qed

definition kahn_inv :: "topology \<Rightarrow> string list \<Rightarrow> nat btree \<Rightarrow> string list \<Rightarrow> bool" where
  "kahn_inv nodes V deg ready \<longleftrightarrow>
     (\<forall>k. bt_get deg k = (if k \<in> node_ids nodes then Some (card (deps nodes k - set V)) else None)) \<and>
     distinct (V @ ready) \<and> set V \<subseteq> node_ids nodes \<and>
     (\<forall>k. k \<in> set ready \<longleftrightarrow> k \<in> node_ids nodes \<and> k \<notin> set V \<and> deps nodes k \<subseteq> set V) \<and>
     (\<forall>ys k zs. V = ys @ k # zs \<longrightarrow> deps nodes k \<subseteq> set ys)"

lemma kahn_inv_order: "kahn_inv nodes (ys @ k # zs) deg ready \<Longrightarrow> deps nodes k \<subseteq> set ys"
  by (simp add: kahn_inv_def)

lemma card_one_visit:
  assumes "u \<in> D" and "u \<notin> S" and "finite D"
  shows "card (D - S) = Suc (card (D - insert u S))"
    and "card (D - S) = 1 \<longleftrightarrow> D \<subseteq> insert u S"
proof -
  have eq: "D - S = insert u (D - insert u S)" and notin: "u \<notin> D - insert u S" using assms by auto
  show 1: "card (D - S) = Suc (card (D - insert u S))"
    using assms(3) by (subst eq) (simp add: card_insert_disjoint)
  show "card (D - S) = 1 \<longleftrightarrow> D \<subseteq> insert u S" using 1 assms(3) by auto
qed

lemma kahn_step:
  assumes closed: "closed_graph nodes" and inv: "kahn_inv nodes V deg (u # ready)"
  shows "\<exists>deg' ready'. relax (dependents_of (graph_dependents nodes []) u) deg ready = Some (deg', ready') \<and>
      kahn_inv nodes (V @ [u]) deg' ready'"
proof -
  let ?ks = "dependents_of (graph_dependents nodes []) u"
  note ks = dependents_set [OF closed, of _ u] and node = deps_node
  have u: "u \<notin> set V" "deps nodes u \<subseteq> set V" "u \<in> node_ids nodes" using inv by (auto simp: kahn_inv_def)
  have get: "bt_get deg k = (if k \<in> node_ids nodes then Some (card (deps nodes k - set V)) else None)" for k
    using inv by (auto simp: kahn_inv_def)
  have visit: "card (deps nodes k - set V) = Suc (card (deps nodes k - set (V @ [u])))"
    "card (deps nodes k - set V) = 1 \<longleftrightarrow> deps nodes k \<subseteq> set (V @ [u])" if "k \<in> set ?ks" for k
    using card_one_visit [of u "deps nodes k" "set V"] that ks u(1) by simp_all
  have "\<forall>k \<in> set ?ks. \<exists>n. bt_get deg k = Some (Suc n)"
    using visit(1) get ks node by auto
  from relax_spec [OF dependents_distinct [OF closed] this, of ready] obtain deg' where
    r: "relax ?ks deg ready = Some (deg', ready @ filter (\<lambda>k. bt_get deg k = Some 1) ?ks)" (is "_ = Some (_, ?ready')")
    and d: "\<And>j. bt_get deg' j = (if j \<in> set ?ks then map_option (\<lambda>n. n - 1) (bt_get deg j) else bt_get deg j)"
    by blast
  have same: "deps nodes k - set (V @ [u]) = deps nodes k - set V" if "k \<notin> set ?ks" for k
    using that ks by auto
  have deg': "bt_get deg' k = (if k \<in> node_ids nodes then Some (card (deps nodes k - set (V @ [u]))) else None)" for k
    using d [of k] get [of k] visit(1) [of k] same [of k] by (cases "k \<in> set ?ks") auto
  have ready: "k \<in> set (u # ready) \<longleftrightarrow> k \<in> node_ids nodes \<and> k \<notin> set V \<and> deps nodes k \<subseteq> set V" for k
    using inv by (auto simp: kahn_inv_def)
  have topo_V: "deps nodes k \<subseteq> set ys" if "V = ys @ k # zs" for ys k zs
    using inv that by (simp add: kahn_inv_def)
  have closed_V: "deps nodes k \<subseteq> set V" if "k \<in> set V" for k
    using split_list [OF that] topo_V by fastforce
  have distV: "distinct V" "distinct (u # ready)" "set V \<inter> set (u # ready) = {}"
    using inv by (auto simp: kahn_inv_def)
  have new: "k \<notin> set V" "k \<noteq> u" "k \<notin> set ready" "k \<in> node_ids nodes" if "k \<in> set ?ks" for k
    using that ks [of k] u ready [of k] closed_V [of k] node by auto
  have ready': "k \<in> set ?ready' \<longleftrightarrow> k \<in> set ready \<or> k \<in> set ?ks \<and> deps nodes k \<subseteq> set (V @ [u])" for k
    using get [of k] visit(2) [of k] new(4) [of k] by auto
  have fresh: "k \<in> set ?ready' \<longleftrightarrow> k \<in> node_ids nodes \<and> k \<notin> set (V @ [u]) \<and> deps nodes k \<subseteq> set (V @ [u])" for k
  proof (cases "k \<in> set ?ks")
    case True
    with ready' new [OF True] show ?thesis by auto
  next
    case False
    then have "u \<notin> deps nodes k" using ks by blast
    with False ready' [of k] ready [of k] distV(2) show ?thesis by auto
  qed
  have dist: "distinct ((V @ [u]) @ ?ready')"
    using distV new dependents_distinct [OF closed, of u] by auto
  have topo: "deps nodes k \<subseteq> set ys" if "V @ [u] = ys @ k # zs" for ys k zs
    using that u(2) topo_V by (cases zs rule: rev_cases) auto
  have sub: "set (V @ [u]) \<subseteq> node_ids nodes" using u(3) inv by (auto simp: kahn_inv_def)
  have "kahn_inv nodes (V @ [u]) deg' ?ready'"
    unfolding kahn_inv_def using deg' dist sub fresh topo by (intro conjI allI impI)
  with r show ?thesis by blast
qed

lemma kahn_loop_visits:
  assumes "closed_graph nodes" and "kahn_inv nodes V deg ready"
  shows "\<exists>W deg'. kahn_loop (graph_dependents nodes []) (length V) deg ready = Some (length W) \<and>
      kahn_inv nodes W deg' []"
  using assms(2)
proof (induction "graph_dependents nodes []" "length V" deg ready arbitrary: V rule: kahn_loop.induct)
  case (1 deg)
  then show ?case by auto
next
  case (2 deg u ready)
  from kahn_step [OF assms(1) 2(2)] obtain deg' ready' where
    r: "relax (dependents_of (graph_dependents nodes []) u) deg ready = Some (deg', ready')"
    and inv: "kahn_inv nodes (V @ [u]) deg' ready'" by blast
  from r [unfolded dependents_of_def] 2(1) [OF _ _ _ inv]
  show ?case by (simp split: option.splits)
qed

lemma kahn_inv_start:
  assumes closed: "closed_graph nodes"
  shows "kahn_inv nodes [] (graph_in_degree nodes [])
      (map fst (filter (\<lambda>(_, d). d = 0) (bt_entries (graph_in_degree nodes []))))"
    (is "kahn_inv nodes [] ?deg ?ready")
proof -
  have dist: "distinct (map fst nodes)" and each: "\<And>u ds. (u, ds) \<in> set nodes \<Longrightarrow> distinct ds"
    using closed by (auto simp: closed_graph_def)
  have inv: "bt_invar ?deg" by (simp add: graph_in_degree_invar)
  have get: "bt_get ?deg k = (if k \<in> node_ids nodes then Some (card (deps nodes k)) else None)" for k
  proof (cases "map_of nodes k")
    case None
    then have "k \<notin> node_ids nodes" by (simp add: node_ids_def map_of_eq_None_iff)
    with None show ?thesis by (simp add: graph_in_degree_get [OF dist])
  next
    case (Some ds)
    then have k: "(k, ds) \<in> set nodes" by (rule map_of_SomeD)
    then have "k \<in> node_ids nodes" by (force simp: node_ids_def)
    with Some each [OF k] show ?thesis
      by (simp add: graph_in_degree_get [OF dist] deps_def distinct_card)
  qed
  have "k \<in> set ?ready \<longleftrightarrow> bt_get ?deg k = Some 0" for k
  proof -
    have "k \<in> set ?ready \<longleftrightarrow> (k, 0) \<in> set (bt_entries ?deg)" by force
    then show ?thesis using bt.entries_lookup [OF inv] by simp
  qed
  then have ready: "k \<in> set ?ready \<longleftrightarrow> k \<in> node_ids nodes \<and> deps nodes k = {}" for k
    by (simp add: get)
  have "distinct ?ready"
    using bt.keys_distinct [OF inv] by (simp add: distinct_map_filter)
  then show ?thesis
    unfolding kahn_inv_def using get ready by (intro conjI allI impI) simp_all
qed

lemma kahn_end_all:
  assumes "kahn_inv nodes W deg []" and "set W = node_ids nodes"
  shows "acyclic (dependency_rel nodes)"
proof -
  let ?rank = "\<lambda>k. length (takeWhile (\<lambda>j. j \<noteq> k) W)"
  have "?rank d < ?rank k" if kW: "k \<in> set W" and dk: "d \<in> deps nodes k" for d k
  proof -
    obtain ys zs where W: "W = ys @ k # zs" and k: "k \<notin> set ys" using split_list_first [OF kW] by blast
    then have "d \<in> set ys" using kahn_inv_order assms(1) dk by blast
    then obtain us vs where "ys = us @ d # vs" and "d \<notin> set us" using split_list_first by metis
    with W k have "takeWhile (\<lambda>j. j \<noteq> k) W = ys" and "takeWhile (\<lambda>j. j \<noteq> d) W = us" and "length us < length ys"
      by (auto simp: takeWhile_append)
    then show ?thesis by simp
  qed
  then have "dependency_rel nodes \<subseteq> measure ?rank"
    using assms(2) by (auto simp: dependency_rel_def)
  then show ?thesis using wf_acyclic wf_measure wf_subset by metis
qed

lemma kahn_end_some:
  assumes closed: "closed_graph nodes" and inv: "kahn_inv nodes W deg []" and "set W \<noteq> node_ids nodes"
  shows "\<not> acyclic (dependency_rel nodes)"
proof
  assume "acyclic (dependency_rel nodes)"
  moreover have "finite (dependency_rel nodes)"
  proof -
    have "dependency_rel nodes \<subseteq> node_ids nodes \<times> node_ids nodes"
      using deps_subset [OF closed] by (auto simp: dependency_rel_def)
    then show ?thesis by (rule finite_subset) (simp add: node_ids_def)
  qed
  ultimately have wf: "wf (dependency_rel nodes)" by (simp add: finite_acyclic_wf)
  have "node_ids nodes - set W \<noteq> {}" using assms(3) inv by (auto simp: kahn_inv_def)
  then obtain k where k: "k \<in> node_ids nodes - set W"
    and least: "\<And>d. (d, k) \<in> dependency_rel nodes \<Longrightarrow> d \<notin> node_ids nodes - set W"
    using wfE_min [OF wf] by (metis ex_in_conv)
  have "deps nodes k \<subseteq> set W"
    using least k deps_subset [OF closed, of k] by (auto simp: dependency_rel_def)
  with k inv show False by (auto simp: kahn_inv_def)
qed

lemma graph_has_cycle_correct:
  assumes "closed_graph nodes"
  shows "graph_has_cycle nodes = Some (\<not> acyclic (dependency_rel nodes))"
proof -
  from kahn_loop_visits [OF assms kahn_inv_start [OF assms]] obtain W deg where
    run: "kahn_loop (graph_dependents nodes []) 0 (graph_in_degree nodes [])
      (map fst (filter (\<lambda>(_, d). d = 0) (bt_entries (graph_in_degree nodes [])))) = Some (length W)"
    and inv: "kahn_inv nodes W deg []" by auto
  have "length nodes = card (node_ids nodes)" and "length W = card (set W)" and "set W \<subseteq> node_ids nodes"
    using assms inv distinct_card [of "map fst nodes"]
    by (auto simp: closed_graph_def node_ids_def kahn_inv_def distinct_card)
  then have "length W \<noteq> length nodes \<longleftrightarrow> set W \<noteq> node_ids nodes"
    by (metis card_subset_eq finite_imageI finite_set node_ids_def)
  also have "\<dots> \<longleftrightarrow> \<not> acyclic (dependency_rel nodes)"
    using kahn_end_all [OF inv] kahn_end_some [OF assms inv] by blast
  finally show ?thesis using run by (simp add: graph_has_cycle_def Let_def)
qed

end
