(* ===== verification/Canonicalize.thy ===== *)
theory Canonicalize
  imports Ledger_Event Canonical_Refs Workflow_Graph
begin

text \<open>
  Canonicalization of an event before it is hashed, signed or stored,
  \<open>bp-ledger/src/canonicalize.rs\<close>, with the digest functions of
  \<open>bp-ledger/src/payload/trust_spine.rs\<close>. A check that the source runs before another is earlier
  in the list given to \<open>first_error\<close>; the answer is the error of the first check that fails.
\<close>

datatype LedgerError =
    UnsupportedSchemaVersion u32 u32
  | InvalidPayload string string
  | InvalidJson string
  | Panicked string

text \<open>The \<open>Display\<close> text of an error, as issues quote it.\<close>

fun error_text :: "LedgerError \<Rightarrow> string" where
  "error_text (UnsupportedSchemaVersion received supported) =
     ''schema version '' @ show_u32 received @ '' not supported (supported: '' @ show_u32 supported @ '')''"
| "error_text (InvalidPayload kind reason) = ''invalid payload for kind '' @ kind @ '': '' @ reason"
| "error_text (InvalidJson e) = ''invalid json event: '' @ e"
| "error_text (Panicked message) = message"

type_synonym verdict_of_check = "(LedgerError, unit) result"

definition invalid :: "string \<Rightarrow> string \<Rightarrow> verdict_of_check" where
  "invalid kind reason = Inl (InvalidPayload kind reason)"

definition invalid_if :: "bool \<Rightarrow> string \<Rightarrow> string \<Rightarrow> verdict_of_check" where
  "invalid_if b kind reason = (if b then invalid kind reason else Inr ())"

definition first_error :: "verdict_of_check list \<Rightarrow> verdict_of_check" where
  "first_error checks = try_each (\<lambda>r. r) checks"

lemma invalid_not_ok [simp]: "invalid kind reason \<noteq> Inr ()"
  by (simp add: invalid_def)

lemma invalid_if_ok [simp]: "invalid_if b kind reason = Inr () \<longleftrightarrow> \<not> b"
  by (simp add: invalid_if_def)

lemma first_error_ok [simp]: "first_error checks = Inr () \<longleftrightarrow> (\<forall>r \<in> set checks. r = Inr ())"
  by (simp add: first_error_def)

subsection \<open>Digests\<close>

definition domain_separated_digest :: "env \<Rightarrow> string \<Rightarrow> (string, string) result \<Rightarrow> (string, string) result" where
  "domain_separated_digest E domain bytes =
     and_then bytes (\<lambda>b. Inr (''sha256:'' @ sha256_hex E (domain @ b)))"

definition dispatch_envelope_v2_body_digest :: "env \<Rightarrow> DispatchEnvelopeBodyV2 \<Rightarrow> (string, string) result" where
  "dispatch_envelope_v2_body_digest E body =
     domain_separated_digest E (''buildplane.dispatch-envelope.v2'' @ [CHR 0x00]) (to_vec_dispatch_body_v2 E body)"

definition dispatch_envelope_v3_body_digest ::
  "env \<Rightarrow> DispatchEnvelopeBodyV2 \<Rightarrow> ActionEvidenceVersionV1 \<Rightarrow> string \<Rightarrow> string \<Rightarrow> string option \<Rightarrow> (string, string) result" where
  "dispatch_envelope_v3_body_digest E body version repository realm packet =
     domain_separated_digest E (''buildplane.dispatch-envelope.v3'' @ [CHR 0x00])
       (to_vec_dispatch_v3_material E (body, version, repository, realm, packet))"

definition workflow_graph_v1_digest :: "env \<Rightarrow> WorkflowGraphDeclaredV1 \<Rightarrow> (string, string) result" where
  "workflow_graph_v1_digest E g =
     domain_separated_digest E (''buildplane.workflow-graph.v1'' @ [CHR 0x00])
       (to_vec_graph_v1_material E
         (gd1_run_id g, gd1_workflow_id g, gd1_workflow_revision g, gd1_nodes g, gd1_max_concurrent g))"

definition workflow_graph_v2_digest :: "env \<Rightarrow> WorkflowGraphDeclaredV2 \<Rightarrow> (string, string) result" where
  "workflow_graph_v2_digest E g =
     domain_separated_digest E (''buildplane.workflow-graph.v2'' @ [CHR 0x00])
       (to_vec_graph_v2_material E
         (gd2_run_id g, gd2_workflow_id g, gd2_workflow_revision g, gd2_nodes g, gd2_max_concurrent g))"

text \<open>The material of a promotion claim is the claim without its own digest.\<close>

definition promotion_execution_claimed_v1_digest :: "env \<Rightarrow> PromotionExecutionClaimedV1 \<Rightarrow> (string, string) result" where
  "promotion_execution_claimed_v1_digest E claim =
     domain_separated_digest E (''buildplane.promotion-execution-claimed.v1'' @ [CHR 0x00])
       (to_vec_promotion_claim_material E (claim\<lparr>pec_promotion_execution_claim_digest := []\<rparr>))"

subsection \<open>Field checks\<close>

definition validate_non_empty_fields :: "string \<Rightarrow> (string \<times> string) list \<Rightarrow> verdict_of_check" where
  "validate_non_empty_fields kind named =
     try_each (\<lambda>(field, value). invalid_if (is_blank value) kind (field @ '' must be non-empty'')) named"

definition validate_sha256_fields :: "string \<Rightarrow> (string \<times> string) list \<Rightarrow> verdict_of_check" where
  "validate_sha256_fields kind named =
     try_each (\<lambda>(field, value).
       invalid_if (\<not> is_canonical_sha256_digest value) kind (field @ '' must be a canonical sha256 digest'')) named"

definition validate_rfc3339_utc :: "env \<Rightarrow> string \<Rightarrow> string \<Rightarrow> string \<Rightarrow> verdict_of_check" where
  "validate_rfc3339_utc E kind field value =
     invalid_if (\<not> ends_with ''Z'' value \<or> parse_from_rfc3339 E value = None)
       kind (field @ '' must be an RFC3339 UTC timestamp'')"

definition validate_opaque_reference :: "string \<Rightarrow> string \<Rightarrow> string \<Rightarrow> verdict_of_check" where
  "validate_opaque_reference kind field value =
     invalid_if (is_blank value \<or> \<not> is_ascii value
         \<or> list_ex (\<lambda>b. is_ascii_whitespace b \<or> is_ascii_control b) value)
       kind (field @ '' must be a non-empty canonical opaque reference'')"

fun check_unique :: "string \<Rightarrow> string \<Rightarrow> string list \<Rightarrow> string list \<Rightarrow> verdict_of_check" where
  "check_unique kind field seen [] = Inr ()"
| "check_unique kind field seen (r # rs) =
     first_error
       [validate_opaque_reference kind field r,
        invalid_if (r \<in> set seen) kind (field @ '' must not contain duplicates''),
        check_unique kind field (r # seen) rs]"

definition validate_unique_references :: "string \<Rightarrow> string \<Rightarrow> string list \<Rightarrow> verdict_of_check" where
  "validate_unique_references kind field references =
     first_error
       [invalid_if (references = []) kind (field @ '' must contain at least one reference''),
        check_unique kind field [] references]"

text \<open>
  Comparison of two timestamps that earlier checks have parsed; the Rust code unwraps them with
  \<open>expect\<close>, so the branch without a value is never taken.
\<close>

definition not_later :: "env \<Rightarrow> string \<Rightarrow> string \<Rightarrow> bool" where
  "not_later E later earlier =
     (case (parse_from_rfc3339 E later, parse_from_rfc3339 E earlier) of
        (Some l, Some e) \<Rightarrow> l \<le> e
      | _ \<Rightarrow> False)"

lemma validate_non_empty_fields_ok [simp]:
  "validate_non_empty_fields kind named = Inr () \<longleftrightarrow> (\<forall>(f, v) \<in> set named. \<not> is_blank v)"
  by (auto simp: validate_non_empty_fields_def)

lemma validate_sha256_fields_ok [simp]:
  "validate_sha256_fields kind named = Inr () \<longleftrightarrow> (\<forall>(f, v) \<in> set named. is_canonical_sha256_digest v)"
  by (auto simp: validate_sha256_fields_def)

lemma validate_rfc3339_utc_ok [simp]:
  "validate_rfc3339_utc E kind field value = Inr () \<longleftrightarrow>
     ends_with ''Z'' value \<and> parse_from_rfc3339 E value \<noteq> None"
  by (auto simp: validate_rfc3339_utc_def)

lemma check_unique_ok:
  "check_unique kind field seen rs = Inr () \<Longrightarrow> distinct rs \<and> set rs \<inter> set seen = {}"
  by (induction kind field seen rs rule: check_unique.induct) auto

lemma validate_unique_references_ok:
  "validate_unique_references kind field rs = Inr () \<Longrightarrow> rs \<noteq> [] \<and> distinct rs"
  using check_unique_ok [of kind field "[]" rs] by (auto simp: validate_unique_references_def)

subsection \<open>Dispatch and candidate shapes\<close>

definition zero_limit :: "u32 option \<Rightarrow> bool" where
  "zero_limit limit = (case limit of None \<Rightarrow> False | Some n \<Rightarrow> n = 0)"

definition digest_check :: "string \<Rightarrow> string \<Rightarrow> string \<Rightarrow> string \<Rightarrow> (string, string) result \<Rightarrow> verdict_of_check" where
  "digest_check kind could_not mismatch recorded expected =
     (case expected of
        Inl e \<Rightarrow> invalid kind (could_not @ '': '' @ e)
      | Inr d \<Rightarrow> invalid_if (recorded \<noteq> d) kind mismatch)"

lemma digest_check_ok [simp]:
  "digest_check kind could_not mismatch recorded expected = Inr () \<longleftrightarrow> expected = Inr recorded"
  by (auto simp: digest_check_def split: sum.splits)

definition validate_dispatch_envelope_v2 :: "env \<Rightarrow> string \<Rightarrow> DispatchEnvelopeV2 \<Rightarrow> verdict_of_check" where
  "validate_dispatch_envelope_v2 E kind p =
     digest_check kind ''could not canonicalize V2 dispatch body''
       ''envelope_digest does not match the canonical V2 dispatch body digest''
       (de2_envelope_digest p) (dispatch_envelope_v2_body_digest E (de2_body p))"

definition validate_dispatch_envelope_v3_shape :: "env \<Rightarrow> string \<Rightarrow> DispatchEnvelopeV3 \<Rightarrow> verdict_of_check" where
  "validate_dispatch_envelope_v3_shape E kind p =
     first_error
       [invalid_if (zero_limit (bud_max_tokens (deb_budget (de3_body p)))
            \<or> zero_limit (bud_max_compute_time_ms (deb_budget (de3_body p))))
          kind ''sealed V3 dispatch budget limits must be greater than zero when present'',
        invalid_if (\<not> is_canonical_sha256_digest (de3_repository_binding_digest p))
          kind ''repository_binding_digest must be a canonical sha256 digest'',
        invalid_if (\<not> is_canonical_sha256_digest (de3_ledger_authority_realm_digest p))
          kind ''ledger_authority_realm_digest must be a canonical sha256 digest'',
        invalid_if (de3_action_evidence_version p = Evidence_SealedV3 \<and> de3_governed_packet_digest p = None)
          kind ''sealed_v3 dispatch requires governed_packet_digest'',
        invalid_if (case de3_governed_packet_digest p of None \<Rightarrow> False | Some d \<Rightarrow> \<not> is_canonical_sha256_digest d)
          kind ''governed_packet_digest must be a canonical sha256 digest'',
        digest_check kind ''could not canonicalize V3 dispatch body''
          ''envelope_digest does not match the canonical V3 dispatch body digest''
          (de3_envelope_digest p)
          (dispatch_envelope_v3_body_digest E (de3_body p) (de3_action_evidence_version p)
            (de3_repository_binding_digest p) (de3_ledger_authority_realm_digest p)
            (de3_governed_packet_digest p))]"

definition validate_candidate_v1_shape :: "string \<Rightarrow> CandidateCreatedV1 \<Rightarrow> verdict_of_check" where
  "validate_candidate_v1_shape kind p =
     invalid_if (\<not> is_canonical_buildplane_candidate_ref (cc1_candidate_ref p))
       kind ''candidate_ref must be a canonical buildplane candidate ref''"

subsection \<open>Workflow graph shapes\<close>

text \<open>
  Both graph declarations run the same loops; \<open>label\<close> is the wording of the messages and
  \<open>ascii\<close> whether identifiers must be ASCII, as the second version requires. A node is given by its
  unit id, its dependencies and, in the second version, its packet digest.
\<close>

fun check_dependencies ::
  "string \<Rightarrow> string \<Rightarrow> bool \<Rightarrow> string \<Rightarrow> string option \<Rightarrow> string list \<Rightarrow> string list \<Rightarrow> verdict_of_check" where
  "check_dependencies kind label ascii u prior seen [] = Inr ()"
| "check_dependencies kind label ascii u prior seen (d # ds) =
     first_error
       [invalid_if (is_blank d) kind (label @ '' dependency ids must be non-empty''),
        invalid_if (ascii \<and> \<not> is_ascii d) kind (label @ '' dependency ids must be ASCII''),
        invalid_if (d = u) kind (label @ '' nodes cannot depend on themselves''),
        invalid_if (case prior of None \<Rightarrow> False | Some previous \<Rightarrow> d \<le> previous)
          kind (label @ '' dependencies must be in strict lexical order''),
        invalid_if (d \<in> set seen) kind (label @ '' dependencies must be unique''),
        check_dependencies kind label ascii u (Some d) (d # seen) ds]"

type_synonym graph_node = "string \<times> string list \<times> string option"

fun check_graph_nodes ::
  "string \<Rightarrow> string \<Rightarrow> bool \<Rightarrow> string option \<Rightarrow> string list \<Rightarrow> graph_node list \<Rightarrow> verdict_of_check" where
  "check_graph_nodes kind label ascii prior seen [] = Inr ()"
| "check_graph_nodes kind label ascii prior seen ((u, ds, packet) # nodes) =
     first_error
       [invalid_if (is_blank u) kind (label @ '' node unit_id must be non-empty''),
        invalid_if (ascii \<and> \<not> is_ascii u) kind (label @ '' node unit_id must be ASCII''),
        invalid_if (case prior of None \<Rightarrow> False | Some previous \<Rightarrow> u \<le> previous)
          kind (label @ '' nodes must be in strict lexical unit_id order''),
        invalid_if (u \<in> set seen) kind (label @ '' node unit_ids must be unique''),
        invalid_if (case packet of None \<Rightarrow> False | Some d \<Rightarrow> \<not> is_canonical_sha256_digest d)
          kind (label @ '' node governed_packet_digest must be a canonical sha256 digest''),
        check_dependencies kind label ascii u None [] ds,
        check_graph_nodes kind label ascii (Some u) (u # seen) nodes]"

definition check_known_dependencies :: "string \<Rightarrow> string \<Rightarrow> graph_node list \<Rightarrow> verdict_of_check" where
  "check_known_dependencies kind label nodes =
     try_each (\<lambda>(u, ds, packet).
       try_each (\<lambda>d. invalid_if (d \<notin> fst ` set nodes)
         kind (label @ '' dependency references an unknown unit_id'')) ds) nodes"

definition topology_of :: "graph_node list \<Rightarrow> topology" where
  "topology_of nodes = map (\<lambda>(u, ds, packet). (u, ds)) nodes"

definition cycle_check :: "string \<Rightarrow> string \<Rightarrow> bool option \<Rightarrow> verdict_of_check" where
  "cycle_check kind label has_cycle =
     (case has_cycle of
        None \<Rightarrow> Inl (Panicked ''workflow graph references are validated before cycle detection'')
      | Some b \<Rightarrow> invalid_if b kind (label @ '' dependencies must not contain a cycle''))"

definition nodes_v1 :: "WorkflowGraphDeclaredV1 \<Rightarrow> graph_node list" where
  "nodes_v1 p = map (\<lambda>n. (gn1_unit_id n, gn1_depends_on n, None)) (gd1_nodes p)"

definition nodes_v2 :: "WorkflowGraphDeclaredV2 \<Rightarrow> graph_node list" where
  "nodes_v2 p = map (\<lambda>n. (gn2_unit_id n, gn2_depends_on n, Some (gn2_governed_packet_digest n))) (gd2_nodes p)"

definition workflow_graph_has_cycle :: "WorkflowGraphDeclaredV1 \<Rightarrow> bool option" where
  "workflow_graph_has_cycle p = graph_has_cycle (topology_of (nodes_v1 p))"

definition workflow_graph_v2_has_cycle :: "WorkflowGraphDeclaredV2 \<Rightarrow> bool option" where
  "workflow_graph_v2_has_cycle p = graph_has_cycle (topology_of (nodes_v2 p))"

definition validate_workflow_graph_declared_v1_shape :: "env \<Rightarrow> string \<Rightarrow> WorkflowGraphDeclaredV1 \<Rightarrow> verdict_of_check" where
  "validate_workflow_graph_declared_v1_shape E kind p =
     first_error
       [validate_non_empty_fields kind
          [(''run_id'', gd1_run_id p), (''workflow_id'', gd1_workflow_id p),
           (''workflow_revision'', gd1_workflow_revision p), (''idempotency_key'', gd1_idempotency_key p)],
        invalid_if (gd1_nodes p = []) kind ''workflow graph declaration must contain at least one node'',
        invalid_if (gd1_max_concurrent p = 0)
          kind ''workflow graph declaration max_concurrent must be greater than zero'',
        validate_rfc3339_utc E kind ''declared_at'' (gd1_declared_at p),
        check_graph_nodes kind ''workflow graph'' False None [] (nodes_v1 p),
        check_known_dependencies kind ''workflow graph'' (nodes_v1 p),
        cycle_check kind ''workflow graph'' (workflow_graph_has_cycle p)]"

definition validate_workflow_graph_declared_v2_shape :: "env \<Rightarrow> string \<Rightarrow> WorkflowGraphDeclaredV2 \<Rightarrow> verdict_of_check" where
  "validate_workflow_graph_declared_v2_shape E kind p =
     first_error
       [validate_non_empty_fields kind
          [(''run_id'', gd2_run_id p), (''workflow_id'', gd2_workflow_id p),
           (''workflow_revision'', gd2_workflow_revision p), (''idempotency_key'', gd2_idempotency_key p)],
        invalid_if (gd2_nodes p = []) kind ''workflow graph declaration v2 must contain at least one node'',
        invalid_if (gd2_max_concurrent p = 0)
          kind ''workflow graph declaration v2 max_concurrent must be greater than zero'',
        validate_rfc3339_utc E kind ''declared_at'' (gd2_declared_at p),
        check_graph_nodes kind ''workflow graph v2'' True None [] (nodes_v2 p),
        check_known_dependencies kind ''workflow graph v2'' (nodes_v2 p),
        cycle_check kind ''workflow graph v2'' (workflow_graph_v2_has_cycle p)]"

lemma check_dependencies_distinct:
  "check_dependencies kind label ascii u prior seen ds = Inr () \<Longrightarrow> distinct ds \<and> set ds \<inter> set seen = {}"
  by (induction kind label ascii u prior seen ds rule: check_dependencies.induct) auto

lemma check_graph_nodes_ok:
  "check_graph_nodes kind label ascii prior seen nodes = Inr () \<Longrightarrow>
     distinct (map fst nodes) \<and> fst ` set nodes \<inter> set seen = {} \<and>
     (\<forall>(u, ds, packet) \<in> set nodes. distinct ds)"
proof (induction kind label ascii prior seen nodes rule: check_graph_nodes.induct)
  case (1 kind label ascii prior seen)
  then show ?case by simp
next
  case (2 kind label ascii prior seen u ds packet nodes)
  then have "check_dependencies kind label ascii u None [] ds = Inr ()" by simp
  then have "distinct ds" using check_dependencies_distinct by blast
  with 2 show ?case by auto
qed

lemma check_known_dependencies_ok:
  "check_known_dependencies kind label nodes = Inr () \<Longrightarrow> (u, ds, packet) \<in> set nodes \<Longrightarrow>
     set ds \<subseteq> fst ` set nodes"
  by (auto simp: check_known_dependencies_def simp del: split_paired_All)

lemma topology_of_fst [simp]: "map fst (topology_of nodes) = map fst nodes"
  by (simp add: topology_of_def case_prod_unfold)

lemma topology_of_ids: "node_ids (topology_of nodes) = fst ` set nodes"
  by (metis node_ids_def set_map topology_of_fst)

lemma graph_checks_closed:
  assumes "check_graph_nodes kind label ascii prior seen nodes = Inr ()"
    and "check_known_dependencies kind label nodes = Inr ()"
  shows "closed_graph (topology_of nodes)"
  unfolding closed_graph_def topology_of_ids topology_of_fst
proof (intro conjI ballI)
  show "distinct (map fst nodes)" using check_graph_nodes_ok [OF assms(1)] by simp
next
  fix n assume "n \<in> set (topology_of nodes)"
  then obtain u ds packet where n: "n = (u, ds)" and mem: "(u, ds, packet) \<in> set nodes"
    by (auto simp: topology_of_def)
  have "distinct ds" using check_graph_nodes_ok [OF assms(1)] mem by blast
  with n check_known_dependencies_ok [OF assms(2) mem]
  show "case n of (u, ds) \<Rightarrow> distinct ds \<and> set ds \<subseteq> fst ` set nodes" by simp
qed

text \<open>
  A graph that passes the shape checks has an acyclic dependency relation, and cycle detection
  neither panics on it nor answers wrongly.
\<close>

lemma graph_shape_acyclic:
  assumes "check_graph_nodes kind label ascii prior seen nodes = Inr ()"
    and "check_known_dependencies kind label nodes = Inr ()"
  shows "cycle_check kind label (graph_has_cycle (topology_of nodes)) = Inr () \<longleftrightarrow>
      acyclic (dependency_rel (topology_of nodes))"
    and "cycle_check kind label (graph_has_cycle (topology_of nodes)) \<noteq> Inl (Panicked message)"
  using graph_has_cycle_correct [OF graph_checks_closed [OF assms]]
  by (auto simp: cycle_check_def invalid_if_def invalid_def)

subsection \<open>Promotion shapes\<close>

definition validate_promotion_approval_requested_v1_shape :: "env \<Rightarrow> string \<Rightarrow> PromotionApprovalRequestedV1 \<Rightarrow> verdict_of_check" where
  "validate_promotion_approval_requested_v1_shape E kind p =
     first_error
       [validate_non_empty_fields kind
          [(''candidate_digest'', par_candidate_digest p), (''base_commit_sha'', par_base_commit_sha p),
           (''target_ref'', par_target_ref p), (''envelope_digest'', par_envelope_digest p),
           (''acceptance_ref'', par_acceptance_ref p), (''requested_by'', par_requested_by p),
           (''idempotency_key'', par_idempotency_key p)],
        invalid_if (\<not> is_canonical_git_object_id (par_base_commit_sha p))
          kind ''promotion approval request base_commit_sha must be a full canonical Git object ID'',
        invalid_if (\<not> is_canonical_target_ref (par_target_ref p))
          kind ''promotion approval request target_ref must be a canonical refs/heads branch ref'',
        validate_sha256_fields kind
          [(''candidate_digest'', par_candidate_digest p), (''envelope_digest'', par_envelope_digest p)],
        validate_opaque_reference kind ''acceptance_ref'' (par_acceptance_ref p),
        validate_unique_references kind ''review_refs'' (par_review_refs p),
        invalid_if (\<not> is_canonical_authority_actor (par_requested_by p))
          kind ''promotion approval request requested_by must be a canonical authority actor'',
        validate_rfc3339_utc E kind ''requested_at'' (par_requested_at p)]"

definition validate_decision_target :: "string \<Rightarrow> PromotionDecisionRecordedV1 \<Rightarrow> verdict_of_check" where
  "validate_decision_target kind p =
     (case (pdr_target_ref p, pdr_promotion_approval_request_ref p) of
        (Some target_ref, Some request_ref) \<Rightarrow>
          first_error
            [invalid_if (\<not> is_canonical_target_ref target_ref)
               kind ''promotion decision target_ref must be a canonical refs/heads branch ref'',
             invalid_if (pdr_authority p \<noteq> pdr_decided_by p)
               kind ''target-bound promotion decision authority and decided_by must name the same actor'',
             validate_opaque_reference kind ''promotion_approval_request_ref'' request_ref]
      | (Some target_ref, None) \<Rightarrow>
          invalid_if (\<not> is_canonical_target_ref target_ref)
            kind ''promotion decision target_ref must be a canonical refs/heads branch ref''
      | (None, None) \<Rightarrow> Inr ()
      | (None, Some _) \<Rightarrow>
          invalid kind ''promotion decision with an approval request reference must bind a target_ref'')"

definition validate_promotion_decision_recorded_v1_shape :: "env \<Rightarrow> string \<Rightarrow> PromotionDecisionRecordedV1 \<Rightarrow> verdict_of_check" where
  "validate_promotion_decision_recorded_v1_shape E kind p =
     first_error
       [validate_non_empty_fields kind
          [(''candidate_digest'', pdr_candidate_digest p), (''base_commit_sha'', pdr_base_commit_sha p),
           (''envelope_digest'', pdr_envelope_digest p), (''acceptance_ref'', pdr_acceptance_ref p),
           (''authority'', pdr_authority p), (''decided_by'', pdr_decided_by p),
           (''idempotency_key'', pdr_idempotency_key p)],
        invalid_if (\<not> is_canonical_git_object_id (pdr_base_commit_sha p))
          kind ''promotion decision base_commit_sha must be a full canonical Git object ID'',
        validate_sha256_fields kind
          [(''candidate_digest'', pdr_candidate_digest p), (''envelope_digest'', pdr_envelope_digest p)],
        validate_opaque_reference kind ''acceptance_ref'' (pdr_acceptance_ref p),
        validate_unique_references kind ''review_refs'' (pdr_review_refs p),
        invalid_if (\<not> is_canonical_authority_actor (pdr_authority p)
            \<or> \<not> is_canonical_authority_actor (pdr_decided_by p))
          kind ''promotion decision authority and decided_by must be canonical authority actors'',
        validate_rfc3339_utc E kind ''decided_at'' (pdr_decided_at p),
        validate_decision_target kind p]"

definition validate_promotion_execution_claimed_v1_shape :: "env \<Rightarrow> string \<Rightarrow> PromotionExecutionClaimedV1 \<Rightarrow> verdict_of_check" where
  "validate_promotion_execution_claimed_v1_shape E kind p =
     first_error
       [validate_non_empty_fields kind
          [(''run_id'', pec_run_id p), (''candidate_ref'', pec_candidate_ref p),
           (''idempotency_key'', pec_idempotency_key p), (''authority_actor'', pec_authority_actor p),
           (''lease_id'', pec_lease_id p), (''target_ref'', pec_target_ref p)],
        invalid_if (\<not> is_canonical_buildplane_candidate_ref (pec_candidate_ref p))
          kind ''promotion execution claim candidate_ref must be a canonical Buildplane candidate ref'',
        invalid_if (\<not> is_canonical_git_object_id (pec_candidate_commit_sha p)
            \<or> \<not> is_canonical_git_object_id (pec_base_commit_sha p))
          kind ''promotion execution claim base and candidate commits must be full canonical Git object IDs'',
        invalid_if (\<not> is_canonical_target_ref (pec_target_ref p))
          kind ''promotion execution claim target_ref must be a canonical refs/heads branch ref'',
        invalid_if (\<not> is_canonical_authority_actor (pec_authority_actor p))
          kind ''promotion execution claim authority_actor must be a canonical authority actor'',
        validate_opaque_reference kind ''lease_id'' (pec_lease_id p),
        validate_sha256_fields kind
          [(''promotion_decision_event_digest'', pec_promotion_decision_event_digest p),
           (''dispatch_envelope_digest'', pec_dispatch_envelope_digest p),
           (''candidate_digest'', pec_candidate_digest p),
           (''candidate_tree_digest'', pec_candidate_tree_digest p),
           (''promotion_execution_claim_digest'', pec_promotion_execution_claim_digest p)],
        validate_rfc3339_utc E kind ''claimed_at'' (pec_claimed_at p),
        validate_rfc3339_utc E kind ''lease_expires_at'' (pec_lease_expires_at p),
        invalid_if (not_later E (pec_lease_expires_at p) (pec_claimed_at p))
          kind ''promotion execution claim lease_expires_at must be later than claimed_at'']"

definition validate_promotion_execution_lease_binding_v1_shape :: "string \<Rightarrow> PromotionExecutionLeaseBindingV1 \<Rightarrow> verdict_of_check" where
  "validate_promotion_execution_lease_binding_v1_shape kind b =
     first_error
       [validate_non_empty_fields kind [(''lease_id'', plb_lease_id b)],
        validate_opaque_reference kind ''lease_id'' (plb_lease_id b),
        validate_sha256_fields kind
          [(''promotion_execution_claim_event_digest'', plb_promotion_execution_claim_event_digest b)]]"

text \<open>The checks on a complete set of strict Git evidence.\<close>

definition validate_strict_git_evidence ::
  "string \<Rightarrow> PromotionGitBindingV1 \<Rightarrow> string \<Rightarrow> PromotionWorktreeSyncStateV1 list \<Rightarrow> bool \<Rightarrow>
   string \<Rightarrow> string \<Rightarrow> string list \<Rightarrow> string \<Rightarrow> string \<Rightarrow> PromotionWorktreeSyncStateV1 option \<Rightarrow> verdict_of_check" where
  "validate_strict_git_evidence kind b result_merged_head_sha allowed require_complete
     head_after merged_head parents tree_sha receipt_ref sync =
     first_error
       [invalid_if (\<not> is_canonical_git_object_id head_after \<or> \<not> is_canonical_git_object_id merged_head
            \<or> \<not> is_canonical_git_object_id tree_sha)
          kind ''promotion_git_binding strict Git object IDs must be canonical'',
        invalid_if (merged_head \<noteq> result_merged_head_sha)
          kind ''promotion_git_binding merged_head_sha must equal the enclosing promotion result'',
        invalid_if (parents \<noteq> [pgb_target_head_before_sha b, pgb_candidate_commit_sha b]
            \<or> \<not> list_all is_canonical_git_object_id parents)
          kind ''promotion_git_binding merge_parent_shas must be canonical [base, candidate] evidence'',
        invalid_if (\<not> is_canonical_buildplane_promotion_receipt_ref receipt_ref)
          kind ''promotion_git_binding promotion_receipt_ref must be a canonical Buildplane promotion ref'',
        (case sync of
           None \<Rightarrow>
             if \<not> require_complete \<and> allowed = [] \<and> head_after = merged_head then Inr ()
             else invalid kind ''promotion_git_binding worktree_sync_state is incompatible with the promotion result outcome''
         | Some s \<Rightarrow>
             if s \<in> {Sync_PendingReconciliation, Sync_RootCheckoutStale} \<and> s \<in> set allowed \<and> head_after \<noteq> merged_head
             then invalid kind ''promotion_git_binding target_head_after_sha must equal merged_head_sha for an unchanged target''
             else if s = Sync_TargetAdvanced \<and> s \<in> set allowed \<and> head_after = merged_head
             then invalid kind ''promotion_git_binding target_advanced must observe a target head distinct from merged_head_sha''
             else if s \<in> set allowed then Inr ()
             else invalid kind ''promotion_git_binding worktree_sync_state is incompatible with the promotion result outcome'')]"

definition validate_promotion_git_binding_v1_shape ::
  "string \<Rightarrow> PromotionGitBindingV1 \<Rightarrow> string \<Rightarrow> PromotionWorktreeSyncStateV1 list \<Rightarrow> bool \<Rightarrow> verdict_of_check" where
  "validate_promotion_git_binding_v1_shape kind b result_merged_head_sha allowed require_complete =
     first_error
       [validate_non_empty_fields kind
          [(''promotion_git_binding.target_ref'', pgb_target_ref b),
           (''promotion_git_binding.target_head_before_sha'', pgb_target_head_before_sha b),
           (''promotion_git_binding.candidate_commit_sha'', pgb_candidate_commit_sha b),
           (''promotion_git_binding.merged_tree_digest'', pgb_merged_tree_digest b)],
        invalid_if (\<not> is_canonical_target_ref (pgb_target_ref b))
          kind ''promotion_git_binding.target_ref must be a canonical refs/heads branch ref'',
        invalid_if (\<not> is_canonical_git_object_id (pgb_target_head_before_sha b)
            \<or> \<not> is_canonical_git_object_id (pgb_candidate_commit_sha b))
          kind ''promotion_git_binding base and candidate commits must be full canonical Git object IDs'',
        validate_sha256_fields kind
          [(''promotion_git_binding.merged_tree_digest'', pgb_merged_tree_digest b)],
        (case (pgb_target_head_after_sha b, pgb_merged_head_sha b, pgb_merge_parent_shas b,
               pgb_merged_tree_sha b, pgb_promotion_receipt_ref b) of
           (None, None, None, None, None) \<Rightarrow>
             (case pgb_worktree_sync_state b of
                None \<Rightarrow> invalid_if require_complete
                  kind ''reconciliation-required promotion results require complete target-bound Git evidence''
              | Some _ \<Rightarrow> invalid kind ''target-bound promotion_git_binding must include its complete strict evidence set'')
         | (Some head_after, Some merged_head, Some parents, Some tree_sha, Some receipt_ref) \<Rightarrow>
             validate_strict_git_evidence kind b result_merged_head_sha allowed require_complete
               head_after merged_head parents tree_sha receipt_ref (pgb_worktree_sync_state b)
         | _ \<Rightarrow> invalid kind ''target-bound promotion_git_binding must include its complete strict evidence set'')]"

definition validate_promotion_result_merge_evidence ::
  "string \<Rightarrow> PromotionResultRecordedV1 \<Rightarrow> PromotionWorktreeSyncStateV1 list \<Rightarrow> bool \<Rightarrow> verdict_of_check" where
  "validate_promotion_result_merge_evidence kind p allowed require_complete =
     (case prr_merged_head_sha p of
        None \<Rightarrow> invalid kind ''promotion result with a merge outcome requires merged_head_sha''
      | Some merged_head \<Rightarrow>
          if \<not> is_canonical_git_object_id merged_head
          then invalid kind ''promotion result merged_head_sha must be a full canonical Git object ID''
          else case prr_promotion_git_binding p of
            None \<Rightarrow> invalid_if require_complete
              kind ''reconciliation-required promotion results require a complete target-bound Git binding''
          | Some b \<Rightarrow> validate_promotion_git_binding_v1_shape kind b merged_head allowed require_complete)"

definition validate_promotion_result_recorded_v1_shape :: "env \<Rightarrow> string \<Rightarrow> PromotionResultRecordedV1 \<Rightarrow> verdict_of_check" where
  "validate_promotion_result_recorded_v1_shape E kind p =
     first_error
       [validate_non_empty_fields kind
          [(''candidate_digest'', prr_candidate_digest p), (''idempotency_key'', prr_idempotency_key p),
           (''promotion_decision_ref'', prr_promotion_decision_ref p)],
        validate_sha256_fields kind [(''candidate_digest'', prr_candidate_digest p)],
        validate_opaque_reference kind ''promotion_decision_ref'' (prr_promotion_decision_ref p),
        validate_rfc3339_utc E kind ''completed_at'' (prr_completed_at p),
        (case prr_promotion_execution_lease_binding p of
           None \<Rightarrow> Inr ()
         | Some b \<Rightarrow> validate_promotion_execution_lease_binding_v1_shape kind b),
        (case prr_outcome p of
           PromotionResult_Promoted \<Rightarrow> validate_promotion_result_merge_evidence kind p [] False
         | PromotionResult_ReconciliationRequired \<Rightarrow>
             validate_promotion_result_merge_evidence kind p [Sync_RootCheckoutStale, Sync_TargetAdvanced] True
         | PromotionResult_Rejected \<Rightarrow>
             invalid_if (prr_merged_head_sha p \<noteq> None \<or> prr_promotion_git_binding p \<noteq> None)
               kind ''rejected promotion results must omit merge and Git-binding evidence'')]"

definition validate_promotion_reconciliation_resolved_v1_shape :: "env \<Rightarrow> string \<Rightarrow> PromotionReconciliationResolvedV1 \<Rightarrow> verdict_of_check" where
  "validate_promotion_reconciliation_resolved_v1_shape E kind p =
     first_error
       [validate_non_empty_fields kind
          [(''candidate_digest'', prc_candidate_digest p),
           (''promotion_decision_ref'', prc_promotion_decision_ref p),
           (''promotion_result_ref'', prc_promotion_result_ref p),
           (''promotion_receipt_ref'', prc_promotion_receipt_ref p),
           (''authority'', prc_authority p), (''resolved_by'', prc_resolved_by p),
           (''idempotency_key'', prc_idempotency_key p)],
        validate_sha256_fields kind [(''candidate_digest'', prc_candidate_digest p)],
        validate_opaque_reference kind ''promotion_decision_ref'' (prc_promotion_decision_ref p),
        validate_opaque_reference kind ''promotion_result_ref'' (prc_promotion_result_ref p),
        invalid_if (\<not> is_canonical_buildplane_promotion_receipt_ref (prc_promotion_receipt_ref p))
          kind ''promotion_receipt_ref must be a canonical Buildplane promotion ref'',
        invalid_if (\<not> is_canonical_authority_actor (prc_authority p)
            \<or> \<not> is_canonical_authority_actor (prc_resolved_by p) \<or> prc_authority p \<noteq> prc_resolved_by p)
          kind ''promotion reconciliation authority and resolved_by must name the same canonical actor'',
        validate_rfc3339_utc E kind ''resolved_at'' (prc_resolved_at p)]"

subsection \<open>Timer, cancellation and terminal shapes\<close>

definition validate_workflow_timer_scheduled_v1_shape :: "env \<Rightarrow> string \<Rightarrow> WorkflowTimerScheduledV1 \<Rightarrow> verdict_of_check" where
  "validate_workflow_timer_scheduled_v1_shape E kind p =
     first_error
       [validate_non_empty_fields kind
          [(''run_id'', wts_run_id p), (''workflow_id'', wts_workflow_id p),
           (''workflow_revision'', wts_workflow_revision p), (''unit_id'', wts_unit_id p),
           (''timer_id'', wts_timer_id p), (''idempotency_key'', wts_idempotency_key p),
           (''scheduled_by'', wts_scheduled_by p)],
        invalid_if (wts_attempt p = 0) kind ''timer attempt must be greater than zero'',
        invalid_if (\<not> is_canonical_authority_actor (wts_scheduled_by p))
          kind ''scheduled_by must be a canonical authority actor'',
        validate_sha256_fields kind [(''dispatch_envelope_digest'', wts_dispatch_envelope_digest p)],
        validate_rfc3339_utc E kind ''scheduled_at'' (wts_scheduled_at p),
        validate_rfc3339_utc E kind ''due_at'' (wts_due_at p),
        invalid_if (not_later E (wts_due_at p) (wts_scheduled_at p))
          kind ''timer due_at must be later than scheduled_at'']"

definition validate_workflow_timer_fired_v1_shape :: "env \<Rightarrow> string \<Rightarrow> WorkflowTimerFiredV1 \<Rightarrow> verdict_of_check" where
  "validate_workflow_timer_fired_v1_shape E kind p =
     first_error
       [validate_non_empty_fields kind
          [(''run_id'', wtf_run_id p), (''workflow_id'', wtf_workflow_id p),
           (''workflow_revision'', wtf_workflow_revision p), (''unit_id'', wtf_unit_id p),
           (''timer_id'', wtf_timer_id p), (''idempotency_key'', wtf_idempotency_key p),
           (''fired_by'', wtf_fired_by p)],
        invalid_if (wtf_attempt p = 0) kind ''timer attempt must be greater than zero'',
        invalid_if (\<not> is_canonical_authority_actor (wtf_fired_by p))
          kind ''fired_by must be a canonical authority actor'',
        validate_sha256_fields kind
          [(''timer_schedule_event_digest'', wtf_timer_schedule_event_digest p),
           (''dispatch_envelope_digest'', wtf_dispatch_envelope_digest p)],
        validate_rfc3339_utc E kind ''fired_at'' (wtf_fired_at p)]"

definition validate_workflow_cancellation_requested_v1_shape :: "env \<Rightarrow> string \<Rightarrow> WorkflowCancellationRequestedV1 \<Rightarrow> verdict_of_check" where
  "validate_workflow_cancellation_requested_v1_shape E kind p =
     first_error
       [validate_non_empty_fields kind
          [(''run_id'', wcr_run_id p), (''workflow_id'', wcr_workflow_id p),
           (''workflow_revision'', wcr_workflow_revision p), (''unit_id'', wcr_unit_id p),
           (''cancellation_id'', wcr_cancellation_id p), (''requested_by'', wcr_requested_by p),
           (''idempotency_key'', wcr_idempotency_key p)],
        invalid_if (wcr_attempt p = 0) kind ''cancellation attempt must be greater than zero'',
        invalid_if (\<not> is_canonical_authority_actor (wcr_requested_by p))
          kind ''requested_by must be a canonical authority actor'',
        validate_sha256_fields kind [(''dispatch_envelope_digest'', wcr_dispatch_envelope_digest p)],
        validate_rfc3339_utc E kind ''requested_at'' (wcr_requested_at p),
        (case (wcr_cause p, wcr_timer_fired_event_ref p, wcr_timer_fired_event_digest p) of
           (Cancel_OperatorRequested, None, None) \<Rightarrow> Inr ()
         | (Cancel_TimerElapsed, Some _, Some digest) \<Rightarrow>
             validate_sha256_fields kind [(''timer_fired_event_digest'', digest)]
         | _ \<Rightarrow> invalid kind ''operator cancellations must omit timer evidence and timer cancellations must bind both timer evidence fields'')]"

definition optional_check :: "'a option \<Rightarrow> ('a \<Rightarrow> verdict_of_check) \<Rightarrow> verdict_of_check" where
  "optional_check v check = (case v of None \<Rightarrow> Inr () | Some x \<Rightarrow> check x)"

definition validate_workflow_terminal_v2_shape :: "env \<Rightarrow> string \<Rightarrow> WorkflowTerminalV2 \<Rightarrow> verdict_of_check" where
  "validate_workflow_terminal_v2_shape E kind p =
     first_error
       [validate_non_empty_fields kind
          [(''workflow_id'', wt2_workflow_id p), (''workflow_revision'', wt2_workflow_revision p),
           (''unit_id'', wt2_unit_id p), (''idempotency_key'', wt2_idempotency_key p)],
        invalid_if (wt2_attempt p = 0) kind ''workflow terminal attempt must be greater than zero'',
        validate_rfc3339_utc E kind ''completed_at'' (wt2_completed_at p),
        optional_check (wt2_candidate_digest p) (\<lambda>d. validate_sha256_fields kind [(''candidate_digest'', d)]),
        optional_check (wt2_promotion_result_ref p) (\<lambda>r. validate_non_empty_fields kind [(''promotion_result_ref'', r)]),
        optional_check (wt2_reconciliation_resolution_ref p)
          (\<lambda>r. validate_non_empty_fields kind [(''reconciliation_resolution_ref'', r)]),
        optional_check (wt2_reason p) (\<lambda>r. validate_non_empty_fields kind [(''reason'', r)]),
        (case (wt2_outcome p, wt2_cancellation_request_event_ref p, wt2_cancellation_request_event_digest p) of
           (Terminal_Cancelled, Some _, Some digest) \<Rightarrow>
             validate_sha256_fields kind [(''cancellation_request_event_digest'', digest)]
         | (Terminal_Cancelled, _, _) \<Rightarrow>
             invalid kind ''cancelled workflow_terminal_v2 requires both cancellation request evidence fields''
         | (_, None, None) \<Rightarrow> Inr ()
         | (_, _, _) \<Rightarrow>
             invalid kind ''non-cancelled workflow_terminal_v2 must omit cancellation request evidence'')]"

subsection \<open>Kinds, payloads and events\<close>

primrec payload_variant_name :: "Payload \<Rightarrow> string" where
  "payload_variant_name (Payload_RunStartedV1 _) = ''RunStartedV1''"
| "payload_variant_name (Payload_RunCompletedV1 _) = ''RunCompletedV1''"
| "payload_variant_name (Payload_RunFailedV1 _) = ''RunFailedV1''"
| "payload_variant_name (Payload_ResultReadyV1 _) = ''ResultReadyV1''"
| "payload_variant_name (Payload_RunAdmissionRecordedV1 _) = ''RunAdmissionRecordedV1''"
| "payload_variant_name (Payload_PlanAdmittedV1 _) = ''PlanAdmittedV1''"
| "payload_variant_name (Payload_PlanReceiptRecordedV1 _) = ''PlanReceiptRecordedV1''"
| "payload_variant_name (Payload_ActivityStartedV1 _) = ''ActivityStartedV1''"
| "payload_variant_name (Payload_ActivityCompletedV1 _) = ''ActivityCompletedV1''"
| "payload_variant_name (Payload_UnitStartedV1 _) = ''UnitStartedV1''"
| "payload_variant_name (Payload_UnitCompletedV1 _) = ''UnitCompletedV1''"
| "payload_variant_name (Payload_UnitFailedV1 _) = ''UnitFailedV1''"
| "payload_variant_name (Payload_UnitCancelledV1 _) = ''UnitCancelledV1''"
| "payload_variant_name (Payload_GitCheckpointV1 _) = ''GitCheckpointV1''"
| "payload_variant_name (Payload_ModelRequestV1 _) = ''ModelRequestV1''"
| "payload_variant_name (Payload_ModelResponseV1 _) = ''ModelResponseV1''"
| "payload_variant_name (Payload_ToolRequestStoredV1 _) = ''ToolRequestStoredV1''"
| "payload_variant_name (Payload_ToolResultV1 _) = ''ToolResultV1''"
| "payload_variant_name (Payload_WorkspaceReadV1 _) = ''WorkspaceReadV1''"
| "payload_variant_name (Payload_WorkspaceWriteV1 _) = ''WorkspaceWriteV1''"
| "payload_variant_name (Payload_TapeCheckpointV1 _) = ''TapeCheckpointV1''"
| "payload_variant_name (Payload_CapabilityDeniedV1 _) = ''CapabilityDeniedV1''"
| "payload_variant_name (Payload_AcceptanceRecordedV1 _) = ''AcceptanceRecordedV1''"
| "payload_variant_name (Payload_OperatorDecisionRecordedV1 _) = ''OperatorDecisionRecordedV1''"
| "payload_variant_name (Payload_DispatchEnvelopeV1 _) = ''DispatchEnvelopeV1''"
| "payload_variant_name (Payload_DispatchEnvelopeV2 _) = ''DispatchEnvelopeV2''"
| "payload_variant_name (Payload_DispatchEnvelopeV3 _) = ''DispatchEnvelopeV3''"
| "payload_variant_name (Payload_WorkflowGraphDeclaredV1 _) = ''WorkflowGraphDeclaredV1''"
| "payload_variant_name (Payload_WorkflowGraphDeclaredV2 _) = ''WorkflowGraphDeclaredV2''"
| "payload_variant_name (Payload_CandidateCreatedV1 _) = ''CandidateCreatedV1''"
| "payload_variant_name (Payload_CandidateAcceptanceRecordedV1 _) = ''CandidateAcceptanceRecordedV1''"
| "payload_variant_name (Payload_ReviewVerdictRecordedV1 _) = ''ReviewVerdictRecordedV1''"
| "payload_variant_name (Payload_PromotionApprovalRequestedV1 _) = ''PromotionApprovalRequestedV1''"
| "payload_variant_name (Payload_PromotionDecisionRecordedV1 _) = ''PromotionDecisionRecordedV1''"
| "payload_variant_name (Payload_PromotionExecutionClaimedV1 _) = ''PromotionExecutionClaimedV1''"
| "payload_variant_name (Payload_PromotionResultRecordedV1 _) = ''PromotionResultRecordedV1''"
| "payload_variant_name (Payload_PromotionReconciliationResolvedV1 _) = ''PromotionReconciliationResolvedV1''"
| "payload_variant_name (Payload_WorkflowTimerScheduledV1 _) = ''WorkflowTimerScheduledV1''"
| "payload_variant_name (Payload_WorkflowTimerFiredV1 _) = ''WorkflowTimerFiredV1''"
| "payload_variant_name (Payload_WorkflowCancellationRequestedV1 _) = ''WorkflowCancellationRequestedV1''"
| "payload_variant_name (Payload_WorkflowTerminalV1 _) = ''WorkflowTerminalV1''"
| "payload_variant_name (Payload_WorkflowTerminalV2 _) = ''WorkflowTerminalV2''"

definition kind_variants :: "(string \<times> string) list" where
  "kind_variants =
    [(''run_started'', ''RunStartedV1''),
     (''run_completed'', ''RunCompletedV1''),
     (''run_failed'', ''RunFailedV1''),
     (''result_ready'', ''ResultReadyV1''),
     (''run_admission_recorded'', ''RunAdmissionRecordedV1''),
     (''plan_admitted'', ''PlanAdmittedV1''),
     (''plan_receipt'', ''PlanReceiptRecordedV1''),
     (''activity_started'', ''ActivityStartedV1''),
     (''activity_completed'', ''ActivityCompletedV1''),
     (''unit_started'', ''UnitStartedV1''),
     (''unit_completed'', ''UnitCompletedV1''),
     (''unit_failed'', ''UnitFailedV1''),
     (''unit_cancelled'', ''UnitCancelledV1''),
     (''git_checkpoint'', ''GitCheckpointV1''),
     (''model_request'', ''ModelRequestV1''),
     (''model_response'', ''ModelResponseV1''),
     (''tool_request'', ''ToolRequestStoredV1''),
     (''tool_result'', ''ToolResultV1''),
     (''workspace_read'', ''WorkspaceReadV1''),
     (''workspace_write'', ''WorkspaceWriteV1''),
     (''tape_checkpoint'', ''TapeCheckpointV1''),
     (''capability_denied'', ''CapabilityDeniedV1''),
     (''acceptance_recorded'', ''AcceptanceRecordedV1''),
     (''operator_decision_recorded'', ''OperatorDecisionRecordedV1''),
     (''dispatch_envelope'', ''DispatchEnvelopeV1''),
     (''dispatch_envelope_v2'', ''DispatchEnvelopeV2''),
     (''dispatch_envelope_v3'', ''DispatchEnvelopeV3''),
     (''dispatch_envelope_v4'', ''DispatchEnvelopeV4''),
     (''dispatch_envelope_v5'', ''DispatchEnvelopeV5''),
     (''governed_dispatch_v5_admission_recorded_v1'', ''GovernedDispatchV5AdmissionRecordedV1''),
     (''context_manifest_declared_v1'', ''ContextManifestDeclaredV1''),
     (''worker_manifest_declared_v1'', ''WorkerManifestDeclaredV1''),
     (''sandbox_profile_declared_v1'', ''SandboxProfileDeclaredV1''),
     (''attempt_context_declared_v1'', ''AttemptContextDeclaredV1''),
     (''workflow_graph_declared_v1'', ''WorkflowGraphDeclaredV1''),
     (''workflow_graph_declared_v2'', ''WorkflowGraphDeclaredV2''),
     (''action_requested_v2'', ''ActionRequestedV2''),
     (''model_action_intent_v1'', ''ModelActionIntentV1''),
     (''model_action_authorized_v1'', ''ModelActionAuthorizedV1''),
     (''model_action_authorized_v2'', ''ModelActionAuthorizedV2''),
     (''activity_claimed_v1'', ''ActivityClaimedV1''),
     (''activity_heartbeat_recorded_v1'', ''ActivityHeartbeatRecordedV1''),
     (''activity_result_recorded_v1'', ''ActivityResultRecordedV1''),
     (''action_receipt_recorded_v2'', ''ActionReceiptRecordedV2''),
     (''action_receipt_set_recorded_v1'', ''ActionReceiptSetRecordedV1''),
     (''attempt_context_recorded_v1'', ''AttemptContextRecordedV1''),
     (''candidate_created'', ''CandidateCreatedV1''),
     (''candidate_created_v2'', ''CandidateCreatedV2''),
     (''candidate_completion_recorded_v1'', ''CandidateCompletionRecordedV1''),
     (''candidate_acceptance_recorded'', ''CandidateAcceptanceRecordedV1''),
     (''review_verdict_recorded'', ''ReviewVerdictRecordedV1''),
     (''review_verdict_recorded_v2'', ''ReviewVerdictRecordedV2''),
     (''promotion_approval_requested'', ''PromotionApprovalRequestedV1''),
     (''promotion_decision_recorded'', ''PromotionDecisionRecordedV1''),
     (''promotion_execution_claimed_v1'', ''PromotionExecutionClaimedV1''),
     (''promotion_result_recorded'', ''PromotionResultRecordedV1''),
     (''promotion_reconciliation_resolved'', ''PromotionReconciliationResolvedV1''),
     (''release_evaluation_evidence_v1'', ''ReleaseEvaluationEvidenceV1''),
     (''workflow_timer_scheduled_v1'', ''WorkflowTimerScheduledV1''),
     (''workflow_timer_fired_v1'', ''WorkflowTimerFiredV1''),
     (''workflow_cancellation_requested_v1'', ''WorkflowCancellationRequestedV1''),
     (''workflow_terminal'', ''WorkflowTerminalV1''),
     (''workflow_terminal_v2'', ''WorkflowTerminalV2'')]"

definition kind_to_variant :: "string \<Rightarrow> (LedgerError, string) result" where
  "kind_to_variant kind =
     (case map_of kind_variants kind of
        Some variant \<Rightarrow> Inr variant
      | None \<Rightarrow> Inl (InvalidPayload kind ''unknown kind''))"

definition validate_kind_matches_payload :: "string \<Rightarrow> Payload \<Rightarrow> verdict_of_check" where
  "validate_kind_matches_payload kind payload =
     and_then (kind_to_variant kind) (\<lambda>expected.
       if payload_variant_name payload \<noteq> expected
       then invalid kind (''payload missing expected variant key '' @ [CHR 0x27] @ expected @ [CHR 0x27])
       else Inr ())"

definition run_bound :: "env \<Rightarrow> Event \<Rightarrow> string \<Rightarrow> string \<Rightarrow> verdict_of_check" where
  "run_bound E e run_id reason = invalid_if (run_id \<noteq> uuid_to_string E (ev_run_id e)) (kind_str e) reason"

definition validate_event_semantics :: "env \<Rightarrow> Event \<Rightarrow> verdict_of_check" where
  "validate_event_semantics E e =
     (case ev_payload e of
        Payload_WorkflowGraphDeclaredV1 p \<Rightarrow> run_bound E e (gd1_run_id p)
          ''workflow graph declaration run_id must match the enclosing event run_id''
      | Payload_WorkflowGraphDeclaredV2 p \<Rightarrow> run_bound E e (gd2_run_id p)
          ''workflow graph declaration run_id must match the enclosing event run_id''
      | Payload_WorkflowTimerScheduledV1 p \<Rightarrow> run_bound E e (wts_run_id p)
          ''workflow timer schedule run_id must match the enclosing event run_id''
      | Payload_WorkflowTimerFiredV1 p \<Rightarrow> run_bound E e (wtf_run_id p)
          ''workflow timer fired run_id must match the enclosing event run_id''
      | Payload_WorkflowCancellationRequestedV1 p \<Rightarrow> run_bound E e (wcr_run_id p)
          ''workflow cancellation run_id must match the enclosing event run_id''
      | Payload_PromotionExecutionClaimedV1 p \<Rightarrow> run_bound E e (pec_run_id p)
          ''promotion execution claim run_id must match the enclosing event run_id''
      | _ \<Rightarrow> Inr ())"

definition validate_payload_semantics :: "env \<Rightarrow> string \<Rightarrow> Payload \<Rightarrow> verdict_of_check" where
  "validate_payload_semantics E kind payload =
     (case payload of
        Payload_DispatchEnvelopeV2 p \<Rightarrow>
          validate_dispatch_envelope_v2 E kind p
      | Payload_DispatchEnvelopeV3 p \<Rightarrow>
          validate_dispatch_envelope_v3_shape E kind p
      | Payload_WorkflowGraphDeclaredV1 p \<Rightarrow>
          first_error
              [validate_workflow_graph_declared_v1_shape E kind p,
               digest_check kind ''could not canonicalize workflow graph declaration''
                 ''graph_digest does not match the canonical workflow graph''
                 (gd1_graph_digest p) (workflow_graph_v1_digest E p)]
      | Payload_WorkflowGraphDeclaredV2 p \<Rightarrow>
          first_error
              [validate_workflow_graph_declared_v2_shape E kind p,
               digest_check kind ''could not canonicalize workflow graph declaration v2''
                 ''graph_digest does not match the canonical V2 workflow graph''
                 (gd2_graph_digest p) (workflow_graph_v2_digest E p)]
      | Payload_CandidateCreatedV1 p \<Rightarrow>
          validate_candidate_v1_shape kind p
      | Payload_PromotionApprovalRequestedV1 p \<Rightarrow>
          validate_promotion_approval_requested_v1_shape E kind p
      | Payload_PromotionDecisionRecordedV1 p \<Rightarrow>
          validate_promotion_decision_recorded_v1_shape E kind p
      | Payload_PromotionExecutionClaimedV1 p \<Rightarrow>
          first_error
              [validate_promotion_execution_claimed_v1_shape E kind p,
               digest_check kind ''could not canonicalize promotion execution claim''
                 ''promotion_execution_claim_digest does not match the canonical promotion execution claim''
                 (pec_promotion_execution_claim_digest p) (promotion_execution_claimed_v1_digest E p)]
      | Payload_PromotionResultRecordedV1 p \<Rightarrow>
          validate_promotion_result_recorded_v1_shape E kind p
      | Payload_PromotionReconciliationResolvedV1 p \<Rightarrow>
          validate_promotion_reconciliation_resolved_v1_shape E kind p
      | Payload_WorkflowTimerScheduledV1 p \<Rightarrow>
          validate_workflow_timer_scheduled_v1_shape E kind p
      | Payload_WorkflowTimerFiredV1 p \<Rightarrow>
          validate_workflow_timer_fired_v1_shape E kind p
      | Payload_WorkflowCancellationRequestedV1 p \<Rightarrow>
          validate_workflow_cancellation_requested_v1_shape E kind p
      | Payload_WorkflowTerminalV2 p \<Rightarrow>
          validate_workflow_terminal_v2_shape E kind p
      | _ \<Rightarrow>
          Inr ())"

definition canonicalize :: "env \<Rightarrow> Event \<Rightarrow> (LedgerError, Event) result" where
  "canonicalize E e =
     (if ev_schema_version e \<noteq> current_schema_version
      then Inl (UnsupportedSchemaVersion (ev_schema_version e) current_schema_version)
      else and_then (validate_kind_matches_payload (kind_str e) (ev_payload e)) (\<lambda>_.
           and_then (validate_event_semantics E e) (\<lambda>_.
           and_then (validate_payload_semantics E (kind_str e) (ev_payload e)) (\<lambda>_. Inr e))))"

definition canonical_event_bytes :: "env \<Rightarrow> Event \<Rightarrow> (LedgerError, string) result" where
  "canonical_event_bytes E e =
     and_then (canonicalize E e) (\<lambda>canonical.
       case to_vec_event E canonical of Inl err \<Rightarrow> Inl (InvalidJson err) | Inr bytes \<Rightarrow> Inr bytes)"

definition canonical_event_hash :: "env \<Rightarrow> Event \<Rightarrow> (LedgerError, string) result" where
  "canonical_event_hash E e =
     and_then (canonical_event_bytes E e) (\<lambda>bytes. Inr (''sha256:'' @ sha256_hex E bytes))"

lemma canonicalize_ok_iff:
  "canonicalize E e = Inr e' \<longleftrightarrow>
     e' = e \<and> ev_schema_version e = current_schema_version \<and>
     validate_kind_matches_payload (kind_str e) (ev_payload e) = Inr () \<and>
     validate_event_semantics E e = Inr () \<and>
     validate_payload_semantics E (kind_str e) (ev_payload e) = Inr ()"
  by (auto simp: canonicalize_def)

lemma canonical_event_hash_ok:
  "canonical_event_hash E e = Inr h \<Longrightarrow>
     canonicalize E e = Inr e \<and> (\<exists>bytes. to_vec_event E e = Inr bytes \<and> h = ''sha256:'' @ sha256_hex E bytes)"
  by (auto simp: canonical_event_hash_def canonical_event_bytes_def canonicalize_ok_iff split: sum.splits)

end
