(* ===== verification/Workflow_Keys.thy ===== *)
theory Workflow_Keys
  imports Prelude
begin

text \<open>
  The string keys under which replay stores its projections,
  \<open>bp-replay/src/transitions.rs\<close>: \<open>workflow_instance_key\<close> and \<open>workflow_graph_key\<close> prefix
  each caller-controlled identifier with its length, \<open>manifest_declaration_key\<close> separates them
  with NUL bytes. A length-prefixed key determines its fields whatever the identifiers contain;
  a NUL-separated key does so only for identifiers without NUL.
\<close>

definition workflow_instance_key :: "string \<Rightarrow> string \<Rightarrow> u32 \<Rightarrow> string" where
  "workflow_instance_key workflow_id unit_id attempt =
     show_nat (length workflow_id) @ '':'' @ workflow_id @
     show_nat (length unit_id) @ '':'' @ unit_id @ '':'' @ show_u32 attempt"

definition workflow_graph_key :: "string \<Rightarrow> string \<Rightarrow> string \<Rightarrow> string" where
  "workflow_graph_key run_id workflow_id workflow_revision =
     show_nat (length run_id) @ '':'' @ run_id @
     show_nat (length workflow_id) @ '':'' @ workflow_id @
     show_nat (length workflow_revision) @ '':'' @ workflow_revision"

definition nul :: string where
  "nul = [CHR 0x00]"

definition manifest_declaration_key :: "string \<Rightarrow> string \<Rightarrow> string \<Rightarrow> string \<Rightarrow> u32 \<Rightarrow> string" where
  "manifest_declaration_key run_id workflow_id workflow_revision unit_id attempt =
     run_id @ nul @ workflow_id @ nul @ workflow_revision @ nul @ unit_id @ nul @ show_u32 attempt"

lemma workflow_instance_key_inject [simp]:
  "workflow_instance_key w u a = workflow_instance_key w' u' a' \<longleftrightarrow> w = w' \<and> u = u' \<and> a = a'"
proof
  assume "workflow_instance_key w u a = workflow_instance_key w' u' a'"
  then have "len_field w @ len_field u @ '':'' @ show_u32 a = len_field w' @ len_field u' @ '':'' @ show_u32 a'"
    by (simp add: workflow_instance_key_def len_field_def)
  then have w: "w = w'" and "len_field u @ '':'' @ show_u32 a = len_field u' @ '':'' @ show_u32 a'"
    using len_field_split by blast+
  then have "u = u' \<and> '':'' @ show_u32 a = '':'' @ show_u32 a'"
    using len_field_split by blast
  with w show "w = w' \<and> u = u' \<and> a = a'" by simp
qed simp

lemma workflow_graph_key_inject [simp]:
  "workflow_graph_key r w v = workflow_graph_key r' w' v' \<longleftrightarrow> r = r' \<and> w = w' \<and> v = v'"
proof
  assume "workflow_graph_key r w v = workflow_graph_key r' w' v'"
  then have "len_field r @ len_field w @ len_field v @ [] = len_field r' @ len_field w' @ len_field v' @ []"
    by (simp add: workflow_graph_key_def len_field_def)
  then have r: "r = r'" and "len_field w @ len_field v @ [] = len_field w' @ len_field v' @ []"
    using len_field_split by blast+
  then have w: "w = w'" and "len_field v @ [] = len_field v' @ []"
    using len_field_split by blast+
  then have "v = v'" using len_field_split by blast
  with r w show "r = r' \<and> w = w' \<and> v = v'" by simp
qed simp

text \<open>A piece without the separator is recovered from the text that follows it.\<close>

lemma separator_split:
  assumes "a @ d # s = b @ d # t" and "d \<notin> set a" and "d \<notin> set b"
  shows "a = b \<and> s = t"
proof -
  have "takeWhile (\<lambda>c. c \<noteq> d) (x @ d # u) = x" if "d \<notin> set x" for x u
  proof -
    have "\<forall>c \<in> set x. c \<noteq> d" using that by blast
    then show ?thesis by (simp add: takeWhile_append2)
  qed
  with assms have "a = b" by metis
  with assms(1) show ?thesis by simp
qed

definition nul_free :: "string \<Rightarrow> bool" where
  "nul_free s \<longleftrightarrow> CHR 0x00 \<notin> set s"

lemma manifest_declaration_key_inject:
  assumes eq: "manifest_declaration_key r w v u a = manifest_declaration_key r' w' v' u' a'"
    and free: "nul_free r" "nul_free w" "nul_free v" "nul_free u"
    and free': "nul_free r'" "nul_free w'" "nul_free v'" "nul_free u'"
  shows "r = r' \<and> w = w' \<and> v = v' \<and> u = u' \<and> a = a'"
proof -
  note split = separator_split [where d = "CHR 0x00"]
  from eq have 1: "r @ CHR 0x00 # (w @ nul @ v @ nul @ u @ nul @ show_u32 a) =
      r' @ CHR 0x00 # (w' @ nul @ v' @ nul @ u' @ nul @ show_u32 a')"
    by (simp add: manifest_declaration_key_def nul_def)
  from split [OF 1] free free' have r: "r = r'"
    and 2: "w @ CHR 0x00 # (v @ nul @ u @ nul @ show_u32 a) = w' @ CHR 0x00 # (v' @ nul @ u' @ nul @ show_u32 a')"
    by (auto simp: nul_free_def nul_def)
  from split [OF 2] free free' have w: "w = w'"
    and 3: "v @ CHR 0x00 # (u @ nul @ show_u32 a) = v' @ CHR 0x00 # (u' @ nul @ show_u32 a')"
    by (auto simp: nul_free_def nul_def)
  from split [OF 3] free free' have v: "v = v'"
    and 4: "u @ CHR 0x00 # show_u32 a = u' @ CHR 0x00 # show_u32 a'"
    by (auto simp: nul_free_def nul_def)
  from split [OF 4] free free' have "u = u' \<and> show_u32 a = show_u32 a'"
    by (auto simp: nul_free_def)
  with r w v show ?thesis by simp
qed

end
