(* ===== verification/Reducer_Base.thy ===== *)
theory Reducer_Base
  imports Replay_State Canonicalize Workflow_Keys
begin

text \<open>
  The part of the reducer every transition shares, \<open>bp-replay/src/transitions.rs\<close>: refusing an
  event, the workflow map with its compatibility view, the lookups that bind evidence to a
  workflow, and the run, unit, plan, tool and activity transitions.

  A workflow transition either refuses the event (it records an issue and changes nothing else),
  leaves the state alone, re-points the compatibility view at the workflow it names, or commits an
  updated workflow under a key and re-points the view there. \<open>verdict\<close> names these outcomes and
  \<open>settle\<close> performs them, so a transition is the chain of its guards ending in a verdict.
\<close>

named_theorems verdict_defs \<open>definitions of the guard chains of the transitions\<close>

subsection \<open>Outcomes of a workflow transition\<close>

datatype verdict =
    Refuse string
  | Unchanged
  | Resync string
  | Commit string WorkflowInstanceV1

definition reject_workflow_transition :: "ReplayState \<Rightarrow> Event \<Rightarrow> string \<Rightarrow> ReplayState" where
  "reject_workflow_transition st e reason =
     st\<lparr>st_issues := st_issues st @
          [WorkflowTransitionRejected (ev_id e) (as_wire (ev_kind e))
             (map_option wi_phase (st_workflow_instance st)) reason]\<rparr>"

definition reject_activity_transition :: "ReplayState \<Rightarrow> Event \<Rightarrow> string \<Rightarrow> string \<Rightarrow> ReplayState" where
  "reject_activity_transition st e activity_id reason =
     st\<lparr>st_issues := st_issues st @ [ActivityTransitionRejected (ev_id e) activity_id reason]\<rparr>"

definition instance_key :: "WorkflowInstanceV1 \<Rightarrow> string" where
  "instance_key w = workflow_instance_key (wi_workflow_id w) (wi_unit_id w) (wi_attempt w)"

definition ensure_workflow_instances :: "ReplayState \<Rightarrow> ReplayState" where
  "ensure_workflow_instances st =
     (if st_workflow_instances st = [] then
        case st_workflow_instance st of
          None \<Rightarrow> st
        | Some w \<Rightarrow> st\<lparr>st_workflow_instances := bt_insert (instance_key w) w (st_workflow_instances st)\<rparr>
      else st)"

definition sync_workflow_compatibility_view :: "ReplayState \<Rightarrow> string \<Rightarrow> ReplayState" where
  "sync_workflow_compatibility_view st key =
     st\<lparr>st_workflow_instance := bt_get (st_workflow_instances st) key\<rparr>"

fun settle :: "ReplayState \<Rightarrow> Event \<Rightarrow> verdict \<Rightarrow> ReplayState" where
  "settle st e (Refuse reason) = reject_workflow_transition st e reason"
| "settle st e Unchanged = st"
| "settle st e (Resync key) = sync_workflow_compatibility_view st key"
| "settle st e (Commit key w) =
     sync_workflow_compatibility_view
       (st\<lparr>st_workflow_instances := bt_insert key w (st_workflow_instances st)\<rparr>) key"

text \<open>The verdict of a fallible lookup: its error is a refusal.\<close>

definition or_refuse :: "(string, 'a) result \<Rightarrow> ('a \<Rightarrow> verdict) \<Rightarrow> verdict" where
  "or_refuse r f = (case r of Inl reason \<Rightarrow> Refuse reason | Inr a \<Rightarrow> f a)"

lemma or_refuse_simps [simp]:
  "or_refuse (Inl reason) f = Refuse reason"
  "or_refuse (Inr a) f = f a"
  by (simp_all add: or_refuse_def)

lemma or_refuse_eq_Commit [simp]:
  "or_refuse r f = Commit k w \<longleftrightarrow> (\<exists>a. r = Inr a \<and> f a = Commit k w)"
  by (cases r) auto

text \<open>A list of guards, each with the reason it refuses.\<close>

definition refuse_if :: "bool \<Rightarrow> string \<Rightarrow> (string, unit) result" where
  "refuse_if b reason = (if b then Inl reason else Inr ())"

lemma refuse_if_ok [simp]: "refuse_if b reason = Inr () \<longleftrightarrow> \<not> b"
  by (simp add: refuse_if_def)

definition first_refusal :: "(string, unit) result list \<Rightarrow> (string, unit) result" where
  "first_refusal checks = try_each (\<lambda>r. r) checks"

lemma first_refusal_ok [simp]: "first_refusal checks = Inr () \<longleftrightarrow> (\<forall>r \<in> set checks. r = Inr ())"
  by (simp add: first_refusal_def)

text \<open>A step that needs the canonical hash of its event refuses the event when there is none.\<close>

definition with_event_hash :: "env \<Rightarrow> Event \<Rightarrow> string \<Rightarrow> (string \<Rightarrow> verdict) \<Rightarrow> verdict" where
  "with_event_hash E e label f =
     (case canonical_event_hash E e of
        Inl err \<Rightarrow> Refuse (label @ '' canonical hash failed: '' @ error_text err)
      | Inr digest \<Rightarrow> f digest)"

lemma with_event_hash_Commit [simp]:
  "with_event_hash E e label f = Commit k w \<longleftrightarrow> (\<exists>d. canonical_event_hash E e = Inr d \<and> f d = Commit k w)"
  by (auto simp: with_event_hash_def split: sum.splits)

definition validate_v3_event_payload :: "env \<Rightarrow> Event \<Rightarrow> (string, unit) result" where
  "validate_v3_event_payload E e =
     (case canonicalize E e of
        Inl err \<Rightarrow> Inl (''V3 action evidence payload is not canonical: '' @ error_text err)
      | Inr _ \<Rightarrow> Inr ())"

subsection \<open>Lookups\<close>

definition event_matches_workflow_run :: "env \<Rightarrow> WorkflowInstanceV1 \<Rightarrow> Event \<Rightarrow> bool" where
  "event_matches_workflow_run E w e \<longleftrightarrow> wi_run_id w = uuid_to_string E (ev_run_id e)"

definition parse_rfc3339_utc :: "env \<Rightarrow> string \<Rightarrow> instant option" where
  "parse_rfc3339_utc E value =
     (if \<not> ends_with ''Z'' value then None else parse_from_rfc3339 E value)"

definition candidate_bound ::
  "env \<Rightarrow> Event \<Rightarrow> string \<Rightarrow> string option \<Rightarrow> WorkflowInstanceV1 \<Rightarrow> bool" where
  "candidate_bound E e candidate_digest candidate_commit_sha w \<longleftrightarrow>
     event_matches_workflow_run E w e \<and>
     (case wi_candidate w of
        None \<Rightarrow> False
      | Some c \<Rightarrow> cand_candidate_digest c = candidate_digest \<and>
          (case candidate_commit_sha of None \<Rightarrow> True | Some commit \<Rightarrow> cand_candidate_commit_sha c = commit))"

definition find_workflow_key_for_candidate ::
  "env \<Rightarrow> ReplayState \<Rightarrow> Event \<Rightarrow> string \<Rightarrow> string option \<Rightarrow> (string, string) result" where
  "find_workflow_key_for_candidate E st e candidate_digest candidate_commit_sha =
     (case map fst (filter (\<lambda>(_, w). candidate_bound E e candidate_digest candidate_commit_sha w)
             (bt_entries (st_workflow_instances st))) of
        [key] \<Rightarrow> Inr key
      | [] \<Rightarrow> Inl ''candidate evidence has no matching immutable candidate/workflow''
      | _ \<Rightarrow> Inl ''candidate evidence is ambiguous across workflow unit attempts'')"

definition supports_sealed_action_evidence :: "WorkflowInstanceV1 \<Rightarrow> bool" where
  "supports_sealed_action_evidence w \<longleftrightarrow>
     wd_dispatch_version (wi_dispatch w) \<in> {3, 4, 5} \<and>
     wd_action_evidence_version (wi_dispatch w) \<in> {Some Evidence_SealedV2, Some Evidence_SealedV3}"

definition workflow_supports_native_activity_claim :: "WorkflowInstanceV1 \<Rightarrow> bool" where
  "workflow_supports_native_activity_claim w \<longleftrightarrow>
     supports_sealed_action_evidence w
     \<and> wd_trust_tier (wi_dispatch w) = Tier_Governed
     \<and> wd_commit_mode (wi_dispatch w) = Commit_Atomic
     \<and> wi_action_evidence w \<noteq> None"

definition requires_activity_claim_result :: "WorkflowInstanceV1 \<Rightarrow> bool" where
  "requires_activity_claim_result w \<longleftrightarrow>
     wd_action_evidence_version (wi_dispatch w) = Some Evidence_SealedV3"

definition requires_candidate_completion :: "WorkflowInstanceV1 \<Rightarrow> bool" where
  "requires_candidate_completion w \<longleftrightarrow>
     requires_activity_claim_result w
     \<and> wd_trust_tier (wi_dispatch w) = Tier_Governed
     \<and> (case wi_candidate w of None \<Rightarrow> False | Some c \<Rightarrow> cand_action_receipt_set_ref c \<noteq> None)"

definition workflow_is_governed_atomic_sealed_v3 :: "WorkflowInstanceV1 \<Rightarrow> bool" where
  "workflow_is_governed_atomic_sealed_v3 w \<longleftrightarrow>
     workflow_supports_native_activity_claim w \<and> requires_activity_claim_result w"

definition find_workflow_key_for_lifecycle ::
  "env \<Rightarrow> ReplayState \<Rightarrow> Event \<Rightarrow> string \<Rightarrow> string \<Rightarrow> string \<Rightarrow> string \<Rightarrow> u32 \<Rightarrow> EventId \<Rightarrow> string \<Rightarrow>
   (string, string) result" where
  "find_workflow_key_for_lifecycle E st e run_id workflow_id workflow_revision unit_id attempt
     dispatch_event_ref dispatch_envelope_digest =
     (if run_id \<noteq> uuid_to_string E (ev_run_id e)
      then Inl ''workflow lifecycle record run_id does not match its event run_id''
      else let key = workflow_instance_key workflow_id unit_id attempt in
        case bt_get (st_workflow_instances st) key of
          None \<Rightarrow> Inl ''workflow lifecycle record has no prior dispatch envelope''
        | Some w \<Rightarrow>
            if \<not> event_matches_workflow_run E w e
               \<or> wi_workflow_revision w \<noteq> workflow_revision
               \<or> wd_event_id (wi_dispatch w) \<noteq> dispatch_event_ref
               \<or> wd_envelope_digest (wi_dispatch w) \<noteq> dispatch_envelope_digest
            then Inl ''workflow lifecycle record does not bind the exact dispatched unit attempt''
            else if \<not> workflow_is_governed_atomic_sealed_v3 w
            then Inl ''workflow lifecycle records require a governed atomic sealed_v3 dispatch envelope''
            else Inr key)"

definition governed_workflow_run_exists :: "ReplayState \<Rightarrow> string \<Rightarrow> bool" where
  "governed_workflow_run_exists st run_id \<longleftrightarrow>
     list_ex (\<lambda>w. wi_run_id w = run_id \<and> wd_trust_tier (wi_dispatch w) = Tier_Governed)
       (bt_values (st_workflow_instances st))
     \<or> (case st_workflow_instance st of
          None \<Rightarrow> False
        | Some w \<Rightarrow> wi_run_id w = run_id \<and> wd_trust_tier (wi_dispatch w) = Tier_Governed)"

subsection \<open>Runs, units, checkpoints, plans, tools and workspace\<close>

definition apply_run_started :: "env \<Rightarrow> ReplayState \<Rightarrow> Event \<Rightarrow> RunStartedV1 \<Rightarrow> ReplayState" where
  "apply_run_started E st e p =
     st\<lparr>st_run_id := Some (uuid_to_string E (ev_run_id e)),
        st_parent_run_id := map_option (uuid_to_string E) (rs_parent_run_id p),
        st_parent_event_id := map_option (uuid_to_string E) (rs_parent_event_id p),
        st_parent_chain := st_parent_chain st @ [ev_id e]\<rparr>"

definition clear_parent_chain :: "ReplayState \<Rightarrow> ReplayState" where
  "clear_parent_chain st = st\<lparr>st_parent_chain := []\<rparr>"

definition apply_unit_started :: "ReplayState \<Rightarrow> Event \<Rightarrow> UnitStartedV1 \<Rightarrow> ReplayState" where
  "apply_unit_started st e p =
     st\<lparr>st_current_unit := Some (us_unit_id p), st_parent_chain := st_parent_chain st @ [ev_id e]\<rparr>"

definition leave_unit :: "ReplayState \<Rightarrow> ReplayState" where
  "leave_unit st = st\<lparr>st_current_unit := None, st_parent_chain := butlast (st_parent_chain st)\<rparr>"

definition boundary_wire :: "CheckpointBoundary \<Rightarrow> string" where
  "boundary_wire b = (case b of Boundary_PreUnit \<Rightarrow> ''pre-unit'' | Boundary_PostUnit \<Rightarrow> ''post-unit'')"

definition apply_git_checkpoint :: "ReplayState \<Rightarrow> Event \<Rightarrow> GitCheckpointV1 \<Rightarrow> ReplayState" where
  "apply_git_checkpoint st e p =
     (case gc_git_status p of
        GitStatus_Ok \<Rightarrow>
          st\<lparr>st_checkpoints := st_checkpoints st @
               [\<lparr>ck_boundary = boundary_wire (gc_boundary p), ck_reference = gc_reference p,
                 ck_commit_sha = gc_commit_sha p, ck_unit_id = gc_unit_id p,
                 ck_from_event_id = ev_id e\<rparr>]\<rparr>
      | GitStatus_Failed error \<Rightarrow>
          st\<lparr>st_issues := st_issues st @ [CheckpointFailed (gc_unit_id p) ''unknown'' error]\<rparr>)"

definition apply_plan_admitted :: "ReplayState \<Rightarrow> Event \<Rightarrow> PlanAdmittedV1 \<Rightarrow> ReplayState" where
  "apply_plan_admitted st e p =
     st\<lparr>st_plan_cycle_phase := ''plan_admitted'',
        st_plan_admission := Some
          \<lparr>pla_event_id = ev_id e, pla_plan_id = pad_plan_id p, pla_plan_digest = pad_plan_digest p,
           pla_input_digest = pad_input_digest p, pla_trusted_base = pad_trusted_base p,
           pla_decided_by = pad_decided_by p, pla_decided_at = pad_decided_at p,
           pla_idempotency_key = pad_idempotency_key p,
           pla_authorized_next_step = pad_authorized_next_step p\<rparr>\<rparr>"

definition apply_acceptance_recorded :: "ReplayState \<Rightarrow> Event \<Rightarrow> AcceptanceRecordedV1 \<Rightarrow> ReplayState" where
  "apply_acceptance_recorded st e p =
     st\<lparr>st_plan_cycle_phase := ''acceptance_recorded'',
        st_plan_acceptance := Some
          \<lparr>plc_event_id = ev_id e, plc_plan_id = arec_plan_id p,
           plc_admission_event_id = arec_admission_event_id p,
           plc_contract_digest = arec_contract_digest p, plc_outcome = arec_outcome p,
           plc_diff_scope_status = arec_diff_scope_status p,
           plc_out_of_scope_files = arec_out_of_scope_files p,
           plc_evaluated_at = arec_evaluated_at p\<rparr>\<rparr>"

definition plan_receipt_outcome_wire :: "PlanReceiptOutcome \<Rightarrow> string" where
  "plan_receipt_outcome_wire outcome =
     (case outcome of
        PlanOutcome_Completed \<Rightarrow> ''completed''
      | PlanOutcome_Failed \<Rightarrow> ''failed''
      | PlanOutcome_Aborted \<Rightarrow> ''aborted'')"

definition apply_plan_receipt :: "ReplayState \<Rightarrow> Event \<Rightarrow> PlanReceiptRecordedV1 \<Rightarrow> ReplayState" where
  "apply_plan_receipt st e p =
     st\<lparr>st_plan_cycle_phase := ''plan_receipt'',
        st_plan_receipt := Some
          \<lparr>plr_event_id = ev_id e, plr_plan_id = prcp_plan_id p,
           plr_admission_event_id = prcp_admission_event_id p,
           plr_outcome = plan_receipt_outcome_wire (prcp_outcome p),
           plr_side_effects = prcp_side_effects p, plr_result_digest = prcp_result_digest p,
           plr_decided_at = prcp_decided_at p\<rparr>\<rparr>"

definition apply_tool_request :: "ReplayState \<Rightarrow> Event \<Rightarrow> ReplayState" where
  "apply_tool_request st e = st\<lparr>st_parent_chain := st_parent_chain st @ [ev_id e]\<rparr>"

definition apply_tool_result :: "ReplayState \<Rightarrow> ReplayState" where
  "apply_tool_result st = st\<lparr>st_parent_chain := butlast (st_parent_chain st)\<rparr>"

definition apply_workspace_write :: "ReplayState \<Rightarrow> Event \<Rightarrow> WorkspaceWriteV1 \<Rightarrow> ReplayState" where
  "apply_workspace_write st e p =
     (case ww_after p of
        PostWrite_Captured hash _ \<Rightarrow>
          st\<lparr>st_observed_files := bt_insert (ww_path p)
               \<lparr>fo_last_known_hash = hash, fo_from_event_id = ev_id e\<rparr> (st_observed_files st)\<rparr>
      | PostWrite_Unreadable reason \<Rightarrow>
          st\<lparr>st_issues := st_issues st @ [UnreadablePostWrite (ww_path p) reason]\<rparr>)"

end
