(* ===== verification/Activity_Transitions.thy ===== *)
theory Activity_Transitions
  imports Reducer_Base
begin

text \<open>
  The run-scoped activity bracket, \<open>apply_activity_started\<close> and \<open>apply_activity_completed\<close> of
  \<open>bp-replay/src/transitions.rs\<close>. Outside a governed run the latest record wins, as legacy tapes
  expect; in a governed run a start is a write-ahead intent and a completed result is immutable.
\<close>

definition activity_type_wire :: "ActivityType \<Rightarrow> string" where
  "activity_type_wire t =
     (case t of Activity_Model \<Rightarrow> ''model'' | Activity_Tool \<Rightarrow> ''tool'' | Activity_Command \<Rightarrow> ''command'')"

definition default_activity :: "string \<Rightarrow> RecordedActivityState" where
  "default_activity activity_id =
     \<lparr>ras_run_id = None, ras_activity_id = activity_id, ras_activity_type = None,
      ras_input_digest = None, ras_started_event_id = None, ras_completed_event_id = None,
      ras_result_digest = None, ras_result = None\<rparr>"

definition governed_activity_bracketing_is_required_for_run ::
  "env \<Rightarrow> ReplayState \<Rightarrow> Event \<Rightarrow> string \<Rightarrow> bool \<Rightarrow> bool" where
  "governed_activity_bracketing_is_required_for_run E st e activity_id predeclared_governed_run \<longleftrightarrow>
     predeclared_governed_run
     \<or> governed_workflow_run_exists st (uuid_to_string E (ev_run_id e))
     \<or> (case bt_get (st_activities st) activity_id of
          None \<Rightarrow> False
        | Some a \<Rightarrow>
            (case ras_run_id a of
               None \<Rightarrow> False
             | Some run_id \<Rightarrow> governed_workflow_run_exists st run_id))"

definition governed_activity_bracketing_is_required :: "env \<Rightarrow> ReplayState \<Rightarrow> Event \<Rightarrow> string \<Rightarrow> bool" where
  "governed_activity_bracketing_is_required E st e activity_id =
     governed_activity_bracketing_is_required_for_run E st e activity_id False"

definition put_activity :: "string \<Rightarrow> string \<Rightarrow> RecordedActivityState \<Rightarrow> ReplayState \<Rightarrow> ReplayState" where
  "put_activity phase activity_id a st =
     st\<lparr>st_plan_cycle_phase := phase, st_activities := bt_insert activity_id a (st_activities st)\<rparr>"

definition activity_entry :: "ReplayState \<Rightarrow> string \<Rightarrow> RecordedActivityState" where
  "activity_entry st activity_id =
     (case bt_get (st_activities st) activity_id of None \<Rightarrow> default_activity activity_id | Some a \<Rightarrow> a)"

definition record_activity_started :: "env \<Rightarrow> ReplayState \<Rightarrow> Event \<Rightarrow> ActivityStartedV1 \<Rightarrow> ReplayState" where
  "record_activity_started E st e p =
     put_activity ''activity_started'' (as_activity_id p)
       ((activity_entry st (as_activity_id p))
          \<lparr>ras_run_id := Some (uuid_to_string E (as_run_id p)),
           ras_activity_type := Some (activity_type_wire (as_activity_type p)),
           ras_input_digest := Some (as_input_digest p),
           ras_started_event_id := Some (ev_id e)\<rparr>) st"

definition apply_activity_started :: "env \<Rightarrow> ReplayState \<Rightarrow> Event \<Rightarrow> ActivityStartedV1 \<Rightarrow> ReplayState" where
  "apply_activity_started E st e p =
     (if governed_activity_bracketing_is_required E st e (as_activity_id p) then
        if as_run_id p \<noteq> ev_run_id e
        then reject_activity_transition st e (as_activity_id p)
               ''activity_started payload run_id does not match its event run_id''
        else case bt_get (st_activities st) (as_activity_id p) of
          Some existing \<Rightarrow>
            if ras_completed_event_id existing \<noteq> None
            then reject_activity_transition st e (as_activity_id p)
                   ''activity_started received after an immutable completed result''
            else if ras_started_event_id existing \<noteq> None
               \<and> ras_run_id existing = Some (uuid_to_string E (as_run_id p))
               \<and> ras_activity_type existing = Some (activity_type_wire (as_activity_type p))
               \<and> ras_input_digest existing = Some (as_input_digest p)
            then st
            else reject_activity_transition st e (as_activity_id p)
                   ''activity_started does not match the existing governed write-ahead intent''
        | None \<Rightarrow> record_activity_started E st e p
      else record_activity_started E st e p)"

definition apply_activity_completed :: "env \<Rightarrow> ReplayState \<Rightarrow> Event \<Rightarrow> ActivityCompletedV1 \<Rightarrow> ReplayState" where
  "apply_activity_completed E st e p =
     (if governed_activity_bracketing_is_required E st e (ac_activity_id p) then
        if ac_run_id p \<noteq> ev_run_id e
        then reject_activity_transition st e (ac_activity_id p)
               ''activity_completed payload run_id does not match its event run_id''
        else case bt_get (st_activities st) (ac_activity_id p) of
          None \<Rightarrow> reject_activity_transition st e (ac_activity_id p)
                    ''activity_completed has no prior governed write-ahead intent''
        | Some existing \<Rightarrow>
            if ras_run_id existing \<noteq> Some (uuid_to_string E (ac_run_id p))
               \<or> ras_started_event_id existing = None
            then reject_activity_transition st e (ac_activity_id p)
                   ''activity_completed does not bind the recorded governed write-ahead intent''
            else if ras_completed_event_id existing \<noteq> None
            then
              if ras_result_digest existing = Some (ac_result_digest p)
                 \<and> ras_result existing = Some (ac_result p)
              then st
              else reject_activity_transition st e (ac_activity_id p)
                     ''activity_completed attempts to replace an immutable governed result''
            else put_activity ''activity_completed'' (ac_activity_id p)
                   (existing\<lparr>ras_completed_event_id := Some (ev_id e),
                             ras_result_digest := Some (ac_result_digest p),
                             ras_result := Some (ac_result p)\<rparr>) st
      else put_activity ''activity_completed'' (ac_activity_id p)
             ((activity_entry st (ac_activity_id p))
                \<lparr>ras_run_id := Some (uuid_to_string E (ac_run_id p)),
                 ras_completed_event_id := Some (ev_id e),
                 ras_result_digest := Some (ac_result_digest p),
                 ras_result := Some (ac_result p)\<rparr>) st)"

end
