(* ===== verification/Dispatch_Transitions.thy ===== *)
theory Dispatch_Transitions
  imports Reducer_Base
begin

text \<open>
  Graph declarations and dispatch envelopes, \<open>bp-replay/src/transitions.rs\<close>: the only events that
  create a graph projection or a workflow instance.
\<close>

subsection \<open>Graph declarations\<close>

definition names_workflow :: "string \<Rightarrow> string \<Rightarrow> string \<Rightarrow> WorkflowInstanceV1 \<Rightarrow> bool" where
  "names_workflow run_id workflow_id workflow_revision w \<longleftrightarrow>
     wi_run_id w = run_id \<and> wi_workflow_id w = workflow_id \<and> wi_workflow_revision w = workflow_revision"

definition workflow_graph_has_dispatched :: "ReplayState \<Rightarrow> string \<Rightarrow> string \<Rightarrow> string \<Rightarrow> bool" where
  "workflow_graph_has_dispatched st run_id workflow_id workflow_revision \<longleftrightarrow>
     list_ex (names_workflow run_id workflow_id workflow_revision) (bt_values (st_workflow_instances st))
     \<or> (case st_workflow_instance st of
          None \<Rightarrow> False | Some w \<Rightarrow> names_workflow run_id workflow_id workflow_revision w)"

definition workflow_graph_v2_has_dispatched :: "ReplayState \<Rightarrow> string \<Rightarrow> string \<Rightarrow> string \<Rightarrow> bool" where
  "workflow_graph_v2_has_dispatched st run_id workflow_id workflow_revision \<longleftrightarrow>
     (let bound = (\<lambda>w. wd_dispatch_version (wi_dispatch w) \<in> {4, 5}
            \<and> names_workflow run_id workflow_id workflow_revision w)
      in list_ex bound (bt_values (st_workflow_instances st))
         \<or> (case st_workflow_instance st of None \<Rightarrow> False | Some w \<Rightarrow> bound w))"

definition workflow_graph_v2_has_other_revision :: "ReplayState \<Rightarrow> string \<Rightarrow> string \<Rightarrow> string \<Rightarrow> bool" where
  "workflow_graph_v2_has_other_revision st run_id workflow_id workflow_revision \<longleftrightarrow>
     list_ex (\<lambda>g. wg2_run_id g = run_id \<and> wg2_workflow_id g = workflow_id
         \<and> wg2_workflow_revision g \<noteq> workflow_revision) (bt_values (st_workflow_graphs_v2 st))"

definition workflow_graph_matches :: "WorkflowGraphReplayState \<Rightarrow> WorkflowGraphDeclaredV1 \<Rightarrow> bool" where
  "workflow_graph_matches g p \<longleftrightarrow>
     wg_run_id g = gd1_run_id p \<and> wg_workflow_id g = gd1_workflow_id p
     \<and> wg_workflow_revision g = gd1_workflow_revision p \<and> wg_nodes g = gd1_nodes p
     \<and> wg_max_concurrent g = gd1_max_concurrent p \<and> wg_graph_digest g = gd1_graph_digest p
     \<and> wg_idempotency_key g = gd1_idempotency_key p \<and> wg_declared_at g = gd1_declared_at p"

definition workflow_graph_v2_matches :: "WorkflowGraphV2ReplayState \<Rightarrow> WorkflowGraphDeclaredV2 \<Rightarrow> bool" where
  "workflow_graph_v2_matches g p \<longleftrightarrow>
     wg2_run_id g = gd2_run_id p \<and> wg2_workflow_id g = gd2_workflow_id p
     \<and> wg2_workflow_revision g = gd2_workflow_revision p \<and> wg2_nodes g = gd2_nodes p
     \<and> wg2_max_concurrent g = gd2_max_concurrent p \<and> wg2_graph_digest g = gd2_graph_digest p
     \<and> wg2_idempotency_key g = gd2_idempotency_key p \<and> wg2_declared_at g = gd2_declared_at p"

definition apply_workflow_graph_declared_v1 :: "env \<Rightarrow> ReplayState \<Rightarrow> Event \<Rightarrow> WorkflowGraphDeclaredV1 \<Rightarrow> ReplayState" where
  "apply_workflow_graph_declared_v1 E st e p =
     (case canonicalize E e of
        Inl err \<Rightarrow> reject_workflow_transition st e
          (''workflow graph declaration failed canonical validation: '' @ error_text err)
      | Inr _ \<Rightarrow>
          if gd1_run_id p \<noteq> uuid_to_string E (ev_run_id e)
          then reject_workflow_transition st e
                 ''workflow graph declaration run_id does not match its event run_id''
          else if workflow_graph_has_dispatched st (gd1_run_id p) (gd1_workflow_id p) (gd1_workflow_revision p)
          then reject_workflow_transition st e
                 ''workflow graph declaration arrived after dispatch for that workflow revision''
          else
            let key = workflow_graph_key (gd1_run_id p) (gd1_workflow_id p) (gd1_workflow_revision p) in
            case bt_get (st_workflow_graphs st) key of
              Some existing \<Rightarrow>
                if wg_event_id existing = ev_id e \<and> workflow_graph_matches existing p then st
                else reject_workflow_transition st e
                  (if wg_event_id existing = ev_id e
                   then ''workflow graph declaration event id conflicts with its existing projection''
                   else ''workflow graph declaration conflicts with an existing immutable declaration'')
            | None \<Rightarrow>
                st\<lparr>st_workflow_graphs := bt_insert key
                     \<lparr>wg_event_id = ev_id e, wg_run_id = gd1_run_id p, wg_workflow_id = gd1_workflow_id p,
                      wg_workflow_revision = gd1_workflow_revision p, wg_nodes = gd1_nodes p,
                      wg_max_concurrent = gd1_max_concurrent p, wg_graph_digest = gd1_graph_digest p,
                      wg_idempotency_key = gd1_idempotency_key p, wg_declared_at = gd1_declared_at p\<rparr>
                     (st_workflow_graphs st)\<rparr>)"

definition apply_workflow_graph_declared_v2 :: "env \<Rightarrow> ReplayState \<Rightarrow> Event \<Rightarrow> WorkflowGraphDeclaredV2 \<Rightarrow> ReplayState" where
  "apply_workflow_graph_declared_v2 E st e p =
     (case canonicalize E e of
        Inl err \<Rightarrow> reject_workflow_transition st e
          (''workflow graph declaration v2 failed canonical validation: '' @ error_text err)
      | Inr _ \<Rightarrow>
          if gd2_run_id p \<noteq> uuid_to_string E (ev_run_id e)
          then reject_workflow_transition st e
                 ''workflow graph declaration v2 run_id does not match its event run_id''
          else if workflow_graph_v2_has_other_revision st (gd2_run_id p) (gd2_workflow_id p) (gd2_workflow_revision p)
          then reject_workflow_transition st e
                 ''workflow graph declaration v2 cannot reuse a run/workflow identity across revisions until workflow evidence keys include the revision''
          else if workflow_graph_v2_has_dispatched st (gd2_run_id p) (gd2_workflow_id p) (gd2_workflow_revision p)
          then reject_workflow_transition st e
                 ''workflow graph declaration v2 arrived after V4 dispatch for that workflow revision''
          else
            let key = workflow_graph_key (gd2_run_id p) (gd2_workflow_id p) (gd2_workflow_revision p) in
            case bt_get (st_workflow_graphs_v2 st) key of
              Some existing \<Rightarrow>
                if wg2_event_id existing = ev_id e \<and> workflow_graph_v2_matches existing p then st
                else reject_workflow_transition st e
                  (if wg2_event_id existing = ev_id e
                   then ''workflow graph declaration v2 event id conflicts with its existing projection''
                   else ''workflow graph declaration v2 conflicts with an existing immutable declaration'')
            | None \<Rightarrow>
                st\<lparr>st_workflow_graphs_v2 := bt_insert key
                     \<lparr>wg2_event_id = ev_id e, wg2_run_id = gd2_run_id p, wg2_workflow_id = gd2_workflow_id p,
                      wg2_workflow_revision = gd2_workflow_revision p, wg2_nodes = gd2_nodes p,
                      wg2_max_concurrent = gd2_max_concurrent p, wg2_graph_digest = gd2_graph_digest p,
                      wg2_idempotency_key = gd2_idempotency_key p, wg2_declared_at = gd2_declared_at p\<rparr>
                     (st_workflow_graphs_v2 st)\<rparr>)"

subsection \<open>What a dispatch envelope must satisfy\<close>

record DispatchEnvelopeAuthorityFields =
  daf_workflow_id :: string
  daf_workflow_revision :: string
  daf_unit_id :: string
  daf_attempt :: u32
  daf_provenance_ref :: string
  daf_base_commit_sha :: string
  daf_capability_bundle_digest :: string
  daf_acceptance_contract_digest :: string
  daf_context_manifest_digest :: string
  daf_worker_manifest_digest :: string
  daf_sandbox_profile_digest :: string
  daf_budget :: DispatchBudgetV1
  daf_trust_tier :: TrustTierV1
  daf_commit_mode :: CommitModeV1
  daf_idempotency_key :: string
  daf_issued_at :: string
  daf_expires_at :: string

definition dispatch_envelope_authority_fields_v1 :: "DispatchEnvelopeV1 \<Rightarrow> DispatchEnvelopeAuthorityFields" where
  "dispatch_envelope_authority_fields_v1 p =
     \<lparr>daf_workflow_id = de1_workflow_id p, daf_workflow_revision = de1_workflow_revision p,
      daf_unit_id = de1_unit_id p, daf_attempt = de1_attempt p,
      daf_provenance_ref = de1_provenance_ref p, daf_base_commit_sha = de1_base_commit_sha p,
      daf_capability_bundle_digest = de1_capability_bundle_digest p,
      daf_acceptance_contract_digest = de1_acceptance_contract_digest p,
      daf_context_manifest_digest = de1_context_manifest_digest p,
      daf_worker_manifest_digest = de1_worker_manifest_digest p,
      daf_sandbox_profile_digest = de1_sandbox_profile_digest p, daf_budget = de1_budget p,
      daf_trust_tier = de1_trust_tier p, daf_commit_mode = de1_commit_mode p,
      daf_idempotency_key = de1_idempotency_key p, daf_issued_at = de1_issued_at p,
      daf_expires_at = de1_expires_at p\<rparr>"

definition dispatch_envelope_authority_fields_v2 :: "DispatchEnvelopeBodyV2 \<Rightarrow> DispatchEnvelopeAuthorityFields" where
  "dispatch_envelope_authority_fields_v2 b =
     \<lparr>daf_workflow_id = deb_workflow_id b, daf_workflow_revision = deb_workflow_revision b,
      daf_unit_id = deb_unit_id b, daf_attempt = deb_attempt b,
      daf_provenance_ref = deb_provenance_ref b, daf_base_commit_sha = deb_base_commit_sha b,
      daf_capability_bundle_digest = deb_capability_bundle_digest b,
      daf_acceptance_contract_digest = deb_acceptance_contract_digest b,
      daf_context_manifest_digest = deb_context_manifest_digest b,
      daf_worker_manifest_digest = deb_worker_manifest_digest b,
      daf_sandbox_profile_digest = deb_sandbox_profile_digest b, daf_budget = deb_budget b,
      daf_trust_tier = deb_trust_tier b, daf_commit_mode = deb_commit_mode b,
      daf_idempotency_key = deb_idempotency_key b, daf_issued_at = deb_issued_at b,
      daf_expires_at = deb_expires_at b\<rparr>"

definition dispatch_non_empty :: "(string \<times> string) list \<Rightarrow> (string, unit) result" where
  "dispatch_non_empty named =
     try_each (\<lambda>(field, value).
       refuse_if (is_blank value) (''dispatch envelope '' @ field @ '' must be non-empty'')) named"

definition validate_dispatch_envelope_authority_fields ::
  "env \<Rightarrow> DispatchEnvelopeAuthorityFields \<Rightarrow> (string, unit) result" where
  "validate_dispatch_envelope_authority_fields E p =
     first_refusal
       [dispatch_non_empty
          [(''workflow_id'', daf_workflow_id p), (''workflow_revision'', daf_workflow_revision p),
           (''unit_id'', daf_unit_id p), (''provenance_ref'', daf_provenance_ref p),
           (''idempotency_key'', daf_idempotency_key p)],
        refuse_if (daf_attempt p = 0) ''dispatch envelope attempt must be greater than zero'',
        refuse_if (\<not> is_canonical_git_object_id (daf_base_commit_sha p))
          ''dispatch envelope base_commit_sha must be a full canonical Git object ID'',
        try_each (\<lambda>(field, value).
            refuse_if (\<not> is_canonical_sha256_digest value)
              (''dispatch envelope '' @ field @ '' must be a canonical sha256 digest''))
          [(''capability_bundle_digest'', daf_capability_bundle_digest p),
           (''acceptance_contract_digest'', daf_acceptance_contract_digest p),
           (''context_manifest_digest'', daf_context_manifest_digest p),
           (''worker_manifest_digest'', daf_worker_manifest_digest p),
           (''sandbox_profile_digest'', daf_sandbox_profile_digest p)],
        refuse_if (zero_limit (bud_max_tokens (daf_budget p))
            \<or> zero_limit (bud_max_compute_time_ms (daf_budget p)))
          ''dispatch envelope budget limits must be greater than zero when present'',
        (case parse_rfc3339_utc E (daf_issued_at p) of
           None \<Rightarrow> Inl ''dispatch envelope issued_at must be an RFC3339 UTC timestamp''
         | Some issued_at \<Rightarrow>
             case parse_rfc3339_utc E (daf_expires_at p) of
               None \<Rightarrow> Inl ''dispatch envelope expires_at must be an RFC3339 UTC timestamp''
             | Some expires_at \<Rightarrow>
                 refuse_if (expires_at \<le> issued_at)
                   ''dispatch envelope expires_at must be later than issued_at''),
        refuse_if (daf_trust_tier p = Tier_Governed \<and> daf_commit_mode p \<noteq> Commit_Atomic)
          ''governed dispatch supports only atomic commit mode'']"

definition validate_dispatch_envelope :: "env \<Rightarrow> DispatchEnvelopeV1 \<Rightarrow> (string, unit) result" where
  "validate_dispatch_envelope E p =
     first_refusal
       [validate_dispatch_envelope_authority_fields E (dispatch_envelope_authority_fields_v1 p),
        refuse_if (\<not> is_canonical_sha256_digest (de1_envelope_digest p))
          ''dispatch envelope envelope_digest must be a canonical sha256 digest'',
        dispatch_non_empty
          [(''signature_ref.key_id'', sig_key_id (de1_signature_ref p)),
           (''signature_ref.signature'', sig_signature (de1_signature_ref p))],
        refuse_if (sig_algorithm (de1_signature_ref p) \<noteq> ''ed25519'')
          ''dispatch envelope signature_ref.algorithm must be ed25519'']"

definition reducer_digest_check :: "string \<Rightarrow> string \<Rightarrow> string \<Rightarrow> (string, string) result \<Rightarrow> (string, unit) result" where
  "reducer_digest_check could_not mismatch recorded expected =
     (case expected of
        Inl err \<Rightarrow> Inl (could_not @ err)
      | Inr d \<Rightarrow> refuse_if (recorded \<noteq> d) mismatch)"

lemma reducer_digest_check_ok [simp]:
  "reducer_digest_check could_not mismatch recorded expected = Inr () \<longleftrightarrow> expected = Inr recorded"
  by (auto simp: reducer_digest_check_def split: sum.splits)

definition validate_dispatch_envelope_v2_fields :: "env \<Rightarrow> DispatchEnvelopeV2 \<Rightarrow> (string, unit) result" where
  "validate_dispatch_envelope_v2_fields E p =
     first_refusal
       [reducer_digest_check ''dispatch envelope v2 body could not be serialized: ''
          ''dispatch envelope v2 envelope_digest does not match the canonical body digest''
          (de2_envelope_digest p) (dispatch_envelope_v2_body_digest E (de2_body p)),
        validate_dispatch_envelope_authority_fields E (dispatch_envelope_authority_fields_v2 (de2_body p))]"

text \<open>
  The test for an unknown evidence version has no branch here: the two versions it admits are all
  the constructors there are.
\<close>

definition validate_dispatch_envelope_v3_fields :: "env \<Rightarrow> DispatchEnvelopeV3 \<Rightarrow> (string, unit) result" where
  "validate_dispatch_envelope_v3_fields E p =
     first_refusal
       [reducer_digest_check ''dispatch envelope v3 body could not be serialized: ''
          ''dispatch envelope v3 envelope_digest does not match the canonical body digest''
          (de3_envelope_digest p)
          (dispatch_envelope_v3_body_digest E (de3_body p) (de3_action_evidence_version p)
            (de3_repository_binding_digest p) (de3_ledger_authority_realm_digest p)
            (de3_governed_packet_digest p)),
        refuse_if (\<not> is_canonical_sha256_digest (de3_repository_binding_digest p))
          ''dispatch envelope v3 repository_binding_digest must be a canonical sha256 digest'',
        refuse_if (\<not> is_canonical_sha256_digest (de3_ledger_authority_realm_digest p))
          ''dispatch envelope v3 ledger_authority_realm_digest must be a canonical sha256 digest'',
        refuse_if (de3_action_evidence_version p = Evidence_SealedV3
            \<and> \<not> (case de3_governed_packet_digest p of None \<Rightarrow> False | Some d \<Rightarrow> is_canonical_sha256_digest d))
          ''sealed_v3 dispatch envelope requires a canonical governed_packet_digest'',
        validate_dispatch_envelope_authority_fields E (dispatch_envelope_authority_fields_v2 (de3_body p))]"

subsection \<open>Projecting a dispatch\<close>

definition validate_dispatch_run_scope :: "env \<Rightarrow> ReplayState \<Rightarrow> Event \<Rightarrow> TrustTierV1 \<Rightarrow> (string, unit) result" where
  "validate_dispatch_run_scope E st e incoming_trust_tier =
     (let run_id = uuid_to_string E (ev_run_id e);
          existing = filter (\<lambda>w. wi_run_id w = run_id) (bt_values (st_workflow_instances st))
      in if list_ex (\<lambda>w. wd_trust_tier (wi_dispatch w) \<noteq> incoming_trust_tier) existing
         then Inl ''raw and governed dispatch envelopes cannot mix within one activity V1 run scope''
         else refuse_if (incoming_trust_tier = Tier_Governed \<and> existing = []
                \<and> list_ex (\<lambda>a. ras_run_id a = Some run_id) (bt_values (st_activities st)))
                ''first governed dispatch must precede every activity V1 bracket in its run scope'')"

definition fresh_workflow ::
  "string \<Rightarrow> string \<Rightarrow> string \<Rightarrow> string \<Rightarrow> u32 \<Rightarrow> WorkflowDispatchReplayState \<Rightarrow>
   ActionEvidenceReplayState option \<Rightarrow> AttemptContextReplayState option \<Rightarrow> WorkflowInstanceV1" where
  "fresh_workflow run_id workflow_id workflow_revision unit_id attempt d evidence retry =
     \<lparr>wi_run_id = run_id, wi_workflow_id = workflow_id, wi_workflow_revision = workflow_revision,
      wi_unit_id = unit_id, wi_attempt = attempt, wi_phase = Phase_Dispatched, wi_dispatch = d,
      wi_workflow_graph = None, wi_manifest_declarations = None, wi_v5_admission_receipt = None,
      wi_action_evidence = evidence, wi_retry_context = retry, wi_timers = [],
      wi_cancellation = None, wi_candidate = None, wi_candidate_completion = None,
      wi_acceptance = None, wi_reviews = [], wi_promotion_approval = None, wi_promotion = None,
      wi_terminal = None\<rparr>"

definition dispatch_state_v1 :: "Event \<Rightarrow> DispatchEnvelopeV1 \<Rightarrow> WorkflowDispatchReplayState" where
  "dispatch_state_v1 e p =
     \<lparr>wd_dispatch_version = 1, wd_event_id = ev_id e, wd_dispatch_event_digest = None,
      wd_envelope_digest = de1_envelope_digest p, wd_provenance_ref = de1_provenance_ref p,
      wd_base_commit_sha = de1_base_commit_sha p, wd_repository_binding_digest = None,
      wd_ledger_authority_realm_digest = None, wd_governed_packet_digest = None,
      wd_workflow_graph_digest = None, wd_workflow_graph_declaration_event_ref = None,
      wd_capability_bundle_digest = de1_capability_bundle_digest p,
      wd_acceptance_contract_digest = de1_acceptance_contract_digest p,
      wd_context_manifest_digest = de1_context_manifest_digest p,
      wd_worker_manifest_digest = de1_worker_manifest_digest p,
      wd_sandbox_profile_digest = de1_sandbox_profile_digest p,
      wd_execution_role = de1_execution_role p, wd_commit_mode = de1_commit_mode p,
      wd_budget = de1_budget p, wd_trust_tier = de1_trust_tier p,
      wd_idempotency_key = de1_idempotency_key p, wd_issued_at = de1_issued_at p,
      wd_expires_at = de1_expires_at p, wd_signature_ref = Some (de1_signature_ref p),
      wd_action_evidence_version = None\<rparr>"

definition dispatch_state_body ::
  "u8 \<Rightarrow> Event \<Rightarrow> string \<Rightarrow> DispatchEnvelopeBodyV2 \<Rightarrow> string option \<Rightarrow> string option \<Rightarrow> string option \<Rightarrow>
   ActionEvidenceVersionV1 option \<Rightarrow> WorkflowDispatchReplayState" where
  "dispatch_state_body version e envelope_digest b repository realm packet evidence_version =
     \<lparr>wd_dispatch_version = version, wd_event_id = ev_id e, wd_dispatch_event_digest = None,
      wd_envelope_digest = envelope_digest, wd_provenance_ref = deb_provenance_ref b,
      wd_base_commit_sha = deb_base_commit_sha b, wd_repository_binding_digest = repository,
      wd_ledger_authority_realm_digest = realm, wd_governed_packet_digest = packet,
      wd_workflow_graph_digest = None, wd_workflow_graph_declaration_event_ref = None,
      wd_capability_bundle_digest = deb_capability_bundle_digest b,
      wd_acceptance_contract_digest = deb_acceptance_contract_digest b,
      wd_context_manifest_digest = deb_context_manifest_digest b,
      wd_worker_manifest_digest = deb_worker_manifest_digest b,
      wd_sandbox_profile_digest = deb_sandbox_profile_digest b,
      wd_execution_role = deb_execution_role b, wd_commit_mode = deb_commit_mode b,
      wd_budget = deb_budget b, wd_trust_tier = deb_trust_tier b,
      wd_idempotency_key = deb_idempotency_key b, wd_issued_at = deb_issued_at b,
      wd_expires_at = deb_expires_at b, wd_signature_ref = None,
      wd_action_evidence_version = evidence_version\<rparr>"

definition dispatch_matches :: "WorkflowInstanceV1 \<Rightarrow> DispatchEnvelopeV1 \<Rightarrow> bool" where
  "dispatch_matches w p \<longleftrightarrow>
     wd_dispatch_version (wi_dispatch w) = 1
     \<and> wi_workflow_id w = de1_workflow_id p \<and> wi_workflow_revision w = de1_workflow_revision p
     \<and> wi_unit_id w = de1_unit_id p \<and> wi_attempt w = de1_attempt p
     \<and> wd_envelope_digest (wi_dispatch w) = de1_envelope_digest p
     \<and> wd_provenance_ref (wi_dispatch w) = de1_provenance_ref p
     \<and> wd_base_commit_sha (wi_dispatch w) = de1_base_commit_sha p
     \<and> wd_capability_bundle_digest (wi_dispatch w) = de1_capability_bundle_digest p
     \<and> wd_acceptance_contract_digest (wi_dispatch w) = de1_acceptance_contract_digest p
     \<and> wd_context_manifest_digest (wi_dispatch w) = de1_context_manifest_digest p
     \<and> wd_worker_manifest_digest (wi_dispatch w) = de1_worker_manifest_digest p
     \<and> wd_sandbox_profile_digest (wi_dispatch w) = de1_sandbox_profile_digest p
     \<and> wd_execution_role (wi_dispatch w) = de1_execution_role p
     \<and> wd_commit_mode (wi_dispatch w) = de1_commit_mode p
     \<and> wd_budget (wi_dispatch w) = de1_budget p \<and> wd_trust_tier (wi_dispatch w) = de1_trust_tier p
     \<and> wd_idempotency_key (wi_dispatch w) = de1_idempotency_key p
     \<and> wd_issued_at (wi_dispatch w) = de1_issued_at p \<and> wd_expires_at (wi_dispatch w) = de1_expires_at p
     \<and> wd_signature_ref (wi_dispatch w) = Some (de1_signature_ref p)"

definition dispatch_body_matches :: "WorkflowInstanceV1 \<Rightarrow> DispatchEnvelopeBodyV2 \<Rightarrow> bool" where
  "dispatch_body_matches w b \<longleftrightarrow>
     wi_workflow_id w = deb_workflow_id b \<and> wi_workflow_revision w = deb_workflow_revision b
     \<and> wi_unit_id w = deb_unit_id b \<and> wi_attempt w = deb_attempt b
     \<and> wd_provenance_ref (wi_dispatch w) = deb_provenance_ref b
     \<and> wd_base_commit_sha (wi_dispatch w) = deb_base_commit_sha b
     \<and> wd_capability_bundle_digest (wi_dispatch w) = deb_capability_bundle_digest b
     \<and> wd_acceptance_contract_digest (wi_dispatch w) = deb_acceptance_contract_digest b
     \<and> wd_context_manifest_digest (wi_dispatch w) = deb_context_manifest_digest b
     \<and> wd_worker_manifest_digest (wi_dispatch w) = deb_worker_manifest_digest b
     \<and> wd_sandbox_profile_digest (wi_dispatch w) = deb_sandbox_profile_digest b
     \<and> wd_execution_role (wi_dispatch w) = deb_execution_role b
     \<and> wd_commit_mode (wi_dispatch w) = deb_commit_mode b
     \<and> wd_budget (wi_dispatch w) = deb_budget b \<and> wd_trust_tier (wi_dispatch w) = deb_trust_tier b
     \<and> wd_idempotency_key (wi_dispatch w) = deb_idempotency_key b
     \<and> wd_issued_at (wi_dispatch w) = deb_issued_at b \<and> wd_expires_at (wi_dispatch w) = deb_expires_at b
     \<and> wd_signature_ref (wi_dispatch w) = None"

definition dispatch_v2_matches :: "WorkflowInstanceV1 \<Rightarrow> DispatchEnvelopeV2 \<Rightarrow> bool" where
  "dispatch_v2_matches w p \<longleftrightarrow>
     wd_dispatch_version (wi_dispatch w) = 2 \<and> dispatch_body_matches w (de2_body p)
     \<and> wd_envelope_digest (wi_dispatch w) = de2_envelope_digest p"

definition dispatch_v3_matches :: "WorkflowInstanceV1 \<Rightarrow> DispatchEnvelopeV3 \<Rightarrow> bool" where
  "dispatch_v3_matches w p \<longleftrightarrow>
     wd_dispatch_version (wi_dispatch w) = 3 \<and> dispatch_body_matches w (de3_body p)
     \<and> wd_envelope_digest (wi_dispatch w) = de3_envelope_digest p
     \<and> wd_repository_binding_digest (wi_dispatch w) = Some (de3_repository_binding_digest p)
     \<and> wd_ledger_authority_realm_digest (wi_dispatch w) = Some (de3_ledger_authority_realm_digest p)
     \<and> wd_action_evidence_version (wi_dispatch w) = Some (de3_action_evidence_version p)"

definition dispatch_conflict_reason :: "string \<Rightarrow> WorkflowInstanceV1 \<Rightarrow> string" where
  "dispatch_conflict_reason label existing =
     label @ '' does not match existing workflow/unit/attempt '' @ wi_workflow_id existing @ ''/'' @
     wi_workflow_revision existing @ '' unit '' @ wi_unit_id existing @ '' attempt '' @
     show_u32 (wi_attempt existing)"

text \<open>
  What every dispatch does with the key it names: a key of another run and a different envelope
  are refused, the same envelope re-points the view, and a fresh key creates the workflow once
  the run scope allows it.
\<close>

definition dispatch_verdict ::
  "env \<Rightarrow> ReplayState \<Rightarrow> Event \<Rightarrow> string \<Rightarrow> string \<Rightarrow> (WorkflowInstanceV1 \<Rightarrow> bool) \<Rightarrow> TrustTierV1 \<Rightarrow>
   (string, WorkflowInstanceV1) result \<Rightarrow> verdict" where
  "dispatch_verdict E st e label key same tier fresh =
     (case bt_get (st_workflow_instances st) key of
        Some existing \<Rightarrow>
          if \<not> event_matches_workflow_run E existing e
          then Refuse (label @ '' reuses a workflow/unit/attempt key from a different run'')
          else if same existing then Resync key
          else Refuse (dispatch_conflict_reason label existing)
      | None \<Rightarrow>
          or_refuse (validate_dispatch_run_scope E st e tier) (\<lambda>_. or_refuse fresh (\<lambda>w. Commit key w)))"

definition apply_dispatch_envelope :: "env \<Rightarrow> ReplayState \<Rightarrow> Event \<Rightarrow> DispatchEnvelopeV1 \<Rightarrow> ReplayState" where
  "apply_dispatch_envelope E st e p =
     (case validate_dispatch_envelope E p of
        Inl reason \<Rightarrow> reject_workflow_transition st e reason
      | Inr _ \<Rightarrow>
          let st = ensure_workflow_instances st in
          settle st e (dispatch_verdict E st e ''dispatch envelope''
            (workflow_instance_key (de1_workflow_id p) (de1_unit_id p) (de1_attempt p))
            (\<lambda>w. dispatch_matches w p) (de1_trust_tier p)
            (Inr (fresh_workflow (uuid_to_string E (ev_run_id e)) (de1_workflow_id p)
               (de1_workflow_revision p) (de1_unit_id p) (de1_attempt p) (dispatch_state_v1 e p) None None))))"

definition apply_dispatch_envelope_v2 :: "env \<Rightarrow> ReplayState \<Rightarrow> Event \<Rightarrow> DispatchEnvelopeV2 \<Rightarrow> ReplayState" where
  "apply_dispatch_envelope_v2 E st e p =
     (case validate_dispatch_envelope_v2_fields E p of
        Inl reason \<Rightarrow> reject_workflow_transition st e reason
      | Inr _ \<Rightarrow>
          let st = ensure_workflow_instances st; b = de2_body p in
          settle st e (dispatch_verdict E st e ''dispatch envelope v2''
            (workflow_instance_key (deb_workflow_id b) (deb_unit_id b) (deb_attempt b))
            (\<lambda>w. dispatch_v2_matches w p) (deb_trust_tier b)
            (Inr (fresh_workflow (uuid_to_string E (ev_run_id e)) (deb_workflow_id b)
               (deb_workflow_revision b) (deb_unit_id b) (deb_attempt b)
               (dispatch_state_body 2 e (de2_envelope_digest p) b None None None None) None None))))"

definition validate_retry_dispatch_context ::
  "env \<Rightarrow> ReplayState \<Rightarrow> Event \<Rightarrow> DispatchEnvelopeV3 \<Rightarrow> (string, AttemptContextReplayState) result" where
  "validate_retry_dispatch_context E st e p =
     (let b = de3_body p; run_id = uuid_to_string E (ev_run_id e) in
      case bt_get (st_attempt_contexts st) (de3_envelope_digest p) of
        None \<Rightarrow>
          if list_ex (\<lambda>x. let c = acs_context x in
               acr_run_id c = run_id \<and> acr_workflow_id c = deb_workflow_id b
               \<and> acr_workflow_revision c = deb_workflow_revision b \<and> acr_unit_id c = deb_unit_id b
               \<and> acr_next_attempt c = deb_attempt b) (bt_values (st_attempt_contexts st))
          then Inl ''recorded prior-attempt context does not bind the exact next dispatch envelope digest''
          else Inl ''governed sealed_v3 retry dispatch requires a recorded prior-attempt context''
      | Some context \<Rightarrow>
          let c = acs_context context in
          if acr_run_id c \<noteq> run_id \<or> acr_workflow_id c \<noteq> deb_workflow_id b
             \<or> acr_workflow_revision c \<noteq> deb_workflow_revision b \<or> acr_unit_id c \<noteq> deb_unit_id b
             \<or> acr_next_attempt c \<noteq> deb_attempt b
             \<or> acr_next_dispatch_envelope_digest c \<noteq> de3_envelope_digest p
             \<or> acr_next_dispatch_idempotency_key c \<noteq> deb_idempotency_key b
          then Inl ''recorded prior-attempt context does not bind the exact next dispatch envelope digest or idempotency key''
          else Inr context)"

definition retry_context_v3 ::
  "env \<Rightarrow> ReplayState \<Rightarrow> Event \<Rightarrow> DispatchEnvelopeV3 \<Rightarrow> (string, AttemptContextReplayState option) result" where
  "retry_context_v3 E st e p =
     (if 1 < deb_attempt (de3_body p) \<and> deb_trust_tier (de3_body p) = Tier_Governed
         \<and> de3_action_evidence_version p = Evidence_SealedV3
      then and_then (validate_retry_dispatch_context E st e p) (\<lambda>c. Inr (Some c))
      else Inr None)"

definition empty_action_evidence :: "ActionEvidenceVersionV1 \<Rightarrow> ActionEvidenceReplayState" where
  "empty_action_evidence version =
     \<lparr>ae_action_evidence_version = version, ae_actions = [], ae_sealed_receipt_set = None,
      ae_pending_action_ids = [], ae_unknown_action_ids = [], ae_failed_action_ids = []\<rparr>"

definition apply_dispatch_envelope_v3 :: "env \<Rightarrow> ReplayState \<Rightarrow> Event \<Rightarrow> DispatchEnvelopeV3 \<Rightarrow> ReplayState" where
  "apply_dispatch_envelope_v3 E st e p =
     (case first_refusal [validate_v3_event_payload E e, validate_dispatch_envelope_v3_fields E p] of
        Inl reason \<Rightarrow> reject_workflow_transition st e reason
      | Inr _ \<Rightarrow>
          let st = ensure_workflow_instances st; b = de3_body p in
          settle st e (dispatch_verdict E st e ''dispatch envelope v3''
            (workflow_instance_key (deb_workflow_id b) (deb_unit_id b) (deb_attempt b))
            (\<lambda>w. dispatch_v3_matches w p) (deb_trust_tier b)
            (and_then (retry_context_v3 E st e p) (\<lambda>retry.
               Inr (fresh_workflow (uuid_to_string E (ev_run_id e)) (deb_workflow_id b)
                 (deb_workflow_revision b) (deb_unit_id b) (deb_attempt b)
                 (dispatch_state_body 3 e (de3_envelope_digest p) b
                   (Some (de3_repository_binding_digest p)) (Some (de3_ledger_authority_realm_digest p))
                   (de3_governed_packet_digest p) (Some (de3_action_evidence_version p)))
                 (Some (empty_action_evidence (de3_action_evidence_version p))) retry)))))"

end
