(* ===== verification/Evidence_Transitions.thy ===== *)
theory Evidence_Transitions
  imports Reducer_Base
begin

text \<open>
  Candidate creation, deterministic acceptance and semantic review,
  \<open>apply_candidate_created\<close>, \<open>apply_candidate_acceptance\<close> and \<open>apply_review_verdict\<close> of
  \<open>bp-replay/src/transitions.rs\<close>.
\<close>

text \<open>The derived \<open>Debug\<close> text of a phase, which some refusals quote.\<close>

fun phase_debug :: "WorkflowPhaseV1 \<Rightarrow> string" where
  "phase_debug Phase_Dispatched = ''Dispatched''"
| "phase_debug Phase_CandidateCreated = ''CandidateCreated''"
| "phase_debug Phase_AcceptancePassed = ''AcceptancePassed''"
| "phase_debug Phase_ReviewApproved = ''ReviewApproved''"
| "phase_debug Phase_PromotionApprovalPending = ''PromotionApprovalPending''"
| "phase_debug Phase_PromotionPending = ''PromotionPending''"
| "phase_debug Phase_PromotionReconciliationRequired = ''PromotionReconciliationRequired''"
| "phase_debug Phase_PromotionReconciliationResolved = ''PromotionReconciliationResolved''"
| "phase_debug Phase_Promoted = ''Promoted''"
| "phase_debug Phase_CancellationRequested = ''CancellationRequested''"
| "phase_debug Phase_Rejected = ''Rejected''"
| "phase_debug Phase_Completed = ''Completed''"
| "phase_debug Phase_Failed = ''Failed''"
| "phase_debug Phase_Cancelled = ''Cancelled''"

subsection \<open>Candidates\<close>

definition candidate_matches_dispatch :: "WorkflowInstanceV1 \<Rightarrow> CandidateCreatedV1 \<Rightarrow> bool" where
  "candidate_matches_dispatch w p \<longleftrightarrow>
     wi_workflow_id w = cc1_workflow_id p \<and> wi_unit_id w = cc1_unit_id p
     \<and> wi_attempt w = cc1_attempt p
     \<and> wd_provenance_ref (wi_dispatch w) = cc1_provenance_ref p
     \<and> wd_base_commit_sha (wi_dispatch w) = cc1_base_commit_sha p
     \<and> wd_envelope_digest (wi_dispatch w) = cc1_envelope_digest p"

definition candidate_matches_existing :: "CandidateArtifactReplayState \<Rightarrow> EventId \<Rightarrow> CandidateCreatedV1 \<Rightarrow> bool" where
  "candidate_matches_existing c event_id p \<longleftrightarrow>
     cand_event_id c = event_id \<and> cand_candidate_id c = cc1_candidate_id p
     \<and> cand_candidate_ref c = cc1_candidate_ref p \<and> cand_candidate_digest c = cc1_candidate_digest p
     \<and> cand_base_commit_sha c = cc1_base_commit_sha p
     \<and> cand_candidate_commit_sha c = cc1_candidate_commit_sha p
     \<and> cand_commit_digest c = cc1_commit_digest p \<and> cand_tree_digest c = cc1_tree_digest p
     \<and> cand_patch_digest c = cc1_patch_digest p
     \<and> cand_changed_files_digest c = cc1_changed_files_digest p
     \<and> cand_envelope_digest c = cc1_envelope_digest p
     \<and> cand_action_receipt_digest c = Some (cc1_action_receipt_digest p)
     \<and> cand_action_receipt_set_ref c = None \<and> cand_action_receipt_set_digest c = None"

definition candidate_of :: "Event \<Rightarrow> CandidateCreatedV1 \<Rightarrow> CandidateArtifactReplayState" where
  "candidate_of e p =
     \<lparr>cand_event_id = ev_id e, cand_candidate_id = cc1_candidate_id p,
      cand_candidate_ref = cc1_candidate_ref p, cand_candidate_digest = cc1_candidate_digest p,
      cand_base_commit_sha = cc1_base_commit_sha p,
      cand_candidate_commit_sha = cc1_candidate_commit_sha p,
      cand_commit_digest = cc1_commit_digest p, cand_tree_digest = cc1_tree_digest p,
      cand_patch_digest = cc1_patch_digest p, cand_changed_files_digest = cc1_changed_files_digest p,
      cand_envelope_digest = cc1_envelope_digest p,
      cand_action_receipt_digest = Some (cc1_action_receipt_digest p),
      cand_action_receipt_set_ref = None, cand_action_receipt_set_digest = None\<rparr>"

definition candidate_identity_taken :: "ReplayState \<Rightarrow> string \<Rightarrow> CandidateCreatedV1 \<Rightarrow> bool" where
  "candidate_identity_taken st key p \<longleftrightarrow>
     list_ex (\<lambda>(other_key, other).
         other_key \<noteq> key \<and>
         (case wi_candidate other of
            None \<Rightarrow> False
          | Some c \<Rightarrow> cand_candidate_digest c = cc1_candidate_digest p
              \<or> cand_candidate_id c = cc1_candidate_id p
              \<or> cand_candidate_ref c = cc1_candidate_ref p))
       (bt_entries (st_workflow_instances st))"

definition candidate_created_verdict :: "env \<Rightarrow> ReplayState \<Rightarrow> Event \<Rightarrow> CandidateCreatedV1 \<Rightarrow> verdict" where
  "candidate_created_verdict E st e p =
     (let key = workflow_instance_key (cc1_workflow_id p) (cc1_unit_id p) (cc1_attempt p) in
      case bt_get (st_workflow_instances st) key of
        None \<Rightarrow> Refuse ''candidate has no prior dispatch envelope''
      | Some w \<Rightarrow>
          if \<not> event_matches_workflow_run E w e then Refuse ''candidate belongs to a different run''
          else if is_terminal (wi_phase w)
          then Refuse ''candidate received after terminal workflow phase''
          else if wd_trust_tier (wi_dispatch w) \<noteq> Tier_Governed
          then Refuse ''immutable candidates require a governed dispatch envelope''
          else if wd_commit_mode (wi_dispatch w) \<noteq> Commit_Atomic
          then Refuse ''governed replay supports only atomic candidate promotion''
          else if 3 \<le> wd_dispatch_version (wi_dispatch w)
          then Refuse ''legacy candidate v1 is not allowed for sealed V3 action evidence''
          else if wd_execution_role (wi_dispatch w) \<notin> {Role_Implementer, Role_Candidate}
          then Refuse ''only implementer or candidate roles can create an immutable candidate''
          else if \<not> candidate_matches_dispatch w p
          then Refuse ''candidate lineage does not match the signed dispatch envelope''
          else case wi_candidate w of
            Some existing \<Rightarrow>
              if candidate_matches_existing existing (ev_id e) p then Unchanged
              else Refuse ''workflow already has a different immutable candidate''
          | None \<Rightarrow>
              if wi_phase w \<noteq> Phase_Dispatched
              then Refuse (''candidate is not allowed from phase '' @ phase_debug (wi_phase w))
              else if candidate_identity_taken st key p
              then Refuse ''candidate digest, id, or ref is already bound to a different workflow unit attempt''
              else Commit key (w\<lparr>wi_candidate := Some (candidate_of e p), wi_phase := Phase_CandidateCreated\<rparr>))"

definition apply_candidate_created :: "env \<Rightarrow> ReplayState \<Rightarrow> Event \<Rightarrow> CandidateCreatedV1 \<Rightarrow> ReplayState" where
  "apply_candidate_created E st e p =
     (if is_blank (cc1_candidate_id p) \<or> \<not> is_canonical_buildplane_candidate_ref (cc1_candidate_ref p)
      then reject_workflow_transition st e
             ''candidate must have a non-empty id and a canonical buildplane candidate ref''
      else let st = ensure_workflow_instances st in settle st e (candidate_created_verdict E st e p))"

subsection \<open>Acceptance\<close>

definition candidate_acceptance_matches_existing ::
  "CandidateAcceptanceReplayState \<Rightarrow> EventId \<Rightarrow> CandidateAcceptanceRecordedV1 \<Rightarrow> bool" where
  "candidate_acceptance_matches_existing a event_id p \<longleftrightarrow>
     ca_event_id a = event_id \<and> ca_candidate_digest a = car_candidate_digest p
     \<and> ca_candidate_commit_sha a = car_candidate_commit_sha p
     \<and> ca_acceptance_ref a = car_acceptance_ref p
     \<and> ca_acceptance_contract_digest a = car_acceptance_contract_digest p
     \<and> ca_acceptance_digest a = car_acceptance_digest p \<and> ca_outcome a = car_outcome p
     \<and> ca_evaluated_at a = car_evaluated_at p"

definition acceptance_of :: "Event \<Rightarrow> CandidateAcceptanceRecordedV1 \<Rightarrow> CandidateAcceptanceReplayState" where
  "acceptance_of e p =
     \<lparr>ca_event_id = ev_id e, ca_candidate_digest = car_candidate_digest p,
      ca_candidate_commit_sha = car_candidate_commit_sha p, ca_acceptance_ref = car_acceptance_ref p,
      ca_acceptance_contract_digest = car_acceptance_contract_digest p,
      ca_acceptance_digest = car_acceptance_digest p, ca_outcome = car_outcome p,
      ca_evaluated_at = car_evaluated_at p\<rparr>"

definition candidate_acceptance_verdict :: "env \<Rightarrow> ReplayState \<Rightarrow> Event \<Rightarrow> CandidateAcceptanceRecordedV1 \<Rightarrow> verdict" where
  "candidate_acceptance_verdict E st e p =
     or_refuse (find_workflow_key_for_candidate E st e (car_candidate_digest p) (Some (car_candidate_commit_sha p)))
      (\<lambda>key. case bt_get (st_workflow_instances st) key of
        None \<Rightarrow> Refuse ''acceptance has no prior dispatch envelope''
      | Some w \<Rightarrow>
          if \<not> event_matches_workflow_run E w e then Refuse ''acceptance belongs to a different run''
          else if is_terminal (wi_phase w)
          then Refuse ''acceptance received after terminal workflow phase''
          else case wi_candidate w of
            None \<Rightarrow> Refuse ''acceptance has no immutable candidate''
          | Some c \<Rightarrow>
              if car_candidate_digest p \<noteq> cand_candidate_digest c
                 \<or> car_candidate_commit_sha p \<noteq> cand_candidate_commit_sha c
              then Refuse ''acceptance candidate digest or commit does not match the immutable candidate''
              else if requires_candidate_completion w \<and> wi_candidate_completion w = None
              then Refuse ''governed sealed_v3 candidate acceptance requires closed candidate completion evidence''
              else if car_acceptance_contract_digest p \<noteq> wd_acceptance_contract_digest (wi_dispatch w)
              then Refuse ''acceptance contract digest does not match the signed dispatch envelope''
              else case wi_acceptance w of
                Some existing \<Rightarrow>
                  if candidate_acceptance_matches_existing existing (ev_id e) p then Unchanged
                  else Refuse ''candidate already has a different deterministic acceptance record''
              | None \<Rightarrow>
                  if wi_phase w \<noteq> Phase_CandidateCreated
                  then Refuse (''acceptance is not allowed from phase '' @ phase_debug (wi_phase w))
                  else Commit key
                    (w\<lparr>wi_acceptance := Some (acceptance_of e p),
                       wi_phase := (case car_outcome p of
                           Acceptance_Passed \<Rightarrow> Phase_AcceptancePassed
                         | Acceptance_Rejected \<Rightarrow> Phase_Rejected)\<rparr>))"

definition apply_candidate_acceptance :: "env \<Rightarrow> ReplayState \<Rightarrow> Event \<Rightarrow> CandidateAcceptanceRecordedV1 \<Rightarrow> ReplayState" where
  "apply_candidate_acceptance E st e p =
     (let st = ensure_workflow_instances st in settle st e (candidate_acceptance_verdict E st e p))"

subsection \<open>Review\<close>

definition review_of :: "Event \<Rightarrow> ReviewVerdictRecordedV1 \<Rightarrow> ReviewVerdictReplayState" where
  "review_of e p =
     \<lparr>rv_review_version = 1, rv_event_id = ev_id e, rv_candidate_digest = rv1_candidate_digest p,
      rv_candidate_commit_sha = rv1_candidate_commit_sha p, rv_review_ref = rv1_review_ref p,
      rv_decision = rv1_decision p, rv_findings = rv1_findings p, rv_confidence = rv1_confidence p,
      rv_reviewer_manifest_digest = rv1_reviewer_manifest_digest p,
      rv_review_verdict_action_id = None, rv_review_action_request_digest = None,
      rv_review_action_receipt_ref = None, rv_review_action_receipt_digest = None,
      rv_review_output_ref = None, rv_review_output_digest = None,
      rv_review_output_semantic_digest = None, rv_acceptance_ref = None,
      rv_acceptance_digest = None, rv_acceptance_contract_digest = None,
      rv_candidate_envelope_digest = None, rv_reviewer_workflow_id = None,
      rv_reviewer_dispatch_envelope_digest = None, rv_reviewer_unit_id = None,
      rv_reviewer_attempt = None, rv_reviewer_execution_role = None,
      rv_review_action_receipt_set_ref = None, rv_review_action_receipt_set_digest = None,
      rv_candidate_view = None, rv_candidate_view_ref = None, rv_candidate_view_digest = None,
      rv_reviewer_authority = None, rv_reviewed_at = rv1_reviewed_at p\<rparr>"

text \<open>
  The comparison of a recorded review with a redelivered one tests every field the projection
  has, so it is equality with the record the event would project.
\<close>

definition review_matches_existing :: "ReviewVerdictReplayState \<Rightarrow> Event \<Rightarrow> ReviewVerdictRecordedV1 \<Rightarrow> bool" where
  "review_matches_existing r e p \<longleftrightarrow> r = review_of e p"

definition review_verdict_verdict :: "env \<Rightarrow> ReplayState \<Rightarrow> Event \<Rightarrow> ReviewVerdictRecordedV1 \<Rightarrow> verdict" where
  "review_verdict_verdict E st e p =
     or_refuse (find_workflow_key_for_candidate E st e (rv1_candidate_digest p) (Some (rv1_candidate_commit_sha p)))
      (\<lambda>key. case bt_get (st_workflow_instances st) key of
        None \<Rightarrow> Refuse ''review has no prior dispatch envelope''
      | Some w \<Rightarrow>
          if \<not> event_matches_workflow_run E w e then Refuse ''review belongs to a different run''
          else if is_terminal (wi_phase w)
          then Refuse ''review received after terminal workflow phase''
          else case wi_candidate w of
            None \<Rightarrow> Refuse ''review has no immutable candidate''
          | Some c \<Rightarrow>
              if rv1_candidate_digest p \<noteq> cand_candidate_digest c
                 \<or> rv1_candidate_commit_sha p \<noteq> cand_candidate_commit_sha c
              then Refuse ''review candidate digest or commit does not match the immutable candidate''
              else if 3 \<le> wd_dispatch_version (wi_dispatch w)
              then Refuse ''V3 candidate review requires review_verdict_recorded_v2 evidence''
              else if map_option ca_outcome (wi_acceptance w) \<noteq> Some Acceptance_Passed
              then Refuse ''review requires a passed deterministic acceptance record''
              else if wi_phase w \<notin> {Phase_AcceptancePassed, Phase_ReviewApproved}
              then Refuse (''review is not allowed from phase '' @ phase_debug (wi_phase w))
              else case bt_get (wi_reviews w) (rv1_review_ref p) of
                Some existing \<Rightarrow>
                  if review_matches_existing existing e p then Unchanged
                  else Refuse ''review_ref is already bound to a different verdict''
              | None \<Rightarrow> Commit key
                  (w\<lparr>wi_reviews := bt_insert (rv1_review_ref p) (review_of e p) (wi_reviews w),
                     wi_phase := (case rv1_decision p of
                         Review_Approve \<Rightarrow> Phase_ReviewApproved
                       | _ \<Rightarrow> Phase_Rejected)\<rparr>))"

definition apply_review_verdict :: "env \<Rightarrow> ReplayState \<Rightarrow> Event \<Rightarrow> ReviewVerdictRecordedV1 \<Rightarrow> ReplayState" where
  "apply_review_verdict E st e p =
     (if \<not> f64_is_finite (rv1_confidence p) \<or> \<not> f64_in_unit_interval (rv1_confidence p)
      then reject_workflow_transition st e ''review confidence must be a finite value between zero and one''
      else let st = ensure_workflow_instances st in settle st e (review_verdict_verdict E st e p))"

end
