(* ===== verification/Promotion_Transitions.thy ===== *)
theory Promotion_Transitions
  imports Reducer_Base
begin

text \<open>
  The promotion protocol, \<open>bp-replay/src/transitions.rs\<close>: a durable approval request, the operator
  decision, the write-ahead execution claim, the result of the Git compare-and-swap, and the
  operator resolution of a result that needs reconciliation. Each event is stored with its
  canonical hash.
\<close>

subsection \<open>Review references\<close>

definition review_ref_ok :: "bool \<Rightarrow> WorkflowInstanceV1 \<Rightarrow> string \<Rightarrow> bool" where
  "review_ref_ok approving w review_ref =
     (case bt_get (wi_reviews w) review_ref of
        None \<Rightarrow> False
      | Some v \<Rightarrow> (approving \<longrightarrow> rv_decision v = Review_Approve)
          \<and> (3 \<le> wd_dispatch_version (wi_dispatch w) \<longrightarrow> rv_review_version v = 2))"

text \<open>The loops insert each reference into a set and stop at the first repeated one.\<close>

fun distinct_refs_all :: "(string \<Rightarrow> bool) \<Rightarrow> string list \<Rightarrow> string list \<Rightarrow> bool" where
  "distinct_refs_all ok seen [] = True"
| "distinct_refs_all ok seen (r # rs) = (r \<notin> set seen \<and> ok r \<and> distinct_refs_all ok (r # seen) rs)"

definition review_refs_are_approved :: "WorkflowInstanceV1 \<Rightarrow> string list \<Rightarrow> bool" where
  "review_refs_are_approved w review_refs = distinct_refs_all (review_ref_ok True w) [] review_refs"

definition review_refs_exist :: "WorkflowInstanceV1 \<Rightarrow> string list \<Rightarrow> bool" where
  "review_refs_exist w review_refs = distinct_refs_all (review_ref_ok False w) [] review_refs"

lemma distinct_refs_all_iff:
  "distinct_refs_all ok seen rs \<longleftrightarrow> distinct rs \<and> set rs \<inter> set seen = {} \<and> (\<forall>r \<in> set rs. ok r)"
  by (induction ok seen rs rule: distinct_refs_all.induct) auto

subsection \<open>Approval request\<close>

definition approval_of :: "Event \<Rightarrow> string \<Rightarrow> PromotionApprovalRequestedV1 \<Rightarrow> PromotionApprovalRequestReplayState" where
  "approval_of e event_digest p =
     \<lparr>pa_event_id = ev_id e, pa_event_digest = event_digest,
      pa_candidate_digest = par_candidate_digest p, pa_base_commit_sha = par_base_commit_sha p,
      pa_target_ref = par_target_ref p, pa_envelope_digest = par_envelope_digest p,
      pa_acceptance_ref = par_acceptance_ref p, pa_review_refs = par_review_refs p,
      pa_requested_by = par_requested_by p, pa_requested_at = par_requested_at p,
      pa_idempotency_key = par_idempotency_key p\<rparr>"

text \<open>
  The \<open>*_matches_existing\<close> comparisons of this theory test every field of the stored record
  against the event, so each is equality with the record the event would store.
\<close>

definition promotion_approval_request_matches_existing ::
  "PromotionApprovalRequestReplayState \<Rightarrow> Event \<Rightarrow> PromotionApprovalRequestedV1 \<Rightarrow> string \<Rightarrow> bool" where
  "promotion_approval_request_matches_existing a e p event_digest \<longleftrightarrow> a = approval_of e event_digest p"

definition binds_candidate_lineage :: "CandidateArtifactReplayState \<Rightarrow> string \<Rightarrow> string \<Rightarrow> string \<Rightarrow> bool" where
  "binds_candidate_lineage c candidate_digest base_commit_sha envelope_digest \<longleftrightarrow>
     candidate_digest = cand_candidate_digest c \<and> base_commit_sha = cand_base_commit_sha c
     \<and> envelope_digest = cand_envelope_digest c"

definition promotion_approval_verdict :: "env \<Rightarrow> ReplayState \<Rightarrow> Event \<Rightarrow> PromotionApprovalRequestedV1 \<Rightarrow> verdict" where
  "promotion_approval_verdict E st e p =
     with_event_hash E e ''promotion approval request'' (\<lambda>digest.
     or_refuse (find_workflow_key_for_candidate E st e (par_candidate_digest p) None) (\<lambda>key.
      case bt_get (st_workflow_instances st) key of
        None \<Rightarrow> Refuse ''promotion approval request has no prior dispatch envelope''
      | Some w \<Rightarrow>
          if \<not> event_matches_workflow_run E w e
          then Refuse ''promotion approval request belongs to a different run''
          else if is_terminal (wi_phase w)
          then Refuse ''promotion approval request received after terminal workflow phase''
          else case wi_candidate w of
            None \<Rightarrow> Refuse ''promotion approval request has no immutable candidate''
          | Some c \<Rightarrow>
              if \<not> binds_candidate_lineage c (par_candidate_digest p) (par_base_commit_sha p) (par_envelope_digest p)
              then Refuse ''promotion approval request does not bind the immutable candidate lineage''
              else if requires_candidate_completion w \<and> wi_candidate_completion w = None
              then Refuse ''governed sealed_v3 promotion approval requires closed candidate completion evidence''
              else if \<not> is_canonical_target_ref (par_target_ref p)
              then Refuse ''promotion approval request target_ref must be a canonical refs/heads branch ref''
              else if is_blank (par_requested_by p) \<or> is_blank (par_idempotency_key p)
                 \<or> parse_rfc3339_utc E (par_requested_at p) = None
              then Refuse ''promotion approval request has an invalid requester, timestamp, or idempotency key''
              else case wi_promotion_approval w of
                Some existing \<Rightarrow>
                  if promotion_approval_request_matches_existing existing e p digest then Unchanged
                  else Refuse ''candidate already has a different promotion approval request''
              | None \<Rightarrow>
                  case wi_acceptance w of
                    None \<Rightarrow> Refuse ''promotion approval request requires a passed deterministic acceptance record''
                  | Some a \<Rightarrow>
                      if ca_outcome a \<noteq> Acceptance_Passed \<or> par_acceptance_ref p \<noteq> ca_acceptance_ref a
                      then Refuse ''promotion approval request acceptance reference does not prove a passed candidate check''
                      else if wi_phase w \<noteq> Phase_ReviewApproved \<or> par_review_refs p = []
                         \<or> \<not> review_refs_are_approved w (par_review_refs p)
                      then Refuse ''promotion approval request requires explicit approving review references''
                      else Commit key
                        (w\<lparr>wi_promotion_approval := Some (approval_of e digest p),
                           wi_phase := Phase_PromotionApprovalPending\<rparr>)))"

definition apply_promotion_approval_requested :: "env \<Rightarrow> ReplayState \<Rightarrow> Event \<Rightarrow> PromotionApprovalRequestedV1 \<Rightarrow> ReplayState" where
  "apply_promotion_approval_requested E st e p =
     (let st = ensure_workflow_instances st in settle st e (promotion_approval_verdict E st e p))"

subsection \<open>Decision\<close>

definition decision_of :: "Event \<Rightarrow> string \<Rightarrow> PromotionDecisionRecordedV1 \<Rightarrow> PromotionDecisionReplayState" where
  "decision_of e event_digest p =
     \<lparr>pd_event_id = ev_id e, pd_event_digest = event_digest,
      pd_candidate_digest = pdr_candidate_digest p, pd_base_commit_sha = pdr_base_commit_sha p,
      pd_target_ref = pdr_target_ref p, pd_envelope_digest = pdr_envelope_digest p,
      pd_acceptance_ref = pdr_acceptance_ref p, pd_review_refs = pdr_review_refs p,
      pd_promotion_approval_request_ref = pdr_promotion_approval_request_ref p,
      pd_decision = pdr_decision p, pd_authority = pdr_authority p,
      pd_decided_by = pdr_decided_by p, pd_decided_at = pdr_decided_at p,
      pd_idempotency_key = pdr_idempotency_key p\<rparr>"

definition promotion_decision_matches_existing ::
  "PromotionDecisionReplayState \<Rightarrow> Event \<Rightarrow> PromotionDecisionRecordedV1 \<Rightarrow> string \<Rightarrow> bool" where
  "promotion_decision_matches_existing d e p event_digest \<longleftrightarrow> d = decision_of e event_digest p"

definition promotion_decision_binds_approval_request ::
  "env \<Rightarrow> PromotionDecisionRecordedV1 \<Rightarrow> PromotionApprovalRequestReplayState \<Rightarrow> bool" where
  "promotion_decision_binds_approval_request E p r \<longleftrightarrow>
     pdr_promotion_approval_request_ref p = Some (uuid_to_string E (pa_event_id r))
     \<and> pdr_candidate_digest p = pa_candidate_digest r \<and> pdr_base_commit_sha p = pa_base_commit_sha r
     \<and> pdr_target_ref p = Some (pa_target_ref r) \<and> pdr_envelope_digest p = pa_envelope_digest r
     \<and> pdr_acceptance_ref p = pa_acceptance_ref r \<and> pdr_review_refs p = pa_review_refs r
     \<and> pdr_idempotency_key p = pa_idempotency_key r"

definition decision_evidence :: "WorkflowInstanceV1 \<Rightarrow> PromotionDecisionRecordedV1 \<Rightarrow> (string, unit) result" where
  "decision_evidence w p =
     (case pdr_decision p of
        Decision_Promote \<Rightarrow>
          (case wi_acceptance w of
             None \<Rightarrow> Inl ''promotion requires a passed deterministic acceptance record''
           | Some a \<Rightarrow>
               if ca_outcome a \<noteq> Acceptance_Passed \<or> pdr_acceptance_ref p \<noteq> ca_acceptance_ref a
               then Inl ''promotion acceptance reference does not prove a passed candidate check''
               else if wi_promotion_approval w = None \<and> wi_phase w \<noteq> Phase_ReviewApproved
                  \<or> pdr_review_refs p = [] \<or> \<not> review_refs_are_approved w (pdr_review_refs p)
               then Inl ''promotion requires explicit approving review references''
               else Inr ())
      | Decision_Reject \<Rightarrow>
          (case wi_acceptance w of
             None \<Rightarrow> Inl ''rejection decision requires candidate acceptance evidence''
           | Some a \<Rightarrow>
               if pdr_acceptance_ref p \<noteq> ca_acceptance_ref a
               then Inl ''rejection decision acceptance reference does not match candidate evidence''
               else if pdr_review_refs p = [] \<or> \<not> review_refs_exist w (pdr_review_refs p)
               then Inl ''rejection decision requires non-empty known review references''
               else Inr ()))"

definition decision_request_check :: "env \<Rightarrow> WorkflowInstanceV1 \<Rightarrow> PromotionDecisionRecordedV1 \<Rightarrow> (string, unit) result" where
  "decision_request_check E w p =
     (case wi_promotion_approval w of
        Some r \<Rightarrow>
          if wi_phase w \<noteq> Phase_PromotionApprovalPending \<or> \<not> promotion_decision_binds_approval_request E p r
          then Inl ''promotion decision does not bind the exact durable promotion approval request''
          else Inr ()
      | None \<Rightarrow>
          if pdr_promotion_approval_request_ref p \<noteq> None
          then Inl ''promotion decision references a promotion approval request that is not recorded''
          else Inr ())"

definition promotion_decision_verdict :: "env \<Rightarrow> ReplayState \<Rightarrow> Event \<Rightarrow> PromotionDecisionRecordedV1 \<Rightarrow> verdict" where
  "promotion_decision_verdict E st e p =
     with_event_hash E e ''promotion decision'' (\<lambda>digest.
     or_refuse (find_workflow_key_for_candidate E st e (pdr_candidate_digest p) None) (\<lambda>key.
      case bt_get (st_workflow_instances st) key of
        None \<Rightarrow> Refuse ''promotion decision has no prior dispatch envelope''
      | Some w \<Rightarrow>
          if \<not> event_matches_workflow_run E w e
          then Refuse ''promotion decision belongs to a different run''
          else if is_terminal (wi_phase w)
          then Refuse ''promotion decision received after terminal workflow phase''
          else if wi_cancellation w \<noteq> None \<or> wi_phase w = Phase_CancellationRequested
          then Refuse ''promotion decision cannot be recorded after workflow cancellation''
          else case wi_candidate w of
            None \<Rightarrow> Refuse ''promotion decision has no immutable candidate''
          | Some c \<Rightarrow>
              if \<not> binds_candidate_lineage c (pdr_candidate_digest p) (pdr_base_commit_sha p) (pdr_envelope_digest p)
              then Refuse ''promotion decision does not bind the immutable candidate lineage''
              else if requires_candidate_completion w \<and> wi_candidate_completion w = None
              then Refuse ''governed sealed_v3 promotion decision requires closed candidate completion evidence''
              else if requires_candidate_completion w
                 \<and> \<not> (case pdr_target_ref p of None \<Rightarrow> False | Some t \<Rightarrow> is_canonical_target_ref t)
              then Refuse ''sealed_v3 promotion decision requires a canonical target_ref''
              else if (case pdr_target_ref p of None \<Rightarrow> False | Some t \<Rightarrow> \<not> is_canonical_target_ref t)
              then Refuse ''promotion decision target_ref must be a canonical refs/heads branch ref''
              else case wi_promotion w of
                Some existing \<Rightarrow>
                  if promotion_decision_matches_existing (pr_decision existing) e p digest then Unchanged
                  else Refuse ''candidate already has a different promotion decision or idempotency key''
              | None \<Rightarrow>
                  or_refuse (decision_request_check E w p) (\<lambda>_.
                  or_refuse (decision_evidence w p) (\<lambda>_.
                    Commit key
                      (w\<lparr>wi_promotion := Some \<lparr>pr_decision = decision_of e digest p,
                           pr_execution_claim = None, pr_result = None, pr_reconciliation = None\<rparr>,
                         wi_phase := (case pdr_decision p of
                             Decision_Promote \<Rightarrow> Phase_PromotionPending
                           | Decision_Reject \<Rightarrow> Phase_Rejected)\<rparr>)))))"

definition apply_promotion_decision :: "env \<Rightarrow> ReplayState \<Rightarrow> Event \<Rightarrow> PromotionDecisionRecordedV1 \<Rightarrow> ReplayState" where
  "apply_promotion_decision E st e p =
     (let st = ensure_workflow_instances st in settle st e (promotion_decision_verdict E st e p))"

subsection \<open>Execution claim\<close>

definition claim_binds_promotion ::
  "WorkflowInstanceV1 \<Rightarrow> CandidateArtifactReplayState \<Rightarrow> PromotionDecisionReplayState \<Rightarrow> string \<Rightarrow>
   PromotionExecutionClaimedV1 \<Rightarrow> bool" where
  "claim_binds_promotion w c d target_ref p \<longleftrightarrow>
     pd_decision d = Decision_Promote
     \<and> pec_promotion_decision_event_ref p = pd_event_id d
     \<and> pec_promotion_decision_event_digest p = pd_event_digest d
     \<and> pec_dispatch_event_ref p = wd_event_id (wi_dispatch w)
     \<and> pec_dispatch_envelope_digest p = wd_envelope_digest (wi_dispatch w)
     \<and> pec_candidate_digest p = cand_candidate_digest c \<and> pec_candidate_ref p = cand_candidate_ref c
     \<and> pec_candidate_commit_sha p = cand_candidate_commit_sha c
     \<and> pec_candidate_tree_digest p = cand_tree_digest c
     \<and> pec_base_commit_sha p = cand_base_commit_sha c
     \<and> pec_base_commit_sha p = pd_base_commit_sha d
     \<and> pec_base_commit_sha p = wd_base_commit_sha (wi_dispatch w)
     \<and> pec_target_ref p = target_ref \<and> pec_idempotency_key p = pd_idempotency_key d
     \<and> is_canonical_target_ref (pec_target_ref p)"

definition claim_of :: "Event \<Rightarrow> string \<Rightarrow> PromotionExecutionClaimedV1 \<Rightarrow> PromotionExecutionClaimReplayState" where
  "claim_of e event_digest p = \<lparr>pcs_event_id = ev_id e, pcs_event_digest = event_digest, pcs_claim = p\<rparr>"

definition promotion_execution_claim_matches_existing ::
  "PromotionExecutionClaimReplayState \<Rightarrow> Event \<Rightarrow> PromotionExecutionClaimedV1 \<Rightarrow> string \<Rightarrow> bool" where
  "promotion_execution_claim_matches_existing x e p event_digest \<longleftrightarrow> x = claim_of e event_digest p"

definition execution_claim_on_workflow ::
  "env \<Rightarrow> Event \<Rightarrow> PromotionExecutionClaimedV1 \<Rightarrow> ActorKeyRef option \<Rightarrow> string \<Rightarrow> instant \<Rightarrow> instant \<Rightarrow>
   string \<Rightarrow> WorkflowInstanceV1 \<Rightarrow> verdict" where
  "execution_claim_on_workflow E e p signer digest claimed_at lease_expires_at key w =
     (if \<not> event_matches_workflow_run E w e
      then Refuse ''promotion execution claim belongs to a different run''
      else if \<not> workflow_is_governed_atomic_sealed_v3 w \<or> \<not> requires_candidate_completion w
      then Refuse ''promotion execution claim requires a governed atomic sealed_v3 candidate transaction''
      else if wi_phase w \<noteq> Phase_PromotionPending \<or> wi_cancellation w \<noteq> None \<or> wi_terminal w \<noteq> None
      then Refuse ''promotion execution claim is allowed only for a pending uncancelled promotion''
      else case wi_candidate w of
        None \<Rightarrow> Refuse ''promotion execution claim has no immutable candidate''
      | Some c \<Rightarrow>
      case wi_promotion w of
        None \<Rightarrow> Refuse ''promotion execution claim has no recorded promotion decision''
      | Some pr \<Rightarrow>
      case pd_target_ref (pr_decision pr) of
        None \<Rightarrow> Refuse ''promotion execution claim requires a target-bound promotion decision''
      | Some target_ref \<Rightarrow>
          if \<not> claim_binds_promotion w c (pr_decision pr) target_ref p
          then Refuse ''promotion execution claim does not bind the exact sealed decision, dispatch, candidate, and target facts''
          else case parse_rfc3339_utc E (wd_expires_at (wi_dispatch w)) of
            None \<Rightarrow> Refuse ''promotion execution claim dispatch expiry is not an RFC3339 UTC timestamp''
          | Some dispatch_expires_at \<Rightarrow>
              if dispatch_expires_at \<le> claimed_at \<or> dispatch_expires_at < lease_expires_at
              then Refuse ''promotion execution claim must remain within the signed dispatch authority window''
              else if (case signer of None \<Rightarrow> False | Some s \<Rightarrow> pec_authority_actor p \<noteq> akr_actor_id s)
              then Refuse ''promotion execution claim authority_actor does not match its kernel signer''
              else case pr_execution_claim pr of
                Some existing \<Rightarrow>
                  if promotion_execution_claim_matches_existing existing e p digest then Unchanged
                  else Refuse ''promotion decision already has a different immutable execution claim''
              | None \<Rightarrow>
                  Commit key (w\<lparr>wi_promotion := Some (pr\<lparr>pr_execution_claim := Some (claim_of e digest p)\<rparr>)\<rparr>))"

definition execution_claimed_verdict ::
  "env \<Rightarrow> ReplayState \<Rightarrow> Event \<Rightarrow> PromotionExecutionClaimedV1 \<Rightarrow> ActorKeyRef option \<Rightarrow> verdict" where
  "execution_claimed_verdict E st e p signer =
     (if pec_run_id p \<noteq> uuid_to_string E (ev_run_id e)
      then Refuse ''promotion execution claim payload run_id does not match its event run_id''
      else if ev_parent_event_id e \<noteq> Some (pec_promotion_decision_event_ref p)
      then Refuse ''promotion execution claim parent_event_id must bind the exact promotion decision''
      else with_event_hash E e ''promotion execution claim'' (\<lambda>digest.
        case promotion_execution_claimed_v1_digest E p of
          Inl err \<Rightarrow> Refuse (''promotion execution claim payload canonicalization failed: '' @ err)
        | Inr expected \<Rightarrow>
            if pec_promotion_execution_claim_digest p \<noteq> expected
            then Refuse ''promotion execution claim digest does not bind its immutable payload''
            else case parse_rfc3339_utc E (pec_claimed_at p) of
              None \<Rightarrow> Refuse ''promotion execution claim claimed_at must be an RFC3339 UTC timestamp''
            | Some claimed_at \<Rightarrow>
            case parse_rfc3339_utc E (pec_lease_expires_at p) of
              None \<Rightarrow> Refuse ''promotion execution claim lease_expires_at must be an RFC3339 UTC timestamp''
            | Some lease_expires_at \<Rightarrow>
                if claimed_at \<noteq> ev_occurred_at e \<or> lease_expires_at \<le> claimed_at
                then Refuse ''promotion execution claim event time and lease interval are invalid''
                else or_refuse
                  (find_workflow_key_for_candidate E st e (pec_candidate_digest p) (Some (pec_candidate_commit_sha p)))
                  (\<lambda>key. case bt_get (st_workflow_instances st) key of
                     None \<Rightarrow> Refuse ''promotion claim workflow was found''
                   | Some w \<Rightarrow> execution_claim_on_workflow E e p signer digest claimed_at lease_expires_at key w)))"

definition apply_promotion_execution_claimed_v1 ::
  "env \<Rightarrow> ReplayState \<Rightarrow> Event \<Rightarrow> PromotionExecutionClaimedV1 \<Rightarrow> ActorKeyRef option \<Rightarrow> ReplayState" where
  "apply_promotion_execution_claimed_v1 E st e p signer =
     (let st = ensure_workflow_instances st in settle st e (execution_claimed_verdict E st e p signer))"

subsection \<open>Result\<close>

definition promotion_receipt_ref_matches_candidate :: "string \<Rightarrow> string \<Rightarrow> bool" where
  "promotion_receipt_ref_matches_candidate receipt_ref candidate_ref \<longleftrightarrow>
     is_canonical_buildplane_candidate_ref candidate_ref
     \<and> (case strip_prefix candidate_ref_prefix candidate_ref of
          None \<Rightarrow> False
        | Some suffix \<Rightarrow> receipt_ref = ''refs/buildplane/promotions/'' @ suffix)"

definition sync_state_matches ::
  "PromotionWorktreeSyncStateV1 list \<Rightarrow> bool \<Rightarrow> string \<Rightarrow> string \<Rightarrow> PromotionWorktreeSyncStateV1 option \<Rightarrow> bool" where
  "sync_state_matches allowed_sync_states allow_headless_target target_head_after_sha merged_head_sha sync =
     (case sync of
        None \<Rightarrow> allow_headless_target \<and> target_head_after_sha = merged_head_sha
      | Some Sync_TargetAdvanced \<Rightarrow>
          Sync_TargetAdvanced \<in> set allowed_sync_states \<and> target_head_after_sha \<noteq> merged_head_sha
      | Some sync_state \<Rightarrow>
          sync_state \<in> set allowed_sync_states \<and> target_head_after_sha = merged_head_sha)"

definition promotion_git_binding_matches_candidate ::
  "WorkflowInstanceV1 \<Rightarrow> string \<Rightarrow> string \<Rightarrow> string \<Rightarrow> PromotionWorktreeSyncStateV1 list \<Rightarrow> bool \<Rightarrow>
   PromotionGitBindingV1 \<Rightarrow> bool" where
  "promotion_git_binding_matches_candidate w target_ref decision_base_commit_sha merged_head_sha
     allowed_sync_states allow_headless_target b =
     (case wi_candidate w of None \<Rightarrow> False | Some c \<Rightarrow>
     (case pgb_target_head_after_sha b of None \<Rightarrow> False | Some after \<Rightarrow>
     (case pgb_merged_head_sha b of None \<Rightarrow> False | Some merged \<Rightarrow>
     (case pgb_merge_parent_shas b of None \<Rightarrow> False | Some parents \<Rightarrow>
     (case pgb_merged_tree_sha b of None \<Rightarrow> False | Some tree \<Rightarrow>
     (case pgb_promotion_receipt_ref b of None \<Rightarrow> False | Some receipt_ref \<Rightarrow>
        is_canonical_target_ref (pgb_target_ref b) \<and> pgb_target_ref b = target_ref
        \<and> pgb_target_head_before_sha b = decision_base_commit_sha
        \<and> pgb_target_head_before_sha b = cand_base_commit_sha c
        \<and> is_canonical_git_object_id (pgb_target_head_before_sha b)
        \<and> is_canonical_git_object_id after
        \<and> merged = merged_head_sha \<and> is_canonical_git_object_id merged
        \<and> pgb_candidate_commit_sha b = cand_candidate_commit_sha c
        \<and> is_canonical_git_object_id (pgb_candidate_commit_sha b)
        \<and> length parents = 2 \<and> parents ! 0 = pgb_target_head_before_sha b
        \<and> parents ! 1 = pgb_candidate_commit_sha b
        \<and> list_all is_canonical_git_object_id parents
        \<and> is_canonical_git_object_id tree
        \<and> pgb_merged_tree_digest b = cand_tree_digest c
        \<and> is_canonical_sha256_digest (pgb_merged_tree_digest b)
        \<and> promotion_receipt_ref_matches_candidate receipt_ref (cand_candidate_ref c)
        \<and> sync_state_matches allowed_sync_states allow_headless_target after merged_head_sha
             (pgb_worktree_sync_state b)))))))"

definition promotion_result_has_bound_merge_evidence ::
  "WorkflowInstanceV1 \<Rightarrow> PromotionReplayState \<Rightarrow> PromotionResultRecordedV1 \<Rightarrow>
   PromotionWorktreeSyncStateV1 list \<Rightarrow> bool \<Rightarrow> bool" where
  "promotion_result_has_bound_merge_evidence w pr p allowed_sync_states allow_headless_target =
     (case prr_merged_head_sha p of
        None \<Rightarrow> False
      | Some merged_head_sha \<Rightarrow>
          is_canonical_git_object_id merged_head_sha
          \<and> \<not> (requires_candidate_completion w \<and> pd_target_ref (pr_decision pr) = None)
          \<and> (case pd_target_ref (pr_decision pr) of
               None \<Rightarrow> prr_promotion_git_binding p = None
             | Some target_ref \<Rightarrow>
                 (case prr_promotion_git_binding p of
                    None \<Rightarrow> False
                  | Some b \<Rightarrow> promotion_git_binding_matches_candidate w target_ref
                      (pd_base_commit_sha (pr_decision pr)) merged_head_sha
                      allowed_sync_states allow_headless_target b)))"

definition promotion_result_is_semantically_valid ::
  "WorkflowInstanceV1 \<Rightarrow> PromotionReplayState \<Rightarrow> PromotionResultRecordedV1 \<Rightarrow> bool" where
  "promotion_result_is_semantically_valid w pr p =
     (case (pd_decision (pr_decision pr), prr_outcome p) of
        (Decision_Promote, PromotionResult_Promoted) \<Rightarrow>
          promotion_result_has_bound_merge_evidence w pr p [] True
      | (Decision_Promote, PromotionResult_ReconciliationRequired) \<Rightarrow>
          promotion_result_has_bound_merge_evidence w pr p [Sync_RootCheckoutStale, Sync_TargetAdvanced] False
      | (_, PromotionResult_Rejected) \<Rightarrow>
          prr_merged_head_sha p = None \<and> prr_promotion_git_binding p = None
      | (Decision_Reject, _) \<Rightarrow> False)"

definition result_of :: "Event \<Rightarrow> string \<Rightarrow> PromotionResultRecordedV1 \<Rightarrow> PromotionResultReplayState" where
  "result_of e event_digest p =
     \<lparr>pres_event_id = ev_id e, pres_event_digest = event_digest,
      pres_candidate_digest = prr_candidate_digest p, pres_idempotency_key = prr_idempotency_key p,
      pres_promotion_decision_ref = prr_promotion_decision_ref p, pres_outcome = prr_outcome p,
      pres_merged_head_sha = prr_merged_head_sha p,
      pres_promotion_git_binding = prr_promotion_git_binding p,
      pres_promotion_execution_lease_binding = prr_promotion_execution_lease_binding p,
      pres_completed_at = prr_completed_at p\<rparr>"

definition promotion_result_matches_existing ::
  "PromotionResultReplayState \<Rightarrow> Event \<Rightarrow> PromotionResultRecordedV1 \<Rightarrow> string \<Rightarrow> bool" where
  "promotion_result_matches_existing r e p event_digest \<longleftrightarrow> r = result_of e event_digest p"

definition result_lease_check ::
  "PromotionExecutionClaimReplayState option \<Rightarrow> PromotionExecutionLeaseBindingV1 option \<Rightarrow> (string, unit) result" where
  "result_lease_check claim binding =
     (case (claim, binding) of
        (Some _, None) \<Rightarrow>
          Inl ''promotion result after an execution claim must bind the exact immutable execution claim''
      | (Some x, Some b) \<Rightarrow>
          if plb_promotion_execution_claim_event_ref b \<noteq> pcs_event_id x
             \<or> plb_promotion_execution_claim_event_digest b \<noteq> pcs_event_digest x
             \<or> plb_lease_id b \<noteq> pec_lease_id (pcs_claim x)
          then Inl ''promotion result does not bind the exact immutable execution claim''
          else Inr ()
      | (None, Some _) \<Rightarrow>
          Inl ''promotion result references an execution claim that replay did not project''
      | (None, None) \<Rightarrow> Inr ())"

definition result_phase :: "PromotionResultOutcomeV1 \<Rightarrow> WorkflowPhaseV1" where
  "result_phase outcome =
     (case outcome of
        PromotionResult_Promoted \<Rightarrow> Phase_Promoted
      | PromotionResult_ReconciliationRequired \<Rightarrow> Phase_PromotionReconciliationRequired
      | PromotionResult_Rejected \<Rightarrow> Phase_Rejected)"

definition promotion_result_verdict :: "env \<Rightarrow> ReplayState \<Rightarrow> Event \<Rightarrow> PromotionResultRecordedV1 \<Rightarrow> verdict" where
  "promotion_result_verdict E st e p =
     with_event_hash E e ''promotion result'' (\<lambda>digest.
     or_refuse (find_workflow_key_for_candidate E st e (prr_candidate_digest p) None) (\<lambda>key.
      case bt_get (st_workflow_instances st) key of
        None \<Rightarrow> Refuse ''promotion result has no prior dispatch envelope''
      | Some w \<Rightarrow>
          if \<not> event_matches_workflow_run E w e
          then Refuse ''promotion result belongs to a different run''
          else case wi_promotion w of
            None \<Rightarrow> Refuse ''promotion result has no recorded promotion decision''
          | Some pr \<Rightarrow>
              if prr_promotion_decision_ref p \<noteq> uuid_to_string E (pd_event_id (pr_decision pr))
              then Refuse ''promotion result does not reference the exact recorded promotion decision event''
              else case pr_result pr of
                Some existing \<Rightarrow>
                  if promotion_result_matches_existing existing e p digest then Unchanged
                  else Refuse ''promotion decision already has a different recorded result''
              | None \<Rightarrow>
                  if wi_terminal w \<noteq> None
                  then Refuse ''promotion result received after terminal workflow record''
                  else if prr_candidate_digest p \<noteq> pd_candidate_digest (pr_decision pr)
                     \<or> prr_idempotency_key p \<noteq> pd_idempotency_key (pr_decision pr)
                  then Refuse ''promotion result candidate digest or idempotency key does not match its decision''
                  else or_refuse (result_lease_check (pr_execution_claim pr) (prr_promotion_execution_lease_binding p))
                    (\<lambda>_. if \<not> promotion_result_is_semantically_valid w pr p
                      then Refuse ''promotion result outcome is incompatible with its decision''
                      else Commit key
                        (w\<lparr>wi_promotion := Some (pr\<lparr>pr_result := Some (result_of e digest p)\<rparr>),
                           wi_phase := result_phase (prr_outcome p)\<rparr>))))"

definition apply_promotion_result :: "env \<Rightarrow> ReplayState \<Rightarrow> Event \<Rightarrow> PromotionResultRecordedV1 \<Rightarrow> ReplayState" where
  "apply_promotion_result E st e p =
     (let st = ensure_workflow_instances st in settle st e (promotion_result_verdict E st e p))"

subsection \<open>Reconciliation\<close>

definition promotion_reconciliation_is_semantically_valid :: "env \<Rightarrow> PromotionReconciliationResolvedV1 \<Rightarrow> bool" where
  "promotion_reconciliation_is_semantically_valid E p \<longleftrightarrow>
     \<not> is_blank (prc_candidate_digest p) \<and> \<not> is_blank (prc_promotion_decision_ref p)
     \<and> \<not> is_blank (prc_promotion_result_ref p) \<and> \<not> is_blank (prc_promotion_receipt_ref p)
     \<and> \<not> is_blank (prc_authority p) \<and> prc_authority p = prc_resolved_by p
     \<and> \<not> is_blank (prc_idempotency_key p) \<and> parse_rfc3339_utc E (prc_resolved_at p) \<noteq> None"

definition reconciliation_of ::
  "Event \<Rightarrow> string \<Rightarrow> PromotionReconciliationResolvedV1 \<Rightarrow> PromotionReconciliationReplayState" where
  "reconciliation_of e event_digest p =
     \<lparr>prec_event_id = ev_id e, prec_event_digest = event_digest,
      prec_candidate_digest = prc_candidate_digest p,
      prec_promotion_decision_ref = prc_promotion_decision_ref p,
      prec_promotion_result_ref = prc_promotion_result_ref p,
      prec_promotion_receipt_ref = prc_promotion_receipt_ref p, prec_outcome = prc_outcome p,
      prec_authority = prc_authority p, prec_resolved_by = prc_resolved_by p,
      prec_idempotency_key = prc_idempotency_key p, prec_resolved_at = prc_resolved_at p\<rparr>"

definition promotion_reconciliation_matches_existing ::
  "PromotionReconciliationReplayState \<Rightarrow> Event \<Rightarrow> PromotionReconciliationResolvedV1 \<Rightarrow> string \<Rightarrow> bool" where
  "promotion_reconciliation_matches_existing r e p event_digest \<longleftrightarrow> r = reconciliation_of e event_digest p"

definition reconciliation_checks ::
  "env \<Rightarrow> WorkflowInstanceV1 \<Rightarrow> PromotionReplayState \<Rightarrow> PromotionResultReplayState \<Rightarrow>
   PromotionReconciliationResolvedV1 \<Rightarrow> (string, unit) result" where
  "reconciliation_checks E w pr r p = first_refusal
     [refuse_if (wi_phase w \<noteq> Phase_PromotionReconciliationRequired
          \<or> pres_outcome r \<noteq> PromotionResult_ReconciliationRequired)
        ''promotion reconciliation resolution requires a target-advanced promotion result'',
      refuse_if (prc_candidate_digest p \<noteq> pd_candidate_digest (pr_decision pr)
          \<or> prc_candidate_digest p \<noteq> pres_candidate_digest r
          \<or> prc_promotion_decision_ref p \<noteq> uuid_to_string E (pd_event_id (pr_decision pr))
          \<or> prc_promotion_result_ref p \<noteq> uuid_to_string E (pres_event_id r))
        ''promotion reconciliation resolution does not bind the exact recorded decision and result'',
      refuse_if (Option.bind (pres_promotion_git_binding r) pgb_promotion_receipt_ref
          \<noteq> Some (prc_promotion_receipt_ref p))
        ''promotion reconciliation resolution does not bind the exact recorded promotion receipt'',
      refuse_if (\<not> promotion_reconciliation_is_semantically_valid E p)
        ''promotion reconciliation resolution lacks a valid operator authority binding'']"

definition reconciliation_verdict :: "env \<Rightarrow> ReplayState \<Rightarrow> Event \<Rightarrow> PromotionReconciliationResolvedV1 \<Rightarrow> verdict" where
  "reconciliation_verdict E st e p =
     with_event_hash E e ''promotion reconciliation'' (\<lambda>digest.
     or_refuse (find_workflow_key_for_candidate E st e (prc_candidate_digest p) None) (\<lambda>key.
      case bt_get (st_workflow_instances st) key of
        None \<Rightarrow> Refuse ''promotion reconciliation resolution has no prior dispatch envelope''
      | Some w \<Rightarrow>
          if \<not> event_matches_workflow_run E w e
          then Refuse ''promotion reconciliation resolution belongs to a different run''
          else case wi_promotion w of
            None \<Rightarrow> Refuse ''promotion reconciliation resolution has no recorded promotion decision''
          | Some pr \<Rightarrow>
              case pr_reconciliation pr of
                Some existing \<Rightarrow>
                  if promotion_reconciliation_matches_existing existing e p digest then Unchanged
                  else Refuse ''promotion result already has a different recorded reconciliation resolution''
              | None \<Rightarrow>
                  if wi_terminal w \<noteq> None
                  then Refuse ''promotion reconciliation resolution received after terminal workflow record''
                  else case pr_result pr of
                    None \<Rightarrow> Refuse ''promotion reconciliation resolution has no recorded promotion result''
                  | Some r \<Rightarrow>
                      or_refuse (reconciliation_checks E w pr r p) (\<lambda>_.
                        Commit key
                          (w\<lparr>wi_promotion := Some (pr\<lparr>pr_reconciliation := Some (reconciliation_of e digest p)\<rparr>),
                             wi_phase := Phase_PromotionReconciliationResolved\<rparr>))))"

definition apply_promotion_reconciliation_resolved ::
  "env \<Rightarrow> ReplayState \<Rightarrow> Event \<Rightarrow> PromotionReconciliationResolvedV1 \<Rightarrow> ReplayState" where
  "apply_promotion_reconciliation_resolved E st e p =
     (let st = ensure_workflow_instances st in settle st e (reconciliation_verdict E st e p))"

end
