(* ===== verification/Lifecycle_Transitions.thy ===== *)
theory Lifecycle_Transitions
  imports Reducer_Base
begin

text \<open>
  The lifecycle controls of a workflow, \<open>bp-replay/src/transitions.rs\<close>: durable deadlines (a timer
  is scheduled and later fires), cancellation requests, and the terminal record that closes a
  workflow.
\<close>

definition workflow_lifecycle_control_is_allowed :: "WorkflowInstanceV1 \<Rightarrow> bool" where
  "workflow_lifecycle_control_is_allowed w \<longleftrightarrow>
     \<not> is_terminal (wi_phase w) \<and> wi_cancellation w = None
     \<and> wi_phase w \<notin> {Phase_PromotionApprovalPending, Phase_PromotionPending,
          Phase_PromotionReconciliationRequired, Phase_PromotionReconciliationResolved, Phase_Promoted}"

definition cancellation_effects_are_reconciled :: "WorkflowInstanceV1 \<Rightarrow> bool" where
  "cancellation_effects_are_reconciled w =
     (case wi_action_evidence w of
        None \<Rightarrow> True
      | Some evidence \<Rightarrow>
          list_all (\<lambda>a. case act_activity_claim a of
              None \<Rightarrow> True
            | Some c \<Rightarrow> (case clm_result c of
                None \<Rightarrow> False
              | Some r \<Rightarrow> ars_outcome r \<noteq> Result_Unknown \<and> act_receipt a \<noteq> None))
            (bt_values (ae_actions evidence)))"

subsection \<open>Timers\<close>

definition timer_of :: "Event \<Rightarrow> string \<Rightarrow> WorkflowTimerScheduledV1 \<Rightarrow> WorkflowTimerReplayState" where
  "timer_of e event_digest p =
     \<lparr>tm_event_id = ev_id e, tm_event_digest = event_digest, tm_run_id = wts_run_id p,
      tm_workflow_id = wts_workflow_id p, tm_workflow_revision = wts_workflow_revision p,
      tm_unit_id = wts_unit_id p, tm_attempt = wts_attempt p,
      tm_dispatch_event_ref = wts_dispatch_event_ref p,
      tm_dispatch_envelope_digest = wts_dispatch_envelope_digest p, tm_timer_id = wts_timer_id p,
      tm_timer_kind = wts_timer_kind p, tm_due_at = wts_due_at p,
      tm_idempotency_key = wts_idempotency_key p, tm_scheduled_by = wts_scheduled_by p,
      tm_scheduled_at = wts_scheduled_at p, tm_fired = None\<rparr>"

text \<open>The comparison ignores whether the stored timer has fired.\<close>

definition workflow_timer_schedule_matches_existing ::
  "WorkflowTimerReplayState \<Rightarrow> Event \<Rightarrow> WorkflowTimerScheduledV1 \<Rightarrow> string \<Rightarrow> bool" where
  "workflow_timer_schedule_matches_existing t e p event_digest \<longleftrightarrow>
     t\<lparr>tm_fired := None\<rparr> = timer_of e event_digest p"

definition timer_window_ok :: "Event \<Rightarrow> WorkflowInstanceV1 \<Rightarrow> instant \<Rightarrow> instant \<Rightarrow> instant \<Rightarrow> instant \<Rightarrow> bool" where
  "timer_window_ok e w scheduled_at due_at dispatch_issued_at dispatch_expires_at \<longleftrightarrow>
     ev_parent_event_id e = Some (wd_event_id (wi_dispatch w))
     \<and> scheduled_at = ev_occurred_at e \<and> dispatch_issued_at \<le> scheduled_at
     \<and> scheduled_at < due_at \<and> due_at \<le> dispatch_expires_at"

definition some_or_refuse :: "'a option \<Rightarrow> string \<Rightarrow> ('a \<Rightarrow> verdict) \<Rightarrow> verdict" where
  "some_or_refuse v reason f = (case v of None \<Rightarrow> Refuse reason | Some a \<Rightarrow> f a)"

lemma some_or_refuse_Commit [simp]:
  "some_or_refuse v reason f = Commit k w \<longleftrightarrow> (\<exists>a. v = Some a \<and> f a = Commit k w)"
  by (cases v) (auto simp: some_or_refuse_def)

definition hash_or_refuse :: "env \<Rightarrow> Event \<Rightarrow> string \<Rightarrow> (string \<Rightarrow> verdict) \<Rightarrow> verdict" where
  "hash_or_refuse E e what f =
     (case canonical_event_hash E e of
        Inl err \<Rightarrow> Refuse (''could not canonicalize '' @ what @ '': '' @ error_text err)
      | Inr digest \<Rightarrow> f digest)"

lemma hash_or_refuse_Commit [simp]:
  "hash_or_refuse E e what f = Commit k w \<longleftrightarrow> (\<exists>d. canonical_event_hash E e = Inr d \<and> f d = Commit k w)"
  by (auto simp: hash_or_refuse_def split: sum.splits)

definition timer_scheduled_on_workflow ::
  "env \<Rightarrow> Event \<Rightarrow> WorkflowTimerScheduledV1 \<Rightarrow> string \<Rightarrow> WorkflowInstanceV1 \<Rightarrow> verdict" where
  "timer_scheduled_on_workflow E e p key w =
     (if \<not> workflow_lifecycle_control_is_allowed w
      then Refuse ''workflow timer cannot be scheduled after cancellation, terminalization, or promotion control begins''
      else
      some_or_refuse (parse_rfc3339_utc E (wts_scheduled_at p))
        ''workflow timer scheduled_at must be an RFC3339 UTC timestamp'' (\<lambda>scheduled_at.
      some_or_refuse (parse_rfc3339_utc E (wts_due_at p))
        ''workflow timer due_at must be an RFC3339 UTC timestamp'' (\<lambda>due_at.
      some_or_refuse (parse_rfc3339_utc E (wd_issued_at (wi_dispatch w)))
        ''workflow dispatch issued_at is invalid'' (\<lambda>dispatch_issued_at.
      some_or_refuse (parse_rfc3339_utc E (wd_expires_at (wi_dispatch w)))
        ''workflow dispatch expires_at is invalid'' (\<lambda>dispatch_expires_at.
      if \<not> timer_window_ok e w scheduled_at due_at dispatch_issued_at dispatch_expires_at
      then Refuse ''workflow timer must parent to its dispatch, bind scheduled_at to the event, and remain inside dispatch authority''
      else hash_or_refuse E e ''workflow timer schedule'' (\<lambda>digest.
      case bt_get (wi_timers w) (wts_timer_id p) of
        Some existing \<Rightarrow>
          if workflow_timer_schedule_matches_existing existing e p digest then Unchanged
          else Refuse ''workflow timer id cannot replace an immutable schedule''
      | None \<Rightarrow>
          Commit key (w\<lparr>wi_timers := bt_insert (wts_timer_id p) (timer_of e digest p) (wi_timers w)\<rparr>)))))))"

definition timer_scheduled_verdict :: "env \<Rightarrow> ReplayState \<Rightarrow> Event \<Rightarrow> WorkflowTimerScheduledV1 \<Rightarrow> verdict" where
  "timer_scheduled_verdict E st e p =
     or_refuse (validate_v3_event_payload E e) (\<lambda>_.
     or_refuse (find_workflow_key_for_lifecycle E st e (wts_run_id p) (wts_workflow_id p)
        (wts_workflow_revision p) (wts_unit_id p) (wts_attempt p) (wts_dispatch_event_ref p)
        (wts_dispatch_envelope_digest p)) (\<lambda>key.
      case bt_get (st_workflow_instances st) key of
        None \<Rightarrow> Refuse ''lifecycle lookup returned an existing workflow''
      | Some w \<Rightarrow> timer_scheduled_on_workflow E e p key w))"

definition apply_workflow_timer_scheduled_v1 ::
  "env \<Rightarrow> ReplayState \<Rightarrow> Event \<Rightarrow> WorkflowTimerScheduledV1 \<Rightarrow> ReplayState" where
  "apply_workflow_timer_scheduled_v1 E st e p = settle st e (timer_scheduled_verdict E st e p)"

definition fired_of :: "Event \<Rightarrow> string \<Rightarrow> WorkflowTimerFiredV1 \<Rightarrow> WorkflowTimerFiredReplayState" where
  "fired_of e event_digest p =
     \<lparr>tf_event_id = ev_id e, tf_event_digest = event_digest,
      tf_timer_schedule_event_ref = wtf_timer_schedule_event_ref p,
      tf_timer_schedule_event_digest = wtf_timer_schedule_event_digest p,
      tf_fired_by = wtf_fired_by p, tf_fired_at = wtf_fired_at p\<rparr>"

definition workflow_timer_fired_matches_existing ::
  "WorkflowTimerFiredReplayState \<Rightarrow> Event \<Rightarrow> WorkflowTimerFiredV1 \<Rightarrow> string \<Rightarrow> bool" where
  "workflow_timer_fired_matches_existing f e p event_digest \<longleftrightarrow> f = fired_of e event_digest p"

definition firing_binds_schedule ::
  "Event \<Rightarrow> WorkflowTimerReplayState \<Rightarrow> instant \<Rightarrow> instant \<Rightarrow> WorkflowTimerFiredV1 \<Rightarrow> bool" where
  "firing_binds_schedule e t fired_at due_at p \<longleftrightarrow>
     ev_parent_event_id e = Some (tm_event_id t)
     \<and> wtf_timer_schedule_event_ref p = tm_event_id t
     \<and> wtf_timer_schedule_event_digest p = tm_event_digest t
     \<and> wtf_run_id p = tm_run_id t \<and> wtf_workflow_id p = tm_workflow_id t
     \<and> wtf_workflow_revision p = tm_workflow_revision t \<and> wtf_unit_id p = tm_unit_id t
     \<and> wtf_attempt p = tm_attempt t \<and> wtf_timer_id p = tm_timer_id t
     \<and> wtf_dispatch_event_ref p = tm_dispatch_event_ref t
     \<and> wtf_dispatch_envelope_digest p = tm_dispatch_envelope_digest t
     \<and> wtf_idempotency_key p = tm_idempotency_key t
     \<and> fired_at = ev_occurred_at e \<and> due_at \<le> fired_at"

definition timer_fired_on_workflow ::
  "env \<Rightarrow> Event \<Rightarrow> WorkflowTimerFiredV1 \<Rightarrow> string \<Rightarrow> WorkflowInstanceV1 \<Rightarrow> verdict" where
  "timer_fired_on_workflow E e p key w =
     (if \<not> workflow_lifecycle_control_is_allowed w
      then Refuse ''workflow timer cannot fire after cancellation, terminalization, or promotion control begins''
      else
      some_or_refuse (bt_get (wi_timers w) (wtf_timer_id p))
        ''workflow timer fired without a prior schedule'' (\<lambda>t.
      some_or_refuse (parse_rfc3339_utc E (wtf_fired_at p))
        ''workflow timer fired_at must be an RFC3339 UTC timestamp'' (\<lambda>fired_at.
      some_or_refuse (parse_rfc3339_utc E (tm_due_at t))
        ''projected workflow timer due_at is invalid'' (\<lambda>due_at.
      if \<not> firing_binds_schedule e t fired_at due_at p
      then Refuse ''workflow timer firing must bind the exact schedule, occur no earlier than due_at, and parent to that schedule''
      else hash_or_refuse E e ''workflow timer firing'' (\<lambda>digest.
      case tm_fired t of
        Some existing \<Rightarrow>
          if workflow_timer_fired_matches_existing existing e p digest then Unchanged
          else Refuse ''workflow timer cannot replace an immutable firing record''
      | None \<Rightarrow>
          Commit key (w\<lparr>wi_timers := bt_insert (wtf_timer_id p)
                          (t\<lparr>tm_fired := Some (fired_of e digest p)\<rparr>) (wi_timers w)\<rparr>))))))"

definition timer_fired_verdict :: "env \<Rightarrow> ReplayState \<Rightarrow> Event \<Rightarrow> WorkflowTimerFiredV1 \<Rightarrow> verdict" where
  "timer_fired_verdict E st e p =
     or_refuse (validate_v3_event_payload E e) (\<lambda>_.
     or_refuse (find_workflow_key_for_lifecycle E st e (wtf_run_id p) (wtf_workflow_id p)
        (wtf_workflow_revision p) (wtf_unit_id p) (wtf_attempt p) (wtf_dispatch_event_ref p)
        (wtf_dispatch_envelope_digest p)) (\<lambda>key.
      case bt_get (st_workflow_instances st) key of
        None \<Rightarrow> Refuse ''lifecycle lookup returned an existing workflow''
      | Some w \<Rightarrow> timer_fired_on_workflow E e p key w))"

definition apply_workflow_timer_fired_v1 ::
  "env \<Rightarrow> ReplayState \<Rightarrow> Event \<Rightarrow> WorkflowTimerFiredV1 \<Rightarrow> ReplayState" where
  "apply_workflow_timer_fired_v1 E st e p = settle st e (timer_fired_verdict E st e p)"

subsection \<open>Cancellation\<close>

definition timer_evidence_is_valid ::
  "env \<Rightarrow> Event \<Rightarrow> WorkflowInstanceV1 \<Rightarrow> instant \<Rightarrow> WorkflowCancellationRequestedV1 \<Rightarrow> bool" where
  "timer_evidence_is_valid E e w requested_at p =
     (case wcr_cause p of
        Cancel_OperatorRequested \<Rightarrow> ev_parent_event_id e = Some (wd_event_id (wi_dispatch w))
      | Cancel_TimerElapsed \<Rightarrow>
          (case (wcr_timer_fired_event_ref p, wcr_timer_fired_event_digest p) of
             (Some timer_event_ref, Some timer_event_digest) \<Rightarrow>
               list_ex (\<lambda>t. case tm_fired t of
                   None \<Rightarrow> False
                 | Some f \<Rightarrow> ev_parent_event_id e = Some (tf_event_id f)
                     \<and> tf_event_id f = timer_event_ref \<and> tf_event_digest f = timer_event_digest
                     \<and> (case parse_rfc3339_utc E (tf_fired_at f) of
                          None \<Rightarrow> False
                        | Some fired_at \<Rightarrow> fired_at \<le> requested_at))
                 (bt_values (wi_timers w))
           | _ \<Rightarrow> False))"

definition cancellation_of :: "Event \<Rightarrow> string \<Rightarrow> WorkflowCancellationRequestedV1 \<Rightarrow> WorkflowCancellationReplayState" where
  "cancellation_of e event_digest p =
     \<lparr>can_event_id = ev_id e, can_event_digest = event_digest,
      can_cancellation_id = wcr_cancellation_id p, can_cause = wcr_cause p,
      can_timer_fired_event_ref = wcr_timer_fired_event_ref p,
      can_timer_fired_event_digest = wcr_timer_fired_event_digest p,
      can_requested_by = wcr_requested_by p, can_idempotency_key = wcr_idempotency_key p,
      can_requested_at = wcr_requested_at p\<rparr>"

definition workflow_cancellation_matches_existing ::
  "WorkflowCancellationReplayState \<Rightarrow> Event \<Rightarrow> WorkflowCancellationRequestedV1 \<Rightarrow> string \<Rightarrow> bool" where
  "workflow_cancellation_matches_existing c e p event_digest \<longleftrightarrow> c = cancellation_of e event_digest p"

definition cancellation_on_workflow ::
  "env \<Rightarrow> Event \<Rightarrow> WorkflowCancellationRequestedV1 \<Rightarrow> string \<Rightarrow> WorkflowInstanceV1 \<Rightarrow> verdict" where
  "cancellation_on_workflow E e p key w =
     (if \<not> workflow_lifecycle_control_is_allowed w
      then Refuse ''workflow cancellation cannot bypass terminal, promotion-pending, or reconciliation state''
      else
      some_or_refuse (parse_rfc3339_utc E (wcr_requested_at p))
        ''workflow cancellation requested_at must be an RFC3339 UTC timestamp'' (\<lambda>requested_at.
      if requested_at \<noteq> ev_occurred_at e
      then Refuse ''workflow cancellation requested_at must equal its signed event occurred_at''
      else if \<not> timer_evidence_is_valid E e w requested_at p
      then Refuse ''workflow cancellation must parent to its dispatch or exact elapsed timer evidence''
      else hash_or_refuse E e ''workflow cancellation'' (\<lambda>digest.
      case wi_cancellation w of
        Some existing \<Rightarrow>
          if workflow_cancellation_matches_existing existing e p digest then Unchanged
          else Refuse ''workflow already has an immutable cancellation request''
      | None \<Rightarrow>
          Commit key (w\<lparr>wi_cancellation := Some (cancellation_of e digest p),
                        wi_phase := Phase_CancellationRequested\<rparr>))))"

definition cancellation_verdict :: "env \<Rightarrow> ReplayState \<Rightarrow> Event \<Rightarrow> WorkflowCancellationRequestedV1 \<Rightarrow> verdict" where
  "cancellation_verdict E st e p =
     or_refuse (validate_v3_event_payload E e) (\<lambda>_.
     or_refuse (find_workflow_key_for_lifecycle E st e (wcr_run_id p) (wcr_workflow_id p)
        (wcr_workflow_revision p) (wcr_unit_id p) (wcr_attempt p) (wcr_dispatch_event_ref p)
        (wcr_dispatch_envelope_digest p)) (\<lambda>key.
      case bt_get (st_workflow_instances st) key of
        None \<Rightarrow> Refuse ''lifecycle lookup returned an existing workflow''
      | Some w \<Rightarrow> cancellation_on_workflow E e p key w))"

definition apply_workflow_cancellation_requested_v1 ::
  "env \<Rightarrow> ReplayState \<Rightarrow> Event \<Rightarrow> WorkflowCancellationRequestedV1 \<Rightarrow> ReplayState" where
  "apply_workflow_cancellation_requested_v1 E st e p = settle st e (cancellation_verdict E st e p)"

subsection \<open>Terminal records\<close>

record WorkflowTerminalFields =
  wtr_workflow_id :: string
  wtr_workflow_revision :: string
  wtr_unit_id :: string
  wtr_attempt :: u32
  wtr_outcome :: WorkflowTerminalOutcomeV1
  wtr_candidate_digest :: "string option"
  wtr_promotion_result_ref :: "string option"
  wtr_reconciliation_resolution_ref :: "string option"
  wtr_cancellation_request_event_ref :: "EventId option"
  wtr_cancellation_request_event_digest :: "string option"
  wtr_reason :: "string option"
  wtr_idempotency_key :: string
  wtr_completed_at :: string

definition terminal_fields_v1 :: "WorkflowTerminalV1 \<Rightarrow> WorkflowTerminalFields" where
  "terminal_fields_v1 p =
     \<lparr>wtr_workflow_id = wt1_workflow_id p, wtr_workflow_revision = wt1_workflow_revision p,
      wtr_unit_id = wt1_unit_id p, wtr_attempt = wt1_attempt p, wtr_outcome = wt1_outcome p,
      wtr_candidate_digest = wt1_candidate_digest p,
      wtr_promotion_result_ref = wt1_promotion_result_ref p,
      wtr_reconciliation_resolution_ref = wt1_reconciliation_resolution_ref p,
      wtr_cancellation_request_event_ref = None, wtr_cancellation_request_event_digest = None,
      wtr_reason = wt1_reason p, wtr_idempotency_key = wt1_idempotency_key p,
      wtr_completed_at = wt1_completed_at p\<rparr>"

definition terminal_fields_v2 :: "WorkflowTerminalV2 \<Rightarrow> WorkflowTerminalFields" where
  "terminal_fields_v2 p =
     \<lparr>wtr_workflow_id = wt2_workflow_id p, wtr_workflow_revision = wt2_workflow_revision p,
      wtr_unit_id = wt2_unit_id p, wtr_attempt = wt2_attempt p, wtr_outcome = wt2_outcome p,
      wtr_candidate_digest = wt2_candidate_digest p,
      wtr_promotion_result_ref = wt2_promotion_result_ref p,
      wtr_reconciliation_resolution_ref = wt2_reconciliation_resolution_ref p,
      wtr_cancellation_request_event_ref = wt2_cancellation_request_event_ref p,
      wtr_cancellation_request_event_digest = wt2_cancellation_request_event_digest p,
      wtr_reason = wt2_reason p, wtr_idempotency_key = wt2_idempotency_key p,
      wtr_completed_at = wt2_completed_at p\<rparr>"

definition find_workflow_key_for_terminal ::
  "env \<Rightarrow> ReplayState \<Rightarrow> Event \<Rightarrow> WorkflowTerminalFields \<Rightarrow> (string, string) result" where
  "find_workflow_key_for_terminal E st e t =
     (let key = workflow_instance_key (wtr_workflow_id t) (wtr_unit_id t) (wtr_attempt t) in
      case bt_get (st_workflow_instances st) key of
        None \<Rightarrow> Inl ''terminal workflow record has no matching workflow unit attempt''
      | Some w \<Rightarrow>
          if \<not> event_matches_workflow_run E w e
             \<or> wi_workflow_revision w \<noteq> wtr_workflow_revision t
             \<or> \<not> (case wtr_candidate_digest t of
                    Some candidate_digest \<Rightarrow>
                      (case wi_candidate w of
                         None \<Rightarrow> False
                       | Some c \<Rightarrow> cand_candidate_digest c = candidate_digest)
                  | None \<Rightarrow> wi_candidate w = None)
          then Inl ''terminal workflow record does not bind the matching workflow unit attempt''
          else Inr key)"

definition terminal_of :: "Event \<Rightarrow> string \<Rightarrow> u8 \<Rightarrow> WorkflowTerminalFields \<Rightarrow> WorkflowTerminalReplayState" where
  "terminal_of e event_digest terminal_version t =
     \<lparr>trm_event_id = ev_id e, trm_terminal_version = terminal_version, trm_event_digest = event_digest,
      trm_unit_id = wtr_unit_id t, trm_attempt = wtr_attempt t, trm_outcome = wtr_outcome t,
      trm_candidate_digest = wtr_candidate_digest t,
      trm_promotion_result_ref = wtr_promotion_result_ref t,
      trm_reconciliation_resolution_ref = wtr_reconciliation_resolution_ref t,
      trm_cancellation_request_event_ref = wtr_cancellation_request_event_ref t,
      trm_cancellation_request_event_digest = wtr_cancellation_request_event_digest t,
      trm_reason = wtr_reason t, trm_idempotency_key = wtr_idempotency_key t,
      trm_completed_at = wtr_completed_at t\<rparr>"

text \<open>Unlike the other comparisons, this one does not look at the event id and digest.\<close>

definition workflow_terminal_matches_existing ::
  "WorkflowTerminalReplayState \<Rightarrow> WorkflowTerminalFields \<Rightarrow> u8 \<Rightarrow> bool" where
  "workflow_terminal_matches_existing x t terminal_version \<longleftrightarrow>
     trm_terminal_version x = terminal_version \<and> trm_outcome x = wtr_outcome t
     \<and> trm_unit_id x = wtr_unit_id t \<and> trm_attempt x = wtr_attempt t
     \<and> trm_candidate_digest x = wtr_candidate_digest t
     \<and> trm_promotion_result_ref x = wtr_promotion_result_ref t
     \<and> trm_reconciliation_resolution_ref x = wtr_reconciliation_resolution_ref t
     \<and> trm_cancellation_request_event_ref x = wtr_cancellation_request_event_ref t
     \<and> trm_cancellation_request_event_digest x = wtr_cancellation_request_event_digest t
     \<and> trm_reason x = wtr_reason t \<and> trm_idempotency_key x = wtr_idempotency_key t
     \<and> trm_completed_at x = wtr_completed_at t"

definition workflow_result :: "WorkflowInstanceV1 \<Rightarrow> PromotionResultReplayState option" where
  "workflow_result w = Option.bind (wi_promotion w) pr_result"

definition workflow_reconciliation :: "WorkflowInstanceV1 \<Rightarrow> PromotionReconciliationReplayState option" where
  "workflow_reconciliation w = Option.bind (wi_promotion w) pr_reconciliation"

definition cancelled_terminal_ok :: "WorkflowInstanceV1 \<Rightarrow> WorkflowTerminalFields \<Rightarrow> Event \<Rightarrow> bool" where
  "cancelled_terminal_ok w t e \<longleftrightarrow>
     wi_phase w = Phase_CancellationRequested
     \<and> (case wi_cancellation w of
          None \<Rightarrow> False
        | Some c \<Rightarrow> wtr_cancellation_request_event_ref t = Some (can_event_id c)
            \<and> wtr_cancellation_request_event_digest t = Some (can_event_digest c)
            \<and> ev_parent_event_id e = Some (can_event_id c))
     \<and> wtr_promotion_result_ref t = None \<and> wtr_reconciliation_resolution_ref t = None
     \<and> cancellation_effects_are_reconciled w"

definition reconciled_terminal_ok ::
  "env \<Rightarrow> WorkflowInstanceV1 \<Rightarrow> WorkflowTerminalFields \<Rightarrow> PromotionReconciliationReplayState \<Rightarrow> bool" where
  "reconciled_terminal_ok E w t resolution =
     (case workflow_result w of
        None \<Rightarrow> False
      | Some r \<Rightarrow>
          wi_phase w = Phase_PromotionReconciliationResolved
          \<and> pres_outcome r = PromotionResult_ReconciliationRequired
          \<and> wtr_candidate_digest t \<noteq> None
          \<and> wtr_promotion_result_ref t = Some (uuid_to_string E (pres_event_id r))
          \<and> wtr_reconciliation_resolution_ref t = Some (uuid_to_string E (prec_event_id resolution))
          \<and> (prec_outcome resolution, wtr_outcome t)
             \<in> {(Resolution_Abandon, Terminal_Failed), (Resolution_Reject, Terminal_Cancelled)})"

definition plain_terminal_ok :: "WorkflowInstanceV1 \<Rightarrow> WorkflowTerminalFields \<Rightarrow> bool" where
  "plain_terminal_ok w t =
     (case wtr_outcome t of
        Terminal_Completed \<Rightarrow>
          wi_phase w = Phase_Promoted
          \<and> (case workflow_result w of
               None \<Rightarrow> False
             | Some r \<Rightarrow> pres_outcome r = PromotionResult_Promoted)
          \<and> wtr_candidate_digest t \<noteq> None \<and> wtr_promotion_result_ref t \<noteq> None
      | _ \<Rightarrow>
          wi_phase w \<noteq> Phase_Promoted
          \<and> \<not> (case wi_promotion w of
                 None \<Rightarrow> False
               | Some pr \<Rightarrow> pd_decision (pr_decision pr) = Decision_Promote \<and> pr_result pr = None))"

definition workflow_terminal_is_semantically_valid ::
  "env \<Rightarrow> WorkflowInstanceV1 \<Rightarrow> WorkflowTerminalFields \<Rightarrow> u8 \<Rightarrow> Event \<Rightarrow> bool" where
  "workflow_terminal_is_semantically_valid E w t terminal_version e =
     (if terminal_version = 2 \<and> wtr_outcome t = Terminal_Cancelled then cancelled_terminal_ok w t e
      else if wi_cancellation w \<noteq> None then False
      else case workflow_reconciliation w of
        Some resolution \<Rightarrow> reconciled_terminal_ok E w t resolution
      | None \<Rightarrow>
          if (case workflow_result w of
                None \<Rightarrow> False
              | Some r \<Rightarrow> pres_outcome r = PromotionResult_ReconciliationRequired)
          then False
          else if wtr_reconciliation_resolution_ref t \<noteq> None then False
          else plain_terminal_ok w t)"

definition terminal_identity_checks ::
  "env \<Rightarrow> Event \<Rightarrow> WorkflowTerminalFields \<Rightarrow> u8 \<Rightarrow> WorkflowInstanceV1 \<Rightarrow> (string, unit) result" where
  "terminal_identity_checks E e t terminal_version w = first_refusal
     [refuse_if (is_terminal (wi_phase w))
        ''workflow terminal received after a terminal workflow phase'',
      refuse_if (terminal_version = 1 \<and> wi_cancellation w \<noteq> None)
        ''workflow_terminal_v1 cannot close a newly requested cancellation; use workflow_terminal_v2'',
      refuse_if (terminal_version = 2 \<and> parse_rfc3339_utc E (wtr_completed_at t) \<noteq> Some (ev_occurred_at e))
        ''workflow_terminal_v2 completed_at must equal its signed event occurred_at'',
      refuse_if (wtr_workflow_id t \<noteq> wi_workflow_id w \<or> wtr_workflow_revision t \<noteq> wi_workflow_revision w
          \<or> wtr_unit_id t \<noteq> wi_unit_id w \<or> wtr_attempt t \<noteq> wi_attempt w)
        ''terminal workflow identity does not match dispatch'']"

definition terminal_reference_checks ::
  "env \<Rightarrow> WorkflowTerminalFields \<Rightarrow> WorkflowInstanceV1 \<Rightarrow> (string, unit) result" where
  "terminal_reference_checks E t w = first_refusal
     [case wi_candidate w of
        Some c \<Rightarrow> refuse_if (wtr_candidate_digest t \<noteq> Some (cand_candidate_digest c))
          ''terminal candidate digest does not match the immutable candidate''
      | None \<Rightarrow> refuse_if (wtr_candidate_digest t \<noteq> None)
          ''terminal candidate digest exists without an immutable candidate'',
      case workflow_result w of
        Some r \<Rightarrow> refuse_if (wtr_promotion_result_ref t \<noteq> Some (uuid_to_string E (pres_event_id r)))
          ''terminal workflow record does not reference the exact recorded promotion result event''
      | None \<Rightarrow> refuse_if (wtr_promotion_result_ref t \<noteq> None)
          ''terminal workflow record references a promotion result that is not projected'',
      case workflow_reconciliation w of
        Some x \<Rightarrow> refuse_if (wtr_reconciliation_resolution_ref t \<noteq> Some (uuid_to_string E (prec_event_id x)))
          ''terminal workflow record does not reference the exact recorded reconciliation resolution event''
      | None \<Rightarrow> refuse_if (wtr_reconciliation_resolution_ref t \<noteq> None)
          ''terminal workflow record references a reconciliation resolution that is not projected'']"

definition terminal_phase :: "WorkflowTerminalOutcomeV1 \<Rightarrow> WorkflowPhaseV1" where
  "terminal_phase outcome =
     (case outcome of
        Terminal_Completed \<Rightarrow> Phase_Completed
      | Terminal_Failed \<Rightarrow> Phase_Failed
      | Terminal_Cancelled \<Rightarrow> Phase_Cancelled)"

definition terminal_verdict :: "env \<Rightarrow> ReplayState \<Rightarrow> Event \<Rightarrow> WorkflowTerminalFields \<Rightarrow> u8 \<Rightarrow> verdict" where
  "terminal_verdict E st e t terminal_version =
     or_refuse (find_workflow_key_for_terminal E st e t) (\<lambda>key.
      case bt_get (st_workflow_instances st) key of
        None \<Rightarrow> Refuse ''workflow terminal has no prior dispatch envelope''
      | Some w \<Rightarrow>
          if \<not> event_matches_workflow_run E w e
          then Refuse ''workflow terminal belongs to a different run''
          else if terminal_version = 2 \<and> \<not> workflow_is_governed_atomic_sealed_v3 w
          then Refuse ''workflow_terminal_v2 requires a governed atomic sealed_v3 dispatch envelope''
          else case wi_terminal w of
            Some existing \<Rightarrow>
              if workflow_terminal_matches_existing existing t terminal_version then Unchanged
              else Refuse ''workflow already has a terminal record''
          | None \<Rightarrow>
              or_refuse (terminal_identity_checks E e t terminal_version w) (\<lambda>_.
              or_refuse (terminal_reference_checks E t w) (\<lambda>_.
              if \<not> workflow_terminal_is_semantically_valid E w t terminal_version e
              then Refuse ''terminal outcome does not match the recorded promotion or cancellation state''
              else hash_or_refuse E e ''terminal workflow event'' (\<lambda>digest.
                Commit key (w\<lparr>wi_terminal := Some (terminal_of e digest terminal_version t),
                              wi_phase := terminal_phase (wtr_outcome t)\<rparr>)))))"

definition apply_workflow_terminal_record ::
  "env \<Rightarrow> ReplayState \<Rightarrow> Event \<Rightarrow> WorkflowTerminalFields \<Rightarrow> u8 \<Rightarrow> ReplayState" where
  "apply_workflow_terminal_record E st e t terminal_version =
     (let st = ensure_workflow_instances st in settle st e (terminal_verdict E st e t terminal_version))"

definition apply_workflow_terminal :: "env \<Rightarrow> ReplayState \<Rightarrow> Event \<Rightarrow> WorkflowTerminalV1 \<Rightarrow> ReplayState" where
  "apply_workflow_terminal E st e p = apply_workflow_terminal_record E st e (terminal_fields_v1 p) 1"

definition apply_workflow_terminal_v2 :: "env \<Rightarrow> ReplayState \<Rightarrow> Event \<Rightarrow> WorkflowTerminalV2 \<Rightarrow> ReplayState" where
  "apply_workflow_terminal_v2 E st e p =
     (case validate_v3_event_payload E e of
        Inl reason \<Rightarrow> reject_workflow_transition st e reason
      | Inr _ \<Rightarrow> apply_workflow_terminal_record E st e (terminal_fields_v2 p) 2)"

end
