(* ===== verification/Reducer.thy ===== *)
theory Reducer
  imports Activity_Transitions Dispatch_Transitions Evidence_Transitions Promotion_Transitions
    Lifecycle_Transitions
begin

text \<open>
  The reducer, \<open>bp-replay/src/transitions.rs\<close>: \<open>apply_with_verified_signer\<close> sends an event to the
  transition of its payload. A tape is reduced from the empty state one event after the other.
\<close>

definition apply_payload :: "env \<Rightarrow> ReplayState \<Rightarrow> Event \<Rightarrow> ActorKeyRef option \<Rightarrow> Payload \<Rightarrow> ReplayState" where
  "apply_payload E st e signer payload =
     (case payload of
        Payload_RunStartedV1 p \<Rightarrow> apply_run_started E st e p
      | Payload_RunCompletedV1 p \<Rightarrow> clear_parent_chain st
      | Payload_RunFailedV1 p \<Rightarrow> clear_parent_chain st
      | Payload_UnitStartedV1 p \<Rightarrow> apply_unit_started st e p
      | Payload_UnitCompletedV1 p \<Rightarrow> leave_unit st
      | Payload_UnitFailedV1 p \<Rightarrow> leave_unit st
      | Payload_UnitCancelledV1 p \<Rightarrow> leave_unit st
      | Payload_GitCheckpointV1 p \<Rightarrow> apply_git_checkpoint st e p
      | Payload_RunAdmissionRecordedV1 p \<Rightarrow> st
      | Payload_PlanAdmittedV1 p \<Rightarrow> apply_plan_admitted st e p
      | Payload_PlanReceiptRecordedV1 p \<Rightarrow> apply_plan_receipt st e p
      | Payload_ActivityStartedV1 p \<Rightarrow> apply_activity_started E st e p
      | Payload_ActivityCompletedV1 p \<Rightarrow> apply_activity_completed E st e p
      | Payload_ModelRequestV1 p \<Rightarrow> st
      | Payload_ModelResponseV1 p \<Rightarrow> st
      | Payload_TapeCheckpointV1 p \<Rightarrow> st
      | Payload_ToolRequestStoredV1 p \<Rightarrow> apply_tool_request st e
      | Payload_ToolResultV1 p \<Rightarrow> apply_tool_result st
      | Payload_WorkspaceReadV1 p \<Rightarrow> st
      | Payload_WorkspaceWriteV1 p \<Rightarrow> apply_workspace_write st e p
      | Payload_CapabilityDeniedV1 p \<Rightarrow> st
      | Payload_AcceptanceRecordedV1 p \<Rightarrow> apply_acceptance_recorded st e p
      | Payload_DispatchEnvelopeV1 p \<Rightarrow> apply_dispatch_envelope E st e p
      | Payload_DispatchEnvelopeV2 p \<Rightarrow> apply_dispatch_envelope_v2 E st e p
      | Payload_DispatchEnvelopeV3 p \<Rightarrow> apply_dispatch_envelope_v3 E st e p
      | Payload_WorkflowGraphDeclaredV1 p \<Rightarrow> apply_workflow_graph_declared_v1 E st e p
      | Payload_WorkflowGraphDeclaredV2 p \<Rightarrow> apply_workflow_graph_declared_v2 E st e p
      | Payload_CandidateCreatedV1 p \<Rightarrow> apply_candidate_created E st e p
      | Payload_CandidateAcceptanceRecordedV1 p \<Rightarrow> apply_candidate_acceptance E st e p
      | Payload_ReviewVerdictRecordedV1 p \<Rightarrow> apply_review_verdict E st e p
      | Payload_PromotionApprovalRequestedV1 p \<Rightarrow> apply_promotion_approval_requested E st e p
      | Payload_PromotionDecisionRecordedV1 p \<Rightarrow> apply_promotion_decision E st e p
      | Payload_PromotionExecutionClaimedV1 p \<Rightarrow> apply_promotion_execution_claimed_v1 E st e p signer
      | Payload_PromotionResultRecordedV1 p \<Rightarrow> apply_promotion_result E st e p
      | Payload_PromotionReconciliationResolvedV1 p \<Rightarrow> apply_promotion_reconciliation_resolved E st e p
      | Payload_WorkflowTimerScheduledV1 p \<Rightarrow> apply_workflow_timer_scheduled_v1 E st e p
      | Payload_WorkflowTimerFiredV1 p \<Rightarrow> apply_workflow_timer_fired_v1 E st e p
      | Payload_WorkflowCancellationRequestedV1 p \<Rightarrow> apply_workflow_cancellation_requested_v1 E st e p
      | Payload_WorkflowTerminalV1 p \<Rightarrow> apply_workflow_terminal E st e p
      | Payload_WorkflowTerminalV2 p \<Rightarrow> apply_workflow_terminal_v2 E st e p
      | Payload_OperatorDecisionRecordedV1 p \<Rightarrow> st
      | Payload_ResultReadyV1 p \<Rightarrow> st)"

definition apply_with_verified_signer :: "env \<Rightarrow> ReplayState \<Rightarrow> Event \<Rightarrow> ActorKeyRef option \<Rightarrow> ReplayState" where
  "apply_with_verified_signer E st e signer = apply_payload E st e signer (ev_payload e)"

definition apply_legacy_projection_unchecked :: "env \<Rightarrow> ReplayState \<Rightarrow> Event \<Rightarrow> ReplayState" where
  "apply_legacy_projection_unchecked E st e = apply_with_verified_signer E st e None"

end
