(* ===== verification/Workflow_Protocol.thy ===== *)
theory Workflow_Protocol
  imports Reducer
begin

text \<open>
  The workflow protocol as a step relation: one rule for every way an event may change a workflow
  instance, with the evidence the rule needs as premises. \<open>Reducer_Refinement\<close> shows that the
  reducer implements it; the invariants of an instance and the immutability of recorded evidence
  are proved here, once, by induction over the rules.
\<close>

subsection \<open>The steps\<close>

definition terminal_payload :: "Event \<Rightarrow> WorkflowInstanceV1 \<Rightarrow> WorkflowTerminalFields \<Rightarrow> u8 \<Rightarrow> bool" where
  "terminal_payload e w t version =
     (case ev_payload e of
        Payload_WorkflowTerminalV1 p \<Rightarrow> t = terminal_fields_v1 p \<and> version = 1
      | Payload_WorkflowTerminalV2 p \<Rightarrow>
          t = terminal_fields_v2 p \<and> version = 2 \<and> workflow_is_governed_atomic_sealed_v3 w
      | _ \<Rightarrow> False)"

inductive protocol_step :: "env \<Rightarrow> Event \<Rightarrow> WorkflowInstanceV1 \<Rightarrow> WorkflowInstanceV1 \<Rightarrow> bool" for E e where
  create_candidate:
    "\<lbrakk>ev_payload e = Payload_CandidateCreatedV1 p;
      wi_phase w = Phase_Dispatched; wi_candidate w = None;
      wd_trust_tier (wi_dispatch w) = Tier_Governed; wd_commit_mode (wi_dispatch w) = Commit_Atomic;
      wd_dispatch_version (wi_dispatch w) < 3;
      wd_execution_role (wi_dispatch w) \<in> {Role_Implementer, Role_Candidate};
      candidate_matches_dispatch w p;
      is_canonical_buildplane_candidate_ref (cc1_candidate_ref p)\<rbrakk>
     \<Longrightarrow> protocol_step E e w (w\<lparr>wi_candidate := Some (candidate_of e p), wi_phase := Phase_CandidateCreated\<rparr>)"
| record_acceptance:
    "\<lbrakk>ev_payload e = Payload_CandidateAcceptanceRecordedV1 p;
      wi_phase w = Phase_CandidateCreated; wi_acceptance w = None; wi_candidate w = Some c;
      car_candidate_digest p = cand_candidate_digest c;
      car_candidate_commit_sha p = cand_candidate_commit_sha c;
      car_acceptance_contract_digest p = wd_acceptance_contract_digest (wi_dispatch w)\<rbrakk>
     \<Longrightarrow> protocol_step E e w (w\<lparr>wi_acceptance := Some (acceptance_of e p),
           wi_phase := (case car_outcome p of
               Acceptance_Passed \<Rightarrow> Phase_AcceptancePassed
             | Acceptance_Rejected \<Rightarrow> Phase_Rejected)\<rparr>)"
| record_review:
    "\<lbrakk>ev_payload e = Payload_ReviewVerdictRecordedV1 p;
      wi_phase w \<in> {Phase_AcceptancePassed, Phase_ReviewApproved}; wi_candidate w = Some c;
      rv1_candidate_digest p = cand_candidate_digest c;
      rv1_candidate_commit_sha p = cand_candidate_commit_sha c;
      wd_dispatch_version (wi_dispatch w) < 3;
      wi_acceptance w = Some a; ca_outcome a = Acceptance_Passed;
      bt_get (wi_reviews w) (rv1_review_ref p) = None\<rbrakk>
     \<Longrightarrow> protocol_step E e w
          (w\<lparr>wi_reviews := bt_insert (rv1_review_ref p) (review_of e p) (wi_reviews w),
             wi_phase := (case rv1_decision p of
                 Review_Approve \<Rightarrow> Phase_ReviewApproved
               | _ \<Rightarrow> Phase_Rejected)\<rparr>)"
| request_approval:
    "\<lbrakk>ev_payload e = Payload_PromotionApprovalRequestedV1 p; canonical_event_hash E e = Inr digest;
      wi_phase w = Phase_ReviewApproved; wi_promotion_approval w = None; wi_candidate w = Some c;
      binds_candidate_lineage c (par_candidate_digest p) (par_base_commit_sha p) (par_envelope_digest p);
      is_canonical_target_ref (par_target_ref p);
      wi_acceptance w = Some a; ca_outcome a = Acceptance_Passed;
      par_acceptance_ref p = ca_acceptance_ref a;
      par_review_refs p \<noteq> []; review_refs_are_approved w (par_review_refs p)\<rbrakk>
     \<Longrightarrow> protocol_step E e w (w\<lparr>wi_promotion_approval := Some (approval_of e digest p),
           wi_phase := Phase_PromotionApprovalPending\<rparr>)"
| decide:
    "\<lbrakk>ev_payload e = Payload_PromotionDecisionRecordedV1 p; canonical_event_hash E e = Inr digest;
      \<not> is_terminal (wi_phase w); wi_cancellation w = None; wi_phase w \<noteq> Phase_CancellationRequested;
      wi_candidate w = Some c; wi_promotion w = None;
      binds_candidate_lineage c (pdr_candidate_digest p) (pdr_base_commit_sha p) (pdr_envelope_digest p);
      decision_request_check E w p = Inr (); decision_evidence w p = Inr ()\<rbrakk>
     \<Longrightarrow> protocol_step E e w
          (w\<lparr>wi_promotion := Some \<lparr>pr_decision = decision_of e digest p,
               pr_execution_claim = None, pr_result = None, pr_reconciliation = None\<rparr>,
             wi_phase := (case pdr_decision p of
                 Decision_Promote \<Rightarrow> Phase_PromotionPending
               | Decision_Reject \<Rightarrow> Phase_Rejected)\<rparr>)"
| claim_execution:
    "\<lbrakk>ev_payload e = Payload_PromotionExecutionClaimedV1 p; canonical_event_hash E e = Inr digest;
      wi_phase w = Phase_PromotionPending; wi_cancellation w = None; wi_terminal w = None;
      workflow_is_governed_atomic_sealed_v3 w; wi_candidate w = Some c; wi_promotion w = Some pr;
      pd_target_ref (pr_decision pr) = Some target_ref;
      claim_binds_promotion w c (pr_decision pr) target_ref p; pr_execution_claim pr = None;
      parse_rfc3339_utc E (wd_expires_at (wi_dispatch w)) = Some dispatch_expires_at;
      parse_rfc3339_utc E (pec_lease_expires_at p) = Some lease_expires_at;
      ev_occurred_at e < lease_expires_at; ev_occurred_at e < dispatch_expires_at;
      lease_expires_at \<le> dispatch_expires_at\<rbrakk>
     \<Longrightarrow> protocol_step E e w (w\<lparr>wi_promotion := Some (pr\<lparr>pr_execution_claim := Some (claim_of e digest p)\<rparr>)\<rparr>)"
| record_result:
    "\<lbrakk>ev_payload e = Payload_PromotionResultRecordedV1 p; canonical_event_hash E e = Inr digest;
      wi_promotion w = Some pr; pr_result pr = None; wi_terminal w = None;
      prr_candidate_digest p = pd_candidate_digest (pr_decision pr);
      prr_idempotency_key p = pd_idempotency_key (pr_decision pr);
      result_lease_check (pr_execution_claim pr) (prr_promotion_execution_lease_binding p) = Inr ();
      promotion_result_is_semantically_valid w pr p\<rbrakk>
     \<Longrightarrow> protocol_step E e w (w\<lparr>wi_promotion := Some (pr\<lparr>pr_result := Some (result_of e digest p)\<rparr>),
           wi_phase := result_phase (prr_outcome p)\<rparr>)"
| reconcile:
    "\<lbrakk>ev_payload e = Payload_PromotionReconciliationResolvedV1 p; canonical_event_hash E e = Inr digest;
      wi_promotion w = Some pr; pr_reconciliation pr = None; wi_terminal w = None;
      pr_result pr = Some r; reconciliation_checks E w pr r p = Inr ()\<rbrakk>
     \<Longrightarrow> protocol_step E e w
          (w\<lparr>wi_promotion := Some (pr\<lparr>pr_reconciliation := Some (reconciliation_of e digest p)\<rparr>),
             wi_phase := Phase_PromotionReconciliationResolved\<rparr>)"
| schedule_timer:
    "\<lbrakk>ev_payload e = Payload_WorkflowTimerScheduledV1 p; canonical_event_hash E e = Inr digest;
      workflow_lifecycle_control_is_allowed w; workflow_is_governed_atomic_sealed_v3 w;
      parse_rfc3339_utc E (wts_scheduled_at p) = Some (ev_occurred_at e);
      parse_rfc3339_utc E (wts_due_at p) = Some due_at;
      parse_rfc3339_utc E (wd_issued_at (wi_dispatch w)) = Some dispatch_issued_at;
      parse_rfc3339_utc E (wd_expires_at (wi_dispatch w)) = Some dispatch_expires_at;
      timer_window_ok e w (ev_occurred_at e) due_at dispatch_issued_at dispatch_expires_at;
      bt_get (wi_timers w) (wts_timer_id p) = None\<rbrakk>
     \<Longrightarrow> protocol_step E e w
          (w\<lparr>wi_timers := bt_insert (wts_timer_id p) (timer_of e digest p) (wi_timers w)\<rparr>)"
| fire_timer:
    "\<lbrakk>ev_payload e = Payload_WorkflowTimerFiredV1 p; canonical_event_hash E e = Inr digest;
      workflow_lifecycle_control_is_allowed w; workflow_is_governed_atomic_sealed_v3 w;
      bt_get (wi_timers w) (wtf_timer_id p) = Some t; tm_fired t = None;
      parse_rfc3339_utc E (wtf_fired_at p) = Some fired_at; parse_rfc3339_utc E (tm_due_at t) = Some due_at;
      firing_binds_schedule e t fired_at due_at p\<rbrakk>
     \<Longrightarrow> protocol_step E e w
          (w\<lparr>wi_timers := bt_insert (wtf_timer_id p) (t\<lparr>tm_fired := Some (fired_of e digest p)\<rparr>) (wi_timers w)\<rparr>)"
| cancel:
    "\<lbrakk>ev_payload e = Payload_WorkflowCancellationRequestedV1 p; canonical_event_hash E e = Inr digest;
      workflow_lifecycle_control_is_allowed w; workflow_is_governed_atomic_sealed_v3 w;
      timer_evidence_is_valid E e w (ev_occurred_at e) p\<rbrakk>
     \<Longrightarrow> protocol_step E e w (w\<lparr>wi_cancellation := Some (cancellation_of e digest p),
           wi_phase := Phase_CancellationRequested\<rparr>)"
| finish:
    "\<lbrakk>terminal_payload e w t version; canonical_event_hash E e = Inr digest; wi_terminal w = None;
      terminal_identity_checks E e t version w = Inr (); terminal_reference_checks E t w = Inr ();
      workflow_terminal_is_semantically_valid E w t version e\<rbrakk>
     \<Longrightarrow> protocol_step E e w (w\<lparr>wi_terminal := Some (terminal_of e digest version t),
           wi_phase := terminal_phase (wtr_outcome t)\<rparr>)"

subsection \<open>What a step never changes\<close>

definition kept :: "'a option \<Rightarrow> 'a option \<Rightarrow> bool" where
  "kept a b \<longleftrightarrow> a = None \<or> b = a"

lemma kept_simps [simp]: "kept None b" "kept (Some x) b \<longleftrightarrow> b = Some x" "kept a a"
  by (auto simp: kept_def)

lemma kept_trans: "kept a b \<Longrightarrow> kept b c \<Longrightarrow> kept a c"
  by (auto simp: kept_def)

definition promotion_extends :: "PromotionReplayState option \<Rightarrow> PromotionReplayState option \<Rightarrow> bool" where
  "promotion_extends a b =
     (case a of
        None \<Rightarrow> True
      | Some p \<Rightarrow> (case b of
          None \<Rightarrow> False
        | Some q \<Rightarrow> pr_decision q = pr_decision p
            \<and> kept (pr_execution_claim p) (pr_execution_claim q)
            \<and> kept (pr_result p) (pr_result q)
            \<and> kept (pr_reconciliation p) (pr_reconciliation q)))"

definition timer_extends :: "WorkflowTimerReplayState option \<Rightarrow> WorkflowTimerReplayState option \<Rightarrow> bool" where
  "timer_extends a b =
     (case a of
        None \<Rightarrow> True
      | Some t \<Rightarrow> (case b of
          None \<Rightarrow> False
        | Some u \<Rightarrow> u\<lparr>tm_fired := None\<rparr> = t\<lparr>tm_fired := None\<rparr> \<and> kept (tm_fired t) (tm_fired u)))"

definition workflow_extends :: "WorkflowInstanceV1 \<Rightarrow> WorkflowInstanceV1 \<Rightarrow> bool" where
  "workflow_extends w w' \<longleftrightarrow>
     wi_run_id w' = wi_run_id w \<and> wi_workflow_id w' = wi_workflow_id w
     \<and> wi_workflow_revision w' = wi_workflow_revision w \<and> wi_unit_id w' = wi_unit_id w
     \<and> wi_attempt w' = wi_attempt w \<and> wi_dispatch w' = wi_dispatch w
     \<and> wi_action_evidence w' = wi_action_evidence w \<and> wi_retry_context w' = wi_retry_context w
     \<and> kept (wi_candidate w) (wi_candidate w') \<and> kept (wi_acceptance w) (wi_acceptance w')
     \<and> (\<forall>r. kept (bt_get (wi_reviews w) r) (bt_get (wi_reviews w') r))
     \<and> kept (wi_promotion_approval w) (wi_promotion_approval w')
     \<and> promotion_extends (wi_promotion w) (wi_promotion w')
     \<and> (\<forall>i. timer_extends (bt_get (wi_timers w) i) (bt_get (wi_timers w') i))
     \<and> kept (wi_cancellation w) (wi_cancellation w') \<and> kept (wi_terminal w) (wi_terminal w')"

lemma promotion_extends_refl [simp]: "promotion_extends a a"
  by (simp add: promotion_extends_def split: option.split)

lemma promotion_extends_trans:
  "promotion_extends a b \<Longrightarrow> promotion_extends b c \<Longrightarrow> promotion_extends a c"
  by (auto simp: promotion_extends_def split: option.splits intro: kept_trans)

lemma timer_extends_refl [simp]: "timer_extends a a"
  by (simp add: timer_extends_def split: option.split)

lemma timer_extends_trans: "timer_extends a b \<Longrightarrow> timer_extends b c \<Longrightarrow> timer_extends a c"
  by (auto simp: timer_extends_def split: option.splits intro: kept_trans)

lemma workflow_extends_refl [simp]: "workflow_extends w w"
  by (simp add: workflow_extends_def)

lemma workflow_extends_trans:
  assumes "workflow_extends u v" "workflow_extends v w"
  shows "workflow_extends u w"
  using assms unfolding workflow_extends_def
  by (elim conjE, intro conjI allI)
    (simp; fail | blast intro: kept_trans promotion_extends_trans timer_extends_trans)+

text \<open>Every step extends the instance: recorded evidence is never replaced or removed.\<close>

lemma protocol_step_extends: "protocol_step E e w w' \<Longrightarrow> workflow_extends w w'"
  by (induction rule: protocol_step.induct)
    (simp_all add: workflow_extends_def promotion_extends_def timer_extends_def
      workflow_lifecycle_control_is_allowed_def timer_of_def split: option.split)

end
