(* ===== verification/Workflow_Invariant.thy ===== *)
theory Workflow_Invariant
  imports Workflow_Protocol
begin

text \<open>
  The invariant of a workflow instance: which evidence each phase carries and how the records of an
  instance bind each other. Every protocol step keeps it.
\<close>

subsection \<open>Evidence and phase\<close>

definition result_is :: "PromotionResultOutcomeV1 \<Rightarrow> WorkflowInstanceV1 \<Rightarrow> bool" where
  "result_is outcome w \<longleftrightarrow> (\<exists>r. workflow_result w = Some r \<and> pres_outcome r = outcome)"

definition passed :: "WorkflowInstanceV1 \<Rightarrow> bool" where
  "passed w \<longleftrightarrow> map_option ca_outcome (wi_acceptance w) = Some Acceptance_Passed"

definition decided :: "PromotionDecisionKindV1 \<Rightarrow> WorkflowInstanceV1 \<Rightarrow> bool" where
  "decided d w \<longleftrightarrow> (\<exists>pr. wi_promotion w = Some pr \<and> pd_decision (pr_decision pr) = d)"

definition terminal_is :: "WorkflowTerminalOutcomeV1 \<Rightarrow> WorkflowInstanceV1 \<Rightarrow> bool" where
  "terminal_is outcome w \<longleftrightarrow> map_option trm_outcome (wi_terminal w) = Some outcome"

lemmas evidence_defs = result_is_def passed_def decided_def terminal_is_def workflow_result_def
  workflow_reconciliation_def

text \<open>A closed promotion is either absent or was resolved after the target had advanced.\<close>

definition promotion_settled :: "WorkflowInstanceV1 \<Rightarrow> bool" where
  "promotion_settled w \<longleftrightarrow>
     wi_promotion w = None
     \<or> result_is PromotionResult_ReconciliationRequired w \<and> workflow_reconciliation w \<noteq> None"

fun phase_ok :: "WorkflowPhaseV1 \<Rightarrow> WorkflowInstanceV1 \<Rightarrow> bool" where
  "phase_ok Phase_Dispatched w \<longleftrightarrow> wi_candidate w = None \<and> wi_acceptance w = None
     \<and> wi_promotion_approval w = None \<and> wi_promotion w = None \<and> wi_terminal w = None"
| "phase_ok Phase_CandidateCreated w \<longleftrightarrow> wi_candidate w \<noteq> None \<and> wi_acceptance w = None
     \<and> wi_promotion_approval w = None \<and> wi_promotion w = None \<and> wi_terminal w = None"
| "phase_ok Phase_AcceptancePassed w \<longleftrightarrow> passed w
     \<and> wi_promotion_approval w = None \<and> wi_promotion w = None \<and> wi_terminal w = None"
| "phase_ok Phase_ReviewApproved w \<longleftrightarrow> passed w
     \<and> wi_promotion_approval w = None \<and> wi_promotion w = None \<and> wi_terminal w = None"
| "phase_ok Phase_PromotionApprovalPending w \<longleftrightarrow> passed w
     \<and> wi_promotion_approval w \<noteq> None \<and> wi_promotion w = None \<and> wi_terminal w = None"
| "phase_ok Phase_PromotionPending w \<longleftrightarrow> decided Decision_Promote w \<and> workflow_result w = None
     \<and> workflow_reconciliation w = None \<and> wi_terminal w = None"
| "phase_ok Phase_PromotionReconciliationRequired w \<longleftrightarrow> result_is PromotionResult_ReconciliationRequired w
     \<and> workflow_reconciliation w = None \<and> wi_terminal w = None"
| "phase_ok Phase_PromotionReconciliationResolved w \<longleftrightarrow> result_is PromotionResult_ReconciliationRequired w
     \<and> workflow_reconciliation w \<noteq> None \<and> wi_terminal w = None"
| "phase_ok Phase_Promoted w \<longleftrightarrow> result_is PromotionResult_Promoted w
     \<and> workflow_reconciliation w = None \<and> wi_terminal w = None"
| "phase_ok Phase_CancellationRequested w \<longleftrightarrow> wi_cancellation w \<noteq> None
     \<and> wi_promotion_approval w = None \<and> wi_promotion w = None \<and> wi_terminal w = None"
| "phase_ok Phase_Rejected w \<longleftrightarrow> wi_terminal w = None \<and> workflow_reconciliation w = None
     \<and> (decided Decision_Promote w \<longrightarrow> result_is PromotionResult_Rejected w)"
| "phase_ok Phase_Completed w \<longleftrightarrow> terminal_is Terminal_Completed w \<and> result_is PromotionResult_Promoted w"
| "phase_ok Phase_Failed w \<longleftrightarrow> terminal_is Terminal_Failed w \<and> promotion_settled w"
| "phase_ok Phase_Cancelled w \<longleftrightarrow> terminal_is Terminal_Cancelled w \<and> promotion_settled w"

definition candidate_ok :: "WorkflowInstanceV1 \<Rightarrow> bool" where
  "candidate_ok w \<longleftrightarrow>
     (\<forall>c. wi_candidate w = Some c \<longrightarrow>
        wd_trust_tier (wi_dispatch w) = Tier_Governed \<and> wd_commit_mode (wi_dispatch w) = Commit_Atomic
        \<and> cand_base_commit_sha c = wd_base_commit_sha (wi_dispatch w)
        \<and> cand_envelope_digest c = wd_envelope_digest (wi_dispatch w)
        \<and> is_canonical_buildplane_candidate_ref (cand_candidate_ref c))"

definition acceptance_ok :: "WorkflowInstanceV1 \<Rightarrow> bool" where
  "acceptance_ok w \<longleftrightarrow>
     (\<forall>a. wi_acceptance w = Some a \<longrightarrow>
        (\<exists>c. wi_candidate w = Some c \<and> ca_candidate_digest a = cand_candidate_digest c
           \<and> ca_candidate_commit_sha a = cand_candidate_commit_sha c)
        \<and> ca_acceptance_contract_digest a = wd_acceptance_contract_digest (wi_dispatch w))"

definition reviews_ok :: "WorkflowInstanceV1 \<Rightarrow> bool" where
  "reviews_ok w \<longleftrightarrow>
     (\<forall>r v. bt_get (wi_reviews w) r = Some v \<longrightarrow> rv_review_ref v = r \<and> passed w
        \<and> (\<exists>c. wi_candidate w = Some c \<and> rv_candidate_digest v = cand_candidate_digest c
           \<and> rv_candidate_commit_sha v = cand_candidate_commit_sha c))"

text \<open>The evidence a decision rests on, over the records it names.\<close>

definition decision_bound :: "WorkflowInstanceV1 \<Rightarrow> PromotionDecisionReplayState \<Rightarrow> bool" where
  "decision_bound w d \<longleftrightarrow>
     (\<exists>c a. wi_candidate w = Some c \<and> wi_acceptance w = Some a
        \<and> binds_candidate_lineage c (pd_candidate_digest d) (pd_base_commit_sha d) (pd_envelope_digest d)
        \<and> pd_acceptance_ref d = ca_acceptance_ref a)
     \<and> pd_review_refs d \<noteq> [] \<and> review_refs_exist w (pd_review_refs d)
     \<and> (pd_decision d = Decision_Promote \<longrightarrow> passed w \<and> review_refs_are_approved w (pd_review_refs d))"

text \<open>The payload a stored result was recorded from.\<close>

definition recorded_result :: "PromotionResultReplayState \<Rightarrow> PromotionResultRecordedV1" where
  "recorded_result r =
     \<lparr>prr_candidate_digest = pres_candidate_digest r, prr_idempotency_key = pres_idempotency_key r,
      prr_promotion_decision_ref = pres_promotion_decision_ref r, prr_outcome = pres_outcome r,
      prr_merged_head_sha = pres_merged_head_sha r,
      prr_promotion_git_binding = pres_promotion_git_binding r,
      prr_promotion_execution_lease_binding = pres_promotion_execution_lease_binding r,
      prr_completed_at = pres_completed_at r\<rparr>"

lemma recorded_result_of [simp]: "recorded_result (result_of e d p) = p"
  by (simp add: recorded_result_def result_of_def)

lemma result_of_fields [simp]:
  "pres_candidate_digest (result_of e d p) = prr_candidate_digest p"
  "pres_outcome (result_of e d p) = prr_outcome p"
  by (simp_all add: result_of_def)

definition promotion_ok :: "WorkflowInstanceV1 \<Rightarrow> bool" where
  "promotion_ok w \<longleftrightarrow>
     (\<forall>pr. wi_promotion w = Some pr \<longrightarrow>
        decision_bound w (pr_decision pr)
        \<and> (\<forall>r. pr_result pr = Some r \<longrightarrow>
             pres_candidate_digest r = pd_candidate_digest (pr_decision pr)
             \<and> promotion_result_is_semantically_valid w pr (recorded_result r)))"

definition cancellation_ok :: "WorkflowInstanceV1 \<Rightarrow> bool" where
  "cancellation_ok w \<longleftrightarrow>
     (wi_cancellation w \<noteq> None \<longrightarrow> wi_phase w \<in> {Phase_CancellationRequested, Phase_Cancelled}
        \<and> wi_promotion_approval w = None \<and> wi_promotion w = None
        \<and> workflow_is_governed_atomic_sealed_v3 w)"

definition wf_workflow :: "WorkflowInstanceV1 \<Rightarrow> bool" where
  "wf_workflow w \<longleftrightarrow> phase_ok (wi_phase w) w \<and> candidate_ok w \<and> acceptance_ok w \<and> reviews_ok w
     \<and> promotion_ok w \<and> cancellation_ok w"

subsection \<open>A fresh workflow\<close>

lemma wf_fresh_workflow: "wf_workflow (fresh_workflow r i v u n d ev retry)"
  by (simp add: wf_workflow_def fresh_workflow_def candidate_ok_def acceptance_ok_def reviews_ok_def
      promotion_ok_def cancellation_ok_def)

subsection \<open>Reading the guards\<close>

lemma decision_evidence_ok:
  "decision_evidence w p = Inr () \<longleftrightarrow>
     (\<exists>a. wi_acceptance w = Some a \<and> pdr_acceptance_ref p = ca_acceptance_ref a)
     \<and> pdr_review_refs p \<noteq> []
     \<and> (case pdr_decision p of
          Decision_Promote \<Rightarrow> passed w \<and> review_refs_are_approved w (pdr_review_refs p)
            \<and> (wi_promotion_approval w = None \<longrightarrow> wi_phase w = Phase_ReviewApproved)
        | Decision_Reject \<Rightarrow> review_refs_exist w (pdr_review_refs p))"
  by (auto simp: decision_evidence_def passed_def split: option.splits PromotionDecisionKindV1.splits)

lemma approved_refs_exist:
  "review_refs_are_approved w refs \<Longrightarrow> review_refs_exist w refs"
  by (auto simp: review_refs_are_approved_def review_refs_exist_def distinct_refs_all_iff
      review_ref_ok_def split: option.splits)

lemma review_ref_ok_insert:
  assumes "bt_get (wi_reviews w) k = None" "review_ref_ok b w r"
  shows "review_ref_ok b (w\<lparr>wi_reviews := bt_insert k v (wi_reviews w), wi_phase := ph\<rparr>) r"
  using assms by (auto simp: review_ref_ok_def split: option.splits)

text \<open>The validity of a result reads the dispatch, the candidate and the decision only.\<close>

lemma result_valid_cong:
  assumes "wi_candidate w' = wi_candidate w" "wi_dispatch w' = wi_dispatch w"
    and "pr_decision pr' = pr_decision pr"
  shows "promotion_result_is_semantically_valid w' pr' p = promotion_result_is_semantically_valid w pr p"
proof -
  have "requires_candidate_completion w' = requires_candidate_completion w"
    by (simp add: assms requires_candidate_completion_def requires_activity_claim_result_def)
  moreover have "promotion_git_binding_matches_candidate w' t b m a h g
      = promotion_git_binding_matches_candidate w t b m a h g" for t b m a h g
    by (simp add: promotion_git_binding_matches_candidate_def assms)
  ultimately have "promotion_result_has_bound_merge_evidence w' pr' p s h
      = promotion_result_has_bound_merge_evidence w pr p s h" for s h
    by (simp add: promotion_result_has_bound_merge_evidence_def assms split: option.split)
  then show ?thesis
    by (simp add: promotion_result_is_semantically_valid_def assms
        split: PromotionDecisionKindV1.split PromotionResultOutcomeV1.split)
qed

lemma decision_bound_cong:
  assumes "wi_candidate w' = wi_candidate w" "wi_dispatch w' = wi_dispatch w"
    and "wi_acceptance w' = wi_acceptance w" "wi_reviews w' = wi_reviews w"
  shows "decision_bound w' d = decision_bound w d"
proof -
  have "review_ref_ok b w' = review_ref_ok b w" for b
    by (rule ext) (simp add: review_ref_ok_def assms split: option.split)
  then show ?thesis
    by (simp add: decision_bound_def review_refs_exist_def review_refs_are_approved_def passed_def assms)
qed

subsection \<open>Reading the phase\<close>

lemma open_phase_no_terminal: "phase_ok ph w \<Longrightarrow> wi_terminal w = None \<or> is_terminal ph"
  by (cases ph) simp_all

lemma no_result_no_reconciliation:
  "phase_ok ph w \<Longrightarrow> workflow_result w = None \<Longrightarrow> workflow_reconciliation w = None"
  by (cases ph) (auto simp: evidence_defs promotion_settled_def)

lemma open_phase_promotion:
  assumes "phase_ok ph w" "\<not> is_terminal ph" "ph \<noteq> Phase_Promoted"
    and "workflow_reconciliation w = None" "\<not> result_is PromotionResult_ReconciliationRequired w"
    and "decided Decision_Promote w \<longrightarrow> workflow_result w \<noteq> None"
  shows "wi_promotion w = None"
  using assms by (cases ph) (auto simp: evidence_defs)

lemma phase_ok_timers [simp]: "phase_ok ph (w\<lparr>wi_timers := ts\<rparr>) = phase_ok ph w"
  by (cases ph) (simp_all add: evidence_defs promotion_settled_def)

lemma control_allowed_open:
  assumes "workflow_lifecycle_control_is_allowed w" "phase_ok (wi_phase w) w"
  shows "wi_promotion_approval w = None" "wi_promotion w = None" "wi_terminal w = None"
  using assms by (cases "wi_phase w"; simp add: workflow_lifecycle_control_is_allowed_def)+

text \<open>What the invariant of the promotion reads of an instance.\<close>

lemma promotion_ok_same:
  assumes "promotion_ok w" and "wi_candidate w' = wi_candidate w" "wi_dispatch w' = wi_dispatch w"
    and "wi_acceptance w' = wi_acceptance w" "wi_reviews w' = wi_reviews w"
    and "wi_promotion w' = wi_promotion w"
  shows "promotion_ok w'"
  using assms(1) decision_bound_cong [OF assms(2-5)] result_valid_cong [OF assms(2,3) refl]
  by (simp add: promotion_ok_def assms(6))

lemma no_promotion_ok: "wi_promotion w = None \<Longrightarrow> promotion_ok w"
  by (simp add: promotion_ok_def)

lemma fresh_promotion_ok:
  assumes "decision_bound w (pr_decision pr)" "pr_result pr = None" "wi_promotion w' = Some pr"
    and same: "wi_candidate w' = wi_candidate w" "wi_dispatch w' = wi_dispatch w"
      "wi_acceptance w' = wi_acceptance w" "wi_reviews w' = wi_reviews w"
  shows "promotion_ok w'"
  using assms(1-3) decision_bound_cong [OF same] by (simp add: promotion_ok_def)

lemma decide_bound:
  assumes "wi_candidate w = Some c" "decision_evidence w p = Inr ()"
    and "binds_candidate_lineage c (pdr_candidate_digest p) (pdr_base_commit_sha p) (pdr_envelope_digest p)"
  shows "decision_bound w (decision_of e digest p)"
  using assms approved_refs_exist
  by (auto simp: decision_bound_def decision_of_def decision_evidence_ok split: PromotionDecisionKindV1.splits)

lemma promotion_ok_update:
  assumes "promotion_ok w" "wi_promotion w = Some pr" "pr_decision pr' = pr_decision pr"
    and same: "wi_candidate w' = wi_candidate w" "wi_dispatch w' = wi_dispatch w"
      "wi_acceptance w' = wi_acceptance w" "wi_reviews w' = wi_reviews w"
    and "wi_promotion w' = Some pr'"
    and "\<And>r. pr_result pr' = Some r \<Longrightarrow> pr_result pr = Some r
      \<or> pres_candidate_digest r = pd_candidate_digest (pr_decision pr)
        \<and> promotion_result_is_semantically_valid w pr (recorded_result r)"
  shows "promotion_ok w'"
  using assms decision_bound_cong [OF same] result_valid_cong [OF same(1,2) assms(3)]
  by (auto simp: promotion_ok_def)

lemma sealed_updates [simp]:
  "workflow_is_governed_atomic_sealed_v3 (w\<lparr>wi_phase := ph\<rparr>) = workflow_is_governed_atomic_sealed_v3 w"
  "workflow_is_governed_atomic_sealed_v3 (w\<lparr>wi_terminal := t\<rparr>) = workflow_is_governed_atomic_sealed_v3 w"
  "workflow_is_governed_atomic_sealed_v3 (w\<lparr>wi_cancellation := x\<rparr>) = workflow_is_governed_atomic_sealed_v3 w"
  by (simp_all add: workflow_is_governed_atomic_sealed_v3_def workflow_supports_native_activity_claim_def
      supports_sealed_action_evidence_def requires_activity_claim_result_def)

subsection \<open>Every step keeps the invariant\<close>

lemma step_candidate_ok: "protocol_step E e w w' \<Longrightarrow> wf_workflow w \<Longrightarrow> candidate_ok w'"
  by (induction rule: protocol_step.induct)
    (auto simp: wf_workflow_def candidate_ok_def candidate_of_def candidate_matches_dispatch_def)

lemma step_acceptance_ok: "protocol_step E e w w' \<Longrightarrow> wf_workflow w \<Longrightarrow> acceptance_ok w'"
  by (induction rule: protocol_step.induct)
    (auto simp: wf_workflow_def acceptance_ok_def acceptance_of_def)

lemma step_reviews_ok: "protocol_step E e w w' \<Longrightarrow> wf_workflow w \<Longrightarrow> reviews_ok w'"
  by (induction rule: protocol_step.induct)
    (auto simp: wf_workflow_def reviews_ok_def review_of_def passed_def split: if_splits)

lemma finish_settled:
  assumes valid: "workflow_terminal_is_semantically_valid E w t version e"
    and "\<not> is_terminal (wi_phase w)" and ok: "phase_ok (wi_phase w) w"
    and "wtr_outcome t \<noteq> Terminal_Completed"
  shows "promotion_settled w"
proof -
  consider (cancelled) "cancelled_terminal_ok w t e"
    | (reconciled) x where "workflow_reconciliation w = Some x" "reconciled_terminal_ok E w t x"
    | (plain) "workflow_reconciliation w = None" "\<not> result_is PromotionResult_ReconciliationRequired w"
        "plain_terminal_ok w t"
    using valid by (auto simp: workflow_terminal_is_semantically_valid_def result_is_def
        split: if_splits option.splits)
  then show ?thesis
  proof cases
    case cancelled
    then show ?thesis
      using ok by (simp add: cancelled_terminal_ok_def promotion_settled_def)
  next
    case reconciled
    then show ?thesis
      by (auto simp: reconciled_terminal_ok_def promotion_settled_def result_is_def split: option.splits)
  next
    case plain
    then have "wi_phase w \<noteq> Phase_Promoted" "decided Decision_Promote w \<longrightarrow> workflow_result w \<noteq> None"
      using assms(4) by (auto simp: plain_terminal_ok_def evidence_defs
          split: WorkflowTerminalOutcomeV1.splits option.splits)
    with plain assms show ?thesis
      using open_phase_promotion by (simp add: promotion_settled_def)
  qed
qed

lemma finish_phase_ok:
  assumes "wi_terminal w = None" "terminal_identity_checks E e t version w = Inr ()"
    and valid: "workflow_terminal_is_semantically_valid E w t version e" and "wf_workflow w"
  shows "phase_ok (terminal_phase (wtr_outcome t))
    (w\<lparr>wi_terminal := Some (terminal_of e digest version t), wi_phase := terminal_phase (wtr_outcome t)\<rparr>)"
    (is "phase_ok _ ?w'")
proof -
  have open_phase: "\<not> is_terminal (wi_phase w)" and ok: "phase_ok (wi_phase w) w"
    using assms by (simp_all add: terminal_identity_checks_def wf_workflow_def)
  have same: "promotion_settled ?w' = promotion_settled w"
    "result_is PromotionResult_Promoted ?w' = result_is PromotionResult_Promoted w"
    "terminal_is (wtr_outcome t) ?w'"
    by (simp_all add: promotion_settled_def evidence_defs terminal_of_def)
  show ?thesis
  proof (cases "wtr_outcome t")
    case Terminal_Completed
    then have "result_is PromotionResult_Promoted w"
      using valid by (auto simp: workflow_terminal_is_semantically_valid_def reconciled_terminal_ok_def
          plain_terminal_ok_def result_is_def split: if_splits option.splits)
    with Terminal_Completed same show ?thesis by (simp add: terminal_phase_def)
  next
    case Terminal_Failed
    then have "promotion_settled w"
      using finish_settled [OF valid open_phase ok] by simp
    with Terminal_Failed same show ?thesis by (simp add: terminal_phase_def)
  next
    case Terminal_Cancelled
    then have "promotion_settled w"
      using finish_settled [OF valid open_phase ok] by simp
    with Terminal_Cancelled same show ?thesis by (simp add: terminal_phase_def)
  qed
qed

lemma step_phase_ok: "protocol_step E e w w' \<Longrightarrow> wf_workflow w \<Longrightarrow> phase_ok (wi_phase w') w'"
proof (induction rule: protocol_step.induct)
  case (record_acceptance p w c)
  then show ?case
    by (auto simp: wf_workflow_def evidence_defs acceptance_of_def split: CandidateAcceptanceOutcomeV1.split)
next
  case (record_review p w c a)
  then show ?case
    by (auto simp: wf_workflow_def evidence_defs split: ReviewDecisionV1.split)
next
  case (decide p digest w c)
  then have "wi_terminal w = None"
    using open_phase_no_terminal by (auto simp: wf_workflow_def)
  with decide show ?case
    by (auto simp: evidence_defs decision_of_def split: PromotionDecisionKindV1.split)
next
  case (record_result p digest w pr)
  then have "workflow_reconciliation w = None"
    using no_result_no_reconciliation by (auto simp: wf_workflow_def workflow_result_def)
  with record_result show ?case
    by (auto simp: evidence_defs result_of_def result_phase_def promotion_result_is_semantically_valid_def
        split: PromotionResultOutcomeV1.splits PromotionDecisionKindV1.splits)
next
  case (finish w t version digest)
  then show ?case
    using finish_phase_ok [of w E e t version digest] by simp
next
  case (cancel p digest w)
  then show ?case
    using control_allowed_open by (simp add: wf_workflow_def)
qed (auto simp: wf_workflow_def evidence_defs reconciliation_checks_def)

lemma early_phase_no_promotion:
  "wf_workflow w \<Longrightarrow> wi_phase w \<in> {Phase_Dispatched, Phase_CandidateCreated, Phase_AcceptancePassed,
     Phase_ReviewApproved} \<Longrightarrow> wi_promotion w = None"
  by (elim insertE; simp add: wf_workflow_def)

lemma step_promotion_ok: "protocol_step E e w w' \<Longrightarrow> wf_workflow w \<Longrightarrow> promotion_ok w'"
proof (induction rule: protocol_step.induct)
  case (create_candidate p w)
  then show ?case by (intro no_promotion_ok) (simp add: early_phase_no_promotion)
next
  case (record_acceptance p w c)
  then show ?case by (intro no_promotion_ok) (simp add: early_phase_no_promotion)
next
  case (record_review p w c a)
  then show ?case by (intro no_promotion_ok) (simp add: early_phase_no_promotion)
next
  case (request_approval p digest w c a)
  then show ?case by (intro no_promotion_ok) (simp add: early_phase_no_promotion)
next
  case (decide p digest w c)
  then have "decision_bound w (decision_of e digest p)"
    by (intro decide_bound)
  then show ?case
    by (intro fresh_promotion_ok [of w]) simp_all
next
  case (claim_execution p digest w c pr target_ref dispatch_expires_at lease_expires_at)
  then show ?case
    by - (rule promotion_ok_update [where w = w and pr = pr
          and pr' = "pr\<lparr>pr_execution_claim := Some (claim_of e digest p)\<rparr>"], simp_all add: wf_workflow_def)
next
  case (record_result p digest w pr)
  then show ?case
    by - (rule promotion_ok_update [where w = w and pr = pr and pr' = "pr\<lparr>pr_result := Some (result_of e digest p)\<rparr>"],
        simp_all add: wf_workflow_def, auto)
next
  case (reconcile p digest w pr r)
  then show ?case
    by - (rule promotion_ok_update [where w = w and pr = pr
          and pr' = "pr\<lparr>pr_reconciliation := Some (reconciliation_of e digest p)\<rparr>"], simp_all add: wf_workflow_def)
next
  case (schedule_timer p digest w due_at dispatch_issued_at dispatch_expires_at)
  then show ?case by - (rule promotion_ok_same [of w], simp_all add: wf_workflow_def)
next
  case (fire_timer p digest w t fired_at due_at)
  then show ?case by - (rule promotion_ok_same [of w], simp_all add: wf_workflow_def)
next
  case (cancel p digest w)
  then show ?case by - (rule promotion_ok_same [of w], simp_all add: wf_workflow_def)
next
  case (finish w t version digest)
  then show ?case by - (rule promotion_ok_same [of w], simp_all add: wf_workflow_def)
qed

lemma step_cancellation_ok: "protocol_step E e w w' \<Longrightarrow> wf_workflow w \<Longrightarrow> cancellation_ok w'"
proof (induction rule: protocol_step.induct)
  case (finish w t version digest)
  then show ?case
    by (auto simp: wf_workflow_def cancellation_ok_def terminal_phase_def
        workflow_terminal_is_semantically_valid_def split: if_splits)
next
  case (cancel p digest w)
  then show ?case
    using control_allowed_open by (simp add: wf_workflow_def cancellation_ok_def)
qed (auto simp: wf_workflow_def cancellation_ok_def workflow_lifecycle_control_is_allowed_def)

theorem step_wf_workflow: "protocol_step E e w w' \<Longrightarrow> wf_workflow w \<Longrightarrow> wf_workflow w'"
  by (simp add: wf_workflow_def [of w'] step_phase_ok step_candidate_ok step_acceptance_ok
      step_reviews_ok step_promotion_ok step_cancellation_ok)

subsection \<open>The phase only moves forward\<close>

fun phase_rank :: "WorkflowPhaseV1 \<Rightarrow> nat" where
  "phase_rank Phase_Dispatched = 0"
| "phase_rank Phase_CandidateCreated = 1"
| "phase_rank Phase_AcceptancePassed = 2"
| "phase_rank Phase_ReviewApproved = 3"
| "phase_rank Phase_PromotionApprovalPending = 4"
| "phase_rank Phase_PromotionPending = 5"
| "phase_rank Phase_PromotionReconciliationRequired = 6"
| "phase_rank Phase_Promoted = 6"
| "phase_rank Phase_PromotionReconciliationResolved = 7"
| "phase_rank Phase_CancellationRequested = 8"
| "phase_rank Phase_Rejected = 9"
| "phase_rank Phase_Completed = 9"
| "phase_rank Phase_Failed = 9"
| "phase_rank Phase_Cancelled = 9"

definition phase_advances :: "WorkflowPhaseV1 \<Rightarrow> WorkflowPhaseV1 \<Rightarrow> bool" where
  "phase_advances a b \<longleftrightarrow> a = b \<or> phase_rank a < phase_rank b"

lemma phase_advances_refl [simp]: "phase_advances a a"
  by (simp add: phase_advances_def)

lemma phase_advances_trans: "phase_advances a b \<Longrightarrow> phase_advances b c \<Longrightarrow> phase_advances a c"
  by (auto simp: phase_advances_def)

lemma terminal_phase_final: "is_terminal a \<Longrightarrow> phase_advances a b \<Longrightarrow> b = a"
  by (cases a; cases b) (simp_all add: phase_advances_def)

lemma open_phase_rank: "\<not> is_terminal a \<Longrightarrow> phase_rank a < 9"
  by (cases a) simp_all

lemma undecided_phase_rank:
  "phase_ok ph w \<Longrightarrow> wi_promotion w = None \<Longrightarrow> \<not> is_terminal ph \<Longrightarrow> ph \<noteq> Phase_CancellationRequested \<Longrightarrow>
     phase_rank ph < 5"
  by (cases ph) (auto simp: evidence_defs)

lemma pending_result_phase:
  assumes "phase_ok ph w" "wi_promotion w = Some pr" "pr_result pr = None"
  shows "ph = Phase_PromotionPending \<and> pd_decision (pr_decision pr) = Decision_Promote
    \<or> ph = Phase_Rejected \<and> pd_decision (pr_decision pr) = Decision_Reject"
  using assms by (cases ph; cases "pd_decision (pr_decision pr)")
    (auto simp: evidence_defs promotion_settled_def)

lemma control_phase_rank:
  "workflow_lifecycle_control_is_allowed w \<Longrightarrow> phase_ok (wi_phase w) w \<Longrightarrow> phase_rank (wi_phase w) < 8"
  by (cases "wi_phase w") (auto simp: workflow_lifecycle_control_is_allowed_def)

lemma step_phase_advances:
  "protocol_step E e w w' \<Longrightarrow> wf_workflow w \<Longrightarrow> phase_advances (wi_phase w) (wi_phase w')"
proof (induction rule: protocol_step.induct)
  case (record_acceptance p w c)
  then show ?case by (simp add: phase_advances_def split: CandidateAcceptanceOutcomeV1.split)
next
  case (record_review p w c a)
  then show ?case by (auto simp: phase_advances_def split: ReviewDecisionV1.split)
next
  case (decide p digest w c)
  then show ?case
    using undecided_phase_rank [of "wi_phase w" w] open_phase_rank [of "wi_phase w"]
    by (auto simp: wf_workflow_def phase_advances_def split: PromotionDecisionKindV1.split)
next
  case (record_result p digest w pr)
  then show ?case
    using pending_result_phase [of "wi_phase w" w pr]
    by (auto simp: wf_workflow_def phase_advances_def result_phase_def
        promotion_result_is_semantically_valid_def split: PromotionResultOutcomeV1.splits)
next
  case (finish w t version digest)
  then have "\<not> is_terminal (wi_phase w)" by (simp add: terminal_identity_checks_def)
  then show ?case
    using open_phase_rank by (simp add: phase_advances_def terminal_phase_def split: WorkflowTerminalOutcomeV1.split)
next
  case (cancel p digest w)
  then show ?case using control_phase_rank by (simp add: wf_workflow_def phase_advances_def)
qed (simp_all add: phase_advances_def reconciliation_checks_def)

end
