(* ===== verification/Reducer_Refinement.thy ===== *)
theory Reducer_Refinement
  imports Workflow_Invariant
begin

text \<open>
  The reducer refines the protocol. Applying any event to a well-formed replay state leaves the
  workflow map alone, adds one fresh workflow under its own key, or replaces one workflow by the
  result of a protocol step; the compatibility view always names a stored workflow.
\<close>

subsection \<open>Steps of the replay state\<close>

abbreviation stored :: "ReplayState \<Rightarrow> string \<Rightarrow> WorkflowInstanceV1 option" where
  "stored st k \<equiv> bt_get (st_workflow_instances st) k"

definition candidate_fresh :: "ReplayState \<Rightarrow> string \<Rightarrow> CandidateArtifactReplayState \<Rightarrow> bool" where
  "candidate_fresh st k c \<longleftrightarrow>
     (\<forall>k' w c'. k' \<noteq> k \<longrightarrow> stored st k' = Some w \<longrightarrow> wi_candidate w = Some c' \<longrightarrow>
        cand_candidate_digest c' \<noteq> cand_candidate_digest c
        \<and> cand_candidate_id c' \<noteq> cand_candidate_id c
        \<and> cand_candidate_ref c' \<noteq> cand_candidate_ref c)"

definition advances :: "env \<Rightarrow> ReplayState \<Rightarrow> Event \<Rightarrow> string \<Rightarrow> WorkflowInstanceV1 \<Rightarrow> bool" where
  "advances E st e k w' \<longleftrightarrow>
     (\<exists>w. stored st k = Some w \<and> event_matches_workflow_run E w e \<and> protocol_step E e w w'
        \<and> (\<forall>c. wi_candidate w' = Some c \<longrightarrow> wi_candidate w = Some c \<or> candidate_fresh st k c))"

definition is_fresh :: "string \<Rightarrow> WorkflowInstanceV1 \<Rightarrow> bool" where
  "is_fresh run_id w \<longleftrightarrow> (\<exists>i v u n d ev retry. w = fresh_workflow run_id i v u n d ev retry)"

lemma is_fresh_workflow [simp]: "is_fresh r (fresh_workflow r i v u n d ev retry)"
  unfolding is_fresh_def by blast

definition dispatch_payload :: "Payload \<Rightarrow> bool" where
  "dispatch_payload payload =
     (case payload of
        Payload_DispatchEnvelopeV1 _ \<Rightarrow> True
      | Payload_DispatchEnvelopeV2 _ \<Rightarrow> True
      | Payload_DispatchEnvelopeV3 _ \<Rightarrow> True
      | _ \<Rightarrow> False)"

definition creates :: "env \<Rightarrow> ReplayState \<Rightarrow> Event \<Rightarrow> string \<Rightarrow> WorkflowInstanceV1 \<Rightarrow> bool" where
  "creates E st e k w \<longleftrightarrow>
     stored st k = None \<and> k = instance_key w
     \<and> is_fresh (uuid_to_string E (ev_run_id e)) w
     \<and> dispatch_payload (ev_payload e) \<and> wd_event_id (wi_dispatch w) = ev_id e
     \<and> validate_dispatch_run_scope E st e (wd_trust_tier (wi_dispatch w)) = Inr ()"

text \<open>The part of the replay state a workflow transition may touch.\<close>

inductive state_step :: "env \<Rightarrow> Event \<Rightarrow> ReplayState \<Rightarrow> ReplayState \<Rightarrow> bool" for E e where
  quiet:
    "\<lbrakk>st_workflow_instances st' = st_workflow_instances st;
      st_workflow_instance st' = st_workflow_instance st
        \<or> (\<exists>k w. stored st k = Some w \<and> st_workflow_instance st' = Some w)\<rbrakk>
     \<Longrightarrow> state_step E e st st'"
| create:
    "\<lbrakk>creates E st e k w;
      st_workflow_instances st' = bt_insert k w (st_workflow_instances st);
      st_workflow_instance st' = Some w\<rbrakk> \<Longrightarrow> state_step E e st st'"
| advance:
    "\<lbrakk>advances E st e k w';
      st_workflow_instances st' = bt_insert k w' (st_workflow_instances st);
      st_workflow_instance st' = Some w'\<rbrakk> \<Longrightarrow> state_step E e st st'"

text \<open>A transition whose committed workflows advance or are fresh is a step.\<close>

lemma reject_quiet [simp]: "state_step E e st (reject_workflow_transition st e reason)"
  by (rule quiet) (simp_all add: reject_workflow_transition_def)

lemma settle_step:
  assumes "\<And>k w. v = Commit k w \<Longrightarrow> advances E st e k w \<or> creates E st e k w"
    and "\<And>k. v = Resync k \<Longrightarrow> stored st k \<noteq> None"
  shows "state_step E e st (settle st e v)"
proof (cases v)
  case (Refuse reason)
  then show ?thesis by simp
next
  case Unchanged
  then show ?thesis by (auto intro: quiet)
next
  case (Resync k)
  with assms(2) show ?thesis by (auto intro!: quiet simp: sync_workflow_compatibility_view_def)
next
  case (Commit k w)
  with assms(1) consider "advances E st e k w" | "creates E st e k w" by blast
  then show ?thesis
    by cases (auto intro: advance create simp: Commit sync_workflow_compatibility_view_def)
qed

subsection \<open>Reading a committing guard chain\<close>

text \<open>A chain of guards commits only along its success branches.\<close>

lemma commits_iff:
  "(if b then Refuse reason else v) = Commit k w \<longleftrightarrow> \<not> b \<and> v = Commit k w"
  "(if b then Unchanged else Refuse reason) = Commit k w \<longleftrightarrow> False"
  "(case x of None \<Rightarrow> Refuse reason | Some a \<Rightarrow> f a) = Commit k w \<longleftrightarrow> (\<exists>a. x = Some a \<and> f a = Commit k w)"
  "(case x of None \<Rightarrow> v | Some a \<Rightarrow> if g a then Unchanged else Refuse (h a)) = Commit k w
     \<longleftrightarrow> x = None \<and> v = Commit k w"
  "(case r of Inl err \<Rightarrow> Refuse (why err) | Inr d \<Rightarrow> u d) = Commit k w \<longleftrightarrow> (\<exists>d. r = Inr d \<and> u d = Commit k w)"
  by (auto split: option.splits sum.splits)

subsection \<open>Lookups\<close>

lemma find_lifecycle_ok:
  assumes "find_workflow_key_for_lifecycle E st e r i v u n d g = Inr k"
    and "stored st k = Some w"
  shows "event_matches_workflow_run E w e" "workflow_is_governed_atomic_sealed_v3 w"
  using assms by (auto simp: find_workflow_key_for_lifecycle_def Let_def split: if_splits option.splits)

lemma lifecycle_commits:
  assumes "or_refuse checked (\<lambda>_. or_refuse (find_workflow_key_for_lifecycle E st e r i v u n d g) (\<lambda>key.
      case stored st key of None \<Rightarrow> Refuse reason | Some w \<Rightarrow> on_workflow key w)) = Commit k w'"
  shows "\<exists>key w. stored st key = Some w \<and> event_matches_workflow_run E w e
    \<and> workflow_is_governed_atomic_sealed_v3 w \<and> on_workflow key w = Commit k w'"
proof -
  obtain key w where "find_workflow_key_for_lifecycle E st e r i v u n d g = Inr key"
    "stored st key = Some w" "on_workflow key w = Commit k w'"
    using assms by (auto simp: commits_iff)
  then show ?thesis using find_lifecycle_ok [of E st e r i v u n d g key w] by auto
qed

lemma identity_free_fresh:
  assumes "\<not> candidate_identity_taken st k p"
  shows "candidate_fresh st k (candidate_of e p)"
proof -
  have "(k', w) \<in> set (bt_entries (st_workflow_instances st))" if "stored st k' = Some w" for k' w
    using that by (simp add: bt_get_def bt_entries_def map_of_SomeD)
  then show ?thesis
    using assms by (fastforce simp: candidate_identity_taken_def candidate_fresh_def candidate_of_def
        list_ex_iff)
qed

lemma advancesI:
  assumes "stored st k = Some w" "event_matches_workflow_run E w e" "protocol_step E e w w'"
    and "wi_candidate w' = wi_candidate w"
  shows "advances E st e k w'"
  using assms by (auto simp: advances_def)

subsection \<open>Each transition advances\<close>

lemma candidate_created_advances:
  assumes p: "ev_payload e = Payload_CandidateCreatedV1 p"
    and canonical: "is_canonical_buildplane_candidate_ref (cc1_candidate_ref p)"
    and "candidate_created_verdict E st e p = Commit k w'"
  shows "advances E st e k w'"
proof -
  obtain w where w: "stored st k = Some w" "event_matches_workflow_run E w e"
    "wi_phase w = Phase_Dispatched" "wi_candidate w = None"
    "wd_trust_tier (wi_dispatch w) = Tier_Governed" "wd_commit_mode (wi_dispatch w) = Commit_Atomic"
    "wd_dispatch_version (wi_dispatch w) < 3"
    "wd_execution_role (wi_dispatch w) \<in> {Role_Implementer, Role_Candidate}"
    "candidate_matches_dispatch w p" "\<not> candidate_identity_taken st k p"
    "w' = w\<lparr>wi_candidate := Some (candidate_of e p), wi_phase := Phase_CandidateCreated\<rparr>"
    using assms(3) by (auto simp: candidate_created_verdict_def Let_def commits_iff not_le)
  then show ?thesis
    using create_candidate [OF p w(3-9) canonical] identity_free_fresh [OF w(10)]
    by (auto simp: advances_def)
qed

lemma candidate_acceptance_advances:
  assumes p: "ev_payload e = Payload_CandidateAcceptanceRecordedV1 p"
    and "candidate_acceptance_verdict E st e p = Commit k w'"
  shows "advances E st e k w'"
proof -
  obtain w c where w: "stored st k = Some w" "event_matches_workflow_run E w e"
    "wi_phase w = Phase_CandidateCreated" "wi_acceptance w = None" "wi_candidate w = Some c"
    "car_candidate_digest p = cand_candidate_digest c"
    "car_candidate_commit_sha p = cand_candidate_commit_sha c"
    "car_acceptance_contract_digest p = wd_acceptance_contract_digest (wi_dispatch w)"
    "w' = w\<lparr>wi_acceptance := Some (acceptance_of e p),
       wi_phase := (case car_outcome p of Acceptance_Passed \<Rightarrow> Phase_AcceptancePassed
                                        | Acceptance_Rejected \<Rightarrow> Phase_Rejected)\<rparr>"
    using assms(2) by (auto simp: candidate_acceptance_verdict_def commits_iff)
  then show ?thesis
    using record_acceptance [OF p w(3-8)] by (auto intro: advancesI)
qed

lemma review_verdict_advances:
  assumes p: "ev_payload e = Payload_ReviewVerdictRecordedV1 p"
    and "review_verdict_verdict E st e p = Commit k w'"
  shows "advances E st e k w'"
proof -
  obtain w c a where w: "stored st k = Some w" "event_matches_workflow_run E w e"
    "wi_phase w \<in> {Phase_AcceptancePassed, Phase_ReviewApproved}" "wi_candidate w = Some c"
    "rv1_candidate_digest p = cand_candidate_digest c"
    "rv1_candidate_commit_sha p = cand_candidate_commit_sha c"
    "wd_dispatch_version (wi_dispatch w) < 3" "wi_acceptance w = Some a"
    "ca_outcome a = Acceptance_Passed" "bt_get (wi_reviews w) (rv1_review_ref p) = None"
    "w' = w\<lparr>wi_reviews := bt_insert (rv1_review_ref p) (review_of e p) (wi_reviews w),
       wi_phase := (case rv1_decision p of Review_Approve \<Rightarrow> Phase_ReviewApproved | _ \<Rightarrow> Phase_Rejected)\<rparr>"
    using assms(2) by (auto simp: review_verdict_verdict_def commits_iff not_le)
  then show ?thesis
    using record_review [OF p w(3-10)] by (auto intro: advancesI)
qed

lemma promotion_approval_advances:
  assumes p: "ev_payload e = Payload_PromotionApprovalRequestedV1 p"
    and "promotion_approval_verdict E st e p = Commit k w'"
  shows "advances E st e k w'"
proof -
  obtain w c a digest where w: "canonical_event_hash E e = Inr digest"
    "wi_phase w = Phase_ReviewApproved" "wi_promotion_approval w = None" "wi_candidate w = Some c"
    "binds_candidate_lineage c (par_candidate_digest p) (par_base_commit_sha p) (par_envelope_digest p)"
    "is_canonical_target_ref (par_target_ref p)"
    "wi_acceptance w = Some a" "ca_outcome a = Acceptance_Passed"
    "par_acceptance_ref p = ca_acceptance_ref a"
    "par_review_refs p \<noteq> []" "review_refs_are_approved w (par_review_refs p)"
    "stored st k = Some w" "event_matches_workflow_run E w e"
    "w' = w\<lparr>wi_promotion_approval := Some (approval_of e digest p),
            wi_phase := Phase_PromotionApprovalPending\<rparr>"
    using assms(2) by (auto simp: promotion_approval_verdict_def commits_iff)
  then show ?thesis
    using request_approval [OF p w(1-11)] by (auto intro: advancesI)
qed

lemma promotion_decision_advances:
  assumes p: "ev_payload e = Payload_PromotionDecisionRecordedV1 p"
    and "promotion_decision_verdict E st e p = Commit k w'"
  shows "advances E st e k w'"
proof -
  obtain w c digest where w: "canonical_event_hash E e = Inr digest"
    "\<not> is_terminal (wi_phase w)" "wi_cancellation w = None" "wi_phase w \<noteq> Phase_CancellationRequested"
    "wi_candidate w = Some c" "wi_promotion w = None"
    "binds_candidate_lineage c (pdr_candidate_digest p) (pdr_base_commit_sha p) (pdr_envelope_digest p)"
    "decision_request_check E w p = Inr ()" "decision_evidence w p = Inr ()"
    "stored st k = Some w" "event_matches_workflow_run E w e"
    "w' = w\<lparr>wi_promotion := Some \<lparr>pr_decision = decision_of e digest p, pr_execution_claim = None,
              pr_result = None, pr_reconciliation = None\<rparr>,
            wi_phase := (case pdr_decision p of Decision_Promote \<Rightarrow> Phase_PromotionPending
                                              | Decision_Reject \<Rightarrow> Phase_Rejected)\<rparr>"
    using assms(2) by (auto simp: promotion_decision_verdict_def commits_iff)
  then show ?thesis
    using decide [OF p w(1-9)] by (auto intro: advancesI)
qed

lemma execution_claim_advances:
  assumes p: "ev_payload e = Payload_PromotionExecutionClaimedV1 p"
    and "execution_claimed_verdict E st e p signer = Commit k w'"
  shows "advances E st e k w'"
proof -
  obtain k' w digest lease_expires_at where w: "canonical_event_hash E e = Inr digest"
    "stored st k' = Some w" "parse_rfc3339_utc E (pec_lease_expires_at p) = Some lease_expires_at"
    "ev_occurred_at e < lease_expires_at"
    "execution_claim_on_workflow E e p signer digest (ev_occurred_at e) lease_expires_at k' w = Commit k w'"
    using assms(2) by (auto simp: execution_claimed_verdict_def commits_iff not_le)
  from w(5) obtain c pr target_ref dispatch_expires_at where v: "event_matches_workflow_run E w e"
    "wi_phase w = Phase_PromotionPending" "wi_cancellation w = None" "wi_terminal w = None"
    "workflow_is_governed_atomic_sealed_v3 w" "wi_candidate w = Some c" "wi_promotion w = Some pr"
    "pd_target_ref (pr_decision pr) = Some target_ref"
    "claim_binds_promotion w c (pr_decision pr) target_ref p" "pr_execution_claim pr = None"
    "parse_rfc3339_utc E (wd_expires_at (wi_dispatch w)) = Some dispatch_expires_at"
    "ev_occurred_at e < dispatch_expires_at" "lease_expires_at \<le> dispatch_expires_at" "k' = k"
    "w' = w\<lparr>wi_promotion := Some (pr\<lparr>pr_execution_claim := Some (claim_of e digest p)\<rparr>)\<rparr>"
    by (simp add: execution_claim_on_workflow_def commits_iff not_le not_less) blast
  then show ?thesis
    using claim_execution [OF p w(1) v(2-11) w(3,4) v(12,13)] w by (auto intro: advancesI)
qed

lemma promotion_result_advances:
  assumes p: "ev_payload e = Payload_PromotionResultRecordedV1 p"
    and "promotion_result_verdict E st e p = Commit k w'"
  shows "advances E st e k w'"
proof -
  obtain w digest pr where w: "canonical_event_hash E e = Inr digest"
    "wi_promotion w = Some pr" "pr_result pr = None" "wi_terminal w = None"
    "prr_candidate_digest p = pd_candidate_digest (pr_decision pr)"
    "prr_idempotency_key p = pd_idempotency_key (pr_decision pr)"
    "result_lease_check (pr_execution_claim pr) (prr_promotion_execution_lease_binding p) = Inr ()"
    "promotion_result_is_semantically_valid w pr p"
    "stored st k = Some w" "event_matches_workflow_run E w e"
    "w' = w\<lparr>wi_promotion := Some (pr\<lparr>pr_result := Some (result_of e digest p)\<rparr>),
            wi_phase := result_phase (prr_outcome p)\<rparr>"
    using assms(2) by (auto simp: promotion_result_verdict_def commits_iff)
  then show ?thesis
    using record_result [OF p w(1-8)] by (auto intro: advancesI)
qed

lemma reconciliation_advances:
  assumes p: "ev_payload e = Payload_PromotionReconciliationResolvedV1 p"
    and "reconciliation_verdict E st e p = Commit k w'"
  shows "advances E st e k w'"
proof -
  obtain w digest pr r where w: "canonical_event_hash E e = Inr digest"
    "wi_promotion w = Some pr" "pr_reconciliation pr = None" "wi_terminal w = None"
    "pr_result pr = Some r" "reconciliation_checks E w pr r p = Inr ()"
    "stored st k = Some w" "event_matches_workflow_run E w e"
    "w' = w\<lparr>wi_promotion := Some (pr\<lparr>pr_reconciliation := Some (reconciliation_of e digest p)\<rparr>),
            wi_phase := Phase_PromotionReconciliationResolved\<rparr>"
    using assms(2) by (auto simp: reconciliation_verdict_def commits_iff)
  then show ?thesis
    using reconcile [OF p w(1-6)] by (auto intro: advancesI)
qed

lemma timer_scheduled_advances:
  assumes p: "ev_payload e = Payload_WorkflowTimerScheduledV1 p"
    and "timer_scheduled_verdict E st e p = Commit k w'"
  shows "advances E st e k w'"
proof -
  obtain w where w: "stored st k = Some w" "event_matches_workflow_run E w e"
    "workflow_is_governed_atomic_sealed_v3 w" "timer_scheduled_on_workflow E e p k w = Commit k w'"
  proof -
    have "k' = k" if "timer_scheduled_on_workflow E e p k' w = Commit k w'" for k' w
      using that by (auto simp: timer_scheduled_on_workflow_def commits_iff)
    with lifecycle_commits [OF assms(2) [unfolded timer_scheduled_verdict_def]] that show thesis by auto
  qed
  from w(4) obtain digest due_at issued_at expires_at where v: "canonical_event_hash E e = Inr digest"
    "workflow_lifecycle_control_is_allowed w"
    "parse_rfc3339_utc E (wts_scheduled_at p) = Some (ev_occurred_at e)"
    "parse_rfc3339_utc E (wts_due_at p) = Some due_at"
    "parse_rfc3339_utc E (wd_issued_at (wi_dispatch w)) = Some issued_at"
    "parse_rfc3339_utc E (wd_expires_at (wi_dispatch w)) = Some expires_at"
    "timer_window_ok e w (ev_occurred_at e) due_at issued_at expires_at"
    "bt_get (wi_timers w) (wts_timer_id p) = None"
    "w' = w\<lparr>wi_timers := bt_insert (wts_timer_id p) (timer_of e digest p) (wi_timers w)\<rparr>"
    by (auto simp: timer_scheduled_on_workflow_def timer_window_ok_def commits_iff)
  then show ?thesis
    using schedule_timer [OF p v(1,2) w(3) v(3-8)] w(1,2) by (auto intro: advancesI)
qed

lemma timer_fired_advances:
  assumes p: "ev_payload e = Payload_WorkflowTimerFiredV1 p"
    and "timer_fired_verdict E st e p = Commit k w'"
  shows "advances E st e k w'"
proof -
  obtain w where w: "stored st k = Some w" "event_matches_workflow_run E w e"
    "workflow_is_governed_atomic_sealed_v3 w" "timer_fired_on_workflow E e p k w = Commit k w'"
  proof -
    have "k' = k" if "timer_fired_on_workflow E e p k' w = Commit k w'" for k' w
      using that by (auto simp: timer_fired_on_workflow_def commits_iff)
    with lifecycle_commits [OF assms(2) [unfolded timer_fired_verdict_def]] that show thesis by auto
  qed
  from w(4) obtain digest t fired_at due_at where v: "canonical_event_hash E e = Inr digest"
    "workflow_lifecycle_control_is_allowed w"
    "bt_get (wi_timers w) (wtf_timer_id p) = Some t" "tm_fired t = None"
    "parse_rfc3339_utc E (wtf_fired_at p) = Some fired_at"
    "parse_rfc3339_utc E (tm_due_at t) = Some due_at"
    "firing_binds_schedule e t fired_at due_at p"
    "w' = w\<lparr>wi_timers := bt_insert (wtf_timer_id p) (t\<lparr>tm_fired := Some (fired_of e digest p)\<rparr>) (wi_timers w)\<rparr>"
    by (auto simp: timer_fired_on_workflow_def commits_iff)
  then show ?thesis
    using fire_timer [OF p v(1,2) w(3) v(3-7)] w(1,2) by (auto intro: advancesI)
qed

lemma cancellation_advances:
  assumes p: "ev_payload e = Payload_WorkflowCancellationRequestedV1 p"
    and "cancellation_verdict E st e p = Commit k w'"
  shows "advances E st e k w'"
proof -
  obtain w where w: "stored st k = Some w" "event_matches_workflow_run E w e"
    "workflow_is_governed_atomic_sealed_v3 w" "cancellation_on_workflow E e p k w = Commit k w'"
  proof -
    have "k' = k" if "cancellation_on_workflow E e p k' w = Commit k w'" for k' w
      using that by (auto simp: cancellation_on_workflow_def commits_iff)
    with lifecycle_commits [OF assms(2) [unfolded cancellation_verdict_def]] that show thesis by auto
  qed
  from w(4) obtain digest where v: "canonical_event_hash E e = Inr digest"
    "workflow_lifecycle_control_is_allowed w" "timer_evidence_is_valid E e w (ev_occurred_at e) p"
    "w' = w\<lparr>wi_cancellation := Some (cancellation_of e digest p), wi_phase := Phase_CancellationRequested\<rparr>"
    by (auto simp: cancellation_on_workflow_def commits_iff)
  then show ?thesis
    using cancel [OF p v(1,2) w(3) v(3)] w(1,2) by (auto intro: advancesI)
qed

lemma terminal_advances:
  assumes p: "\<And>w. version = 2 \<longrightarrow> workflow_is_governed_atomic_sealed_v3 w \<Longrightarrow> terminal_payload e w t version"
    and "terminal_verdict E st e t version = Commit k w'"
  shows "advances E st e k w'"
proof -
  obtain w digest where w: "canonical_event_hash E e = Inr digest" "wi_terminal w = None"
    "terminal_identity_checks E e t version w = Inr ()" "terminal_reference_checks E t w = Inr ()"
    "workflow_terminal_is_semantically_valid E w t version e"
    "version = 2 \<longrightarrow> workflow_is_governed_atomic_sealed_v3 w"
    "stored st k = Some w" "event_matches_workflow_run E w e"
    "w' = w\<lparr>wi_terminal := Some (terminal_of e digest version t), wi_phase := terminal_phase (wtr_outcome t)\<rparr>"
    using assms(2) by (auto simp: terminal_verdict_def commits_iff)
  then show ?thesis
    using finish [OF p [OF w(6)] w(1-5)] by (auto intro: advancesI)
qed

subsection \<open>Dispatches create fresh workflows\<close>

lemma dispatch_creates:
  assumes "dispatch_verdict E st e label key same tier fresh = Commit k w"
    and "\<And>w. fresh = Inr w \<Longrightarrow> key = instance_key w \<and> wd_trust_tier (wi_dispatch w) = tier
      \<and> is_fresh (uuid_to_string E (ev_run_id e)) w \<and> wd_event_id (wi_dispatch w) = ev_id e"
    and "dispatch_payload (ev_payload e)"
  shows "creates E st e k w"
  using assms(1,3) assms(2) [of w]
  by (auto simp: dispatch_verdict_def creates_def split: option.splits if_splits)

lemma dispatch_resyncs:
  "dispatch_verdict E st e label key same tier fresh = Resync k \<Longrightarrow> stored st k \<noteq> None"
  by (auto simp: dispatch_verdict_def or_refuse_def split: option.splits if_splits sum.splits)

lemma instance_key_fresh [simp]:
  "instance_key (fresh_workflow r i v u n d ev retry) = workflow_instance_key i u n"
  by (simp add: instance_key_def fresh_workflow_def)

lemma dispatch_fresh [simp]: "wi_dispatch (fresh_workflow r i v u n d ev retry) = d"
  by (simp add: fresh_workflow_def)

lemma dispatch_state_tier [simp]:
  "wd_trust_tier (dispatch_state_v1 e p) = de1_trust_tier p"
  "wd_trust_tier (dispatch_state_body n e g b r m q v) = deb_trust_tier b"
  "wd_event_id (dispatch_state_v1 e p) = ev_id e" "wd_event_id (dispatch_state_body n e g b r m q v) = ev_id e"
  by (simp_all add: dispatch_state_v1_def dispatch_state_body_def)

lemma dispatch_step:
  assumes "\<And>w. fresh = Inr w \<Longrightarrow> key = instance_key w \<and> wd_trust_tier (wi_dispatch w) = tier
      \<and> is_fresh (uuid_to_string E (ev_run_id e)) w \<and> wd_event_id (wi_dispatch w) = ev_id e"
    and "dispatch_payload (ev_payload e)"
  shows "state_step E e st (settle st e (dispatch_verdict E st e label key same tier fresh))"
  using dispatch_creates [OF _ assms(1,2)] dispatch_resyncs by (intro settle_step) blast+

subsection \<open>The refinement\<close>

definition view_ok :: "ReplayState \<Rightarrow> bool" where
  "view_ok st \<longleftrightarrow> (st_workflow_instance st = None \<longleftrightarrow> st_workflow_instances st = [])
     \<and> (\<forall>w. st_workflow_instance st = Some w \<longrightarrow> (\<exists>k. stored st k = Some w))"

lemma ensure_id [simp]: "view_ok st \<Longrightarrow> ensure_workflow_instances st = st"
  by (auto simp: ensure_workflow_instances_def view_ok_def split: option.split)

text \<open>The verdicts that can only refuse, keep or advance.\<close>

lemma settle_advances:
  assumes "\<And>k w. v = Commit k w \<Longrightarrow> advances E st e k w" and "\<And>k. v \<noteq> Resync k"
  shows "state_step E e st (settle st e v)"
  using assms by (intro settle_step) auto

lemma resyncs_iff:
  "(if b then Refuse reason else v) = Resync k \<longleftrightarrow> \<not> b \<and> v = Resync k"
  "(if b then Unchanged else Refuse reason) = Resync k \<longleftrightarrow> False"
  "(case x of None \<Rightarrow> Refuse reason | Some a \<Rightarrow> f a) = Resync k \<longleftrightarrow> (\<exists>a. x = Some a \<and> f a = Resync k)"
  "(case x of None \<Rightarrow> v | Some a \<Rightarrow> if g a then Unchanged else Refuse (h a)) = Resync k
     \<longleftrightarrow> x = None \<and> v = Resync k"
  "(case r of Inl err \<Rightarrow> Refuse (why err) | Inr d \<Rightarrow> u d) = Resync k \<longleftrightarrow> (\<exists>d. r = Inr d \<and> u d = Resync k)"
  by (auto split: option.splits sum.splits)

lemma no_resync [simp]:
  "candidate_created_verdict E st e p1 \<noteq> Resync k"
  "candidate_acceptance_verdict E st e p2 \<noteq> Resync k"
  "review_verdict_verdict E st e p3 \<noteq> Resync k"
  "promotion_approval_verdict E st e p4 \<noteq> Resync k"
  "promotion_decision_verdict E st e p5 \<noteq> Resync k"
  "execution_claimed_verdict E st e p6 signer \<noteq> Resync k"
  "promotion_result_verdict E st e p7 \<noteq> Resync k"
  "reconciliation_verdict E st e p8 \<noteq> Resync k"
  "timer_scheduled_verdict E st e p9 \<noteq> Resync k"
  "timer_fired_verdict E st e p10 \<noteq> Resync k"
  "cancellation_verdict E st e p11 \<noteq> Resync k"
  "terminal_verdict E st e t version \<noteq> Resync k"
  by (simp_all add: candidate_created_verdict_def candidate_acceptance_verdict_def
      review_verdict_verdict_def promotion_approval_verdict_def promotion_decision_verdict_def
      execution_claimed_verdict_def execution_claim_on_workflow_def promotion_result_verdict_def
      reconciliation_verdict_def timer_scheduled_verdict_def timer_scheduled_on_workflow_def
      timer_fired_verdict_def timer_fired_on_workflow_def cancellation_verdict_def
      cancellation_on_workflow_def terminal_verdict_def or_refuse_def with_event_hash_def
      hash_or_refuse_def some_or_refuse_def Let_def resyncs_iff)

lemma quiet_updates:
  "state_step E e st (clear_parent_chain st)" "state_step E e st (leave_unit st)"
  "state_step E e st (apply_run_started E st e p1)" "state_step E e st (apply_unit_started st e p2)"
  "state_step E e st (apply_git_checkpoint st e p3)" "state_step E e st (apply_plan_admitted st e p4)"
  "state_step E e st (apply_plan_receipt st e p5)" "state_step E e st (apply_tool_request st e)"
  "state_step E e st (apply_tool_result st)" "state_step E e st (apply_workspace_write st e p6)"
  "state_step E e st (apply_acceptance_recorded st e p7)" "state_step E e st st"
  by (rule quiet; simp add: clear_parent_chain_def leave_unit_def apply_run_started_def
      apply_unit_started_def apply_git_checkpoint_def apply_plan_admitted_def apply_plan_receipt_def
      apply_tool_request_def apply_tool_result_def apply_workspace_write_def
      apply_acceptance_recorded_def split: GitStatus.split PostWriteState.split)+

lemma quiet_activities:
  "state_step E e st (apply_activity_started E st e p1)"
  "state_step E e st (apply_activity_completed E st e p2)"
  by (rule quiet; simp add: apply_activity_started_def apply_activity_completed_def
      record_activity_started_def put_activity_def
      reject_activity_transition_def split: option.split)+

lemma quiet_graphs:
  "state_step E e st (apply_workflow_graph_declared_v1 E st e p1)"
  "state_step E e st (apply_workflow_graph_declared_v2 E st e p2)"
  by (rule quiet; simp add: apply_workflow_graph_declared_v1_def apply_workflow_graph_declared_v2_def
      reject_workflow_transition_def Let_def split: option.split sum.split)+


lemma dispatch_steps:
  assumes "view_ok st" "dispatch_payload (ev_payload e)"
  shows "state_step E e st (apply_dispatch_envelope E st e p1)"
    and "state_step E e st (apply_dispatch_envelope_v2 E st e p2)"
    and "state_step E e st (apply_dispatch_envelope_v3 E st e p3)"
  using assms
  by (auto simp: apply_dispatch_envelope_def apply_dispatch_envelope_v2_def apply_dispatch_envelope_v3_def
      Let_def simp del: first_refusal_ok split: sum.split intro!: dispatch_step)

lemma terminal_record_step:
  assumes "view_ok st"
    and "\<And>w. version = 2 \<longrightarrow> workflow_is_governed_atomic_sealed_v3 w \<Longrightarrow> terminal_payload e w t version"
  shows "state_step E e st (apply_workflow_terminal_record E st e t version)"
  using assms(1) terminal_advances [OF assms(2)]
  by (auto simp: apply_workflow_terminal_record_def intro!: settle_advances)

theorem apply_refines_protocol:
  assumes "view_ok st"
  shows "state_step E e st (apply_with_verified_signer E st e signer)"
proof -
  note advance_rules = candidate_acceptance_advances promotion_approval_advances
    promotion_decision_advances execution_claim_advances promotion_result_advances
    reconciliation_advances timer_scheduled_advances timer_fired_advances cancellation_advances
    review_verdict_advances candidate_created_advances
  show ?thesis
  proof (cases "ev_payload e")
    case (Payload_CandidateCreatedV1 p)
    with assms show ?thesis
      by (auto simp: apply_with_verified_signer_def apply_payload_def apply_candidate_created_def Let_def
          intro!: settle_advances elim!: candidate_created_advances)
  next
    case (Payload_ReviewVerdictRecordedV1 p)
    with assms show ?thesis
      by (auto simp: apply_with_verified_signer_def apply_payload_def apply_review_verdict_def Let_def
          intro!: settle_advances elim!: review_verdict_advances)
  next
    case (Payload_WorkflowTerminalV1 p)
    with assms show ?thesis
      by (auto simp: apply_with_verified_signer_def apply_payload_def apply_workflow_terminal_def
          terminal_payload_def intro!: terminal_record_step)
  next
    case (Payload_WorkflowTerminalV2 p)
    with assms show ?thesis
      by (auto simp: apply_with_verified_signer_def apply_payload_def apply_workflow_terminal_v2_def
          terminal_payload_def intro!: terminal_record_step split: sum.split)
  qed (use assms advance_rules dispatch_steps [OF assms, of e] in
      \<open>simp_all add: apply_with_verified_signer_def apply_payload_def dispatch_payload_def quiet_updates quiet_activities
         quiet_graphs settle_advances apply_candidate_acceptance_def
         apply_promotion_approval_requested_def apply_promotion_decision_def
         apply_promotion_execution_claimed_v1_def apply_promotion_result_def
         apply_promotion_reconciliation_resolved_def apply_workflow_timer_scheduled_v1_def
         apply_workflow_timer_fired_v1_def apply_workflow_cancellation_requested_v1_def\<close>)
qed

end
