(* ===== verification/Replay_Invariant.thy ===== *)
theory Replay_Invariant
  imports Reducer_Refinement
begin

text \<open>
  The invariant of the replay state and what replaying a tape preserves: every stored workflow is
  well formed and filed under its own key, candidate identities are never shared, a run never mixes
  trust tiers, recorded evidence only grows, and a refused event leaves nothing but an issue.
\<close>

subsection \<open>Tapes\<close>

text \<open>
  The contract of a machine that consumes a tape: a step keeps the invariant, and what it has
  recorded stays recorded. Runs over a tape inherit both.
\<close>

locale tape_machine =
  fixes start :: 's and step :: "'s \<Rightarrow> 'e \<Rightarrow> 's" and inv :: "'s \<Rightarrow> bool" and grows :: "'s \<Rightarrow> 's \<Rightarrow> bool"
  assumes start_inv: "inv start"
    and step_inv: "inv s \<Longrightarrow> inv (step s e)"
    and step_grows: "inv s \<Longrightarrow> grows s (step s e)"
    and grows_refl: "grows s s"
    and grows_trans: "grows s t \<Longrightarrow> grows t u \<Longrightarrow> grows s u"
begin

lemma run_inv: "inv s \<Longrightarrow> inv (foldl step s es)"
  by (induction es arbitrary: s) (simp_all add: step_inv)

lemma run_grows: "inv s \<Longrightarrow> grows s (foldl step s es)"
proof (induction es arbitrary: s)
  case Nil
  then show ?case by (simp add: grows_refl)
next
  case (Cons e es)
  then have "grows s (step s e)" and "grows (step s e) (foldl step (step s e) es)"
    by (simp_all add: step_grows step_inv)
  then show ?case by (simp add: grows_trans)
qed

lemma reached_inv: "inv (foldl step start es)"
  by (rule run_inv) (rule start_inv)

lemma prefix_grows: "grows (foldl step start xs) (foldl step start (xs @ ys))"
  using run_grows [OF reached_inv] by simp

end

subsection \<open>The invariant\<close>

definition keys_ok :: "ReplayState \<Rightarrow> bool" where
  "keys_ok st \<longleftrightarrow> (\<forall>k w. stored st k = Some w \<longrightarrow> k = instance_key w \<and> wf_workflow w)"

definition candidates_unique :: "ReplayState \<Rightarrow> bool" where
  "candidates_unique st \<longleftrightarrow>
     (\<forall>k w c. stored st k = Some w \<longrightarrow> wi_candidate w = Some c \<longrightarrow> candidate_fresh st k c)"

definition run_tiers_ok :: "ReplayState \<Rightarrow> bool" where
  "run_tiers_ok st \<longleftrightarrow>
     (\<forall>j k v w. stored st j = Some v \<longrightarrow> stored st k = Some w \<longrightarrow> wi_run_id v = wi_run_id w \<longrightarrow>
        wd_trust_tier (wi_dispatch v) = wd_trust_tier (wi_dispatch w))"

definition wf_state :: "ReplayState \<Rightarrow> bool" where
  "wf_state st \<longleftrightarrow> bt_invar (st_workflow_instances st) \<and> view_ok st \<and> keys_ok st
     \<and> candidates_unique st \<and> run_tiers_ok st"

lemma wf_default_state: "wf_state default_state"
  by (simp add: wf_state_def view_ok_def keys_ok_def candidates_unique_def run_tiers_ok_def
      default_state_def)

lemma extends_same:
  assumes "workflow_extends w w'"
  shows "instance_key w' = instance_key w" "wi_run_id w' = wi_run_id w" "wi_dispatch w' = wi_dispatch w"
  using assms by (simp_all add: workflow_extends_def instance_key_def)

lemma wf_is_fresh: "is_fresh r w \<Longrightarrow> wf_workflow w \<and> wi_candidate w = None \<and> wi_run_id w = r"
  by (auto simp: is_fresh_def wf_fresh_workflow) (simp_all add: fresh_workflow_def)

lemma bt_insert_not_Nil [simp]: "bt_insert k v m \<noteq> []"
  by (cases m) (auto split: if_splits)

lemma step_keys_ok: "state_step E e st st' \<Longrightarrow> keys_ok st \<Longrightarrow> keys_ok st'"
proof (induction rule: state_step.induct)
  case (advance st k w' st')
  then show ?case
    using extends_same(1) [OF protocol_step_extends] step_wf_workflow
    by (fastforce simp: keys_ok_def advances_def)
next
  case (create st k w st')
  then show ?case using wf_is_fresh by (auto simp: keys_ok_def creates_def)
qed (simp add: keys_ok_def)

lemma step_view_ok: "state_step E e st st' \<Longrightarrow> view_ok st \<Longrightarrow> view_ok st'"
proof (induction rule: state_step.induct)
  case (quiet st' st)
  then show ?case by (auto simp: view_ok_def)
qed (auto simp: view_ok_def)

lemma candidate_fresh_insert:
  assumes "candidate_fresh st k c" "\<And>c'. j \<noteq> k \<Longrightarrow> wi_candidate w = Some c' \<Longrightarrow> candidate_fresh st j c'"
    and "stored st k = Some u" "wi_candidate u = Some c"
    and "st_workflow_instances st' = bt_insert j w (st_workflow_instances st)"
  shows "candidate_fresh st' k c"
  using assms by (fastforce simp: candidate_fresh_def split: if_splits)

lemma step_candidates_unique: "state_step E e st st' \<Longrightarrow> candidates_unique st \<Longrightarrow> candidates_unique st'"
proof (induction rule: state_step.induct)
  case (quiet st' st)
  then show ?case by (simp add: candidates_unique_def candidate_fresh_def)
next
  case (create st j w st')
  then have none: "wi_candidate w = None" using wf_is_fresh by (auto simp: creates_def)
  show ?case
    unfolding candidates_unique_def
  proof (intro allI impI)
    fix k u c
    assume u: "stored st' k = Some u" and c: "wi_candidate u = Some c"
    with create none have "stored st k = Some u" "k \<noteq> j" by (auto split: if_splits)
    moreover from this create.prems c have "candidate_fresh st k c" by (simp add: candidates_unique_def)
    ultimately show "candidate_fresh st' k c"
      using c create.hyps none by - (rule candidate_fresh_insert [of st k c j w u], auto)
  qed
next
  case (advance st j w' st')
  then obtain w where w: "stored st j = Some w"
    "\<And>c. wi_candidate w' = Some c \<Longrightarrow> wi_candidate w = Some c \<or> candidate_fresh st j c"
    by (auto simp: advances_def)
  with advance.prems have new: "wi_candidate w' = Some c \<Longrightarrow> candidate_fresh st j c" for c
    by (auto simp: candidates_unique_def)
  show ?case
    unfolding candidates_unique_def
  proof (intro allI impI)
    fix k u c
    assume u: "stored st' k = Some u" and c: "wi_candidate u = Some c"
    show "candidate_fresh st' k c"
    proof (cases "k = j")
      case True
      with u c advance.hyps new have "candidate_fresh st j c" by auto
      with True advance.hyps show ?thesis by (auto simp: candidate_fresh_def split: if_splits)
    next
      case False
      with u c advance have "stored st k = Some u" "candidate_fresh st k c"
        by (auto simp: candidates_unique_def)
      with c advance.hyps new show ?thesis by - (rule candidate_fresh_insert [of st k c j w' u], auto)
    qed
  qed
qed

lemma run_tiers_okD:
  "run_tiers_ok st \<Longrightarrow> stored st i = Some u \<Longrightarrow> stored st j = Some v \<Longrightarrow> wi_run_id u = wi_run_id v \<Longrightarrow>
     wd_trust_tier (wi_dispatch u) = wd_trust_tier (wi_dispatch v)"
  unfolding run_tiers_ok_def by blast

lemma step_run_tiers_ok:
  "state_step E e st st' \<Longrightarrow> bt_invar (st_workflow_instances st) \<Longrightarrow> run_tiers_ok st \<Longrightarrow> run_tiers_ok st'"
proof (induction rule: state_step.induct)
  case (quiet st' st)
  then show ?case by (simp only: run_tiers_ok_def)
next
  case (advance st k w' st')
  then obtain w where "stored st k = Some w" "wi_run_id w' = wi_run_id w" "wi_dispatch w' = wi_dispatch w"
    using extends_same(2,3) [OF protocol_step_extends] by (auto simp: advances_def)
  then have "\<exists>u. stored st j = Some u \<and> wi_run_id v = wi_run_id u \<and> wi_dispatch v = wi_dispatch u"
    if "stored st' j = Some v" for j v
    using that advance.hyps by (cases "j = k") auto
  note old = this
  show ?case
    unfolding run_tiers_ok_def
  proof (intro allI impI)
    fix i j u v
    assume "stored st' i = Some u" "stored st' j = Some v" and run: "wi_run_id u = wi_run_id v"
    with old obtain u' v' where "stored st i = Some u'" "wi_run_id u = wi_run_id u'" "wi_dispatch u = wi_dispatch u'"
      "stored st j = Some v'" "wi_run_id v = wi_run_id v'" "wi_dispatch v = wi_dispatch v'"
      by meson
    with run run_tiers_okD [OF advance.prems(2), of i u' j v']
    show "wd_trust_tier (wi_dispatch u) = wd_trust_tier (wi_dispatch v)" by simp
  qed
next
  case (create st k w st')
  have "wd_trust_tier (wi_dispatch v) = wd_trust_tier (wi_dispatch w)"
    if "stored st j = Some v" "wi_run_id v = wi_run_id w" for j v
  proof -
    have "v \<in> set (bt_values (st_workflow_instances st))"
      using that create.prems by (auto simp: bt_value_iff)
    moreover have "wi_run_id w = uuid_to_string E (ev_run_id e)"
      using create.hyps wf_is_fresh by (auto simp: creates_def)
    ultimately show ?thesis
      using that create.hyps
      by (auto simp: creates_def validate_dispatch_run_scope_def Let_def list_ex_iff split: if_splits)
  qed
  note same = this
  show ?case
    unfolding run_tiers_ok_def
  proof (intro allI impI)
    fix i j u v
    assume uv: "stored st' i = Some u" "stored st' j = Some v" and run: "wi_run_id u = wi_run_id v"
    have at: "x = w \<or> stored st n = Some x" if "stored st' n = Some x" for n x
      using that create.hyps by (auto split: if_splits)
    from at [OF uv(1)] at [OF uv(2)]
    show "wd_trust_tier (wi_dispatch u) = wd_trust_tier (wi_dispatch v)"
    proof (elim disjE)
      assume "stored st i = Some u" "stored st j = Some v"
      then show ?thesis using run by (rule run_tiers_okD [OF create.prems(2)])
    next
      assume "stored st i = Some u" "v = w"
      with run same [of i u] show ?thesis by simp
    next
      assume "u = w" "stored st j = Some v"
      with run same [of j v] show ?thesis by simp
    qed simp
  qed
qed

lemma step_invar:
  "state_step E e st st' \<Longrightarrow> bt_invar (st_workflow_instances st) \<Longrightarrow> bt_invar (st_workflow_instances st')"
  by (erule state_step.cases) simp_all

theorem step_wf_state: "state_step E e st st' \<Longrightarrow> wf_state st \<Longrightarrow> wf_state st'"
  unfolding wf_state_def
  by (intro conjI; elim conjE;
      erule (1) step_invar step_view_ok step_keys_ok step_candidates_unique step_run_tiers_ok; assumption?)

lemma wf_apply: "wf_state st \<Longrightarrow> wf_state (apply_with_verified_signer E st e signer)"
  using step_wf_state [OF apply_refines_protocol] by (simp add: wf_state_def)

subsection \<open>Growth\<close>

definition state_extends :: "ReplayState \<Rightarrow> ReplayState \<Rightarrow> bool" where
  "state_extends st st' \<longleftrightarrow>
     (\<forall>k w. stored st k = Some w \<longrightarrow>
        (\<exists>w'. stored st' k = Some w' \<and> workflow_extends w w' \<and> phase_advances (wi_phase w) (wi_phase w')))"

lemma state_extends_refl [simp]: "state_extends st st"
  by (auto simp: state_extends_def)

lemma state_extends_trans: "state_extends st st' \<Longrightarrow> state_extends st' st'' \<Longrightarrow> state_extends st st''"
  unfolding state_extends_def by (meson workflow_extends_trans phase_advances_trans)

lemma step_extends: "state_step E e st st' \<Longrightarrow> keys_ok st \<Longrightarrow> state_extends st st'"
proof (induction rule: state_step.induct)
  case (advance st k w' st')
  then show ?case
    using protocol_step_extends step_phase_advances
    by (fastforce simp: state_extends_def advances_def keys_ok_def)
qed (auto simp: state_extends_def creates_def)

subsection \<open>Refusals\<close>

text \<open>An event is applied without an issue, or leaves exactly one issue and nothing else.\<close>

definition fails_closed :: "ReplayState \<Rightarrow> ReplayState \<Rightarrow> bool" where
  "fails_closed st st' \<longleftrightarrow>
     st_issues st' = st_issues st \<or> (\<exists>i. st' = st\<lparr>st_issues := st_issues st @ [i]\<rparr>)"

lemma reject_fails_closed [simp]:
  "fails_closed st (reject_workflow_transition st e reason)"
  "fails_closed st (reject_activity_transition st e i reason)"
  by (auto simp: fails_closed_def reject_workflow_transition_def reject_activity_transition_def)

lemma settle_fails_closed [simp]: "fails_closed st (settle st e v)"
  by (cases v) (simp_all, simp_all add: fails_closed_def sync_workflow_compatibility_view_def)

lemma same_issues_fails_closed: "st_issues st' = st_issues st \<Longrightarrow> fails_closed st st'"
  by (simp add: fails_closed_def)

lemma fails_closed_refl [simp]: "fails_closed st st"
  by (simp add: fails_closed_def)

lemma fails_closed_updates [simp]:
  "fails_closed st (clear_parent_chain st)" "fails_closed st (leave_unit st)"
  "fails_closed st (apply_run_started E st e p1)" "fails_closed st (apply_unit_started st e p2)"
  "fails_closed st (apply_plan_admitted st e p4)"
  "fails_closed st (apply_plan_receipt st e p5)" "fails_closed st (apply_tool_request st e)"
  "fails_closed st (apply_tool_result st)"
  "fails_closed st (apply_acceptance_recorded st e p7)" "fails_closed st (put_activity ph i a st)"
  by (rule same_issues_fails_closed; simp add: clear_parent_chain_def leave_unit_def
      apply_run_started_def apply_unit_started_def apply_plan_admitted_def apply_plan_receipt_def
      apply_tool_request_def apply_tool_result_def apply_acceptance_recorded_def put_activity_def)+

lemma fails_closed_observations [simp]:
  "fails_closed st (apply_git_checkpoint st e p1)" "fails_closed st (apply_workspace_write st e p2)"
  by (auto simp: fails_closed_def apply_git_checkpoint_def apply_workspace_write_def
      split: GitStatus.split PostWriteState.split)

lemma fails_closed_activities [simp]:
  "fails_closed st (apply_activity_started E st e p1)"
  "fails_closed st (apply_activity_completed E st e p2)"
  by (simp_all add: apply_activity_started_def apply_activity_completed_def record_activity_started_def
      split: option.split)

lemma fails_closed_graphs [simp]:
  "fails_closed st (apply_workflow_graph_declared_v1 E st e p1)"
  "fails_closed st (apply_workflow_graph_declared_v2 E st e p2)"
  by (auto simp: apply_workflow_graph_declared_v1_def apply_workflow_graph_declared_v2_def Let_def
      split: option.split sum.split intro: same_issues_fails_closed)

theorem apply_fails_closed:
  assumes "view_ok st"
  shows "fails_closed st (apply_with_verified_signer E st e signer)"
  using assms
  by (simp add: apply_with_verified_signer_def apply_payload_def apply_candidate_created_def
      apply_candidate_acceptance_def apply_review_verdict_def apply_promotion_approval_requested_def
      apply_promotion_decision_def apply_promotion_execution_claimed_v1_def apply_promotion_result_def
      apply_promotion_reconciliation_resolved_def apply_workflow_timer_scheduled_v1_def
      apply_workflow_timer_fired_v1_def apply_workflow_cancellation_requested_v1_def
      apply_workflow_terminal_def apply_workflow_terminal_v2_def apply_workflow_terminal_record_def
      apply_dispatch_envelope_def apply_dispatch_envelope_v2_def apply_dispatch_envelope_v3_def Let_def
      split: Payload.split sum.split)

subsection \<open>Replaying a tape with the reducer\<close>

definition reduce_event :: "env \<Rightarrow> ReplayState \<Rightarrow> Event \<times> ActorKeyRef option \<Rightarrow> ReplayState" where
  "reduce_event E st x = apply_with_verified_signer E st (fst x) (snd x)"

definition reduce_tape :: "env \<Rightarrow> (Event \<times> ActorKeyRef option) list \<Rightarrow> ReplayState" where
  "reduce_tape E tape = foldl (reduce_event E) default_state tape"

definition state_grows :: "ReplayState \<Rightarrow> ReplayState \<Rightarrow> bool" where
  "state_grows st st' \<longleftrightarrow> state_extends st st' \<and> (\<exists>xs. st_issues st' = st_issues st @ xs)"

lemma fails_closed_issues: "fails_closed st st' \<Longrightarrow> \<exists>xs. st_issues st' = st_issues st @ xs"
  by (auto simp: fails_closed_def)

lemma state_grows_refl: "state_grows st st"
  by (simp add: state_grows_def)

lemma state_grows_trans: "state_grows a b \<Longrightarrow> state_grows b c \<Longrightarrow> state_grows a c"
  unfolding state_grows_def using state_extends_trans by fastforce

lemma apply_grows: "wf_state st \<Longrightarrow> state_grows st (apply_with_verified_signer E st e signer)"
  using step_extends [OF apply_refines_protocol, of st] fails_closed_issues [OF apply_fails_closed]
  by (simp add: wf_state_def state_grows_def)

interpretation reducer: tape_machine default_state "reduce_event E" wf_state state_grows for E
  by unfold_locales (simp_all add: wf_default_state reduce_event_def wf_apply apply_grows
      state_grows_refl, blast intro: state_grows_trans)

end
