(* ===== verification/Lifecycle_Invariant.thy ===== *)
theory Lifecycle_Invariant
  imports Replay_Invariant
begin

text \<open>
  Durable deadlines: a stored timer was scheduled inside the authority of its dispatch and fired, if
  it fired, no earlier than it was due. The invariant reads the recorded timestamps with the
  environment's RFC 3339 parser, so it is kept apart from \<open>wf_workflow\<close>.
\<close>

definition timer_ok :: "env \<Rightarrow> WorkflowInstanceV1 \<Rightarrow> WorkflowTimerReplayState \<Rightarrow> bool" where
  "timer_ok E w t \<longleftrightarrow>
     (\<exists>issued scheduled due expires.
        parse_rfc3339_utc E (wd_issued_at (wi_dispatch w)) = Some issued
        \<and> parse_rfc3339_utc E (tm_scheduled_at t) = Some scheduled
        \<and> parse_rfc3339_utc E (tm_due_at t) = Some due
        \<and> parse_rfc3339_utc E (wd_expires_at (wi_dispatch w)) = Some expires
        \<and> issued \<le> scheduled \<and> scheduled < due \<and> due \<le> expires
        \<and> (\<forall>f. tm_fired t = Some f \<longrightarrow>
              (\<exists>fired. parse_rfc3339_utc E (tf_fired_at f) = Some fired \<and> due \<le> fired
                 \<and> tf_timer_schedule_event_ref f = tm_event_id t
                 \<and> tf_timer_schedule_event_digest f = tm_event_digest t)))"

definition timers_ok :: "env \<Rightarrow> WorkflowInstanceV1 \<Rightarrow> bool" where
  "timers_ok E w \<longleftrightarrow> (\<forall>i t. bt_get (wi_timers w) i = Some t \<longrightarrow> tm_timer_id t = i \<and> timer_ok E w t)"

lemma timers_ok_cong:
  "wi_timers w' = wi_timers w \<Longrightarrow> wi_dispatch w' = wi_dispatch w \<Longrightarrow> timers_ok E w' = timers_ok E w"
  by (simp add: timers_ok_def timer_ok_def)

lemma step_timers_ok: "protocol_step E e w w' \<Longrightarrow> timers_ok E w \<Longrightarrow> timers_ok E w'"
proof (induction rule: protocol_step.induct)
  case (schedule_timer p digest w due_at dispatch_issued_at dispatch_expires_at)
  then show ?case by (auto simp: timers_ok_def timer_ok_def timer_window_ok_def timer_of_def)
next
  case (fire_timer p digest w t fired_at due_at)
  then have t: "tm_timer_id t = wtf_timer_id p" "timer_ok E w t" by (auto simp: timers_ok_def)
  have "timer_ok E w (t\<lparr>tm_fired := Some (fired_of e digest p)\<rparr>)"
    using t(2) fire_timer.hyps by (auto simp: timer_ok_def firing_binds_schedule_def fired_of_def)
  with t(1) fire_timer show ?case by (auto simp: timers_ok_def timer_ok_def)
qed (simp_all add: timers_ok_def timer_ok_def)

definition deadlines_ok :: "env \<Rightarrow> ReplayState \<Rightarrow> bool" where
  "deadlines_ok E st \<longleftrightarrow> wf_state st \<and> (\<forall>k w. stored st k = Some w \<longrightarrow> timers_ok E w)"

lemma step_deadlines_ok:
  "state_step E e st st' \<Longrightarrow> \<forall>k w. stored st k = Some w \<longrightarrow> timers_ok E w \<Longrightarrow>
     \<forall>k w. stored st' k = Some w \<longrightarrow> timers_ok E w"
proof (induction rule: state_step.induct)
  case (create st k w st')
  then have "timers_ok E w" by (auto simp: creates_def is_fresh_def fresh_workflow_def timers_ok_def)
  with create show ?case by auto
next
  case (advance st k w' st')
  then show ?case using step_timers_ok by (auto simp: advances_def)
qed simp

lemma default_deadlines_ok: "deadlines_ok E default_state"
proof -
  have "stored default_state k = None" for k by (simp add: default_state_def)
  then show ?thesis by (simp add: deadlines_ok_def wf_default_state)
qed

interpretation deadlines: tape_machine default_state "reduce_event E" "deadlines_ok E" state_grows for E
proof unfold_locales
  fix st e
  assume ok: "deadlines_ok E st"
  then have "wf_state st" and view: "view_ok st" and timers: "\<forall>k w. stored st k = Some w \<longrightarrow> timers_ok E w"
    by (simp_all add: deadlines_ok_def wf_state_def)
  then show "deadlines_ok E (reduce_event E st e)"
    using wf_apply step_deadlines_ok [OF apply_refines_protocol [OF view] timers]
    unfolding deadlines_ok_def reduce_event_def by blast
  from ok show "state_grows st (reduce_event E st e)"
    by (simp add: deadlines_ok_def reduce_event_def apply_grows)
qed (simp_all add: default_deadlines_ok state_grows_refl,
     blast intro: state_grows_trans)

end
