(* ===== verification/Signing.thy ===== *)
theory Signing
  imports Canonicalize
begin

text \<open>
  Detached event signatures, \<open>bp-ledger/src/signing.rs\<close>, and the part of the replay reader that
  pairs each stored event with the outcome of verifying its signature, \<open>bp-replay/src/reader.rs\<close>.
  A key, a signature and a message are byte strings.
\<close>

text \<open>
  The cryptographic crates as parameters: \<open>ed25519_dalek\<close> (which byte strings decode to a
  verifying key, the verifying key of a signing key, signing and verifying) and \<open>base64\<close>
  (\<open>URL_SAFE_NO_PAD\<close>), with \<open>uuid::Uuid::parse_str\<close> for the stored rows.
\<close>

record crypto =
  is_verifying_key :: "string \<Rightarrow> bool"
  verifying_key :: "string \<Rightarrow> string"
  ed25519_sign :: "string \<Rightarrow> string \<Rightarrow> string"
  ed25519_verify :: "string \<Rightarrow> string \<Rightarrow> string \<Rightarrow> bool"
  base64_encode :: "string \<Rightarrow> string"
  base64_decode :: "string \<Rightarrow> string option"
  uuid_parse_str :: "string \<Rightarrow> uuid option"

record TrustedPublicKeys =
  by_public_key_hash :: "string btree"

definition insert_public_key :: "string \<Rightarrow> string \<Rightarrow> TrustedPublicKeys \<Rightarrow> TrustedPublicKeys" where
  "insert_public_key key_hash key_bytes keys =
     keys\<lparr>by_public_key_hash := bt_insert key_hash key_bytes (by_public_key_hash keys)\<rparr>"

definition public_key_for :: "TrustedPublicKeys \<Rightarrow> ActorKeyRef \<Rightarrow> string option" where
  "public_key_for keys signer =
     Option.bind (akr_public_key_hash signer) (bt_get (by_public_key_hash keys))"

definition public_key_hash :: "env \<Rightarrow> string \<Rightarrow> string" where
  "public_key_hash E key = ''sha256:'' @ sha256_hex E key"

definition sign_event ::
  "env \<Rightarrow> crypto \<Rightarrow> Event \<Rightarrow> string \<Rightarrow> ActorKeyRef \<Rightarrow> instant \<Rightarrow> (LedgerError, EventSignatureV1) result" where
  "sign_event E C e signing_key signer signed_at =
     and_then (canonical_event_hash E e) (\<lambda>hash.
     and_then (canonical_event_bytes E e) (\<lambda>message.
       Inr \<lparr>es_event_id = ev_id e, es_canonical_event_hash = hash,
            es_signer = signer\<lparr>akr_public_key_hash := Some (public_key_hash E (verifying_key C signing_key))\<rparr>,
            es_algorithm = Algorithm_Ed25519,
            es_signature = base64_encode C (ed25519_sign C signing_key message),
            es_signed_at = signed_at\<rparr>))"

definition verify_with_key :: "env \<Rightarrow> crypto \<Rightarrow> Event \<Rightarrow> EventSignatureV1 \<Rightarrow> string \<Rightarrow> VerificationStatus" where
  "verify_with_key E C e s key =
     (if length key \<noteq> 32 \<or> \<not> is_verifying_key C key then Signature_MissingKey
      else if (case akr_public_key_hash (es_signer s) of
                 None \<Rightarrow> False
               | Some claimed_hash \<Rightarrow> public_key_hash E key \<noteq> claimed_hash)
      then Signature_MissingKey
      else case base64_decode C (es_signature s) of
        None \<Rightarrow> Signature_BadSignature
      | Some signature_bytes \<Rightarrow>
          if length signature_bytes \<noteq> 64 then Signature_BadSignature
          else case canonical_event_bytes E e of
            Inl _ \<Rightarrow> Signature_BadSignature
          | Inr message \<Rightarrow>
              if ed25519_verify C key message signature_bytes then Signature_Verified
              else Signature_BadSignature)"

definition verify_event_signature ::
  "env \<Rightarrow> crypto \<Rightarrow> Event \<Rightarrow> EventSignatureV1 \<Rightarrow> TrustedPublicKeys \<Rightarrow> VerificationStatus" where
  "verify_event_signature E C e s keys =
     (if es_event_id s \<noteq> ev_id e then Signature_HashMismatch
      else case canonical_event_hash E e of
        Inl _ \<Rightarrow> Signature_HashMismatch
      | Inr actual_hash \<Rightarrow>
          if es_canonical_event_hash s \<noteq> actual_hash then Signature_HashMismatch
          else case public_key_for keys (es_signer s) of
            None \<Rightarrow> Signature_MissingKey
          | Some key \<Rightarrow> verify_with_key E C e s key)"

subsection \<open>The replay reader\<close>

datatype ReaderError =
    Reader_Json string
  | Reader_Uuid
  | Reader_Chrono
  | Reader_Ledger LedgerError
  | Reader_EventLimitExceeded nat
  | Reader_InvalidEventLimit

record StoredSignatureRow =
  ssr_event_id :: string
  ssr_canonical_event_hash :: string
  ssr_actor_id :: string
  ssr_key_id :: string
  ssr_public_key_hash :: "string option"
  ssr_algorithm :: string
  ssr_signature :: string
  ssr_signed_at :: string

record VerifiedEvent =
  ve_event :: Event
  ve_verification :: VerificationStatus
  ve_signature :: "EventSignatureV1 option"

definition row_to_event_signature ::
  "env \<Rightarrow> crypto \<Rightarrow> StoredSignatureRow \<Rightarrow> (ReaderError, EventSignatureV1) result" where
  "row_to_event_signature E C row =
     (case uuid_parse_str C (ssr_event_id row) of
        None \<Rightarrow> Inl Reader_Uuid
      | Some event_id \<Rightarrow>
          case parse_from_rfc3339 E (ssr_signed_at row) of
            None \<Rightarrow> Inl Reader_Chrono
          | Some signed_at \<Rightarrow>
              Inr \<lparr>es_event_id = event_id, es_canonical_event_hash = ssr_canonical_event_hash row,
                   es_signer = \<lparr>akr_actor_id = ssr_actor_id row, akr_key_id = ssr_key_id row,
                                akr_public_key_hash = ssr_public_key_hash row\<rparr>,
                   es_algorithm = Algorithm_Ed25519, es_signature = ssr_signature row,
                   es_signed_at = signed_at\<rparr>)"

definition verify_stored_signature ::
  "env \<Rightarrow> crypto \<Rightarrow> Event \<Rightarrow> StoredSignatureRow option \<Rightarrow> TrustedPublicKeys \<Rightarrow>
   (ReaderError, VerificationStatus \<times> EventSignatureV1 option) result" where
  "verify_stored_signature E C e signature_row keys =
     (case signature_row of
        None \<Rightarrow> Inr (Signature_Unsigned, None)
      | Some row \<Rightarrow>
          if ssr_algorithm row \<noteq> ''ed25519'' then Inr (Signature_UnsupportedAlgorithm, None)
          else and_then (row_to_event_signature E C row) (\<lambda>s.
                 Inr (verify_event_signature E C e s keys, Some s)))"

text \<open>
  The rows of the tape as the ordered query yields them, each with its event column decoded (or the
  error of decoding it) and its joined signature row. The bounded read asks for one row more than
  the limit, so that a longer tape is noticed.
\<close>

type_synonym stored_row = "(ReaderError, Event) result \<times> StoredSignatureRow option"

fun verified_rows ::
  "env \<Rightarrow> crypto \<Rightarrow> TrustedPublicKeys \<Rightarrow> stored_row list \<Rightarrow> (ReaderError, VerifiedEvent list) result" where
  "verified_rows E C keys [] = Inr []"
| "verified_rows E C keys ((decoded, signature_row) # rows) =
     and_then decoded (\<lambda>e.
     and_then (verify_stored_signature E C e signature_row keys) (\<lambda>(verification, signature).
     and_then (verified_rows E C keys rows) (\<lambda>rest.
       Inr (\<lparr>ve_event = e, ve_verification = verification, ve_signature = signature\<rparr> # rest))))"

definition stored_rows_with_signatures ::
  "stored_row list \<Rightarrow> nat option \<Rightarrow> (ReaderError, stored_row list) result" where
  "stored_rows_with_signatures tape max_events =
     (case max_events of
        None \<Rightarrow> Inr tape
      | Some limit \<Rightarrow>
          if limit + 1 < 2 ^ 63 then Inr (take (limit + 1) tape) else Inl Reader_InvalidEventLimit)"

definition all_with_verification_limit ::
  "env \<Rightarrow> crypto \<Rightarrow> TrustedPublicKeys \<Rightarrow> nat option \<Rightarrow> stored_row list \<Rightarrow> (ReaderError, VerifiedEvent list) result" where
  "all_with_verification_limit E C keys max_events tape =
     and_then (stored_rows_with_signatures tape max_events) (\<lambda>rows.
       case max_events of
         Some limit \<Rightarrow>
           if limit < length rows then Inl (Reader_EventLimitExceeded limit) else verified_rows E C keys rows
       | None \<Rightarrow> verified_rows E C keys rows)"

definition all_with_verification ::
  "env \<Rightarrow> crypto \<Rightarrow> TrustedPublicKeys \<Rightarrow> stored_row list \<Rightarrow> (ReaderError, VerifiedEvent list) result" where
  "all_with_verification E C keys tape = all_with_verification_limit E C keys None tape"

definition all_with_verification_bounded ::
  "env \<Rightarrow> crypto \<Rightarrow> TrustedPublicKeys \<Rightarrow> nat \<Rightarrow> stored_row list \<Rightarrow> (ReaderError, VerifiedEvent list) result" where
  "all_with_verification_bounded E C keys max_events tape =
     all_with_verification_limit E C keys (Some max_events) tape"

end
