(* ===== verification/Engine.thy ===== *)
theory Engine
  imports Reducer Signing
begin

text \<open>
  The replay engine, \<open>bp-replay/src/engine.rs\<close>: it walks the verified tape, decides which signer
  role an event needs, and applies the event only when its detached signature verified and the
  signer holds that role. Runs with an authorized governed dispatch anywhere on the tape are known
  before the walk starts.
\<close>

datatype TrustSpineSignerRole = Signer_Kernel | Signer_Admission | Signer_Reviewer | Signer_Operator

record SignerIdentity =
  si_actor_id :: string
  si_key_id :: string
  si_public_key_hash :: "string option"

definition signer_identity :: "ActorKeyRef \<Rightarrow> SignerIdentity" where
  "signer_identity signer =
     \<lparr>si_actor_id = akr_actor_id signer, si_key_id = akr_key_id signer,
      si_public_key_hash = akr_public_key_hash signer\<rparr>"

record TrustedReplayAuthorities =
  tra_trusted_keys :: TrustedPublicKeys
  tra_allowed :: "TrustSpineSignerRole \<Rightarrow> SignerIdentity list option"

definition new_authorities :: "TrustedPublicKeys \<Rightarrow> TrustedReplayAuthorities" where
  "new_authorities keys = \<lparr>tra_trusted_keys = keys, tra_allowed = (\<lambda>_. None)\<rparr>"

definition allow_signer ::
  "TrustSpineSignerRole \<Rightarrow> ActorKeyRef \<Rightarrow> TrustedReplayAuthorities \<Rightarrow> TrustedReplayAuthorities" where
  "allow_signer role signer authorities =
     authorities\<lparr>tra_allowed := (tra_allowed authorities)(role :=
        Some (List.insert (signer_identity signer)
                (case tra_allowed authorities role of None \<Rightarrow> [] | Some ids \<Rightarrow> ids)))\<rparr>"

definition permits :: "TrustedReplayAuthorities \<Rightarrow> TrustSpineSignerRole \<Rightarrow> ActorKeyRef \<Rightarrow> bool" where
  "permits authorities role signer =
     (case tra_allowed authorities role of
        None \<Rightarrow> False
      | Some ids \<Rightarrow> signer_identity signer \<in> set ids)"

subsection \<open>Authorization of one event\<close>

text \<open>The actor an event names must be the actor that signed it.\<close>

definition payload_binds_signer :: "Payload \<Rightarrow> ActorKeyRef \<Rightarrow> (string, unit) result" where
  "payload_binds_signer payload signer =
     (case payload of
        Payload_DispatchEnvelopeV1 p \<Rightarrow>
          refuse_if (sig_algorithm (de1_signature_ref p) \<noteq> ''ed25519''
              \<or> sig_key_id (de1_signature_ref p) \<noteq> akr_key_id signer)
            ''dispatch signature_ref algorithm/key_id does not bind the verified detached signer''
      | Payload_PromotionDecisionRecordedV1 p \<Rightarrow>
          refuse_if (pdr_authority p \<noteq> akr_actor_id signer \<or> pdr_decided_by p \<noteq> akr_actor_id signer)
            ''promotion authority and decided_by must equal the verified detached signer actor''
      | Payload_PromotionExecutionClaimedV1 p \<Rightarrow>
          refuse_if (pec_authority_actor p \<noteq> akr_actor_id signer)
            ''promotion execution claim authority_actor must equal the verified detached kernel signer actor''
      | Payload_PromotionApprovalRequestedV1 p \<Rightarrow>
          refuse_if (par_requested_by p \<noteq> akr_actor_id signer)
            ''promotion approval requested_by must equal the verified detached kernel signer actor''
      | Payload_PromotionReconciliationResolvedV1 p \<Rightarrow>
          refuse_if (prc_authority p \<noteq> akr_actor_id signer \<or> prc_resolved_by p \<noteq> akr_actor_id signer)
            ''reconciliation authority and resolved_by must equal the verified detached signer actor''
      | Payload_WorkflowTimerScheduledV1 p \<Rightarrow>
          refuse_if (wts_scheduled_by p \<noteq> akr_actor_id signer)
            ''workflow timer scheduled_by must equal the verified detached kernel signer actor''
      | Payload_WorkflowTimerFiredV1 p \<Rightarrow>
          refuse_if (wtf_fired_by p \<noteq> akr_actor_id signer)
            ''workflow timer fired_by must equal the verified detached kernel signer actor''
      | Payload_WorkflowCancellationRequestedV1 p \<Rightarrow>
          refuse_if (wcr_requested_by p \<noteq> akr_actor_id signer)
            ''workflow cancellation requested_by must equal the verified detached authorized signer actor''
      | _ \<Rightarrow> Inr ())"

definition trust_spine_authorization ::
  "Payload \<Rightarrow> EventSignatureV1 option \<Rightarrow> TrustedReplayAuthorities \<Rightarrow> TrustSpineSignerRole \<Rightarrow>
   (string, unit) result" where
  "trust_spine_authorization payload signature authorities required_role =
     (case signature of
        None \<Rightarrow> Inl ''verified trust-spine event is missing its detached signer record''
      | Some s \<Rightarrow>
          if \<not> permits authorities required_role (es_signer s)
          then Inl ''detached signer is not authorized for this trust-spine event role''
          else payload_binds_signer payload (es_signer s))"

definition is_governed_dispatch :: "Payload \<Rightarrow> bool" where
  "is_governed_dispatch payload =
     (case payload of
        Payload_DispatchEnvelopeV1 p \<Rightarrow> de1_trust_tier p = Tier_Governed
      | Payload_DispatchEnvelopeV2 p \<Rightarrow> deb_trust_tier (de2_body p) = Tier_Governed
      | Payload_DispatchEnvelopeV3 p \<Rightarrow> deb_trust_tier (de3_body p) = Tier_Governed
      | _ \<Rightarrow> False)"

definition authorized_governed_runs ::
  "env \<Rightarrow> VerifiedEvent list \<Rightarrow> TrustedReplayAuthorities \<Rightarrow> string list" where
  "authorized_governed_runs E events authorities =
     map (\<lambda>v. uuid_to_string E (ev_run_id (ve_event v)))
       (filter (\<lambda>v. ve_verification v = Signature_Verified
                  \<and> is_governed_dispatch (ev_payload (ve_event v))
                  \<and> trust_spine_authorization (ev_payload (ve_event v)) (ve_signature v) authorities Signer_Kernel = Inr ())
         events)"

definition activity_signer_role :: "env \<Rightarrow> ReplayState \<Rightarrow> Event \<Rightarrow> bool \<Rightarrow> string \<Rightarrow> TrustSpineSignerRole option" where
  "activity_signer_role E st e predeclared_governed_run activity_id =
     (if governed_activity_bracketing_is_required_for_run E st e activity_id predeclared_governed_run
      then Some Signer_Kernel else None)"

definition required_signer_role :: "env \<Rightarrow> ReplayState \<Rightarrow> Event \<Rightarrow> bool \<Rightarrow> TrustSpineSignerRole option" where
  "required_signer_role E st e predeclared_governed_run =
     (case ev_payload e of
        Payload_ActivityStartedV1 p \<Rightarrow> activity_signer_role E st e predeclared_governed_run (as_activity_id p)
      | Payload_ActivityCompletedV1 p \<Rightarrow> activity_signer_role E st e predeclared_governed_run (ac_activity_id p)
      | Payload_DispatchEnvelopeV1 _ \<Rightarrow> Some Signer_Kernel
      | Payload_DispatchEnvelopeV2 _ \<Rightarrow> Some Signer_Kernel
      | Payload_DispatchEnvelopeV3 _ \<Rightarrow> Some Signer_Kernel
      | Payload_WorkflowGraphDeclaredV1 _ \<Rightarrow> Some Signer_Kernel
      | Payload_WorkflowGraphDeclaredV2 _ \<Rightarrow> Some Signer_Kernel
      | Payload_CandidateCreatedV1 _ \<Rightarrow> Some Signer_Kernel
      | Payload_CandidateAcceptanceRecordedV1 _ \<Rightarrow> Some Signer_Kernel
      | Payload_PromotionApprovalRequestedV1 _ \<Rightarrow> Some Signer_Kernel
      | Payload_PromotionExecutionClaimedV1 _ \<Rightarrow> Some Signer_Kernel
      | Payload_PromotionResultRecordedV1 _ \<Rightarrow> Some Signer_Kernel
      | Payload_WorkflowTimerScheduledV1 _ \<Rightarrow> Some Signer_Kernel
      | Payload_WorkflowTimerFiredV1 _ \<Rightarrow> Some Signer_Kernel
      | Payload_WorkflowTerminalV1 _ \<Rightarrow> Some Signer_Kernel
      | Payload_WorkflowTerminalV2 _ \<Rightarrow> Some Signer_Kernel
      | Payload_WorkflowCancellationRequestedV1 p \<Rightarrow>
          Some (case wcr_cause p of
              Cancel_OperatorRequested \<Rightarrow> Signer_Operator
            | Cancel_TimerElapsed \<Rightarrow> Signer_Kernel)
      | Payload_ReviewVerdictRecordedV1 _ \<Rightarrow> Some Signer_Reviewer
      | Payload_PromotionDecisionRecordedV1 _ \<Rightarrow> Some Signer_Operator
      | Payload_PromotionReconciliationResolvedV1 _ \<Rightarrow> Some Signer_Operator
      | _ \<Rightarrow> None)"

definition signer_role_wire :: "TrustSpineSignerRole \<Rightarrow> string" where
  "signer_role_wire role =
     (case role of
        Signer_Kernel \<Rightarrow> ''kernel''
      | Signer_Admission \<Rightarrow> ''admission''
      | Signer_Reviewer \<Rightarrow> ''reviewer''
      | Signer_Operator \<Rightarrow> ''operator'')"

subsection \<open>The engine\<close>

record ReplayEngine =
  en_events :: "VerifiedEvent list"
  en_cursor :: nat
  en_state :: ReplayState
  en_authorities :: TrustedReplayAuthorities
  en_predeclared_governed_runs :: "string list"

record ReplayStep =
  rst_event :: Event
  rst_state_after :: ReplayState

definition verified_signer :: "VerifiedEvent \<Rightarrow> ActorKeyRef option" where
  "verified_signer v = map_option es_signer (ve_signature v)"

definition push_issue :: "ReplayIssue \<Rightarrow> ReplayState \<Rightarrow> ReplayState" where
  "push_issue issue st = st\<lparr>st_issues := st_issues st @ [issue]\<rparr>"

definition engine_apply ::
  "env \<Rightarrow> TrustedReplayAuthorities \<Rightarrow> string list \<Rightarrow> ReplayState \<Rightarrow> VerifiedEvent \<Rightarrow> ReplayState" where
  "engine_apply E authorities predeclared st v =
     (let e = ve_event v in
      case required_signer_role E st e (uuid_to_string E (ev_run_id e) \<in> set predeclared) of
        None \<Rightarrow> apply_with_verified_signer E st e (verified_signer v)
      | Some required_role \<Rightarrow>
          if ve_verification v \<noteq> Signature_Verified
          then push_issue (UnverifiedTrustSpineEvent (ev_id e) (as_wire (ev_kind e)) (ve_verification v)) st
          else case trust_spine_authorization (ev_payload e) (ve_signature v) authorities required_role of
            Inl reason \<Rightarrow>
              push_issue (UnauthorizedTrustSpineSigner (ev_id e) (as_wire (ev_kind e))
                (signer_role_wire required_role) (map_option akr_actor_id (verified_signer v))
                (map_option akr_key_id (verified_signer v)) reason) st
          | Inr _ \<Rightarrow> apply_with_verified_signer E st e (verified_signer v))"

definition advance_one :: "env \<Rightarrow> ReplayEngine \<Rightarrow> (nat \<times> ReplayEngine) option" where
  "advance_one E en =
     (let index = en_cursor en in
      if index < length (en_events en) then
        Some (index, en\<lparr>en_cursor := index + 1,
          en_state := engine_apply E (en_authorities en) (en_predeclared_governed_runs en) (en_state en)
                        (en_events en ! index)\<rparr>)
      else None)"

definition next_step :: "env \<Rightarrow> ReplayEngine \<Rightarrow> (ReplayStep \<times> ReplayEngine) option" where
  "next_step E en =
     map_option (\<lambda>(index, en'). (\<lparr>rst_event = ve_event (en_events en' ! index),
                                  rst_state_after = en_state en'\<rparr>, en')) (advance_one E en)"

lemma advance_one_progress:
  "advance_one E en = Some (index, en') \<Longrightarrow>
     en_events en' = en_events en \<and> en_cursor en' = Suc (en_cursor en) \<and> en_cursor en < length (en_events en)"
  by (auto simp: advance_one_def Let_def split: if_splits)

function replay_to_end :: "env \<Rightarrow> ReplayEngine \<Rightarrow> ReplayEngine" where
  "replay_to_end E en =
     (case advance_one E en of
        None \<Rightarrow> en
      | Some (_, en') \<Rightarrow> replay_to_end E en')"
  by pat_completeness auto
termination
  by (relation "measure (\<lambda>(E, en). length (en_events en) - en_cursor en)")
    (auto dest: advance_one_progress)

declare replay_to_end.simps [simp del]

function fast_forward_to :: "env \<Rightarrow> EventId \<Rightarrow> ReplayEngine \<Rightarrow> ReplayStep option \<times> ReplayEngine" where
  "fast_forward_to E target en =
     (case next_step E en of
        None \<Rightarrow>
          (None, en\<lparr>en_state := push_issue (TargetNotFound (uuid_to_string E target)) (en_state en)\<rparr>)
      | Some (s, en') \<Rightarrow>
          if ev_id (rst_event s) = target then (Some s, en') else fast_forward_to E target en')"
  by pat_completeness auto
termination
  by (relation "measure (\<lambda>(E, target, en). length (en_events en) - en_cursor en)")
    (auto simp: next_step_def dest: advance_one_progress)

declare fast_forward_to.simps [simp del]

definition engine_of :: "env \<Rightarrow> TrustedReplayAuthorities \<Rightarrow> VerifiedEvent list \<Rightarrow> ReplayEngine" where
  "engine_of E authorities events =
     \<lparr>en_events = events, en_cursor = 0, en_state = default_state, en_authorities = authorities,
      en_predeclared_governed_runs = authorized_governed_runs E events authorities\<rparr>"

definition open_with_trusted_authorities_limit ::
  "env \<Rightarrow> crypto \<Rightarrow> TrustedReplayAuthorities \<Rightarrow> nat option \<Rightarrow> stored_row list \<Rightarrow> (ReaderError, ReplayEngine) result" where
  "open_with_trusted_authorities_limit E C authorities max_events tape =
     and_then (all_with_verification_limit E C (tra_trusted_keys authorities) max_events tape)
       (\<lambda>events. Inr (engine_of E authorities events))"

definition open_with_trusted_keys ::
  "env \<Rightarrow> crypto \<Rightarrow> TrustedPublicKeys \<Rightarrow> stored_row list \<Rightarrow> (ReaderError, ReplayEngine) result" where
  "open_with_trusted_keys E C keys tape =
     open_with_trusted_authorities_limit E C (new_authorities keys) None tape"

end
