(* ===== verification/Engine_Authority.thy ===== *)
theory Engine_Authority
  imports Engine Replay_Invariant
begin

text \<open>
  What the engine adds to the reducer: it is a second tape machine over verified events, its loops
  are one fold over the tape, and every record it stores on a workflow was carried by a tape event
  whose signature verified and whose signer holds the role the record needs.
\<close>

subsection \<open>One engine step\<close>

definition authorized_by :: "TrustedReplayAuthorities \<Rightarrow> TrustSpineSignerRole \<Rightarrow> VerifiedEvent \<Rightarrow> bool" where
  "authorized_by auth role v \<longleftrightarrow>
     ve_verification v = Signature_Verified
     \<and> (\<exists>s. ve_signature v = Some s \<and> permits auth role (es_signer s)
           \<and> payload_binds_signer (ev_payload (ve_event v)) (es_signer s) = Inr ())"

lemma authorization_iff:
  "trust_spine_authorization p sg auth role = Inr x \<longleftrightarrow>
     (\<exists>s. sg = Some s \<and> permits auth role (es_signer s) \<and> payload_binds_signer p (es_signer s) = Inr ())"
  by (simp add: trust_spine_authorization_def split: option.split)

lemma push_issue_stored [simp]: "st_workflow_instances (push_issue i st) = st_workflow_instances st"
  by (simp add: push_issue_def)

lemma push_issue_wf [simp]: "wf_state (push_issue i st) = wf_state st"
  by (simp add: push_issue_def wf_state_def keys_ok_def candidates_unique_def candidate_fresh_def
      run_tiers_ok_def view_ok_def)

lemma push_issue_grows [simp]: "state_grows st (push_issue i st)"
  by (simp add: push_issue_def state_grows_def state_extends_def)

text \<open>
  The engine applies an event, with the role it needs held by its signer, or records an issue and
  nothing else.
\<close>

definition needs_role :: "env \<Rightarrow> string list \<Rightarrow> ReplayState \<Rightarrow> VerifiedEvent \<Rightarrow> TrustSpineSignerRole option" where
  "needs_role E predeclared st v =
     required_signer_role E st (ve_event v) (uuid_to_string E (ev_run_id (ve_event v)) \<in> set predeclared)"

lemma engine_apply_cases:
  obtains (issue) i role where "needs_role E predeclared st v = Some role" "\<not> authorized_by auth role v"
      "engine_apply E auth predeclared st v = push_issue i st"
  | (applied) "\<And>role. needs_role E predeclared st v = Some role \<Longrightarrow> authorized_by auth role v"
      "engine_apply E auth predeclared st v = apply_with_verified_signer E st (ve_event v) (verified_signer v)"
proof (cases "needs_role E predeclared st v")
  case None
  then show ?thesis using applied by (simp add: engine_apply_def needs_role_def Let_def)
next
  case (Some role)
  show ?thesis
  proof (cases "authorized_by auth role v")
    case True
    then have "trust_spine_authorization (ev_payload (ve_event v)) (ve_signature v) auth role = Inr ()"
      by (auto simp: authorized_by_def authorization_iff)
    with True Some show ?thesis
      by (intro applied) (simp_all add: engine_apply_def needs_role_def authorized_by_def Let_def)
  next
    case False
    then have "ve_verification v \<noteq> Signature_Verified
      \<or> (\<forall>x. trust_spine_authorization (ev_payload (ve_event v)) (ve_signature v) auth role \<noteq> Inr x)"
      by (auto simp: authorized_by_def authorization_iff)
    with Some have "\<exists>i. engine_apply E auth predeclared st v = push_issue i st"
      by (cases "trust_spine_authorization (ev_payload (ve_event v)) (ve_signature v) auth role")
        (auto simp: engine_apply_def needs_role_def Let_def)
    with False Some show ?thesis using issue by blast
  qed
qed

interpretation engine: tape_machine default_state "engine_apply E auth predeclared" wf_state state_grows
  for E auth predeclared
proof unfold_locales
  fix st :: ReplayState and v :: VerifiedEvent
  assume wf: "wf_state st"
  show "wf_state (engine_apply E auth predeclared st v)"
    by (rule engine_apply_cases [of E predeclared st v auth]) (simp_all add: wf wf_apply)
  show "state_grows st (engine_apply E auth predeclared st v)"
    by (rule engine_apply_cases [of E predeclared st v auth]) (simp_all add: wf apply_grows)
qed (simp_all add: wf_default_state state_grows_refl, blast intro: state_grows_trans)

subsection \<open>The loops as folds\<close>

definition engine_run :: "env \<Rightarrow> TrustedReplayAuthorities \<Rightarrow> string list \<Rightarrow> VerifiedEvent list \<Rightarrow> ReplayState" where
  "engine_run E auth predeclared events = foldl (engine_apply E auth predeclared) default_state events"

lemma replay_to_end_fold:
  "en_cursor en \<le> length (en_events en) \<Longrightarrow>
   replay_to_end E en = en\<lparr>en_cursor := length (en_events en),
     en_state := foldl (engine_apply E (en_authorities en) (en_predeclared_governed_runs en)) (en_state en)
                   (drop (en_cursor en) (en_events en))\<rparr>"
proof (induction E en rule: replay_to_end.induct)
  case (1 E en)
  show ?case
  proof (cases "en_cursor en < length (en_events en)")
    case True
    then have step: "advance_one E en = Some (en_cursor en, en\<lparr>en_cursor := en_cursor en + 1,
        en_state := engine_apply E (en_authorities en) (en_predeclared_governed_runs en) (en_state en)
                      (en_events en ! en_cursor en)\<rparr>)" (is "_ = Some (_, ?en')")
      by (simp add: advance_one_def Let_def)
    from True have "replay_to_end E ?en' = ?en'\<lparr>en_cursor := length (en_events ?en'),
        en_state := foldl (engine_apply E (en_authorities ?en') (en_predeclared_governed_runs ?en'))
          (en_state ?en') (drop (en_cursor ?en') (en_events ?en'))\<rparr>"
      by (intro 1(1) [OF step refl]) simp
    with True step show ?thesis
      by (simp add: replay_to_end.simps [of E en] Cons_nth_drop_Suc [symmetric])
  next
    case False
    with 1(2) show ?thesis by (simp add: replay_to_end.simps [of E en] advance_one_def Let_def)
  qed
qed

lemma replay_to_end_of:
  "en_state (replay_to_end E (engine_of E auth events)) =
     engine_run E auth (authorized_governed_runs E events auth) events"
  by (simp add: replay_to_end_fold engine_of_def engine_run_def)

lemma next_step_iff:
  "next_step E en = Some (s, en') \<longleftrightarrow>
     en_cursor en < length (en_events en) \<and>
     en' = en\<lparr>en_cursor := en_cursor en + 1,
       en_state := engine_apply E (en_authorities en) (en_predeclared_governed_runs en) (en_state en)
                     (en_events en ! en_cursor en)\<rparr> \<and>
     s = \<lparr>rst_event = ve_event (en_events en ! en_cursor en), rst_state_after = en_state en'\<rparr>"
  by (auto simp: next_step_def advance_one_def Let_def split: if_splits)

text \<open>Seeking an event replays the tape up to its first occurrence.\<close>

lemma fast_forward_found:
  assumes "en_cursor en + i < length (en_events en)"
    and "ev_id (ve_event (en_events en ! (en_cursor en + i))) = target"
    and "\<forall>j < i. ev_id (ve_event (en_events en ! (en_cursor en + j))) \<noteq> target"
  shows "\<exists>en'. fast_forward_to E target en =
    (Some \<lparr>rst_event = ve_event (en_events en ! (en_cursor en + i)), rst_state_after = en_state en'\<rparr>, en')
    \<and> en_cursor en' = en_cursor en + i + 1
    \<and> en_state en' = foldl (engine_apply E (en_authorities en) (en_predeclared_governed_runs en)) (en_state en)
        (take (i + 1) (drop (en_cursor en) (en_events en)))"
  using assms
proof (induction i arbitrary: en)
  case 0
  then have "next_step E en \<noteq> None" by (simp add: next_step_def advance_one_def Let_def)
  with 0 show ?case
    by (subst fast_forward_to.simps)
      (auto simp: next_step_def advance_one_def Let_def take_Suc hd_drop_conv_nth drop_eq_Nil)
next
  case (Suc i)
  let ?en = "en\<lparr>en_cursor := en_cursor en + 1,
       en_state := engine_apply E (en_authorities en) (en_predeclared_governed_runs en) (en_state en)
                     (en_events en ! en_cursor en)\<rparr>"
  have lt: "en_cursor en < length (en_events en)" using Suc.prems(1) by simp
  have "ev_id (ve_event (en_events en ! en_cursor en)) \<noteq> target" using Suc.prems(3) by force
  then have skip: "fast_forward_to E target en = fast_forward_to E target ?en"
    using lt by (subst fast_forward_to.simps) (simp add: next_step_def advance_one_def Let_def)
  have "\<forall>j < i. ev_id (ve_event (en_events ?en ! (en_cursor ?en + j))) \<noteq> target"
  proof (intro allI impI)
    fix j assume "j < i"
    with Suc.prems(3) [rule_format, of "Suc j"]
    show "ev_id (ve_event (en_events ?en ! (en_cursor ?en + j))) \<noteq> target" by simp
  qed
  with Suc.IH [of ?en] Suc.prems(1,2) show ?case
    using lt by (simp add: skip Cons_nth_drop_Suc [symmetric])
qed

lemma fast_forward_missing:
  "\<lbrakk>en_cursor en \<le> length (en_events en); \<forall>v \<in> set (drop (en_cursor en) (en_events en)). ev_id (ve_event v) \<noteq> target\<rbrakk>
   \<Longrightarrow> fast_forward_to E target en =
     (None, en\<lparr>en_cursor := length (en_events en),
        en_state := push_issue (TargetNotFound (uuid_to_string E target))
          (foldl (engine_apply E (en_authorities en) (en_predeclared_governed_runs en)) (en_state en)
             (drop (en_cursor en) (en_events en)))\<rparr>)"
proof (induction E target en rule: fast_forward_to.induct)
  case (1 E target en)
  show ?case
  proof (cases "en_cursor en < length (en_events en)")
    case True
    let ?en = "en\<lparr>en_cursor := en_cursor en + 1,
       en_state := engine_apply E (en_authorities en) (en_predeclared_governed_runs en) (en_state en)
                     (en_events en ! en_cursor en)\<rparr>"
    have step: "next_step E en =
      Some (\<lparr>rst_event = ve_event (en_events en ! en_cursor en), rst_state_after = en_state ?en\<rparr>, ?en)"
      using True by (simp add: next_step_def advance_one_def Let_def)
    have other: "ev_id (ve_event (en_events en ! en_cursor en)) \<noteq> target"
      and rest: "\<forall>v \<in> set (drop (en_cursor ?en) (en_events ?en)). ev_id (ve_event v) \<noteq> target"
      using 1(3) True by (simp_all add: Cons_nth_drop_Suc [symmetric])
    show ?thesis
      using 1(1) [OF step refl] other rest True
      by (simp add: fast_forward_to.simps [of E target en] step Cons_nth_drop_Suc [symmetric])
  next
    case False
    with 1(2) show ?thesis
      by (simp add: fast_forward_to.simps [of E target en] next_step_def advance_one_def Let_def)
  qed
qed

subsection \<open>Who attested a workflow\<close>

text \<open>
  \<open>carried\<close> names the tape event a record came from: it verified, its signer holds the role, and it
  binds that signer. \<open>attested\<close> asks it of every record of a workflow.
\<close>

definition carried ::
  "TrustedReplayAuthorities \<Rightarrow> VerifiedEvent list \<Rightarrow> TrustSpineSignerRole \<Rightarrow> (Event \<Rightarrow> bool) \<Rightarrow> bool" where
  "carried auth events role P \<longleftrightarrow> (\<exists>v \<in> set events. authorized_by auth role v \<and> P (ve_event v))"

lemma carried_mono: "carried auth events role P \<Longrightarrow> carried auth (events @ more_events) role P"
  by (auto simp: carried_def)

lemma carried_last: "authorized_by auth role v \<Longrightarrow> P (ve_event v) \<Longrightarrow> carried auth (events @ [v]) role P"
  by (auto simp: carried_def)

fun cancellation_role :: "WorkflowCancellationCauseV1 \<Rightarrow> TrustSpineSignerRole" where
  "cancellation_role Cancel_OperatorRequested = Signer_Operator"
| "cancellation_role Cancel_TimerElapsed = Signer_Kernel"

definition attested :: "TrustedReplayAuthorities \<Rightarrow> VerifiedEvent list \<Rightarrow> WorkflowInstanceV1 \<Rightarrow> bool" where
  "attested auth events w \<longleftrightarrow>
     carried auth events Signer_Kernel (\<lambda>e. dispatch_payload (ev_payload e) \<and> ev_id e = wd_event_id (wi_dispatch w))
     \<and> (\<forall>c. wi_candidate w = Some c \<longrightarrow> carried auth events Signer_Kernel
          (\<lambda>e. \<exists>p. ev_payload e = Payload_CandidateCreatedV1 p \<and> c = candidate_of e p))
     \<and> (\<forall>a. wi_acceptance w = Some a \<longrightarrow> carried auth events Signer_Kernel
          (\<lambda>e. \<exists>p. ev_payload e = Payload_CandidateAcceptanceRecordedV1 p \<and> a = acceptance_of e p))
     \<and> (\<forall>i r. bt_get (wi_reviews w) i = Some r \<longrightarrow> carried auth events Signer_Reviewer
          (\<lambda>e. \<exists>p. ev_payload e = Payload_ReviewVerdictRecordedV1 p \<and> r = review_of e p))
     \<and> (\<forall>pr. wi_promotion w = Some pr \<longrightarrow> carried auth events Signer_Operator
          (\<lambda>e. \<exists>p d. ev_payload e = Payload_PromotionDecisionRecordedV1 p \<and> pr_decision pr = decision_of e d p))
     \<and> (\<forall>c. wi_cancellation w = Some c \<longrightarrow> (\<exists>cause. carried auth events (cancellation_role cause)
          (\<lambda>e. \<exists>p d. ev_payload e = Payload_WorkflowCancellationRequestedV1 p \<and> wcr_cause p = cause
             \<and> c = cancellation_of e d p)))"

lemma attested_mono:
  assumes "attested auth events w"
  shows "attested auth (events @ more_events) w"
  using assms unfolding attested_def
  by (elim conjE, intro conjI allI impI) (blast intro: carried_mono)+

lemma attested_cong:
  "\<lbrakk>wi_dispatch w' = wi_dispatch w; wi_candidate w' = wi_candidate w; wi_acceptance w' = wi_acceptance w;
    wi_reviews w' = wi_reviews w; map_option pr_decision (wi_promotion w') = map_option pr_decision (wi_promotion w);
    wi_cancellation w' = wi_cancellation w\<rbrakk> \<Longrightarrow> attested auth events w' = attested auth events w"
  unfolding attested_def by (cases "wi_promotion w"; cases "wi_promotion w'") simp_all

lemma step_attested:
  assumes "protocol_step E (ve_event v) w w'" and "attested auth events w"
    and role: "\<And>r. required_signer_role E st (ve_event v) b = Some r \<Longrightarrow> authorized_by auth r v"
  shows "attested auth (events @ [v]) w'"
proof -
  note mono = attested_mono [OF assms(2), of "[v]"]
  have kept: ?thesis if "wi_dispatch w' = wi_dispatch w" "wi_candidate w' = wi_candidate w"
      "wi_acceptance w' = wi_acceptance w" "wi_reviews w' = wi_reviews w"
      "map_option pr_decision (wi_promotion w') = map_option pr_decision (wi_promotion w)"
      "wi_cancellation w' = wi_cancellation w"
    using mono attested_cong [OF that] by simp
  from assms(1) show ?thesis
  proof cases
    case (create_candidate p)
    then have "authorized_by auth Signer_Kernel v" by (intro role) (simp add: required_signer_role_def)
    with create_candidate mono show ?thesis by (auto simp: attested_def intro!: carried_last)
  next
    case (record_acceptance p c)
    then have "authorized_by auth Signer_Kernel v" by (intro role) (simp add: required_signer_role_def)
    with record_acceptance mono show ?thesis by (auto simp: attested_def intro!: carried_last)
  next
    case (record_review p c a)
    then have "authorized_by auth Signer_Reviewer v" by (intro role) (simp add: required_signer_role_def)
    with record_review mono show ?thesis by (auto simp: attested_def intro!: carried_last)
  next
    case (decide p digest c)
    then have "authorized_by auth Signer_Operator v" by (intro role) (simp add: required_signer_role_def)
    with decide mono show ?thesis by (auto simp: attested_def intro!: carried_last)
  next
    case (cancel p digest)
    then have "authorized_by auth (cancellation_role (wcr_cause p)) v"
      by (intro role) (cases "wcr_cause p"; simp add: required_signer_role_def)
    with cancel mono show ?thesis by (auto simp: attested_def intro!: carried_last)
  qed (rule kept; simp)+
qed

definition state_attested :: "TrustedReplayAuthorities \<Rightarrow> VerifiedEvent list \<Rightarrow> ReplayState \<Rightarrow> bool" where
  "state_attested auth events st \<longleftrightarrow> (\<forall>k w. stored st k = Some w \<longrightarrow> attested auth events w)"

lemma fresh_attested:
  assumes "creates E st (ve_event v) k w" "authorized_by auth Signer_Kernel v"
  shows "attested auth (events @ [v]) w"
  using assms by (auto simp: attested_def creates_def is_fresh_def fresh_workflow_def intro!: carried_last)

lemma apply_attested:
  assumes step: "state_step E (ve_event v) st st'" and "state_attested auth events st"
    and role: "\<And>r. required_signer_role E st (ve_event v) b = Some r \<Longrightarrow> authorized_by auth r v"
  shows "state_attested auth (events @ [v]) st'"
  using step
proof cases
  case quiet
  with assms(2) show ?thesis by (auto simp: state_attested_def attested_mono)
next
  case (create k w)
  then have "required_signer_role E st (ve_event v) b = Some Signer_Kernel"
    by (auto simp: creates_def dispatch_payload_def required_signer_role_def split: Payload.splits)
  with create assms(2) role fresh_attested show ?thesis by (auto simp: state_attested_def attested_mono)
next
  case (advance k w')
  with assms(2) step_attested [OF _ _ role] show ?thesis
    by (auto simp: state_attested_def attested_mono advances_def)
qed

lemma engine_run_snoc:
  "engine_run E auth predeclared (events @ [v]) =
     engine_apply E auth predeclared (engine_run E auth predeclared events) v"
  by (simp add: engine_run_def)

lemma engine_run_wf: "wf_state (engine_run E auth predeclared events)"
  unfolding engine_run_def by (rule engine.reached_inv)

theorem engine_run_attested: "state_attested auth events (engine_run E auth predeclared events)"
proof (induction events rule: rev_induct)
  case Nil
  then show ?case by (simp add: engine_run_def state_attested_def default_state_def)
next
  case (snoc v events)
  let ?st = "engine_run E auth predeclared events"
  show ?case
  proof (cases rule: engine_apply_cases [of E predeclared ?st v auth, case_names issue applied])
    case (issue i role)
    with snoc show ?thesis by (auto simp: engine_run_snoc state_attested_def attested_mono)
  next
    case applied
    have "state_step E (ve_event v) ?st (apply_with_verified_signer E ?st (ve_event v) (verified_signer v))"
      by (rule apply_refines_protocol) (use engine_run_wf in \<open>simp add: wf_state_def\<close>)
    from apply_attested [OF this snoc, of "uuid_to_string E (ev_run_id (ve_event v)) \<in> set predeclared"]
    show ?thesis using applied by (simp add: engine_run_snoc needs_role_def)
  qed
qed

end
