(* ===== verification/Tape_Integrity.thy ===== *)
theory Tape_Integrity
  imports Signing
begin

text \<open>
  Tape-root verification, \<open>bp-replay/src/tape_integrity.rs\<close>, over the root contract of
  \<open>bp-ledger/src/payload/checkpoint.rs\<close>: a chain of kernel-signed checkpoints has to cover every
  signed ordinary event of the tape before a governed recovery may use it.
\<close>

record TapeIntegrityReportV1 =
  tir_schema_version :: u8
  tir_checkpoint_event_ref :: string
  tir_checkpoint_event_digest :: string
  tir_through_event_ref :: string
  tir_signed_non_checkpoint_event_count :: u64
  tir_tape_root_hash :: string
  tir_algorithm :: TapeRootAlgorithm

datatype TapeIntegrityError =
    ForeignRunEvent string string
  | TapeOrder string string
  | MissingCheckpoint
  | CheckpointIndexMismatch string u64 u64
  | CheckpointPredecessorMismatch string "string option" "string option"
  | MalformedCheckpoint string
  | CheckpointNotVerified string VerificationStatus
  | CheckpointSignatureMissing string
  | CheckpointSignerUnauthorized string
  | CheckpointRunMismatch string
  | UnsupportedRootAlgorithm string TapeRootAlgorithm
  | UnanchoredCheckpoint string string
  | ThroughEventMissing string string
  | SignedEventNotVerified string VerificationStatus
  | SignedEventSignatureMissing string
  | CoverageCountMismatch string u64 u64
  | TapeRootMismatch string
  | CheckpointCoverageNotAdvanced string string
  | UncheckpointedSignedTail string string

subsection \<open>The tape root\<close>

definition newline :: char where
  "newline = CHR 0x0A"

definition tape_root_hash :: "env \<Rightarrow> string list \<Rightarrow> string" where
  "tape_root_hash E ordered_canonical_event_hashes =
     ''sha256:'' @ sha256_hex E (join_with [newline] ordered_canonical_event_hashes)"

text \<open>The incremental hasher: the bytes fed to SHA-256 so far and the number of hashes.\<close>

record TapeRootHasher =
  trh_hasher :: string
  trh_count :: nat

definition empty_hasher :: TapeRootHasher where
  "empty_hasher = \<lparr>trh_hasher = [], trh_count = 0\<rparr>"

definition hasher_push :: "string \<Rightarrow> TapeRootHasher \<Rightarrow> TapeRootHasher" where
  "hasher_push hash h =
     \<lparr>trh_hasher = trh_hasher h @ (if trh_count h \<noteq> 0 then [newline] else []) @ hash,
      trh_count = trh_count h + 1\<rparr>"

definition hasher_root :: "env \<Rightarrow> TapeRootHasher \<Rightarrow> string" where
  "hasher_root E h = ''sha256:'' @ sha256_hex E (trh_hasher h)"

subsection \<open>Order, run and signed prefix\<close>

definition event_ref :: "env \<Rightarrow> VerifiedEvent \<Rightarrow> string" where
  "event_ref E v = uuid_to_string E (ev_id (ve_event v))"

fun check_tape_order :: "env \<Rightarrow> VerifiedEvent list \<Rightarrow> (TapeIntegrityError, unit) result" where
  "check_tape_order E (a # b # rest) =
     (if ev_id (ve_event b) \<le> ev_id (ve_event a) then Inl (TapeOrder (event_ref E a) (event_ref E b))
      else check_tape_order E (b # rest))"
| "check_tape_order E _ = Inr ()"

fun check_run :: "env \<Rightarrow> string \<Rightarrow> VerifiedEvent list \<Rightarrow> (TapeIntegrityError, unit) result" where
  "check_run E run_id [] = Inr ()"
| "check_run E run_id (v # rest) =
     (if uuid_to_string E (ev_run_id (ve_event v)) \<noteq> run_id
      then Inl (ForeignRunEvent run_id (event_ref E v))
      else check_run E run_id rest)"

definition is_checkpoint :: "VerifiedEvent \<Rightarrow> bool" where
  "is_checkpoint v \<longleftrightarrow> ev_kind (ve_event v) = Kind_TapeCheckpoint"

text \<open>The ordinary events that carry a signature, each with its stored canonical hash.\<close>

fun signed_ordinary :: "env \<Rightarrow> VerifiedEvent list \<Rightarrow> (TapeIntegrityError, (EventId \<times> string) list) result" where
  "signed_ordinary E [] = Inr []"
| "signed_ordinary E (v # rest) =
     (if is_checkpoint v \<or> ve_verification v = Signature_Unsigned then signed_ordinary E rest
      else if ve_verification v \<noteq> Signature_Verified
      then Inl (SignedEventNotVerified (event_ref E v) (ve_verification v))
      else case ve_signature v of
        None \<Rightarrow> Inl (SignedEventSignatureMissing (event_ref E v))
      | Some s \<Rightarrow>
          and_then (signed_ordinary E rest) (\<lambda>more_signed.
            Inr ((ev_id (ve_event v), es_canonical_event_hash s) # more_signed)))"

text \<open>The first position of an event id among the signed ordinary events.\<close>

fun position_of :: "EventId \<Rightarrow> (EventId \<times> string) list \<Rightarrow> nat option" where
  "position_of i [] = None"
| "position_of i ((j, _) # rest) = (if j = i then Some 0 else map_option Suc (position_of i rest))"

subsection \<open>The checkpoint chain\<close>

record checkpoint_walk =
  cw_previous :: "(EventId \<times> nat) option"
  cw_latest :: "(VerifiedEvent \<times> TapeCheckpointV1 \<times> EventSignatureV1 \<times> nat) option"
  cw_rolling_root :: TapeRootHasher

function roll_to :: "(EventId \<times> string) list \<Rightarrow> nat \<Rightarrow> TapeRootHasher \<Rightarrow> TapeRootHasher" where
  "roll_to ordinary through_position h =
     (if trh_count h \<le> through_position
      then roll_to ordinary through_position (hasher_push (snd (ordinary ! trh_count h)) h)
      else h)"
  by pat_completeness auto
termination
  by (relation "measure (\<lambda>(ordinary, through_position, h). Suc through_position - trh_count h)")
    (auto simp: hasher_push_def)

declare roll_to.simps [simp del]

definition checkpoint_authority ::
  "env \<Rightarrow> string \<Rightarrow> ActorKeyRef \<Rightarrow> VerifiedEvent \<Rightarrow>
   (TapeIntegrityError, TapeCheckpointV1 \<times> EventSignatureV1) result" where
  "checkpoint_authority E run_id pinned_kernel_signer v =
     (case ev_payload (ve_event v) of
        Payload_TapeCheckpointV1 p \<Rightarrow>
          if ve_verification v \<noteq> Signature_Verified
          then Inl (CheckpointNotVerified (event_ref E v) (ve_verification v))
          else (case ve_signature v of
            None \<Rightarrow> Inl (CheckpointSignatureMissing (event_ref E v))
          | Some s \<Rightarrow>
              if es_signer s \<noteq> pinned_kernel_signer
              then Inl (CheckpointSignerUnauthorized (event_ref E v))
              else if tc_run_id p \<noteq> ev_run_id (ve_event v) \<or> uuid_to_string E (tc_run_id p) \<noteq> run_id
              then Inl (CheckpointRunMismatch (event_ref E v))
              else if tc_algorithm p \<noteq> Root_Sha256Linear
              then Inl (UnsupportedRootAlgorithm (event_ref E v) (tc_algorithm p))
              else if ev_parent_event_id (ve_event v) \<noteq> Some (tc_through_event_id p)
              then Inl (UnanchoredCheckpoint (event_ref E v) (uuid_to_string E (tc_through_event_id p)))
              else Inr (p, s))
      | _ \<Rightarrow> Inl (MalformedCheckpoint (event_ref E v)))"

definition checkpoint_close ::
  "env \<Rightarrow> (EventId \<times> string) list \<Rightarrow> nat \<Rightarrow> VerifiedEvent \<Rightarrow> TapeCheckpointV1 \<Rightarrow> EventSignatureV1 \<Rightarrow> nat \<Rightarrow>
   checkpoint_walk \<Rightarrow> (TapeIntegrityError, checkpoint_walk) result" where
  "checkpoint_close E ordinary position v p s through_position cw =
     (let rolling_root = roll_to ordinary through_position (cw_rolling_root cw);
          expected_predecessor = map_option fst (cw_previous cw) in
      if tc_tape_root_hash p \<noteq> hasher_root E rolling_root
      then Inl (TapeRootMismatch (event_ref E v))
      else if tc_checkpoint_index p \<noteq> of_nat position
      then Inl (CheckpointIndexMismatch (event_ref E v) (of_nat position) (tc_checkpoint_index p))
      else if tc_previous_checkpoint_event_id p \<noteq> expected_predecessor
      then Inl (CheckpointPredecessorMismatch (event_ref E v)
             (map_option (uuid_to_string E) expected_predecessor)
             (map_option (uuid_to_string E) (tc_previous_checkpoint_event_id p)))
      else Inr \<lparr>cw_previous = Some (ev_id (ve_event v), through_position),
                cw_latest = Some (v, p, s, through_position),
                cw_rolling_root = rolling_root\<rparr>)"

definition checkpoint_step ::
  "env \<Rightarrow> string \<Rightarrow> ActorKeyRef \<Rightarrow> (EventId \<times> string) list \<Rightarrow> nat \<Rightarrow> VerifiedEvent \<Rightarrow> checkpoint_walk \<Rightarrow>
   (TapeIntegrityError, checkpoint_walk) result" where
  "checkpoint_step E run_id pinned_kernel_signer ordinary position v cw =
     and_then (checkpoint_authority E run_id pinned_kernel_signer v) (\<lambda>(p, s).
     case position_of (tc_through_event_id p) ordinary of
       None \<Rightarrow> Inl (ThroughEventMissing (event_ref E v) (uuid_to_string E (tc_through_event_id p)))
     | Some through_position \<Rightarrow>
         let covered_count = of_nat (through_position + 1) in
         if tc_through_event_count p \<noteq> covered_count
         then Inl (CoverageCountMismatch (event_ref E v) (tc_through_event_count p) covered_count)
         else case cw_previous cw of
           Some (previous_id, previous_through_position) \<Rightarrow>
             if through_position \<le> previous_through_position
             then Inl (CheckpointCoverageNotAdvanced (event_ref E v) (uuid_to_string E previous_id))
             else checkpoint_close E ordinary position v p s through_position cw
         | None \<Rightarrow> checkpoint_close E ordinary position v p s through_position cw)"

fun checkpoint_walk_from ::
  "env \<Rightarrow> string \<Rightarrow> ActorKeyRef \<Rightarrow> (EventId \<times> string) list \<Rightarrow> nat \<Rightarrow> VerifiedEvent list \<Rightarrow> checkpoint_walk \<Rightarrow>
   (TapeIntegrityError, checkpoint_walk) result" where
  "checkpoint_walk_from E run_id pinned_kernel_signer ordinary position [] cw = Inr cw"
| "checkpoint_walk_from E run_id pinned_kernel_signer ordinary position (v # rest) cw =
     and_then (checkpoint_step E run_id pinned_kernel_signer ordinary position v cw)
       (checkpoint_walk_from E run_id pinned_kernel_signer ordinary (Suc position) rest)"

definition walk_start :: checkpoint_walk where
  "walk_start = \<lparr>cw_previous = None, cw_latest = None, cw_rolling_root = empty_hasher\<rparr>"

definition integrity_report ::
  "env \<Rightarrow> (EventId \<times> string) list \<Rightarrow> checkpoint_walk \<Rightarrow> (TapeIntegrityError, TapeIntegrityReportV1) result" where
  "integrity_report E ordinary cw =
     (case cw_latest cw of
        None \<Rightarrow> Inl MissingCheckpoint
      | Some (v, p, s, through_position) \<Rightarrow>
          if through_position + 1 < length ordinary
          then Inl (UncheckpointedSignedTail (event_ref E v)
                 (uuid_to_string E (fst (ordinary ! (through_position + 1)))))
          else Inr \<lparr>tir_schema_version = 1, tir_checkpoint_event_ref = event_ref E v,
                    tir_checkpoint_event_digest = es_canonical_event_hash s,
                    tir_through_event_ref = uuid_to_string E (tc_through_event_id p),
                    tir_signed_non_checkpoint_event_count = of_nat (through_position + 1),
                    tir_tape_root_hash = tc_tape_root_hash p, tir_algorithm = tc_algorithm p\<rparr>)"

definition verify_full_tape_integrity_v1 ::
  "env \<Rightarrow> VerifiedEvent list \<Rightarrow> string \<Rightarrow> ActorKeyRef \<Rightarrow> (TapeIntegrityError, TapeIntegrityReportV1) result" where
  "verify_full_tape_integrity_v1 E events run_id pinned_kernel_signer =
     and_then (check_tape_order E events) (\<lambda>_.
     and_then (check_run E run_id events) (\<lambda>_.
     and_then (signed_ordinary E events) (\<lambda>ordinary.
       let checkpoints = filter is_checkpoint events in
       if checkpoints = [] then Inl MissingCheckpoint
       else and_then (checkpoint_walk_from E run_id pinned_kernel_signer ordinary 0 checkpoints walk_start)
              (integrity_report E ordinary))))"

end
