(* ===== verification/Tape_Evidence.thy ===== *)
theory Tape_Evidence
  imports Tape_Integrity
begin

text \<open>
  What a verified signature and a tape-integrity report establish: the event and the key a verified
  signature binds, the all-or-error bounded read, and the coverage of the root a report carries.
\<close>

subsection \<open>Signatures\<close>

text \<open>
  The documented behaviour of the cryptographic crates that signing relies on: keys are 32 and
  signatures 64 bytes long, a signature verifies under the key of its signer, and base64 decodes
  what it encoded.
\<close>

definition crypto_documented :: "crypto \<Rightarrow> bool" where
  "crypto_documented C \<longleftrightarrow>
     (\<forall>k. length (verifying_key C k) = 32 \<and> is_verifying_key C (verifying_key C k))
     \<and> (\<forall>k m. length (ed25519_sign C k m) = 64 \<and> ed25519_verify C (verifying_key C k) m (ed25519_sign C k m))
     \<and> (\<forall>b. base64_decode C (base64_encode C b) = Some b)"

lemma public_key_for_insert [simp]:
  "public_key_for (insert_public_key h k keys) (signer\<lparr>akr_public_key_hash := Some h\<rparr>) = Some k"
  by (simp add: public_key_for_def insert_public_key_def)

lemma verified_with_key_iff:
  "verify_with_key E C e s key = Signature_Verified \<longleftrightarrow>
     length key = 32 \<and> is_verifying_key C key
     \<and> (\<forall>h. akr_public_key_hash (es_signer s) = Some h \<longrightarrow> h = public_key_hash E key)
     \<and> (\<exists>bytes message. base64_decode C (es_signature s) = Some bytes \<and> length bytes = 64
           \<and> canonical_event_bytes E e = Inr message \<and> ed25519_verify C key message bytes)"
  by (auto simp: verify_with_key_def split: option.splits sum.splits)

lemma verified_iff:
  "verify_event_signature E C e s keys = Signature_Verified \<longleftrightarrow>
     es_event_id s = ev_id e \<and> canonical_event_hash E e = Inr (es_canonical_event_hash s)
     \<and> (\<exists>key. public_key_for keys (es_signer s) = Some key \<and> verify_with_key E C e s key = Signature_Verified)"
  by (auto simp: verify_event_signature_def split: option.splits sum.splits)

lemma sign_event_verifies:
  assumes "crypto_documented C" and "sign_event E C e k signer t = Inr s"
  shows "verify_event_signature E C e s
    (insert_public_key (public_key_hash E (verifying_key C k)) (verifying_key C k) keys) = Signature_Verified"
  using assms by (auto simp: sign_event_def verified_iff verified_with_key_iff crypto_documented_def)

subsection \<open>The bounded read\<close>

lemma bounded_read:
  "all_with_verification_bounded E C keys n tape =
     (if 2 ^ 63 \<le> n + 1 then Inl Reader_InvalidEventLimit
      else if n < length tape then Inl (Reader_EventLimitExceeded n)
      else all_with_verification E C keys tape)"
  by (simp add: all_with_verification_bounded_def all_with_verification_def
      all_with_verification_limit_def stored_rows_with_signatures_def)

text \<open>A verified tape pairs every row with its own event and the outcome of its own signature row.\<close>

definition reads_row :: "env \<Rightarrow> crypto \<Rightarrow> TrustedPublicKeys \<Rightarrow> stored_row \<Rightarrow> VerifiedEvent \<Rightarrow> bool" where
  "reads_row E C keys row v \<longleftrightarrow>
     fst row = Inr (ve_event v)
     \<and> verify_stored_signature E C (ve_event v) (snd row) keys = Inr (ve_verification v, ve_signature v)"

lemma verified_rows_iff: "verified_rows E C keys rows = Inr vs \<longleftrightarrow> list_all2 (reads_row E C keys) rows vs"
proof (induction rows arbitrary: vs)
  case Nil
  then show ?case by auto
next
  case (Cons row rows)
  obtain decoded signature_row where row: "row = (decoded, signature_row)" by (cases row)
  show ?case
    by (cases vs) (auto simp: row Cons list_all2_Cons1 reads_row_def)
qed

lemma stored_verified:
  "verify_stored_signature E C e row keys = Inr (Signature_Verified, sg) \<Longrightarrow>
     \<exists>s. sg = Some s \<and> verify_event_signature E C e s keys = Signature_Verified"
  by (auto simp: verify_stored_signature_def split: option.splits if_splits)

subsection \<open>Tape order and signed events\<close>

lemma check_tape_order_iff:
  "check_tape_order E events = Inr () \<longleftrightarrow> sorted_wrt (<) (map (ev_id \<circ> ve_event) events)"
proof (induction E events rule: check_tape_order.induct)
  case (1 E a b rest)
  then show ?case by (auto simp: not_le intro: order.strict_trans)
qed simp_all

lemma check_run_iff:
  "check_run E run_id events = Inr () \<longleftrightarrow> (\<forall>v \<in> set events. uuid_to_string E (ev_run_id (ve_event v)) = run_id)"
  by (induction events) auto

definition signed_events :: "VerifiedEvent list \<Rightarrow> VerifiedEvent list" where
  "signed_events events = filter (\<lambda>v. \<not> is_checkpoint v \<and> ve_verification v \<noteq> Signature_Unsigned) events"

definition stored_hash :: "VerifiedEvent \<Rightarrow> string" where
  "stored_hash v = (case ve_signature v of None \<Rightarrow> [] | Some s \<Rightarrow> es_canonical_event_hash s)"

lemma signed_ordinary_iff:
  "signed_ordinary E events = Inr ordinary \<longleftrightarrow>
     (\<forall>v \<in> set (signed_events events). ve_verification v = Signature_Verified \<and> ve_signature v \<noteq> None)
     \<and> ordinary = map (\<lambda>v. (ev_id (ve_event v), stored_hash v)) (signed_events events)"
  by (induction events arbitrary: ordinary) (auto simp: signed_events_def stored_hash_def split: option.splits)

lemma position_of_Some: "position_of i xs = Some n \<Longrightarrow> n < length xs \<and> fst (xs ! n) = i"
  by (induction i xs arbitrary: n rule: position_of.induct) (auto split: if_splits)

subsection \<open>The rolling root\<close>

text \<open>The hasher has consumed a prefix of the signed hashes, joined as the root contract joins them.\<close>

definition hasher_ok :: "(EventId \<times> string) list \<Rightarrow> TapeRootHasher \<Rightarrow> bool" where
  "hasher_ok ordinary h \<longleftrightarrow>
     trh_count h \<le> length ordinary
     \<and> trh_hasher h = join_with [newline] (take (trh_count h) (map snd ordinary))"

lemma hasher_ok_empty [simp]: "hasher_ok ordinary empty_hasher"
  by (simp add: hasher_ok_def empty_hasher_def)

lemma join_with_snoc: "join_with d (ws @ [w]) = (if ws = [] then w else join_with d ws @ d @ w)"
  by (induction ws rule: induct_list012) simp_all

lemma hasher_ok_push:
  assumes "hasher_ok ordinary h" "trh_count h < length ordinary"
  shows "hasher_ok ordinary (hasher_push (snd (ordinary ! trh_count h)) h)"
  using assms by (auto simp: hasher_ok_def hasher_push_def take_Suc_conv_app_nth join_with_snoc)

lemma roll_to_ok:
  assumes "hasher_ok ordinary h" "n < length ordinary"
  shows "hasher_ok ordinary (roll_to ordinary n h) \<and> trh_count (roll_to ordinary n h) = max (trh_count h) (Suc n)"
  using assms
proof (induction ordinary n h rule: roll_to.induct)
  case (1 ordinary n h)
  show ?case
  proof (cases "trh_count h \<le> n")
    case True
    with 1 have "hasher_ok ordinary (hasher_push (snd (ordinary ! trh_count h)) h)"
      by (intro hasher_ok_push) simp_all
    with 1(1) [OF True] 1(3) True show ?thesis
      by (subst (1 2) roll_to.simps) (auto simp: hasher_push_def)
  next
    case False
    with 1(2) show ?thesis by (simp add: roll_to.simps [of ordinary n h])
  qed
qed

lemma hasher_root_ok:
  "hasher_ok ordinary h \<Longrightarrow> hasher_root E h = tape_root_hash E (take (trh_count h) (map snd ordinary))"
  by (simp add: hasher_ok_def hasher_root_def tape_root_hash_def)

subsection \<open>The checkpoint chain\<close>

definition checkpoint_holds ::
  "env \<Rightarrow> ActorKeyRef \<Rightarrow> (EventId \<times> string) list \<Rightarrow> VerifiedEvent \<Rightarrow> TapeCheckpointV1 \<Rightarrow> EventSignatureV1 \<Rightarrow> nat \<Rightarrow> bool" where
  "checkpoint_holds E pinned ordinary v p s through \<longleftrightarrow>
     ev_payload (ve_event v) = Payload_TapeCheckpointV1 p \<and> ve_verification v = Signature_Verified
     \<and> ve_signature v = Some s \<and> es_signer s = pinned \<and> tc_algorithm p = Root_Sha256Linear
     \<and> through < length ordinary \<and> fst (ordinary ! through) = tc_through_event_id p
     \<and> tc_through_event_count p = of_nat (Suc through)
     \<and> tc_tape_root_hash p = tape_root_hash E (take (Suc through) (map snd ordinary))"

definition walk_ok ::
  "env \<Rightarrow> ActorKeyRef \<Rightarrow> (EventId \<times> string) list \<Rightarrow> VerifiedEvent list \<Rightarrow> checkpoint_walk \<Rightarrow> bool" where
  "walk_ok E pinned ordinary seen cw \<longleftrightarrow>
     hasher_ok ordinary (cw_rolling_root cw) \<and>
     (case cw_latest cw of
        None \<Rightarrow> trh_count (cw_rolling_root cw) = 0 \<and> cw_previous cw = None
      | Some (v, p, s, through) \<Rightarrow>
          trh_count (cw_rolling_root cw) = Suc through \<and> cw_previous cw = Some (ev_id (ve_event v), through)
          \<and> v \<in> set seen \<and> checkpoint_holds E pinned ordinary v p s through)"

lemma walk_ok_start [simp]: "walk_ok E pinned ordinary seen walk_start"
  by (simp add: walk_ok_def walk_start_def empty_hasher_def hasher_ok_def)

lemma checkpoint_authority_iff:
  "checkpoint_authority E run_id pinned v = Inr (p, s) \<longleftrightarrow>
     ev_payload (ve_event v) = Payload_TapeCheckpointV1 p \<and> ve_verification v = Signature_Verified
     \<and> ve_signature v = Some s \<and> es_signer s = pinned
     \<and> tc_run_id p = ev_run_id (ve_event v) \<and> uuid_to_string E (tc_run_id p) = run_id
     \<and> tc_algorithm p = Root_Sha256Linear \<and> ev_parent_event_id (ve_event v) = Some (tc_through_event_id p)"
  by (auto simp: checkpoint_authority_def split: Payload.splits option.splits)

lemma checkpoint_step_ok:
  assumes ok: "walk_ok E pinned ordinary seen cw"
    and step: "checkpoint_step E run_id pinned ordinary position v cw = Inr cw'"
  shows "walk_ok E pinned ordinary (seen @ [v]) cw' \<and> cw_latest cw' \<noteq> None"
proof -
  obtain p s where p: "checkpoint_authority E run_id pinned v = Inr (p, s)"
    using step by (auto simp: checkpoint_step_def)
  obtain through where t: "position_of (tc_through_event_id p) ordinary = Some through"
    using step p by (cases "position_of (tc_through_event_id p) ordinary") (simp_all add: checkpoint_step_def)
  have count: "tc_through_event_count p = of_nat (Suc through)"
    and ahead: "\<And>i m. cw_previous cw = Some (i, m) \<Longrightarrow> m < through"
    and close: "checkpoint_close E ordinary position v p s through cw = Inr cw'"
    using step p t by (auto simp: checkpoint_step_def Let_def split: if_splits option.splits)
  let ?root = "roll_to ordinary through (cw_rolling_root cw)"
  have lt: "through < length ordinary" "fst (ordinary ! through) = tc_through_event_id p"
    using position_of_Some [OF t] by simp_all
  have "trh_count (cw_rolling_root cw) \<le> Suc through"
    using ok ahead by (fastforce simp: walk_ok_def split: option.splits)
  then have root: "hasher_ok ordinary ?root" "trh_count ?root = Suc through"
    using roll_to_ok [of ordinary "cw_rolling_root cw" through] ok lt by (auto simp: walk_ok_def)
  with p lt count close show ?thesis
    by (auto simp: walk_ok_def checkpoint_close_def checkpoint_holds_def checkpoint_authority_iff Let_def
        hasher_root_ok split: if_splits)
qed

lemma walk_ok_mono: "walk_ok E pinned ordinary seen cw \<Longrightarrow> walk_ok E pinned ordinary (seen @ more_seen) cw"
  by (auto simp: walk_ok_def split: option.splits)

lemma checkpoint_walk_ok:
  assumes "walk_ok E pinned ordinary seen cw"
    and "checkpoint_walk_from E run_id pinned ordinary position vs cw = Inr cw'"
  shows "walk_ok E pinned ordinary (seen @ vs) cw'"
  using assms
proof (induction vs arbitrary: seen position cw)
  case (Cons v vs)
  then obtain cw1 where "checkpoint_step E run_id pinned ordinary position v cw = Inr cw1"
    "checkpoint_walk_from E run_id pinned ordinary (Suc position) vs cw1 = Inr cw'" by auto
  with Cons.IH [of "seen @ [v]" cw1] checkpoint_step_ok [OF Cons.prems(1)] show ?case by simp
qed simp

lemma integrity_report_iff:
  "integrity_report E ordinary cw = Inr r \<longleftrightarrow>
     (\<exists>v p s through. cw_latest cw = Some (v, p, s, through) \<and> length ordinary \<le> Suc through
        \<and> r = \<lparr>tir_schema_version = 1, tir_checkpoint_event_ref = event_ref E v,
               tir_checkpoint_event_digest = es_canonical_event_hash s,
               tir_through_event_ref = uuid_to_string E (tc_through_event_id p),
               tir_signed_non_checkpoint_event_count = of_nat (through + 1),
               tir_tape_root_hash = tc_tape_root_hash p, tir_algorithm = tc_algorithm p\<rparr>)"
  by (auto simp: integrity_report_def split: option.splits)

text \<open>A report names a pinned, verified checkpoint whose root covers every signed ordinary event.\<close>

lemma integrity_covers:
  assumes "verify_full_tape_integrity_v1 E events run_id pinned = Inr r"
  shows "\<exists>v \<in> set events. is_checkpoint v \<and> ve_verification v = Signature_Verified
      \<and> map_option es_signer (ve_signature v) = Some pinned \<and> tir_checkpoint_event_ref r = event_ref E v"
    and "tir_tape_root_hash r = tape_root_hash E (map stored_hash (signed_events events))"
    and "tir_signed_non_checkpoint_event_count r = of_nat (length (signed_events events))"
proof -
  let ?ordinary = "map (\<lambda>v. (ev_id (ve_event v), stored_hash v)) (signed_events events)"
  obtain cw where walk: "checkpoint_walk_from E run_id pinned ?ordinary 0 (filter is_checkpoint events) walk_start = Inr cw"
    and report: "integrity_report E ?ordinary cw = Inr r"
    using assms by (auto simp: verify_full_tape_integrity_v1_def Let_def signed_ordinary_iff split: if_splits)
  have ok: "walk_ok E pinned ?ordinary ([] @ filter is_checkpoint events) cw"
    by (rule checkpoint_walk_ok [OF walk_ok_start walk])
  obtain v p s through where latest: "cw_latest cw = Some (v, p, s, through)"
    and all: "length ?ordinary \<le> Suc through"
    and r: "tir_checkpoint_event_ref r = event_ref E v" "tir_tape_root_hash r = tc_tape_root_hash p"
      "tir_signed_non_checkpoint_event_count r = of_nat (through + 1)"
    using report by (auto simp: integrity_report_iff)
  have cp: "v \<in> set (filter is_checkpoint events)" "checkpoint_holds E pinned ?ordinary v p s through"
    using ok latest by (simp_all add: walk_ok_def)
  then have len: "Suc through = length (signed_events events)"
    using all by (simp add: checkpoint_holds_def)
  show "\<exists>v \<in> set events. is_checkpoint v \<and> ve_verification v = Signature_Verified
      \<and> map_option es_signer (ve_signature v) = Some pinned \<and> tir_checkpoint_event_ref r = event_ref E v"
    using cp r by (auto simp: checkpoint_holds_def)
  show "tir_tape_root_hash r = tape_root_hash E (map stored_hash (signed_events events))"
    using cp(2) r len by (simp add: checkpoint_holds_def comp_def)
  show "tir_signed_non_checkpoint_event_count r = of_nat (length (signed_events events))"
    using r len by simp
qed

subsection \<open>The root determines the hashes\<close>

lemma split_on_no_sep: "d \<notin> set w \<Longrightarrow> split_on d (w @ d # s) = w # split_on d s"
  by (induction w) auto

lemma split_on_none: "d \<notin> set w \<Longrightarrow> split_on d w = [w]"
  by (induction w) auto

lemma split_join_with: "ws \<noteq> [] \<Longrightarrow> \<forall>w \<in> set ws. d \<notin> set w \<Longrightarrow> split_on d (join_with [d] ws) = ws"
  by (induction ws rule: induct_list012) (auto simp: split_on_none split_on_no_sep)

lemma join_with_eq:
  assumes "xs \<noteq> []" "ys \<noteq> []" "\<forall>h \<in> set xs \<union> set ys. d \<notin> set h" "join_with [d] xs = join_with [d] ys"
  shows "xs = ys"
  using assms split_join_with [of _ d] by (metis UnCI)

text \<open>
  The inputs a tape puts through SHA-256 on the way to its root: the canonical bytes of its signed
  events, and the joined text of their stored hashes.
\<close>

definition hashed_inputs :: "env \<Rightarrow> VerifiedEvent list \<Rightarrow> string set" where
  "hashed_inputs E events =
     insert (join_with [newline] (map stored_hash (signed_events events)))
       {bytes. \<exists>v \<in> set (signed_events events). canonical_event_bytes E (ve_event v) = Inr bytes}"

definition sha256_collision :: "env \<Rightarrow> string set \<Rightarrow> string set \<Rightarrow> bool" where
  "sha256_collision E A B \<longleftrightarrow> (\<exists>x \<in> A. \<exists>y \<in> B. x \<noteq> y \<and> sha256_hex E x = sha256_hex E y)"

text \<open>A verified event of a read stores the hash of its own canonical bytes.\<close>

lemma read_stored_hash:
  assumes "all_with_verification E C keys tape = Inr events"
    and "verify_full_tape_integrity_v1 E events run_id pinned = Inr r" "v \<in> set (signed_events events)"
  shows "\<exists>bytes. canonical_event_bytes E (ve_event v) = Inr bytes \<and> stored_hash v = ''sha256:'' @ sha256_hex E bytes"
proof -
  have "list_all2 (reads_row E C keys) tape events"
    using assms(1) by (simp add: all_with_verification_def all_with_verification_limit_def
        stored_rows_with_signatures_def verified_rows_iff)
  moreover have "v \<in> set events" using assms(3) by (simp add: signed_events_def)
  ultimately obtain row where "reads_row E C keys row v" by (metis list_all2_conv_all_nth in_set_conv_nth)
  moreover have "ve_verification v = Signature_Verified"
    using assms(2,3) by (auto simp: verify_full_tape_integrity_v1_def signed_ordinary_iff)
  ultimately obtain s where "ve_signature v = Some s" "verify_event_signature E C (ve_event v) s keys = Signature_Verified"
    using stored_verified by (fastforce simp: reads_row_def)
  then have "canonical_event_hash E (ve_event v) = Inr (stored_hash v)" by (simp add: verified_iff stored_hash_def)
  then show ?thesis by (auto simp: canonical_event_hash_def)
qed

lemma report_signed_events:
  assumes "verify_full_tape_integrity_v1 E events run_id pinned = Inr r"
  shows "signed_events events \<noteq> []"
proof -
  let ?ordinary = "map (\<lambda>v. (ev_id (ve_event v), stored_hash v)) (signed_events events)"
  obtain cw where walk: "checkpoint_walk_from E run_id pinned ?ordinary 0 (filter is_checkpoint events) walk_start = Inr cw"
    and report: "integrity_report E ?ordinary cw = Inr r"
    using assms by (auto simp: verify_full_tape_integrity_v1_def Let_def signed_ordinary_iff split: if_splits)
  have "walk_ok E pinned ?ordinary ([] @ filter is_checkpoint events) cw"
    by (rule checkpoint_walk_ok [OF walk_ok_start walk])
  with report show ?thesis by (auto simp: integrity_report_iff walk_ok_def checkpoint_holds_def)
qed

lemma equal_hashes_equal_bytes:
  assumes "map stored_hash xs = map stored_hash ys"
    and "\<And>v. v \<in> set xs \<union> set ys \<Longrightarrow>
      \<exists>bytes. canonical_event_bytes E (ve_event v) = Inr bytes \<and> stored_hash v = ''sha256:'' @ sha256_hex E bytes"
    and "\<And>v v' x y. v \<in> set xs \<Longrightarrow> v' \<in> set ys \<Longrightarrow> canonical_event_bytes E (ve_event v) = Inr x \<Longrightarrow>
      canonical_event_bytes E (ve_event v') = Inr y \<Longrightarrow> sha256_hex E x = sha256_hex E y \<Longrightarrow> x = y"
  shows "map (canonical_event_bytes E \<circ> ve_event) xs = map (canonical_event_bytes E \<circ> ve_event) ys"
proof (rule nth_equalityI)
  show len: "length (map (canonical_event_bytes E \<circ> ve_event) xs) = length (map (canonical_event_bytes E \<circ> ve_event) ys)"
    using map_eq_imp_length_eq [OF assms(1)] by simp
  fix i assume "i < length (map (canonical_event_bytes E \<circ> ve_event) xs)"
  then have i: "i < length xs" "i < length ys" using len by simp_all
  then have eq: "stored_hash (xs ! i) = stored_hash (ys ! i)" using assms(1) by (metis nth_map)
  obtain x y where x: "canonical_event_bytes E (ve_event (xs ! i)) = Inr x" "stored_hash (xs ! i) = ''sha256:'' @ sha256_hex E x"
    and y: "canonical_event_bytes E (ve_event (ys ! i)) = Inr y" "stored_hash (ys ! i) = ''sha256:'' @ sha256_hex E y"
    using assms(2) i by (meson UnCI nth_mem)
  with assms(3) [OF nth_mem [OF i(1)] nth_mem [OF i(2)] x(1) y(1)] eq have "x = y" by simp
  with x(1) y(1) i show "map (canonical_event_bytes E \<circ> ve_event) xs ! i = map (canonical_event_bytes E \<circ> ve_event) ys ! i"
    by simp
qed

lemma hex_no_newline: "list_all is_lower_hex s \<Longrightarrow> newline \<notin> set s"
  by (auto simp: list_all_iff newline_def is_lower_hex_def is_ascii_digit_def)

lemma tape_root_binds:
  assumes hex: "\<forall>s. list_all is_lower_hex (sha256_hex E s)"
    and read: "all_with_verification E C keys tape = Inr events" "verify_full_tape_integrity_v1 E events run_id pinned = Inr r"
    and read': "all_with_verification E C' keys' tape' = Inr events'"
      "verify_full_tape_integrity_v1 E events' run_id' pinned' = Inr r'"
    and root: "tir_tape_root_hash r = tir_tape_root_hash r'"
    and distinct: "\<not> sha256_collision E (hashed_inputs E events) (hashed_inputs E events')"
  shows "map (canonical_event_bytes E \<circ> ve_event) (signed_events events) =
    map (canonical_event_bytes E \<circ> ve_event) (signed_events events')"
proof (rule equal_hashes_equal_bytes)
  let ?hs = "map stored_hash (signed_events events)" and ?hs' = "map stored_hash (signed_events events')"
  have "tape_root_hash E ?hs = tape_root_hash E ?hs'"
    using root integrity_covers(2) [OF read(2)] integrity_covers(2) [OF read'(2)] by simp
  then have "join_with [newline] ?hs = join_with [newline] ?hs'"
    using distinct by (auto simp: tape_root_hash_def sha256_collision_def hashed_inputs_def)
  moreover have "\<forall>h \<in> set ?hs \<union> set ?hs'. newline \<notin> set h"
    using read_stored_hash [OF read] read_stored_hash [OF read'] hex_no_newline [OF hex [rule_format]]
    by (fastforce simp: newline_def)
  ultimately show "?hs = ?hs'"
    using report_signed_events [OF read(2)] report_signed_events [OF read'(2)] by (intro join_with_eq) auto
next
  fix v assume "v \<in> set (signed_events events) \<union> set (signed_events events')"
  then show "\<exists>bytes. canonical_event_bytes E (ve_event v) = Inr bytes \<and> stored_hash v = ''sha256:'' @ sha256_hex E bytes"
    using read_stored_hash [OF read] read_stored_hash [OF read'] by blast
next
  fix v v' x y
  assume "v \<in> set (signed_events events)" "v' \<in> set (signed_events events')"
    "canonical_event_bytes E (ve_event v) = Inr x" "canonical_event_bytes E (ve_event v') = Inr y"
    "sha256_hex E x = sha256_hex E y"
  then show "x = y" using distinct by (auto simp: sha256_collision_def hashed_inputs_def)
qed

end
