(* ===== verification/Replay_Guarantees.thy ===== *)
theory Replay_Guarantees
  imports Lifecycle_Invariant Engine_Authority Tape_Evidence
begin

text \<open>
  The facts about replayed tapes that the properties rest on: what the invariant gives for a stored
  workflow, what a longer tape keeps of a shorter one, and how an opened engine relates to the rows
  it was opened on.
\<close>

subsection \<open>Stored workflows\<close>

lemma reduce_tape_wf: "wf_state (reduce_tape E tape)"
  unfolding reduce_tape_def by (rule reducer.reached_inv)

lemma reduce_tape_grows: "state_grows (reduce_tape E xs) (reduce_tape E (xs @ ys))"
  unfolding reduce_tape_def by (rule reducer.prefix_grows)

lemma stored_wf: "stored (reduce_tape E tape) k = Some w \<Longrightarrow> wf_workflow w \<and> k = instance_key w"
  using reduce_tape_wf [of E tape] by (simp add: wf_state_def keys_ok_def)

lemma stored_later:
  assumes "stored (reduce_tape E xs) k = Some w"
  obtains w' where "stored (reduce_tape E (xs @ ys)) k = Some w'" "workflow_extends w w'"
    "phase_advances (wi_phase w) (wi_phase w')"
  using assms reduce_tape_grows [of E xs ys] by (auto simp: state_grows_def state_extends_def)

lemma stored_timers:
  "stored (reduce_tape E tape) k = Some w \<Longrightarrow> timers_ok E w"
  using deadlines.reached_inv [of E tape] by (simp add: reduce_tape_def deadlines_ok_def)

subsection \<open>Promotion evidence\<close>

definition approved_review :: "WorkflowInstanceV1 \<Rightarrow> CandidateArtifactReplayState \<Rightarrow> string \<Rightarrow> bool" where
  "approved_review w c ref \<longleftrightarrow>
     (\<exists>v. bt_get (wi_reviews w) ref = Some v \<and> rv_decision v = Review_Approve
        \<and> rv_candidate_digest v = cand_candidate_digest c
        \<and> rv_candidate_commit_sha v = cand_candidate_commit_sha c)"

text \<open>
  A recorded merge is bound to the candidate when its git binding names the decided target ref and
  shows the target moving from the decided base to a merge commit whose two parents are that base and
  the candidate commit, with the candidate's tree and the receipt ref of the candidate. A decision
  without a target ref is the historical path: it carries no binding, so nothing ties its merged head
  to the candidate, and it is closed to a sealed candidate.
\<close>

definition merge_binds_candidate ::
  "CandidateArtifactReplayState \<Rightarrow> PromotionDecisionReplayState \<Rightarrow> string \<Rightarrow> string \<Rightarrow> PromotionGitBindingV1 \<Rightarrow> bool" where
  "merge_binds_candidate c d target_ref merged_head b \<longleftrightarrow>
     pgb_target_ref b = target_ref \<and> is_canonical_target_ref target_ref
     \<and> pgb_target_head_before_sha b = cand_base_commit_sha c
     \<and> pgb_target_head_before_sha b = pd_base_commit_sha d
     \<and> pgb_target_head_after_sha b = Some merged_head \<and> pgb_merged_head_sha b = Some merged_head
     \<and> pgb_candidate_commit_sha b = cand_candidate_commit_sha c
     \<and> pgb_merge_parent_shas b = Some [cand_base_commit_sha c, cand_candidate_commit_sha c]
     \<and> pgb_merged_tree_digest b = cand_tree_digest c
     \<and> (\<exists>receipt. pgb_promotion_receipt_ref b = Some receipt
          \<and> promotion_receipt_ref_matches_candidate receipt (cand_candidate_ref c))"

definition merge_evidence ::
  "WorkflowInstanceV1 \<Rightarrow> CandidateArtifactReplayState \<Rightarrow> PromotionDecisionReplayState \<Rightarrow>
   PromotionResultReplayState \<Rightarrow> bool" where
  "merge_evidence w c d r \<longleftrightarrow>
     (\<exists>merged_head. pres_merged_head_sha r = Some merged_head \<and> is_canonical_git_object_id merged_head
        \<and> (case pd_target_ref d of
             Some target_ref \<Rightarrow>
               \<exists>b. pres_promotion_git_binding r = Some b \<and> merge_binds_candidate c d target_ref merged_head b
           | None \<Rightarrow> pres_promotion_git_binding r = None \<and> \<not> requires_candidate_completion w))"

lemma parents_pair: "length xs = 2 \<Longrightarrow> xs ! 0 = a \<Longrightarrow> xs ! 1 = b \<Longrightarrow> xs = [a, b]"
  by (cases xs; cases "tl xs") auto

lemma binding_matches:
  assumes "promotion_git_binding_matches_candidate w target_ref (pd_base_commit_sha d) merged_head [] True b"
    and "wi_candidate w = Some c"
  shows "merge_binds_candidate c d target_ref merged_head b"
  using assms
  by (auto simp: promotion_git_binding_matches_candidate_def merge_binds_candidate_def sync_state_matches_def
      dest: parents_pair split: option.splits PromotionWorktreeSyncStateV1.splits)

lemma bound_merge_evidence:
  assumes "promotion_result_has_bound_merge_evidence w pr (recorded_result r) [] True" "wi_candidate w = Some c"
  shows "merge_evidence w c (pr_decision pr) r"
  using assms binding_matches [OF _ assms(2), of _ "pr_decision pr"]
  by (auto simp: promotion_result_has_bound_merge_evidence_def merge_evidence_def recorded_result_def
      split: option.splits)

definition promotion_evidence :: "WorkflowInstanceV1 \<Rightarrow> bool" where
  "promotion_evidence w \<longleftrightarrow>
     (\<exists>c a pr r. wi_candidate w = Some c \<and> wi_acceptance w = Some a
        \<and> wi_promotion w = Some pr \<and> pr_result pr = Some r
        \<and> ca_outcome a = Acceptance_Passed \<and> ca_candidate_digest a = cand_candidate_digest c
        \<and> ca_candidate_commit_sha a = cand_candidate_commit_sha c
        \<and> pd_decision (pr_decision pr) = Decision_Promote
        \<and> binds_candidate_lineage c (pd_candidate_digest (pr_decision pr)) (pd_base_commit_sha (pr_decision pr))
             (pd_envelope_digest (pr_decision pr))
        \<and> pd_acceptance_ref (pr_decision pr) = ca_acceptance_ref a
        \<and> pd_review_refs (pr_decision pr) \<noteq> [] \<and> distinct (pd_review_refs (pr_decision pr))
        \<and> (\<forall>ref \<in> set (pd_review_refs (pr_decision pr)). approved_review w c ref)
        \<and> merge_evidence w c (pr_decision pr) r)"

lemma promoted_result:
  "wf_workflow w \<Longrightarrow> wi_phase w \<in> {Phase_Promoted, Phase_Completed} \<Longrightarrow>
     \<exists>pr r. wi_promotion w = Some pr \<and> pr_result pr = Some r \<and> pres_outcome r = PromotionResult_Promoted"
  by (auto simp: wf_workflow_def evidence_defs bind_eq_Some_conv)

lemma promoted_evidence:
  assumes "wf_workflow w" "wi_phase w \<in> {Phase_Promoted, Phase_Completed}"
  shows "promotion_evidence w"
proof -
  obtain pr r where pr: "wi_promotion w = Some pr" "pr_result pr = Some r"
    "pres_outcome r = PromotionResult_Promoted" using promoted_result [OF assms] by blast
  have ok: "acceptance_ok w" "reviews_ok w" "promotion_ok w" using assms(1) by (simp_all add: wf_workflow_def)
  have valid: "promotion_result_is_semantically_valid w pr (recorded_result r)"
    and bound: "decision_bound w (pr_decision pr)" using ok(3) pr by (auto simp: promotion_ok_def)
  have outcome: "prr_outcome (recorded_result r) = PromotionResult_Promoted"
    using pr(3) by (simp add: recorded_result_def)
  then have promote: "pd_decision (pr_decision pr) = Decision_Promote"
    and merge: "promotion_result_has_bound_merge_evidence w pr (recorded_result r) [] True"
    using valid by (auto simp: promotion_result_is_semantically_valid_def split: PromotionDecisionKindV1.splits)
  obtain c a where c: "wi_candidate w = Some c" "wi_acceptance w = Some a"
    "binds_candidate_lineage c (pd_candidate_digest (pr_decision pr)) (pd_base_commit_sha (pr_decision pr))
       (pd_envelope_digest (pr_decision pr))" "pd_acceptance_ref (pr_decision pr) = ca_acceptance_ref a"
    and refs: "pd_review_refs (pr_decision pr) \<noteq> []" "review_refs_are_approved w (pd_review_refs (pr_decision pr))"
    and "passed w"
    using bound promote by (auto simp: decision_bound_def)
  with ok(1) have a: "ca_outcome a = Acceptance_Passed" "ca_candidate_digest a = cand_candidate_digest c"
    "ca_candidate_commit_sha a = cand_candidate_commit_sha c" by (auto simp: acceptance_ok_def passed_def)
  have "distinct (pd_review_refs (pr_decision pr))
      \<and> (\<forall>ref \<in> set (pd_review_refs (pr_decision pr)). approved_review w c ref)"
    using refs(2) ok(2) c(1)
    by (auto simp: review_refs_are_approved_def distinct_refs_all_iff review_ref_ok_def approved_review_def
        reviews_ok_def split: option.splits)
  with pr c refs(1) a promote bound_merge_evidence [OF merge c(1)] show ?thesis
    unfolding promotion_evidence_def by blast
qed

subsection \<open>Candidate lookup\<close>

lemma filter_at_most_one:
  assumes "distinct (map fst xs)" and "\<And>a b. a \<in> set xs \<Longrightarrow> b \<in> set xs \<Longrightarrow> P a \<Longrightarrow> P b \<Longrightarrow> fst a = fst b"
  shows "length (filter P xs) \<le> 1"
  using assms
proof (induction xs)
  case (Cons x xs)
  show ?case
  proof (cases "P x")
    case True
    have "\<not> P y" if "y \<in> set xs" for y
      using Cons.prems(1) Cons.prems(2) [of x y] True that by auto
    then show ?thesis by (simp add: filter_empty_conv)
  next
    case False
    with Cons show ?thesis by auto
  qed
qed simp

lemma bound_candidates_same_key:
  assumes "wf_state st" "stored st j = Some v" "stored st k = Some w"
    and "candidate_bound E e d commit v" "candidate_bound E e d commit w"
  shows "j = k"
proof (rule ccontr)
  assume "j \<noteq> k"
  obtain b c where b: "wi_candidate v = Some b" "cand_candidate_digest b = d"
    and c: "wi_candidate w = Some c" "cand_candidate_digest c = d"
    using assms(4,5) by (auto simp: candidate_bound_def split: option.splits)
  have "candidate_fresh st k c" using assms(1,3) c(1) by (auto simp: wf_state_def candidates_unique_def)
  with \<open>j \<noteq> k\<close> assms(2) b c show False by (auto simp: candidate_fresh_def)
qed

lemma candidate_matches_unique:
  assumes "wf_state st"
  shows "length (filter (\<lambda>(_, w). candidate_bound E e d commit w) (bt_entries (st_workflow_instances st))) \<le> 1"
proof (rule filter_at_most_one)
  have inv: "bt_invar (st_workflow_instances st)" using assms by (simp add: wf_state_def)
  then show "distinct (map fst (bt_entries (st_workflow_instances st)))"
    by (simp add: bt_entries_def bt_invar_distinct)
  fix a b
  assume "a \<in> set (bt_entries (st_workflow_instances st))" "b \<in> set (bt_entries (st_workflow_instances st))"
    and hits: "case a of (_, w) \<Rightarrow> candidate_bound E e d commit w" "case b of (_, w) \<Rightarrow> candidate_bound E e d commit w"
  then have "stored st (fst a) = Some (snd a)" "stored st (fst b) = Some (snd b)"
    using inv by (simp_all add: bt_get_def bt_entries_def bt_invar_distinct)
  then show "fst a = fst b"
    by (rule bound_candidates_same_key [OF assms]) (use hits in \<open>simp_all add: case_prod_beta\<close>)
qed

lemma find_candidate_key_iff:
  assumes "wf_state st"
  shows "find_workflow_key_for_candidate E st e d commit = Inr k \<longleftrightarrow>
    (\<exists>w. stored st k = Some w \<and> candidate_bound E e d commit w)"
proof -
  let ?hits = "filter (\<lambda>(_, w). candidate_bound E e d commit w) (bt_entries (st_workflow_instances st))"
  have stored: "stored st k = Some w \<longleftrightarrow> (k, w) \<in> set (bt_entries (st_workflow_instances st))" for k w
    using assms by (simp add: wf_state_def bt_get_def bt_entries_def bt_invar_distinct)
  consider "?hits = []" | x where "?hits = [x]"
    using candidate_matches_unique [OF assms, of E e d commit] by (cases ?hits) auto
  then have "find_workflow_key_for_candidate E st e d commit = Inr k \<longleftrightarrow> (\<exists>w. (k, w) \<in> set ?hits)"
    by cases (auto simp: find_workflow_key_for_candidate_def)
  then show ?thesis by (auto simp: stored)
qed

subsection \<open>Opened engines\<close>

lemma limited_read:
  "all_with_verification_limit E C keys max_events tape = Inr vs \<Longrightarrow> list_all2 (reads_row E C keys) tape vs"
  by (auto simp: all_with_verification_limit_def stored_rows_with_signatures_def verified_rows_iff
      split: option.splits if_splits)

lemma opened_engine:
  assumes "open_with_trusted_authorities_limit E C auth max_events tape = Inr en"
  obtains vs where "list_all2 (reads_row E C (tra_trusted_keys auth)) tape vs"
    "en_state (replay_to_end E en) = engine_run E auth (authorized_governed_runs E vs auth) vs"
proof -
  obtain vs where "all_with_verification_limit E C (tra_trusted_keys auth) max_events tape = Inr vs"
    "en = engine_of E auth vs" using assms by (auto simp: open_with_trusted_authorities_limit_def)
  with that [of vs] limited_read show thesis using replay_to_end_of by blast
qed

text \<open>An event that verified on the tape is a row whose signature row verifies under a trusted key.\<close>

definition signed_row ::
  "env \<Rightarrow> crypto \<Rightarrow> TrustedReplayAuthorities \<Rightarrow> TrustSpineSignerRole \<Rightarrow> stored_row list \<Rightarrow> Event \<Rightarrow> ActorKeyRef \<Rightarrow> bool" where
  "signed_row E C auth role tape e signer \<longleftrightarrow>
     (\<exists>row s. (Inr e, Some row) \<in> set tape \<and> row_to_event_signature E C row = Inr s \<and> es_signer s = signer
        \<and> verify_event_signature E C e s (tra_trusted_keys auth) = Signature_Verified
        \<and> permits auth role signer \<and> payload_binds_signer (ev_payload e) signer = Inr ())"

lemma verified_row:
  assumes "verify_stored_signature E C e row keys = Inr (Signature_Verified, sg)"
  obtains r s where "row = Some r" "row_to_event_signature E C r = Inr s" "sg = Some s"
    "verify_event_signature E C e s keys = Signature_Verified"
  using assms by (auto simp: verify_stored_signature_def split: option.splits if_splits)

lemma carried_signed_row:
  assumes "list_all2 (reads_row E C (tra_trusted_keys auth)) tape vs" and "carried auth vs role P"
  shows "\<exists>e signer. signed_row E C auth role tape e signer \<and> P e"
proof -
  obtain v s where v: "v \<in> set vs" "ve_verification v = Signature_Verified" "ve_signature v = Some s"
    "permits auth role (es_signer s)" "payload_binds_signer (ev_payload (ve_event v)) (es_signer s) = Inr ()"
    "P (ve_event v)"
    using assms(2) by (auto simp: carried_def authorized_by_def)
  obtain x where x: "x \<in> set tape" "reads_row E C (tra_trusted_keys auth) x v"
    using assms(1) v(1) by (metis list_all2_conv_all_nth in_set_conv_nth)
  then obtain row where "x = (Inr (ve_event v), row)"
    "verify_stored_signature E C (ve_event v) row (tra_trusted_keys auth) = Inr (Signature_Verified, Some s)"
    using v(2,3) by (metis reads_row_def prod.collapse)
  with x v show ?thesis unfolding signed_row_def by (elim verified_row) blast
qed

lemma engine_stored_attested:
  assumes "open_with_trusted_authorities_limit E C auth max_events tape = Inr en"
    and "stored (en_state (replay_to_end E en)) k = Some w"
  obtains vs where "list_all2 (reads_row E C (tra_trusted_keys auth)) tape vs" "attested auth vs w"
proof -
  obtain vs where "list_all2 (reads_row E C (tra_trusted_keys auth)) tape vs"
    "en_state (replay_to_end E en) = engine_run E auth (authorized_governed_runs E vs auth) vs"
    using opened_engine [OF assms(1)] .
  with engine_run_attested [of auth vs E] assms(2) that show thesis by (auto simp: state_attested_def)
qed

lemma permits_none [simp]: "\<not> permits (new_authorities keys) role signer"
  by (simp add: permits_def new_authorities_def)

end
