(* ===== verification/Sample_Tapes.thy ===== *)
theory Sample_Tapes
  imports Replay_Guarantees "HOL-Library.Code_Target_Nat"
begin

text \<open>
  A concrete environment and concrete tapes: a workflow driven from its dispatch to its promotion and
  its terminal record, a sealed workflow cancelled by an elapsed timer, and a signed tape with a
  checkpoint. They show that the situations the properties speak of arise.
\<close>

definition sample_env :: env where
  "sample_env =
     \<lparr>uuid_to_string = (\<lambda>u. show_nat (unat u)), parse_from_rfc3339 = (\<lambda>s. Some (int (length s))),
      sha256_hex = (\<lambda>s. replicate 64 (CHR ''a'')), to_vec_event = (\<lambda>e. Inr ''event''),
      to_vec_dispatch_body_v2 = (\<lambda>b. Inr ''body''), to_vec_dispatch_v3_material = (\<lambda>m. Inr ''v3''),
      to_vec_graph_v1_material = (\<lambda>m. Inr ''graph''), to_vec_graph_v2_material = (\<lambda>m. Inr ''graph''),
      to_vec_promotion_claim_material = (\<lambda>c. Inr ''claim'')\<rparr>"

definition sample_digest :: "char \<Rightarrow> string" where
  "sample_digest c = ''sha256:'' @ replicate 64 c"

definition sample_sha :: "char \<Rightarrow> string" where
  "sample_sha c = replicate 40 c"

definition sample_event :: "uuid \<Rightarrow> uuid option \<Rightarrow> EventKind \<Rightarrow> instant \<Rightarrow> Payload \<Rightarrow> Event" where
  "sample_event i parent kind occurred payload =
     \<lparr>ev_id = i, ev_run_id = 1, ev_parent_event_id = parent, ev_schema_version = 1, ev_kind = kind,
      ev_occurred_at = occurred, ev_payload = payload\<rparr>"

definition sample_dispatch :: Event where
  "sample_dispatch = sample_event 1 None Kind_DispatchEnvelope 1 (Payload_DispatchEnvelopeV1
     \<lparr>de1_workflow_id = ''wf'', de1_workflow_revision = ''r1'', de1_unit_id = ''u'', de1_attempt = 1,
      de1_execution_role = Role_Implementer, de1_commit_mode = Commit_Atomic,
      de1_provenance_ref = ''prov'', de1_base_commit_sha = sample_sha (CHR ''1''),
      de1_capability_bundle_digest = sample_digest (CHR ''0''),
      de1_acceptance_contract_digest = sample_digest (CHR ''1''),
      de1_context_manifest_digest = sample_digest (CHR ''2''),
      de1_worker_manifest_digest = sample_digest (CHR ''3''),
      de1_sandbox_profile_digest = sample_digest (CHR ''4''),
      de1_budget = \<lparr>bud_max_tokens = None, bud_max_compute_time_ms = None\<rparr>,
      de1_trust_tier = Tier_Governed, de1_idempotency_key = ''dispatch'', de1_issued_at = ''Z'',
      de1_expires_at = ''000000000Z'', de1_envelope_digest = sample_digest (CHR ''5''),
      de1_signature_ref = \<lparr>sig_algorithm = ''ed25519'', sig_key_id = ''kernel-main'', sig_signature = ''sig''\<rparr>\<rparr>)"

definition sample_candidate :: Event where
  "sample_candidate = sample_event 2 None Kind_CandidateCreated 2 (Payload_CandidateCreatedV1
     \<lparr>cc1_candidate_id = ''c'', cc1_candidate_ref = ''refs/buildplane/candidates/c'',
      cc1_workflow_id = ''wf'', cc1_unit_id = ''u'', cc1_attempt = 1, cc1_provenance_ref = ''prov'',
      cc1_candidate_digest = sample_digest (CHR ''6''), cc1_base_commit_sha = sample_sha (CHR ''1''),
      cc1_candidate_commit_sha = sample_sha (CHR ''2''), cc1_commit_digest = sample_digest (CHR ''7''),
      cc1_tree_digest = sample_digest (CHR ''8''), cc1_patch_digest = sample_digest (CHR ''9''),
      cc1_changed_files_digest = sample_digest (CHR ''a''),
      cc1_envelope_digest = sample_digest (CHR ''5''),
      cc1_action_receipt_digest = sample_digest (CHR ''b'')\<rparr>)"

definition sample_acceptance :: "CandidateAcceptanceOutcomeV1 \<Rightarrow> Event" where
  "sample_acceptance outcome = sample_event 3 None Kind_CandidateAcceptanceRecorded 3
     (Payload_CandidateAcceptanceRecordedV1
     \<lparr>car_candidate_digest = sample_digest (CHR ''6''), car_candidate_commit_sha = sample_sha (CHR ''2''),
      car_acceptance_ref = ''acc'', car_acceptance_contract_digest = sample_digest (CHR ''1''),
      car_acceptance_digest = sample_digest (CHR ''c''), car_outcome = outcome,
      car_evaluated_at = ''00Z''\<rparr>)"

definition sample_review :: "ReviewDecisionV1 \<Rightarrow> Event" where
  "sample_review decision = sample_event 4 None Kind_ReviewVerdictRecorded 4
     (Payload_ReviewVerdictRecordedV1
     \<lparr>rv1_candidate_digest = sample_digest (CHR ''6''), rv1_candidate_commit_sha = sample_sha (CHR ''2''),
      rv1_review_ref = ''rev'', rv1_review_verdict_action_id = None,
      rv1_review_action_request_digest = None, rv1_review_action_receipt_ref = None,
      rv1_review_action_receipt_digest = None, rv1_review_output_ref = None,
      rv1_review_output_digest = None, rv1_decision = decision, rv1_findings = [],
      rv1_confidence = 0x3FF0000000000000, rv1_reviewer_manifest_digest = sample_digest (CHR ''d''),
      rv1_reviewed_at = ''000Z''\<rparr>)"

definition sample_decision :: "PromotionDecisionKindV1 \<Rightarrow> Event" where
  "sample_decision decision = sample_event 5 None Kind_PromotionDecisionRecorded 5
     (Payload_PromotionDecisionRecordedV1
     \<lparr>pdr_candidate_digest = sample_digest (CHR ''6''), pdr_base_commit_sha = sample_sha (CHR ''1''),
      pdr_target_ref = Some ''refs/heads/main'', pdr_envelope_digest = sample_digest (CHR ''5''),
      pdr_acceptance_ref = ''acc'', pdr_review_refs = [''rev''],
      pdr_promotion_approval_request_ref = None, pdr_decision = decision,
      pdr_authority = ''operator:o'', pdr_decided_by = ''operator:o'', pdr_decided_at = ''0000Z'',
      pdr_idempotency_key = ''promote''\<rparr>)"

definition sample_binding :: "string \<Rightarrow> PromotionWorktreeSyncStateV1 option \<Rightarrow> PromotionGitBindingV1" where
  "sample_binding after sync =
     \<lparr>pgb_target_ref = ''refs/heads/main'', pgb_target_head_before_sha = sample_sha (CHR ''1''),
      pgb_target_head_after_sha = Some after, pgb_merged_head_sha = Some (sample_sha (CHR ''3'')),
      pgb_candidate_commit_sha = sample_sha (CHR ''2''),
      pgb_merge_parent_shas = Some [sample_sha (CHR ''1''), sample_sha (CHR ''2'')],
      pgb_merged_tree_sha = Some (sample_sha (CHR ''4'')),
      pgb_merged_tree_digest = sample_digest (CHR ''8''),
      pgb_promotion_receipt_ref = Some ''refs/buildplane/promotions/c'', pgb_worktree_sync_state = sync\<rparr>"

definition sample_result :: "PromotionResultOutcomeV1 \<Rightarrow> PromotionGitBindingV1 \<Rightarrow> Event" where
  "sample_result outcome binding = sample_event 6 None Kind_PromotionResultRecorded 6
     (Payload_PromotionResultRecordedV1
     \<lparr>prr_candidate_digest = sample_digest (CHR ''6''), prr_idempotency_key = ''promote'',
      prr_promotion_decision_ref = ''5'', prr_outcome = outcome,
      prr_merged_head_sha = Some (sample_sha (CHR ''3'')),
      prr_promotion_git_binding = Some binding, prr_promotion_execution_lease_binding = None,
      prr_completed_at = ''00000Z''\<rparr>)"

definition sample_terminal :: "WorkflowTerminalOutcomeV1 \<Rightarrow> string option \<Rightarrow> Event" where
  "sample_terminal outcome resolution = sample_event 8 None Kind_WorkflowTerminal 8
     (Payload_WorkflowTerminalV1
     \<lparr>wt1_workflow_id = ''wf'', wt1_workflow_revision = ''r1'', wt1_unit_id = ''u'', wt1_attempt = 1,
      wt1_outcome = outcome, wt1_candidate_digest = Some (sample_digest (CHR ''6'')),
      wt1_promotion_result_ref = Some ''6'', wt1_reconciliation_resolution_ref = resolution,
      wt1_reason = None, wt1_idempotency_key = ''done'', wt1_completed_at = ''0000000Z''\<rparr>)"

definition unsigned_tape :: "Event list \<Rightarrow> (Event \<times> ActorKeyRef option) list" where
  "unsigned_tape es = map (\<lambda>e. (e, None)) es"

definition promoted_tape :: "Event list" where
  "promoted_tape =
     [sample_dispatch, sample_candidate, sample_acceptance Acceptance_Passed,
      sample_review Review_Approve, sample_decision Decision_Promote,
      sample_result PromotionResult_Promoted (sample_binding (sample_sha (CHR ''3'')) None),
      sample_terminal Terminal_Completed None]"

definition sample_key :: string where
  "sample_key = workflow_instance_key ''wf'' ''u'' 1"

subsection \<open>A sealed workflow cancelled by its timer\<close>

definition sealed_dispatch :: Event where
  "sealed_dispatch = sample_event 1 None Kind_DispatchEnvelopeV3 1 (Payload_DispatchEnvelopeV3
     \<lparr>de3_body =
        \<lparr>deb_workflow_id = ''wf'', deb_workflow_revision = ''r1'', deb_unit_id = ''u'', deb_attempt = 1,
         deb_execution_role = Role_Implementer, deb_commit_mode = Commit_Atomic,
         deb_provenance_ref = ''prov'', deb_base_commit_sha = sample_sha (CHR ''1''),
         deb_capability_bundle_digest = sample_digest (CHR ''0''),
         deb_acceptance_contract_digest = sample_digest (CHR ''1''),
         deb_context_manifest_digest = sample_digest (CHR ''2''),
         deb_worker_manifest_digest = sample_digest (CHR ''3''),
         deb_sandbox_profile_digest = sample_digest (CHR ''4''),
         deb_budget = \<lparr>bud_max_tokens = None, bud_max_compute_time_ms = None\<rparr>,
         deb_trust_tier = Tier_Governed, deb_idempotency_key = ''dispatch'', deb_issued_at = ''Z'',
         deb_expires_at = ''000000000Z''\<rparr>,
      de3_action_evidence_version = Evidence_SealedV3,
      de3_repository_binding_digest = sample_digest (CHR ''5''),
      de3_ledger_authority_realm_digest = sample_digest (CHR ''6''),
      de3_governed_packet_digest = Some (sample_digest (CHR ''7'')),
      de3_envelope_digest = sample_digest (CHR ''a'')\<rparr>)"

definition sealed_timer :: Event where
  "sealed_timer = sample_event 2 (Some 1) Kind_WorkflowTimerScheduledV1 2 (Payload_WorkflowTimerScheduledV1
     \<lparr>wts_run_id = ''1'', wts_workflow_id = ''wf'', wts_workflow_revision = ''r1'', wts_unit_id = ''u'',
      wts_attempt = 1, wts_dispatch_event_ref = 1, wts_dispatch_envelope_digest = sample_digest (CHR ''a''),
      wts_timer_id = ''t'', wts_timer_kind = Timer_WorkflowDeadline, wts_due_at = ''000Z'',
      wts_idempotency_key = ''timer'', wts_scheduled_by = ''kernel:k'', wts_scheduled_at = ''0Z''\<rparr>)"

definition sealed_firing :: Event where
  "sealed_firing = sample_event 3 (Some 2) Kind_WorkflowTimerFiredV1 5 (Payload_WorkflowTimerFiredV1
     \<lparr>wtf_run_id = ''1'', wtf_workflow_id = ''wf'', wtf_workflow_revision = ''r1'', wtf_unit_id = ''u'',
      wtf_attempt = 1, wtf_timer_id = ''t'', wtf_timer_schedule_event_ref = 2,
      wtf_timer_schedule_event_digest = sample_digest (CHR ''a''), wtf_dispatch_event_ref = 1,
      wtf_dispatch_envelope_digest = sample_digest (CHR ''a''), wtf_idempotency_key = ''timer'',
      wtf_fired_by = ''kernel:k'', wtf_fired_at = ''0000Z''\<rparr>)"

definition sealed_cancellation :: Event where
  "sealed_cancellation = sample_event 4 (Some 3) Kind_WorkflowCancellationRequestedV1 6
     (Payload_WorkflowCancellationRequestedV1
     \<lparr>wcr_run_id = ''1'', wcr_workflow_id = ''wf'', wcr_workflow_revision = ''r1'', wcr_unit_id = ''u'',
      wcr_attempt = 1, wcr_dispatch_event_ref = 1, wcr_dispatch_envelope_digest = sample_digest (CHR ''a''),
      wcr_cancellation_id = ''x'', wcr_cause = Cancel_TimerElapsed, wcr_timer_fired_event_ref = Some 3,
      wcr_timer_fired_event_digest = Some (sample_digest (CHR ''a'')), wcr_requested_by = ''kernel:k'',
      wcr_idempotency_key = ''cancel'', wcr_requested_at = ''00000Z''\<rparr>)"

definition sealed_terminal :: Event where
  "sealed_terminal = sample_event 5 (Some 4) Kind_WorkflowTerminalV2 7 (Payload_WorkflowTerminalV2
     \<lparr>wt2_workflow_id = ''wf'', wt2_workflow_revision = ''r1'', wt2_unit_id = ''u'', wt2_attempt = 1,
      wt2_outcome = Terminal_Cancelled, wt2_candidate_digest = None, wt2_promotion_result_ref = None,
      wt2_reconciliation_resolution_ref = None, wt2_cancellation_request_event_ref = Some 4,
      wt2_cancellation_request_event_digest = Some (sample_digest (CHR ''a'')), wt2_reason = None,
      wt2_idempotency_key = ''done'', wt2_completed_at = ''000000Z''\<rparr>)"

definition cancelled_tape :: "Event list" where
  "cancelled_tape = [sealed_dispatch, sealed_timer, sealed_firing, sealed_cancellation, sealed_terminal]"

subsection \<open>A signed tape\<close>

definition sample_crypto :: crypto where
  "sample_crypto =
     \<lparr>is_verifying_key = (\<lambda>k. True), verifying_key = (\<lambda>k. take 32 (k @ replicate 32 (CHR ''k''))),
      ed25519_sign = (\<lambda>k m. take 64 (k @ m @ replicate 64 (CHR ''s''))),
      ed25519_verify = (\<lambda>k m s. True), base64_encode = (\<lambda>b. b), base64_decode = (\<lambda>s. Some s),
      uuid_parse_str = (\<lambda>s. Some (of_nat (of_char (hd s) - 48)))\<rparr>"

definition sample_signer :: ActorKeyRef where
  "sample_signer = \<lparr>akr_actor_id = ''operator:o'', akr_key_id = ''kernel-main'',
     akr_public_key_hash = Some (sample_digest (CHR ''a''))\<rparr>"

definition sample_keys :: TrustedPublicKeys where
  "sample_keys = insert_public_key (sample_digest (CHR ''a'')) (replicate 32 (CHR ''k''))
     \<lparr>by_public_key_hash = []\<rparr>"

definition sample_authorities :: TrustedReplayAuthorities where
  "sample_authorities = allow_signer Signer_Kernel sample_signer (allow_signer Signer_Reviewer sample_signer
     (allow_signer Signer_Operator sample_signer (new_authorities sample_keys)))"

definition sample_row :: "Event \<Rightarrow> stored_row" where
  "sample_row e = (Inr e, Some
     \<lparr>ssr_event_id = show_nat (unat (ev_id e)), ssr_canonical_event_hash = sample_digest (CHR ''a''),
      ssr_actor_id = ''operator:o'', ssr_key_id = ''kernel-main'',
      ssr_public_key_hash = Some (sample_digest (CHR ''a'')), ssr_algorithm = ''ed25519'',
      ssr_signature = replicate 64 (CHR ''s''), ssr_signed_at = ''Z''\<rparr>)"

definition sample_checkpoint :: Event where
  "sample_checkpoint = sample_event 9 (Some 8) Kind_TapeCheckpoint 9 (Payload_TapeCheckpointV1
     \<lparr>tc_run_id = 1, tc_checkpoint_index = 0, tc_through_event_id = 8, tc_through_event_count = 7,
      tc_previous_checkpoint_event_id = None, tc_tape_root_hash = sample_digest (CHR ''a''),
      tc_algorithm = Root_Sha256Linear\<rparr>)"

definition signed_tape :: "stored_row list" where
  "signed_tape = map sample_row (promoted_tape @ [sample_checkpoint])"

text \<open>A tape of one signed event and its checkpoint.\<close>

definition short_checkpoint :: Event where
  "short_checkpoint = sample_event 2 (Some 1) Kind_TapeCheckpoint 2 (Payload_TapeCheckpointV1
     \<lparr>tc_run_id = 1, tc_checkpoint_index = 0, tc_through_event_id = 1, tc_through_event_count = 1,
      tc_previous_checkpoint_event_id = None, tc_tape_root_hash = sample_digest (CHR ''a''),
      tc_algorithm = Root_Sha256Linear\<rparr>)"

definition short_tape :: "stored_row list" where
  "short_tape = map sample_row [sample_dispatch, short_checkpoint]"

subsection \<open>What replaying them gives\<close>

definition completed_state :: ReplayState where
  "completed_state = reduce_tape sample_env (unsigned_tape promoted_tape)"

definition cancelled_state :: ReplayState where
  "cancelled_state = reduce_tape sample_env (unsigned_tape cancelled_tape)"

lemma completed_phase: "map_option wi_phase (stored completed_state sample_key) = Some Phase_Completed"
  by code_simp

lemma cancelled_facts:
  "map_option (\<lambda>w. (wi_phase w, wi_cancellation w \<noteq> None, bt_get (wi_timers w) ''t'' \<noteq> None))
     (stored cancelled_state sample_key) = Some (Phase_Cancelled, True, True)"
  by code_simp

definition sample_engine :: "(ReaderError, ReplayEngine) result" where
  "sample_engine = open_with_trusted_authorities_limit sample_env sample_crypto sample_authorities None signed_tape"

lemma engine_facts:
  "(case sample_engine of
      Inl _ \<Rightarrow> None
    | Inr en \<Rightarrow> map_option (\<lambda>w. (wi_phase w, wi_promotion w \<noteq> None))
        (stored (en_state (replay_to_end sample_env en)) sample_key)) = Some (Phase_Completed, True)"
  by code_simp

definition read_report :: "stored_row list \<Rightarrow> (string \<times> nat) option" where
  "read_report tape =
     (case all_with_verification sample_env sample_crypto sample_keys tape of
        Inl _ \<Rightarrow> None
      | Inr vs \<Rightarrow>
          (case verify_full_tape_integrity_v1 sample_env vs ''1'' sample_signer of
             Inl _ \<Rightarrow> None
           | Inr r \<Rightarrow> Some (tir_tape_root_hash r, length (signed_events vs))))"

lemma report_fact: "read_report signed_tape = Some (sample_digest (CHR ''a''), 7)"
  by code_simp

lemma short_report_fact: "read_report short_tape = Some (sample_digest (CHR ''a''), 1)"
  by code_simp

lemma completed_workflow: "\<exists>w. stored completed_state sample_key = Some w \<and> wi_phase w = Phase_Completed"
  using completed_phase by (cases "stored completed_state sample_key") auto

lemma cancelled_workflow:
  "\<exists>w t. stored cancelled_state sample_key = Some w \<and> wi_phase w = Phase_Cancelled \<and> wi_cancellation w \<noteq> None
     \<and> bt_get (wi_timers w) ''t'' = Some t"
  using cancelled_facts by (cases "stored cancelled_state sample_key") auto

lemma engine_workflow:
  "\<exists>en w pr. sample_engine = Inr en \<and> stored (en_state (replay_to_end sample_env en)) sample_key = Some w
     \<and> wi_promotion w = Some pr"
  using engine_facts by (auto split: sum.splits)

lemma reported:
  assumes "read_report tape = Some (h, n)"
  shows "\<exists>vs r. all_with_verification sample_env sample_crypto sample_keys tape = Inr vs
     \<and> verify_full_tape_integrity_v1 sample_env vs ''1'' sample_signer = Inr r
     \<and> tir_tape_root_hash r = h \<and> length (signed_events vs) = n"
  using assms by (auto simp: read_report_def split: sum.splits)

lemma sample_hex: "\<forall>s. list_all is_lower_hex (sha256_hex sample_env s)"
  by (simp add: sample_env_def list_all_iff is_lower_hex_def)

end
