(* ===== verification/Spec2Isabelle.thy ===== *)
theory Spec2Isabelle
  imports Sample_Tapes
begin

text \<open>
  Buildplane's native replay, verified.

  \<^bold>\<open>The program.\<close> Buildplane runs agent work under a trust spine: every authority-bearing fact
  (a dispatch, a candidate commit, its acceptance and reviews, the promotion decision and its result)
  is an event on an append-only tape, signed by the actor entitled to record it. The crate
  \<open>bp-ledger\<close> defines the events, their validation and their signatures; the crate \<open>bp-replay\<close> reads a
  tape back, verifies it, and reduces it to the state of every workflow. All source names below are
  under \<open>src/native/crates\<close>.

  \<^bold>\<open>How the parts interact.\<close> A stored row becomes a \<open>VerifiedEvent\<close> (\<open>bp-replay/src/reader.rs\<close> calling
  \<open>bp-ledger/src/signing.rs\<close>, which hashes what \<open>bp-ledger/src/canonicalize.rs\<close> accepts). The engine
  (\<open>bp-replay/src/engine.rs\<close>) looks up the role an event needs and applies it only when its verified
  signer holds that role. Applying it is \<open>bp-replay/src/transitions.rs\<close>, a reducer over
  \<open>bp-replay/src/state.rs\<close> that either changes one workflow or records an issue. Independently,
  \<open>bp-replay/src/tape_integrity.rs\<close> checks that signed checkpoints cover the tape.

  \<^bold>\<open>The theories.\<close>
  \<^item> \<open>Prelude\<close>: results, strings, decimal numbers and the ordered map that stands for \<open>BTreeMap\<close>
    (locale \<open>ordered_map\<close>, interpreted as \<open>bt\<close>).
  \<^item> \<open>Ledger_Base\<close>, \<open>Lifecycle_Payloads\<close>, \<open>Dispatch_Payloads\<close>, \<open>Candidate_Payloads\<close>,
    \<open>Promotion_Payloads\<close>, \<open>Ledger_Event\<close>: the payload structs, the event kinds and the event envelope,
    one record or datatype per Rust type; record fields and constructors carry a prefix per type.
  \<^item> \<open>Action_State\<close>, \<open>Dispatch_State\<close>, \<open>Evidence_State\<close>, \<open>Replay_State\<close>: the types of \<open>state.rs\<close>.
  \<^item> \<open>Canonical_Refs\<close>, \<open>Workflow_Graph\<close>, \<open>Canonicalize\<close>: \<open>canonicalize.rs\<close> and the domain-separated
    digests of \<open>payload/trust_spine.rs\<close>; \<open>Workflow_Graph\<close> proves the Kahn loop against acyclicity.
  \<^item> \<open>Workflow_Keys\<close>, \<open>Reducer_Base\<close>, \<open>Activity_Transitions\<close>, \<open>Dispatch_Transitions\<close>,
    \<open>Evidence_Transitions\<close>, \<open>Promotion_Transitions\<close>, \<open>Lifecycle_Transitions\<close>, \<open>Reducer\<close>: the handlers of
    \<open>transitions.rs\<close>. A handler is a verdict (refuse with a reason, leave unchanged, re-point the view,
    or commit one workflow under its key) that \<open>settle\<close> turns into the new state; the checks stand in
    the order of the code.
  \<^item> \<open>Signing\<close>, \<open>Engine\<close>, \<open>Tape_Integrity\<close>: signatures and the verified read, the engine, and the
    checkpoint chain.
  \<^item> \<open>Workflow_Protocol\<close>, \<open>Workflow_Invariant\<close>, \<open>Reducer_Refinement\<close>: the workflow protocol as a step
    relation with one rule per kind of record, the invariant every rule keeps, and the refinement of
    the protocol by the reducer.
  \<^item> \<open>Replay_Invariant\<close>, \<open>Lifecycle_Invariant\<close>, \<open>Engine_Authority\<close>, \<open>Tape_Evidence\<close>,
    \<open>Replay_Guarantees\<close>: invariants of whole tapes. The locale \<open>tape_machine\<close> carries a one-step
    invariant and a growth relation to every tape; it is interpreted for the reducer (twice, once with
    deadlines) and for the engine.
  \<^item> \<open>Sample_Tapes\<close>: concrete tapes and a concrete environment that the witnesses evaluate.

  \<^bold>\<open>What is a parameter.\<close> The record \<open>env\<close> stands for third-party code: SHA-256, UUID formatting, the
  RFC 3339 parser and JSON serialization; the record \<open>crypto\<close> for Ed25519, base64 and UUID parsing.
  Nothing is assumed of them except where a property says so (\<open>crypto_documented\<close> in C16,
  hexadecimal digests in C23).

  \<^bold>\<open>Conventions.\<close> Strings are character lists; \<open>u8\<close> to \<open>u64\<close> are words; an \<open>f64\<close> is its 64 bits;
  an instant is an integer; a \<open>Result\<close> is a sum with the error on the left. All recursive definitions
  terminate; no fuel is used.

  \<^bold>\<open>What the properties show.\<close> C1 to C3: no promotion or closure without its evidence, from the
  stored rows up to the replayed state. C4 to C11: refinement, immutability, the state invariant,
  fail-closed refusals, exact lookup, deadlines, and the dead idempotency branch of cancellation.
  C12 to C15: the engine's authorization and its loops. C16 to C19 and C23: signatures, the bounded
  read and tape roots. C20 to C22: the cycle check, keys and references.

  \<^bold>\<open>Not modelled.\<close> The payload variants of the action plane (action requests, activity claims,
  heartbeats and results, model intents and authorizations, action receipts), of candidate V2, candidate
  completion and review V2, of dispatch V4 and V5 and of the manifest declarations, with their handlers
  and shape checks; \<open>trusted_recovery.rs\<close> and \<open>activity_decision.rs\<close>, which read that evidence;
  \<open>otel_projection.rs\<close>. The storage crate files (\<open>storage/sqlite.rs\<close>, \<open>serve.rs\<close>), the authority
  broker, the command line, packs, providers and hosts are input and output around the tape.
\<close>

section \<open>Promotion and its evidence\<close>

text \<open>
  C1. A workflow that replay shows as promoted or completed carries the whole chain of evidence for
  it: a candidate, a passed acceptance of that candidate and commit, a non-empty list of distinct
  approving reviews of it, a promote decision with the candidate's lineage, and a result with a merged
  head. When the decision names a target ref, the result's git binding ties that merge to the decided
  base, the candidate commit, the candidate's tree and its receipt ref; a decision without a target ref
  is the historical path, which carries no binding and is closed to a sealed candidate.
\<close>

theorem promotion_is_justified:
  assumes "stored (reduce_tape E tape) k = Some w" "wi_phase w \<in> {Phase_Promoted, Phase_Completed}"
  shows "promotion_evidence w"
  using assms stored_wf promoted_evidence by blast

theorem promotion_is_justified_witness:
  "\<exists>w. stored completed_state sample_key = Some w \<and> promotion_evidence w"
  using completed_workflow promotion_is_justified [of sample_env "unsigned_tape promoted_tape" sample_key]
  by (fastforce simp: completed_state_def)

text \<open>
  C2. End to end, from the stored rows: when an engine opened on a tape shows a promotion decision on
  a workflow, the tape has a row with that decision whose detached signature verifies under a trusted
  key, whose signer is permitted as operator, and whose actor is the deciding authority.
\<close>

theorem promotion_decision_is_signed_by_operator:
  assumes "open_with_trusted_authorities_limit E C auth max_events tape = Inr en"
    and "stored (en_state (replay_to_end E en)) k = Some w" "wi_promotion w = Some pr"
  shows "\<exists>e signer p d. signed_row E C auth Signer_Operator tape e signer
    \<and> ev_payload e = Payload_PromotionDecisionRecordedV1 p \<and> pr_decision pr = decision_of e d p
    \<and> pdr_decided_by p = akr_actor_id signer \<and> pdr_authority p = akr_actor_id signer"
proof -
  obtain vs where vs: "list_all2 (reads_row E C (tra_trusted_keys auth)) tape vs" "attested auth vs w"
    using engine_stored_attested [OF assms(1,2)] .
  then have "carried auth vs Signer_Operator
    (\<lambda>e. \<exists>p d. ev_payload e = Payload_PromotionDecisionRecordedV1 p \<and> pr_decision pr = decision_of e d p)"
    using assms(3) by (simp add: attested_def)
  from carried_signed_row [OF vs(1) this] obtain e signer p d where
    "signed_row E C auth Signer_Operator tape e signer"
    "ev_payload e = Payload_PromotionDecisionRecordedV1 p" "pr_decision pr = decision_of e d p" by blast
  moreover from this have "pdr_decided_by p = akr_actor_id signer \<and> pdr_authority p = akr_actor_id signer"
    by (auto simp: signed_row_def payload_binds_signer_def)
  ultimately show ?thesis by blast
qed

theorem promotion_decision_is_signed_by_operator_witness:
  "\<exists>e signer p. signed_row sample_env sample_crypto sample_authorities Signer_Operator signed_tape e signer
     \<and> ev_payload e = Payload_PromotionDecisionRecordedV1 p \<and> pdr_decided_by p = akr_actor_id signer"
  using engine_workflow promotion_decision_is_signed_by_operator
    [of sample_env sample_crypto sample_authorities None signed_tape _ sample_key]
  unfolding sample_engine_def by blast

text \<open>
  C3. A workflow is closed as failed or cancelled only when no promotion is open: it has no promotion
  record at all, or its promotion ended in required reconciliation that an operator has resolved.
\<close>

theorem terminal_needs_settled_promotion:
  assumes "stored (reduce_tape E tape) k = Some w" "wi_phase w \<in> {Phase_Failed, Phase_Cancelled}"
  shows "wi_promotion w = None
    \<or> (\<exists>pr r c. wi_promotion w = Some pr \<and> pr_result pr = Some r \<and> pr_reconciliation pr = Some c
         \<and> pres_outcome r = PromotionResult_ReconciliationRequired)"
  using stored_wf [OF assms(1)] assms(2)
  by (auto simp: wf_workflow_def promotion_settled_def evidence_defs bind_eq_Some_conv split: option.splits)

theorem terminal_needs_settled_promotion_witness:
  "\<exists>w. stored cancelled_state sample_key = Some w \<and>
     (wi_promotion w = None
      \<or> (\<exists>pr r c. wi_promotion w = Some pr \<and> pr_result pr = Some r \<and> pr_reconciliation pr = Some c
         \<and> pres_outcome r = PromotionResult_ReconciliationRequired))"
  using cancelled_workflow terminal_needs_settled_promotion
    [of sample_env "unsigned_tape cancelled_tape" sample_key]
  by (fastforce simp: cancelled_state_def)

section \<open>The replay state over a tape\<close>

text \<open>
  C4. The reducer refines the workflow protocol: on every state a tape reaches, applying any event
  with any signer leaves the workflows alone, adds one fresh workflow under its own key, or takes one
  protocol step of one workflow.
\<close>

theorem reducer_refines_protocol:
  "state_step E e (reduce_tape E tape) (apply_with_verified_signer E (reduce_tape E tape) e signer)"
  by (rule apply_refines_protocol) (use reduce_tape_wf in \<open>simp add: wf_state_def\<close>)

text \<open>
  C5. Recorded evidence is immutable and phases only advance: whatever a tape has recorded is still
  there, unchanged, after any continuation of the tape, and no issue is ever dropped.
\<close>

theorem evidence_is_immutable:
  "state_grows (reduce_tape E xs) (reduce_tape E (xs @ ys))"
  by (rule reduce_tape_grows)

text \<open>
  C6. The invariant of the replay state holds after every tape: the map is ordered, the compatibility
  view names a stored workflow, every workflow is well formed and filed under its own key, no two
  workflows share a candidate identity, and no run mixes trust tiers.
\<close>

theorem replay_state_well_formed:
  "wf_state (reduce_tape E tape)"
  by (rule reduce_tape_wf)

text \<open>
  C7. Replay fails closed: an event is applied without an issue, or it leaves exactly one more issue
  and every other part of the state as it was.
\<close>

theorem refused_event_only_adds_an_issue:
  "fails_closed (reduce_tape E tape) (apply_with_verified_signer E (reduce_tape E tape) e signer)"
  by (rule apply_fails_closed) (use reduce_tape_wf in \<open>simp add: wf_state_def\<close>)

text \<open>
  C8. A closed workflow stays closed: its phase and its terminal record are the same after every
  continuation of the tape.
\<close>

theorem closed_workflow_stays_closed:
  assumes "stored (reduce_tape E xs) k = Some w" "is_terminal (wi_phase w)" "wi_terminal w = Some t"
  shows "\<exists>w'. stored (reduce_tape E (xs @ ys)) k = Some w' \<and> wi_phase w' = wi_phase w \<and> wi_terminal w' = Some t"
proof -
  obtain w' where "stored (reduce_tape E (xs @ ys)) k = Some w'" "workflow_extends w w'"
    "phase_advances (wi_phase w) (wi_phase w')" using stored_later [OF assms(1)] .
  with assms(2,3) terminal_phase_final show ?thesis by (auto simp: workflow_extends_def)
qed

theorem closed_workflow_stays_closed_witness:
  "\<exists>w. stored (reduce_tape sample_env (unsigned_tape promoted_tape @ unsigned_tape [sample_decision Decision_Reject]))
     sample_key = Some w \<and> wi_phase w = Phase_Completed"
proof -
  obtain w where w: "stored completed_state sample_key = Some w" "wi_phase w = Phase_Completed"
    using completed_workflow by blast
  then have "terminal_is Terminal_Completed w"
    using stored_wf [of sample_env "unsigned_tape promoted_tape" sample_key w]
    by (simp add: completed_state_def wf_workflow_def)
  then obtain t where "wi_terminal w = Some t" by (auto simp: terminal_is_def)
  with w closed_workflow_stays_closed [of sample_env "unsigned_tape promoted_tape" sample_key w t
      "unsigned_tape [sample_decision Decision_Reject]"]
  show ?thesis by (auto simp: completed_state_def)
qed

text \<open>
  C9. Looking a workflow up by its candidate is exact on every reached state: it returns a key just
  when the workflow stored under that key is bound to the candidate, so it is never ambiguous.
\<close>

theorem candidate_lookup_exact:
  "find_workflow_key_for_candidate E (reduce_tape E tape) e digest commit = Inr k \<longleftrightarrow>
     (\<exists>w. stored (reduce_tape E tape) k = Some w \<and> candidate_bound E e digest commit w)"
  by (rule find_candidate_key_iff) (rule reduce_tape_wf)

text \<open>
  C10. Durable deadlines: every stored timer was scheduled no earlier than its dispatch was issued, is
  due after that and within the dispatch's expiry, and fired, if it did, no earlier than it was due
  and against its own schedule.
\<close>

theorem timers_stay_inside_dispatch:
  assumes "stored (reduce_tape E tape) k = Some w" "bt_get (wi_timers w) i = Some t"
  shows "timer_ok E w t"
  using stored_timers [OF assms(1)] assms(2) by (simp add: timers_ok_def)

theorem timers_stay_inside_dispatch_witness:
  "\<exists>w t. bt_get (wi_timers w) ''t'' = Some t \<and> timer_ok sample_env w t"
  using cancelled_workflow timers_stay_inside_dispatch
    [of sample_env "unsigned_tape cancelled_tape" sample_key _ "''t''"]
  unfolding cancelled_state_def by blast

text \<open>
  C11. The idempotency branch of the cancellation handler is never taken: the handler refuses every
  workflow that already has a cancellation before it compares the request with the stored one, so a
  redelivered cancellation is refused and recorded as an issue.
\<close>

theorem cancellation_redelivery_is_refused:
  "cancellation_verdict E st e p \<noteq> Unchanged"
  by (auto simp: cancellation_verdict_def cancellation_on_workflow_def or_refuse_def some_or_refuse_def
      hash_or_refuse_def workflow_lifecycle_control_is_allowed_def split: sum.splits option.splits)

section \<open>The engine\<close>

text \<open>
  C12. An event that needs a signer role and does not come with a verified signature of a permitted
  signer it binds changes nothing but the issue list.
\<close>

theorem unauthorized_event_changes_nothing:
  assumes "needs_role E predeclared st v = Some role" "\<not> authorized_by auth role v"
  shows "\<exists>i. engine_apply E auth predeclared st v = st\<lparr>st_issues := st_issues st @ [i]\<rparr>"
proof (cases rule: engine_apply_cases [of E predeclared st v auth, case_names issue applied])
  case (issue i role')
  then show ?thesis by (auto simp: push_issue_def)
next
  case applied
  with assms show ?thesis by blast
qed

theorem unauthorized_event_changes_nothing_witness:
  "\<exists>i. engine_apply sample_env (new_authorities sample_keys) [] default_state
      \<lparr>ve_event = sample_dispatch, ve_verification = Signature_Unsigned, ve_signature = None\<rparr>
    = default_state\<lparr>st_issues := st_issues default_state @ [i]\<rparr>"
  by (rule unauthorized_event_changes_nothing [where role = Signer_Kernel])
    (simp_all add: needs_role_def required_signer_role_def sample_dispatch_def sample_event_def authorized_by_def)

text \<open>
  C13. Replaying to the end always returns, and is the fold of the single step over the events after
  the cursor.
\<close>

theorem replay_to_end_is_a_fold:
  assumes "en_cursor en \<le> length (en_events en)"
  shows "replay_to_end E en = en\<lparr>en_cursor := length (en_events en),
     en_state := foldl (engine_apply E (en_authorities en) (en_predeclared_governed_runs en)) (en_state en)
                   (drop (en_cursor en) (en_events en))\<rparr>"
  using assms by (rule replay_to_end_fold)

theorem replay_to_end_is_a_fold_witness:
  "en_cursor (replay_to_end sample_env (engine_of sample_env sample_authorities
     [\<lparr>ve_event = sample_dispatch, ve_verification = Signature_Unsigned, ve_signature = None\<rparr>])) = 1"
  by (subst replay_to_end_is_a_fold) (simp_all add: engine_of_def)

text \<open>
  C14. Seeking an event stops right after its first occurrence at or after the cursor, with the state
  of replaying the tape exactly that far.
\<close>

theorem fast_forward_stops_at_target:
  assumes "en_cursor en + i < length (en_events en)"
    and "ev_id (ve_event (en_events en ! (en_cursor en + i))) = target"
    and "\<forall>j < i. ev_id (ve_event (en_events en ! (en_cursor en + j))) \<noteq> target"
  shows "\<exists>en'. fast_forward_to E target en =
    (Some \<lparr>rst_event = ve_event (en_events en ! (en_cursor en + i)), rst_state_after = en_state en'\<rparr>, en')
    \<and> en_cursor en' = en_cursor en + i + 1
    \<and> en_state en' = foldl (engine_apply E (en_authorities en) (en_predeclared_governed_runs en)) (en_state en)
        (take (i + 1) (drop (en_cursor en) (en_events en)))"
  using assms by (rule fast_forward_found)

theorem fast_forward_stops_at_target_witness:
  "\<exists>s en. fast_forward_to sample_env 1 (engine_of sample_env sample_authorities
     [\<lparr>ve_event = sample_dispatch, ve_verification = Signature_Unsigned, ve_signature = None\<rparr>]) = (Some s, en)
     \<and> en_cursor en = 1 \<and> rst_event s = sample_dispatch"
  using fast_forward_stops_at_target [of "engine_of sample_env sample_authorities
     [\<lparr>ve_event = sample_dispatch, ve_verification = Signature_Unsigned, ve_signature = None\<rparr>]" 0 1 sample_env]
  by (auto simp: engine_of_def sample_dispatch_def sample_event_def)

text \<open>
  C15. Trusting keys is not trusting signers: an engine opened with trusted keys only never shows a
  workflow, whatever the tape holds.
\<close>

theorem trusted_keys_alone_admit_no_workflow:
  assumes "open_with_trusted_keys E C keys tape = Inr en"
  shows "stored (en_state (replay_to_end E en)) k = None"
proof (rule ccontr)
  assume "stored (en_state (replay_to_end E en)) k \<noteq> None"
  then obtain w where "stored (en_state (replay_to_end E en)) k = Some w" by blast
  from engine_stored_attested [OF assms [unfolded open_with_trusted_keys_def] this] obtain vs where
    "attested (new_authorities keys) vs w" .
  then show False by (auto simp: attested_def carried_def authorized_by_def)
qed

theorem trusted_keys_alone_admit_no_workflow_witness:
  "\<exists>en. open_with_trusted_keys sample_env sample_crypto sample_keys [(Inr sample_dispatch, None)] = Inr en
     \<and> stored (en_state (replay_to_end sample_env en)) sample_key = None"
proof -
  obtain en where "open_with_trusted_keys sample_env sample_crypto sample_keys [(Inr sample_dispatch, None)] = Inr en"
    by (simp add: open_with_trusted_keys_def open_with_trusted_authorities_limit_def
        all_with_verification_limit_def stored_rows_with_signatures_def verify_stored_signature_def)
  with trusted_keys_alone_admit_no_workflow show ?thesis by blast
qed

section \<open>Signatures, the reader and the tape root\<close>

text \<open>
  C16. An event that was signed verifies under the key it was signed with, for any signature scheme
  and encoding that behave as documented.
\<close>

theorem signing_round_trip:
  assumes "crypto_documented C" and "sign_event E C e k signer t = Inr s"
  shows "verify_event_signature E C e s
    (insert_public_key (public_key_hash E (verifying_key C k)) (verifying_key C k) keys) = Signature_Verified"
  using assms by (rule sign_event_verifies)

theorem signing_round_trip_witness:
  "\<exists>s. verify_event_signature sample_env sample_crypto (sample_event 1 None Kind_RunFailed 1
       (Payload_RunFailedV1 \<lparr>rfl_reason = ''r'', rfl_terminating_event_id = None\<rparr>)) s
    (insert_public_key (public_key_hash sample_env (verifying_key sample_crypto ''k''))
       (verifying_key sample_crypto ''k'') \<lparr>by_public_key_hash = []\<rparr>) = Signature_Verified"
proof -
  let ?e = "sample_event 1 None Kind_RunFailed 1 (Payload_RunFailedV1 \<lparr>rfl_reason = ''r'', rfl_terminating_event_id = None\<rparr>)"
  have "crypto_documented sample_crypto" by (auto simp: crypto_documented_def sample_crypto_def min_def)
  moreover have "\<exists>s. sign_event sample_env sample_crypto ?e ''k'' sample_signer 1 = Inr s"
    by (simp add: sign_event_def canonical_event_hash_def canonical_event_bytes_def canonicalize_def
        sample_event_def kind_str_def validate_kind_matches_payload_def kind_to_variant_def kind_variants_def
        validate_event_semantics_def validate_payload_semantics_def current_schema_version_def sample_env_def)
  ultimately show ?thesis using signing_round_trip by blast
qed

text \<open>
  C17. A signature is reported as verified exactly when it names the event and its canonical hash, its
  signer resolves to a trusted key of 32 bytes whose hash is the one it claims, and the 64 decoded
  signature bytes verify over the canonical bytes of the event under that key.
\<close>

theorem verified_means_bound_to_a_trusted_key:
  "verify_event_signature E C e s keys = Signature_Verified \<longleftrightarrow>
     es_event_id s = ev_id e \<and> canonical_event_hash E e = Inr (es_canonical_event_hash s)
     \<and> (\<exists>key bytes message. public_key_for keys (es_signer s) = Some key \<and> length key = 32 \<and> is_verifying_key C key
          \<and> akr_public_key_hash (es_signer s) = Some (public_key_hash E key)
          \<and> base64_decode C (es_signature s) = Some bytes \<and> length bytes = 64
          \<and> canonical_event_bytes E e = Inr message \<and> ed25519_verify C key message bytes)"
  by (auto simp: verified_iff verified_with_key_iff public_key_for_def bind_eq_Some_conv)

text \<open>
  C18. A bounded read is all or nothing: it refuses a limit that does not fit the query, refuses a
  tape longer than the limit, and otherwise returns what the unbounded read returns; it never
  truncates.
\<close>

theorem bounded_read_is_all_or_error:
  "all_with_verification_bounded E C keys n tape =
     (if 2 ^ 63 \<le> n + 1 then Inl Reader_InvalidEventLimit
      else if n < length tape then Inl (Reader_EventLimitExceeded n)
      else all_with_verification E C keys tape)"
  by (rule bounded_read)

text \<open>
  C19. A tape-integrity report is sound: event ids increase strictly, every event belongs to the run,
  every signed ordinary event verified, the report's root is the root of all their hashes in order,
  and it comes from a verified checkpoint of the pinned kernel signer.
\<close>

theorem tape_integrity_report_is_sound:
  assumes "verify_full_tape_integrity_v1 E events run_id pinned = Inr r"
  shows "sorted_wrt (<) (map (ev_id \<circ> ve_event) events)
    \<and> (\<forall>v \<in> set events. uuid_to_string E (ev_run_id (ve_event v)) = run_id)
    \<and> (\<forall>v \<in> set (signed_events events). ve_verification v = Signature_Verified)
    \<and> tir_tape_root_hash r = tape_root_hash E (map stored_hash (signed_events events))
    \<and> (\<exists>v \<in> set events. is_checkpoint v \<and> ve_verification v = Signature_Verified
         \<and> map_option es_signer (ve_signature v) = Some pinned \<and> tir_checkpoint_event_ref r = event_ref E v)"
  using assms integrity_covers [OF assms]
  by (auto simp: verify_full_tape_integrity_v1_def check_tape_order_iff check_run_iff signed_ordinary_iff)

theorem tape_integrity_report_is_sound_witness:
  "\<exists>vs r. verify_full_tape_integrity_v1 sample_env vs ''1'' sample_signer = Inr r
     \<and> tir_tape_root_hash r = tape_root_hash sample_env (map stored_hash (signed_events vs))"
  using reported [OF report_fact] tape_integrity_report_is_sound by blast

section \<open>Identities\<close>

text \<open>
  C20. Kahn's algorithm as the validator runs it always returns on a closed graph, and reports a cycle
  exactly when the dependency relation has one.
\<close>

theorem cycle_check_is_exact:
  assumes "closed_graph nodes"
  shows "graph_has_cycle nodes = Some (\<not> acyclic (dependency_rel nodes))"
  using assms by (rule graph_has_cycle_correct)

theorem cycle_check_is_exact_witness:
  "graph_has_cycle [(''a'', []), (''b'', [''a''])] =
     Some (\<not> acyclic (dependency_rel [(''a'', []), (''b'', [''a''])]))"
  by (rule cycle_check_is_exact) (simp add: closed_graph_def node_ids_def)

text \<open>
  C21. Two workflow instances share a map key only when they are the same workflow, unit and attempt,
  whatever characters the identifiers contain.
\<close>

theorem instance_keys_never_collide:
  "workflow_instance_key w u a = workflow_instance_key w' u' a' \<longleftrightarrow> w = w' \<and> u = u' \<and> a = a'"
  by (rule workflow_instance_key_inject)

text \<open>
  C22. An accepted candidate ref is a plain path below the candidate namespace: printable characters,
  no empty, dot-led or dot-ended segment; it is neither a branch nor a promotion receipt ref.
\<close>

theorem candidate_refs_stay_in_their_namespace:
  assumes "is_canonical_buildplane_candidate_ref s"
  shows "plain_path candidate_ref_prefix s \<and> \<not> is_canonical_target_ref s
    \<and> \<not> is_canonical_buildplane_promotion_receipt_ref s"
  using candidate_ref_plain [OF assms] namespaces_disjoint target_ref_plain promotion_ref_plain by blast

theorem candidate_refs_stay_in_their_namespace_witness:
  "plain_path candidate_ref_prefix ''refs/buildplane/candidates/c''
     \<and> \<not> is_canonical_target_ref ''refs/buildplane/candidates/c''
     \<and> \<not> is_canonical_buildplane_promotion_receipt_ref ''refs/buildplane/candidates/c''"
  by (rule candidate_refs_stay_in_their_namespace) code_simp

text \<open>
  C23. Two tapes whose integrity reports carry the same root have the same signed events, byte for
  byte and in the same order, unless two different inputs that the two tapes put through SHA-256
  collide. Of SHA-256 only the lower-case hexadecimal form of its digests is used.
\<close>

theorem tape_root_binds_signed_events:
  assumes "\<forall>s. list_all is_lower_hex (sha256_hex E s)"
    and "all_with_verification E C keys tape = Inr events" "verify_full_tape_integrity_v1 E events run_id pinned = Inr r"
    and "all_with_verification E C' keys' tape' = Inr events'"
      "verify_full_tape_integrity_v1 E events' run_id' pinned' = Inr r'"
    and "tir_tape_root_hash r = tir_tape_root_hash r'"
  shows "map (canonical_event_bytes E \<circ> ve_event) (signed_events events) =
      map (canonical_event_bytes E \<circ> ve_event) (signed_events events')
    \<or> sha256_collision E (hashed_inputs E events) (hashed_inputs E events')"
  using tape_root_binds [OF assms] by blast

theorem tape_root_binds_signed_events_witness:
  "\<exists>long short. all_with_verification sample_env sample_crypto sample_keys signed_tape = Inr long
     \<and> all_with_verification sample_env sample_crypto sample_keys short_tape = Inr short
     \<and> sha256_collision sample_env (hashed_inputs sample_env long) (hashed_inputs sample_env short)"
proof -
  obtain long r where long: "all_with_verification sample_env sample_crypto sample_keys signed_tape = Inr long"
    "verify_full_tape_integrity_v1 sample_env long ''1'' sample_signer = Inr r"
    "tir_tape_root_hash r = sample_digest (CHR ''a'')" "length (signed_events long) = 7"
    using reported [OF report_fact] by blast
  obtain short r' where short: "all_with_verification sample_env sample_crypto sample_keys short_tape = Inr short"
    "verify_full_tape_integrity_v1 sample_env short ''1'' sample_signer = Inr r'"
    "tir_tape_root_hash r' = sample_digest (CHR ''a'')" "length (signed_events short) = 1"
    using reported [OF short_report_fact] by blast
  have "map (canonical_event_bytes sample_env \<circ> ve_event) (signed_events long) \<noteq>
      map (canonical_event_bytes sample_env \<circ> ve_event) (signed_events short)"
    using long(4) short(4) by (auto dest: map_eq_imp_length_eq)
  then show ?thesis
    using tape_root_binds_signed_events [OF sample_hex long(1,2) short(1,2)] long short by auto
qed

end
